(* ===== verification/Py_Prelude.thy ===== *)
theory Py_Prelude
  imports Main "HOL-Library.List_Lexorder" "HOL-Library.Char_ord"
begin

text \<open>
  The Python data model the other theories share: exceptions as values of a sum type, the
  values a decoded JSON document is made of, and the string, sequence and conversion
  operations of the standard library that the modelled modules call. A character is a
  Unicode code point below 256, so a \<open>string\<close> is a Python \<open>str\<close> over Latin-1;
  \<open>py_is_space\<close>, \<open>py_lower_char\<close> and \<open>py_isalnum_char\<close> are Python's
  classification of those code points.
\<close>

section \<open>Exceptions as values\<close>

datatype py_error =
    ValueError string
  | TypeError string
  | KeyError string
  | AttributeError string
  | IndexError string
  | OverflowError string
  | OSError string
  | JSONDecodeError string
  | RuntimeError string
  | StopIteration
  | Unmodelled string

text \<open>
  \<open>Unmodelled\<close> is not a Python exception: a definition returns it where a call leaves
  the part of the standard library modelled here, so that no theorem speaks about it
  silently.
\<close>

type_synonym 'a result = "py_error + 'a"

definition rbind :: "'a result \<Rightarrow> ('a \<Rightarrow> 'b result) \<Rightarrow> 'b result" where
  "rbind m f = (case m of Inl e \<Rightarrow> Inl e | Inr x \<Rightarrow> f x)"

lemma rbind_simps [simp]:
  "rbind (Inl e) f = Inl e"
  "rbind (Inr x) f = f x"
  by (simp_all add: rbind_def)

lemma rbind_eq_Inr [simp]: "(rbind m f = Inr y) = (\<exists>x. m = Inr x \<and> f x = Inr y)"
  by (cases m) auto

lemma rbind_eq_Inl: "(rbind m f = Inl e) = (m = Inl e \<or> (\<exists>x. m = Inr x \<and> f x = Inl e))"
  by (cases m) auto

lemma not_isl_Inr: "(\<not> isl x) = (\<exists>y. x = Inr y)"
  by (cases x) simp_all

lemma map_sum_Inr: "(map_sum f g r = Inr y) = (\<exists>x. r = Inr x \<and> g x = y)"
  by (cases r) auto

lemma rbind_cong [fundef_cong]:
  "m = m' \<Longrightarrow> (\<And>x. m' = Inr x \<Longrightarrow> f x = f' x) \<Longrightarrow> rbind m f = rbind m' f'"
  by (cases m') auto

text \<open>A comprehension whose body may raise, and a loop whose body may raise.\<close>

fun rmapM :: "('a \<Rightarrow> 'b result) \<Rightarrow> 'a list \<Rightarrow> 'b list result" where
  "rmapM f [] = Inr []"
| "rmapM f (x # xs) = rbind (f x) (\<lambda>y. rbind (rmapM f xs) (\<lambda>ys. Inr (y # ys)))"

fun rfold :: "('a \<Rightarrow> 's \<Rightarrow> 's result) \<Rightarrow> 'a list \<Rightarrow> 's \<Rightarrow> 's result" where
  "rfold f [] s = Inr s"
| "rfold f (x # xs) s = rbind (f x s) (rfold f xs)"

lemma rmapM_Inr_iff: "(rmapM f xs = Inr ys) = list_all2 (\<lambda>x y. f x = Inr y) xs ys"
  by (induction xs arbitrary: ys) (auto simp: list_all2_Cons1)

lemma rmapM_length: "rmapM f xs = Inr ys \<Longrightarrow> length ys = length xs"
  by (simp add: rmapM_Inr_iff list_all2_lengthD)

lemma rmapM_total: "(\<And>x. x \<in> set xs \<Longrightarrow> \<exists>y. f x = Inr y) \<Longrightarrow> \<exists>ys. rmapM f xs = Inr ys"
proof (induction xs)
  case (Cons x xs)
  obtain y where "f x = Inr y" using Cons.prems [of x] by auto
  moreover obtain ys where "rmapM f xs = Inr ys" using Cons by auto
  ultimately show ?case by simp
qed simp

lemma rmapM_set:
  "rmapM f xs = Inr ys \<Longrightarrow> y \<in> set ys \<Longrightarrow> \<exists>x \<in> set xs. f x = Inr y"
  by (induction xs arbitrary: ys) auto

lemma rmapM_ex:
  "rmapM f xs = Inr ys \<Longrightarrow> (\<exists>y \<in> set ys. P y) = (\<exists>x \<in> set xs. \<exists>y. f x = Inr y \<and> P y)"
  by (induction xs arbitrary: ys) auto

lemma rmapM_map:
  "rmapM f xs = Inr ys \<Longrightarrow> (\<And>x y. x \<in> set xs \<Longrightarrow> f x = Inr y \<Longrightarrow> y = g x) \<Longrightarrow> ys = map g xs"
  by (induction xs arbitrary: ys) auto

lemma rfold_invariant:
  assumes "\<And>x s t. x \<in> set xs \<Longrightarrow> P s \<Longrightarrow> f x s = Inr t \<Longrightarrow> P t"
    and "P s" and "rfold f xs s = Inr t"
  shows "P t"
  using assms
proof (induction xs arbitrary: s)
  case (Cons x xs)
  from Cons.prems(3) obtain s' where s': "f x s = Inr s'" "rfold f xs s' = Inr t" by auto
  have "P s'" using Cons.prems(1,2) s'(1) by auto
  then show ?case using Cons.IH [of s'] Cons.prems(1) s'(2) by auto
qed simp

lemma rfold_total:
  assumes "\<And>x s. x \<in> set xs \<Longrightarrow> P s \<Longrightarrow> \<exists>t. f x s = Inr t \<and> P t" and "P s"
  shows "\<exists>t. rfold f xs s = Inr t \<and> P t"
  using assms
proof (induction xs arbitrary: s)
  case (Cons x xs)
  then obtain s' where "f x s = Inr s'" "P s'" by (meson list.set_intros(1))
  then show ?case using Cons.IH [of s'] Cons.prems(1) by auto
qed simp

lemma rfold_establishes:
  assumes "\<And>x s t. x \<in> set xs \<Longrightarrow> f x s = Inr t \<Longrightarrow> Q x t"
    and "\<And>x y s t. y \<in> set xs \<Longrightarrow> f y s = Inr t \<Longrightarrow> Q x s \<Longrightarrow> Q x t"
    and "rfold f xs s = Inr t" and "x \<in> set xs"
  shows "Q x t"
  using assms
proof (induction xs arbitrary: s)
  case (Cons a xs)
  from Cons.prems(3) obtain s' where s': "f a s = Inr s'" "rfold f xs s' = Inr t" by auto
  show ?case
  proof (cases "x = a")
    case True
    then have "Q x s'" using Cons.prems(1) s'(1) by simp
    then show ?thesis
      by (rule rfold_invariant [where xs = xs and f = f, rotated]) (use Cons.prems(2) s'(2) in auto)
  next
    case False
    then have "x \<in> set xs" using Cons.prems(4) by simp
    show ?thesis
    proof (rule Cons.IH [OF _ _ s'(2) \<open>x \<in> set xs\<close>])
      show "Q z t" if "z \<in> set xs" "f z s = Inr t" for z s t
        using Cons.prems(1) that by (meson list.set_intros(2))
      show "Q z t" if "y \<in> set xs" "f y s = Inr t" "Q z s" for z y s t
        using Cons.prems(2) that by (meson list.set_intros(2))
    qed
  qed
qed simp

section \<open>Values\<close>

text \<open>
  A finite float is \<open>m * 2 ^ e\<close> together with the text \<open>repr\<close> prints for it; an
  infinity carries whether it is negative. A dict is the list of its items in insertion
  order; its keys are strings, as those of a JSON object are.
\<close>

datatype pyfloat = FFinite int int string | FInf bool | FNan

datatype pyval =
    PNone
  | PBool bool
  | PInt int
  | PFloat pyfloat
  | PStr string
  | PList "pyval list"
  | PDict "(string \<times> pyval) list"

type_synonym pydict = "(string \<times> pyval) list"

fun py_truthy :: "pyval \<Rightarrow> bool" where
  "py_truthy PNone = False"
| "py_truthy (PBool b) = b"
| "py_truthy (PInt i) = (i \<noteq> 0)"
| "py_truthy (PFloat (FFinite m e t)) = (m \<noteq> 0)"
| "py_truthy (PFloat x) = True"
| "py_truthy (PStr s) = (s \<noteq> [])"
| "py_truthy (PList xs) = (xs \<noteq> [])"
| "py_truthy (PDict kvs) = (kvs \<noteq> [])"

definition py_or :: "pyval \<Rightarrow> pyval \<Rightarrow> pyval" where
  "py_or a b = (if py_truthy a then a else b)"

text \<open>\<open>d.get(k)\<close>, \<open>d.get(k, default)\<close>, \<open>k in d\<close> and \<open>d[k] = v\<close>.\<close>

definition py_get_or :: "pyval \<Rightarrow> pydict \<Rightarrow> string \<Rightarrow> pyval" where
  "py_get_or dflt d k = (case map_of d k of None \<Rightarrow> dflt | Some v \<Rightarrow> v)"

abbreviation py_get :: "pydict \<Rightarrow> string \<Rightarrow> pyval" where
  "py_get \<equiv> py_get_or PNone"

definition py_has :: "pydict \<Rightarrow> string \<Rightarrow> bool" where
  "py_has d k = (map_of d k \<noteq> None)"

definition py_index :: "pydict \<Rightarrow> string \<Rightarrow> pyval result" where
  "py_index d k = (case map_of d k of None \<Rightarrow> Inl (KeyError k) | Some v \<Rightarrow> Inr v)"

text \<open>\<open>v[k]\<close> with a string key.\<close>

fun py_sub :: "pyval \<Rightarrow> string \<Rightarrow> pyval result" where
  "py_sub (PDict d) k = py_index d k"
| "py_sub _ k = Inl (TypeError ''object is not subscriptable by str'')"

lemma py_index_get: "py_get d k \<noteq> PNone \<Longrightarrow> py_index d k = Inr (py_get d k)"
  by (simp add: py_index_def py_get_or_def split: option.splits)

lemma py_index_get_Inr: "py_index d k = Inr v \<Longrightarrow> py_get d k = v"
  by (simp add: py_index_def py_get_or_def split: option.splits)

fun assoc_set :: "'k \<Rightarrow> 'v \<Rightarrow> ('k \<times> 'v) list \<Rightarrow> ('k \<times> 'v) list" where
  "assoc_set k v [] = [(k, v)]"
| "assoc_set k v ((k', v') # kvs) = (if k = k' then (k, v) # kvs else (k', v') # assoc_set k v kvs)"

lemma map_of_assoc_set [simp]: "map_of (assoc_set k v kvs) = (map_of kvs)(k \<mapsto> v)"
  by (induction kvs) auto

lemma set_keys_assoc_set [simp]: "fst ` set (assoc_set k v kvs) = insert k (fst ` set kvs)"
  by (induction k v kvs rule: assoc_set.induct) (simp_all add: insert_commute)

lemma distinct_assoc_set [intro]:
  "distinct (map fst kvs) \<Longrightarrow> distinct (map fst (assoc_set k v kvs))"
  by (induction k v kvs rule: assoc_set.induct) simp_all

fun is_str :: "pyval \<Rightarrow> bool" where
  "is_str (PStr s) = True"
| "is_str _ = False"

fun is_dict :: "pyval \<Rightarrow> bool" where
  "is_dict (PDict d) = True"
| "is_dict _ = False"

fun is_list :: "pyval \<Rightarrow> bool" where
  "is_list (PList xs) = True"
| "is_list _ = False"

fun as_dict :: "pyval \<Rightarrow> pydict option" where
  "as_dict (PDict d) = Some d"
| "as_dict _ = None"

fun as_list :: "pyval \<Rightarrow> pyval list option" where
  "as_list (PList xs) = Some xs"
| "as_list _ = None"

lemma as_dict_Some [simp]: "(as_dict v = Some d) = (v = PDict d)"
  by (cases v) auto

lemma as_list_Some [simp]: "(as_list v = Some xs) = (v = PList xs)"
  by (cases v) auto

fun opt_val :: "string option \<Rightarrow> pyval" where
  "opt_val None = PNone"
| "opt_val (Some s) = PStr s"

fun opt_int_val :: "int option \<Rightarrow> pyval" where
  "opt_int_val None = PNone"
| "opt_int_val (Some i) = PInt i"

section \<open>Strings\<close>

definition py_is_space :: "char \<Rightarrow> bool" where
  "py_is_space c = (let n = (of_char c :: nat) in
     n = 32 \<or> (9 \<le> n \<and> n \<le> 13) \<or> (28 \<le> n \<and> n \<le> 31) \<or> n = 133 \<or> n = 160)"

definition py_is_digit :: "char \<Rightarrow> bool" where
  "py_is_digit c = (let n = (of_char c :: nat) in 48 \<le> n \<and> n \<le> 57)"

definition py_lower_char :: "char \<Rightarrow> char" where
  "py_lower_char c = (let n = (of_char c :: nat) in
     if (65 \<le> n \<and> n \<le> 90) \<or> (192 \<le> n \<and> n \<le> 214) \<or> (216 \<le> n \<and> n \<le> 222)
     then char_of (n + 32) else c)"

definition py_isalnum_char :: "char \<Rightarrow> bool" where
  "py_isalnum_char c = (let n = (of_char c :: nat) in
     (48 \<le> n \<and> n \<le> 57) \<or> (65 \<le> n \<and> n \<le> 90) \<or> (97 \<le> n \<and> n \<le> 122) \<or>
     n = 170 \<or> n = 178 \<or> n = 179 \<or> n = 181 \<or> n = 185 \<or> n = 186 \<or>
     (188 \<le> n \<and> n \<le> 190) \<or> (192 \<le> n \<and> n \<le> 214) \<or> (216 \<le> n \<and> n \<le> 246) \<or>
     (248 \<le> n \<and> n \<le> 255))"

definition py_lower :: "string \<Rightarrow> string" where
  "py_lower s = map py_lower_char s"

definition strip_by :: "(char \<Rightarrow> bool) \<Rightarrow> string \<Rightarrow> string" where
  "strip_by P s = rev (dropWhile P (rev (dropWhile P s)))"

abbreviation py_strip :: "string \<Rightarrow> string" where
  "py_strip \<equiv> strip_by py_is_space"

definition rstrip_by :: "(char \<Rightarrow> bool) \<Rightarrow> string \<Rightarrow> string" where
  "rstrip_by P s = rev (dropWhile P (rev s))"

definition starts_with :: "string \<Rightarrow> string \<Rightarrow> bool" where
  "starts_with p s = (take (length p) s = p)"

definition ends_with :: "string \<Rightarrow> string \<Rightarrow> bool" where
  "ends_with p s = (length p \<le> length s \<and> drop (length s - length p) s = p)"

definition remove_prefix :: "string \<Rightarrow> string \<Rightarrow> string" where
  "remove_prefix p s = (if starts_with p s then drop (length p) s else s)"

definition remove_suffix :: "string \<Rightarrow> string \<Rightarrow> string" where
  "remove_suffix p s = (if p \<noteq> [] \<and> ends_with p s then take (length s - length p) s else s)"

fun str_contains :: "string \<Rightarrow> string \<Rightarrow> bool" where
  "str_contains p [] = (p = [])"
| "str_contains p (c # s) = (starts_with p (c # s) \<or> str_contains p s)"

function py_replace :: "string \<Rightarrow> string \<Rightarrow> string \<Rightarrow> string" where
  "py_replace old new s =
     (if s = [] then []
      else if old \<noteq> [] \<and> starts_with old s then new @ py_replace old new (drop (length old) s)
      else hd s # py_replace old new (tl s))"
  by pat_completeness auto
termination
  by (relation "measure (\<lambda>(old, new, s). length s)") (auto simp: neq_Nil_conv)

declare py_replace.simps [simp del]

fun py_join :: "string \<Rightarrow> string list \<Rightarrow> string" where
  "py_join sep [] = []"
| "py_join sep [x] = x"
| "py_join sep (x # y # xs) = x @ sep @ py_join sep (y # xs)"

fun split_on :: "char \<Rightarrow> string \<Rightarrow> string list" where
  "split_on c [] = [[]]"
| "split_on c (x # xs) =
     (if x = c then [] # split_on c xs
      else (case split_on c xs of [] \<Rightarrow> [[x]] | w # ws \<Rightarrow> (x # w) # ws))"

fun nat_to_str :: "nat \<Rightarrow> string" where
  "nat_to_str n =
     (if n < 10 then [char_of (48 + n)] else nat_to_str (n div 10) @ [char_of (48 + n mod 10)])"

declare nat_to_str.simps [simp del]

definition int_to_str :: "int \<Rightarrow> string" where
  "int_to_str i = (if i < 0 then CHR ''-'' # nat_to_str (nat (- i)) else nat_to_str (nat i))"

text \<open>Sorted, duplicate-free listings: \<open>sorted(set(xs))\<close>.\<close>

definition sorted_set :: "'a::linorder list \<Rightarrow> 'a list" where
  "sorted_set xs = sort (remdups xs)"

lemma set_sorted_set [simp]: "set (sorted_set xs) = set xs"
  by (simp add: sorted_set_def)

lemma sorted_sorted_set [simp]: "sorted (sorted_set xs)"
  by (simp add: sorted_set_def)

lemma distinct_sorted_set [simp]: "distinct (sorted_set xs)"
  by (simp add: sorted_set_def)

text \<open>\<open>sorted(xs, key=f, reverse=True)\<close> keeps equal elements in their order.\<close>

definition sort_key_rev :: "('a \<Rightarrow> 'k::linorder) \<Rightarrow> 'a list \<Rightarrow> 'a list" where
  "sort_key_rev f xs = rev (sort_key f (rev xs))"

lemma set_sort_key_rev [simp]: "set (sort_key_rev f xs) = set xs"
  by (simp add: sort_key_rev_def)

lemma sort_key_rev_sorted: "sorted_wrt (\<lambda>x y. f y \<le> f x) (sort_key_rev f xs)"
proof -
  have "sorted (map f (sort_key f (rev xs)))" by simp
  then have "sorted_wrt (\<lambda>x y. f x \<le> f y) (sort_key f (rev xs))"
    by (simp only: sorted_wrt_map)
  then show ?thesis by (simp add: sort_key_rev_def sorted_wrt_rev)
qed

subsection \<open>Facts about strings\<close>

named_theorems str_facts

lemma starts_with_append [simp]: "starts_with p (p @ s)"
  by (simp add: starts_with_def)

lemma starts_with_iff: "starts_with p s = (\<exists>t. s = p @ t)"
  by (metis append_take_drop_id starts_with_def starts_with_append)

lemma remove_prefix_append [simp]: "remove_prefix p (p @ s) = s"
  by (simp add: remove_prefix_def)

lemma dropWhile_strip_head: "dropWhile P s = [] \<or> \<not> P (hd (dropWhile P s))"
  using hd_dropWhile [of P s] by blast

lemma dropWhile_idle: "s = [] \<or> \<not> P (hd s) \<Longrightarrow> dropWhile P s = s"
  by (cases s) auto

lemma hd_rev_dropWhile_rev:
  assumes "s = [] \<or> \<not> P (hd s)"
  shows "rev (dropWhile P (rev s)) = [] \<or> \<not> P (hd (rev (dropWhile P (rev s))))"
proof (cases "dropWhile P (rev s)")
  case (Cons a t)
  have "rev s = takeWhile P (rev s) @ dropWhile P (rev s)" by simp
  then have "s = rev (dropWhile P (rev s)) @ rev (takeWhile P (rev s))"
    by (metis rev_append rev_rev_ident)
  moreover have "rev (dropWhile P (rev s)) \<noteq> []" using Cons by simp
  ultimately have "hd s = hd (rev (dropWhile P (rev s)))" "s \<noteq> []"
    by (metis hd_append, metis append_is_Nil_conv)
  then show ?thesis using assms by auto
qed simp

lemma strip_by_idem [simp]: "strip_by P (strip_by P s) = strip_by P s"
proof -
  let ?u = "dropWhile P s"
  have "dropWhile P (strip_by P s) = strip_by P s"
    unfolding strip_by_def
    by (rule dropWhile_idle, rule hd_rev_dropWhile_rev, rule dropWhile_strip_head)
  moreover have "dropWhile P (rev (strip_by P s)) = rev (strip_by P s)"
    unfolding strip_by_def by (simp add: dropWhile_idle dropWhile_strip_head)
  ultimately show ?thesis by (simp add: strip_by_def [of P "strip_by P s"])
qed

lemma strip_by_Nil [simp]: "strip_by P [] = []"
  by (simp add: strip_by_def)

lemma strip_by_nonspace:
  "strip_by P s \<noteq> [] \<Longrightarrow> \<exists>c \<in> set s. \<not> P c"
proof (rule ccontr)
  assume ne: "strip_by P s \<noteq> []" and "\<not> (\<exists>c \<in> set s. \<not> P c)"
  then have "dropWhile P s = []" by simp
  with ne show False by (simp add: strip_by_def)
qed

lemma py_join_contains_none:
  assumes "c \<notin> set sep" and "\<And>x. x \<in> set xs \<Longrightarrow> c \<notin> set x"
  shows "c \<notin> set (py_join sep xs)"
  using assms by (induction sep xs rule: py_join.induct) auto

lemma split_on_nonempty [simp]: "split_on c s \<noteq> []"
  by (induction s) (auto split: list.splits)

lemma split_on_no_sep: "w \<in> set (split_on c s) \<Longrightarrow> c \<notin> set w"
  by (induction s arbitrary: w) (auto split: list.splits if_splits)

lemma join_split: "py_join [c] (split_on c s) = s"
proof (induction s)
  case (Cons x xs)
  then show ?case
    by (cases "split_on c xs" rule: remdups_adj.cases) (auto split: list.splits)
qed simp

lemma split_on_append_sep: "split_on c (w @ c # s) = split_on c w @ split_on c s"
  by (induction w) (auto split: list.splits)

lemma split_on_idle: "c \<notin> set w \<Longrightarrow> split_on c w = [w]"
  by (induction w) auto

lemma split_join:
  "xs \<noteq> [] \<Longrightarrow> (\<And>x. x \<in> set xs \<Longrightarrow> c \<notin> set x) \<Longrightarrow> split_on c (py_join [c] xs) = xs"
  by (induction "[c]" xs rule: py_join.induct) (auto simp: split_on_idle split_on_append_sep)

lemma nat_to_str_digits: "c \<in> set (nat_to_str n) \<Longrightarrow> \<exists>d < 10. c = char_of (48 + d :: nat)"
proof (induction n rule: nat_to_str.induct)
  case (1 n)
  show ?case
  proof (cases "n < 10")
    case True
    with 1 show ?thesis by (auto simp: nat_to_str.simps [of n])
  next
    case False
    have "n mod 10 < 10" by simp
    with False 1 show ?thesis by (auto simp: nat_to_str.simps [of n] simp del: mod_less_divisor)
  qed
qed

lemma nat_to_str_nonempty [simp]: "nat_to_str n \<noteq> []"
  by (subst nat_to_str.simps) simp

lemma int_to_str_chars:
  "c \<in> set (int_to_str i) \<Longrightarrow> c = CHR ''-'' \<or> (\<exists>d < 10. c = char_of (48 + d :: nat))"
  by (auto simp: int_to_str_def dest: nat_to_str_digits split: if_splits)

lemma int_to_str_nonempty [simp]: "int_to_str i \<noteq> []"
  by (simp add: int_to_str_def)

lemma str_contains_set: "str_contains p s \<Longrightarrow> set p \<subseteq> set s"
proof (induction s)
  case (Cons a s)
  show ?case
  proof (cases "starts_with p (a # s)")
    case True
    then obtain t where "a # s = p @ t" by (auto simp: starts_with_iff)
    then have "set (a # s) = set p \<union> set t" by (metis set_append)
    then show ?thesis by blast
  next
    case False
    with Cons show ?thesis by auto
  qed
qed simp

text \<open>Decimal numerals are unique, and end where a character that is none of theirs begins.\<close>

definition numeral_char :: "char \<Rightarrow> bool" where
  "numeral_char c = (c \<in> set ''-0123456789'')"

fun numeral_value :: "string \<Rightarrow> nat \<Rightarrow> nat" where
  "numeral_value [] acc = acc"
| "numeral_value (c # cs) acc = numeral_value cs (10 * acc + (of_char c - 48))"

lemma digit_char_table: "d < 10 \<Longrightarrow> char_of (48 + d :: nat) \<in> set ''0123456789''"
proof -
  have "list_all (\<lambda>d. char_of (48 + d :: nat) \<in> set ''0123456789'') [0..<10]" by code_simp
  then show "d < 10 \<Longrightarrow> char_of (48 + d :: nat) \<in> set ''0123456789''"
    by (simp add: list_all_iff del: set_simps list.set)
qed

lemma nat_to_str_chars: "set (nat_to_str n) \<subseteq> set ''0123456789''"
  using nat_to_str_digits digit_char_table by blast

lemma int_to_str_numeral: "c \<in> set (int_to_str i) \<Longrightarrow> numeral_char c"
  using nat_to_str_chars by (fastforce simp: int_to_str_def numeral_char_def split: if_splits)

lemma numeral_value_append: "numeral_value (s @ t) a = numeral_value t (numeral_value s a)"
  by (induction s arbitrary: a) auto

lemma numeral_value_nat_to_str: "numeral_value (nat_to_str n) 0 = n"
proof (induction n rule: nat_to_str.induct)
  case (1 n)
  have digit: "(of_char (char_of (48 + d :: nat)) :: nat) - 48 = d" if "d < 10" for d :: nat
    using that by simp
  show ?case
  proof (cases "n < 10")
    case True
    then show ?thesis using digit [of n] by (subst nat_to_str.simps) simp
  next
    case False
    have "n mod 10 < 10" by simp
    then show ?thesis using False 1 digit [of "n mod 10"]
      by (subst nat_to_str.simps) (simp add: numeral_value_append)
  qed
qed

lemma nat_to_str_inj: "nat_to_str m = nat_to_str n \<Longrightarrow> m = n"
  by (metis numeral_value_nat_to_str)

lemma int_to_str_inj: "int_to_str i = int_to_str j \<Longrightarrow> i = j"
proof -
  have head: "hd (nat_to_str n) \<noteq> CHR ''-''" for n
  proof -
    have "hd (nat_to_str n) \<in> set (nat_to_str n)" by simp
    then have "hd (nat_to_str n) \<in> set ''0123456789''" using nat_to_str_chars by blast
    then show ?thesis by auto
  qed
  assume "int_to_str i = int_to_str j"
  then show "i = j"
    using head by (auto simp: int_to_str_def split: if_splits dest!: nat_to_str_inj)
      (metis list.sel(1))+
qed

lemma int_to_str_prefix:
  assumes "int_to_str i @ r = int_to_str j @ q"
    and "r = [] \<or> \<not> numeral_char (hd r)" and "q = [] \<or> \<not> numeral_char (hd q)"
  shows "i = j \<and> r = q"
proof -
  have tw: "takeWhile numeral_char (int_to_str k @ x) = int_to_str k"
    if "x = [] \<or> \<not> numeral_char (hd x)" for k x
    using that by (cases x) (auto simp: takeWhile_append2 int_to_str_numeral takeWhile_tail)
  from assms have "int_to_str i = int_to_str j" by (metis tw)
  with assms(1) show ?thesis using int_to_str_inj by auto
qed

section \<open>Conversions\<close>

text \<open>\<open>repr\<close> and \<open>str\<close>.\<close>

definition hex_digit :: "int \<Rightarrow> char" where
  "hex_digit n = (if n < 10 then char_of (48 + n) else char_of (87 + n))"

definition repr_char :: "char \<Rightarrow> char \<Rightarrow> string" where
  "repr_char q c = (let n = (of_char c :: int) in
     if c = q \<or> c = CHR 0x5C then [CHR 0x5C, c]
     else if n = 9 then [CHR 0x5C, CHR ''t'']
     else if n = 10 then [CHR 0x5C, CHR ''n'']
     else if n = 13 then [CHR 0x5C, CHR ''r'']
     else if n < 32 \<or> (127 \<le> n \<and> n \<le> 160) \<or> n = 173
       then [CHR 0x5C, CHR ''x'', hex_digit (n div 16), hex_digit (n mod 16)]
     else [c])"

definition repr_str :: "string \<Rightarrow> string" where
  "repr_str s = (let q = (if CHR 0x27 \<in> set s \<and> CHR 0x22 \<notin> set s then CHR 0x22 else CHR 0x27)
     in q # concat (map (repr_char q) s) @ [q])"

fun float_repr :: "pyfloat \<Rightarrow> string" where
  "float_repr (FFinite m e t) = t"
| "float_repr (FInf neg) = (if neg then ''-inf'' else ''inf'')"
| "float_repr FNan = ''nan''"

fun py_repr :: "pyval \<Rightarrow> string"
  and py_repr_list :: "pyval list \<Rightarrow> string list"
  and py_repr_items :: "(string \<times> pyval) list \<Rightarrow> string list" where
  "py_repr PNone = ''None''"
| "py_repr (PBool b) = (if b then ''True'' else ''False'')"
| "py_repr (PInt i) = int_to_str i"
| "py_repr (PFloat x) = float_repr x"
| "py_repr (PStr s) = repr_str s"
| "py_repr (PList xs) = ''['' @ py_join '', '' (py_repr_list xs) @ '']''"
| "py_repr (PDict kvs) = ''{'' @ py_join '', '' (py_repr_items kvs) @ ''}''"
| "py_repr_list [] = []"
| "py_repr_list (x # xs) = py_repr x # py_repr_list xs"
| "py_repr_items [] = []"
| "py_repr_items ((k, v) # kvs) = (repr_str k @ '': '' @ py_repr v) # py_repr_items kvs"

fun py_str :: "pyval \<Rightarrow> string" where
  "py_str (PStr s) = s"
| "py_str v = py_repr v"

text \<open>\<open>int(text)\<close> of the interpreter: surrounding blanks, one sign, digits with single
  underscores between them, at most 4300 digits.\<close>

fun digits_value :: "string \<Rightarrow> int \<Rightarrow> int" where
  "digits_value [] acc = acc"
| "digits_value (c # cs) acc =
     digits_value cs (if py_is_digit c then 10 * acc + (int (of_char c) - 48) else acc)"

fun digit_groups_ok :: "string \<Rightarrow> bool" where
  "digit_groups_ok [] = False"
| "digit_groups_ok [c] = py_is_digit c"
| "digit_groups_ok (c # d # cs) =
     (py_is_digit c \<and>
      (if d = CHR ''_'' then digit_groups_ok cs else digit_groups_ok (d # cs)))"

definition parse_int :: "string \<Rightarrow> int result" where
  "parse_int s = (let t = py_strip s;
       body = (case t of c # r \<Rightarrow> if c = CHR ''+'' \<or> c = CHR ''-'' then r else t | [] \<Rightarrow> []);
       neg = (t \<noteq> [] \<and> hd t = CHR ''-'')
     in if digit_groups_ok body \<and> length (filter py_is_digit body) \<le> 4300
        then Inr (if neg then - digits_value body 0 else digits_value body 0)
        else Inl (ValueError ''invalid literal for int()''))"

fun float_trunc :: "pyfloat \<Rightarrow> int result" where
  "float_trunc (FFinite m e t) =
     Inr (if e \<ge> 0 then m * 2 ^ nat e else sgn m * (\<bar>m\<bar> div 2 ^ nat (- e)))"
| "float_trunc (FInf neg) = Inl (OverflowError ''cannot convert float infinity to integer'')"
| "float_trunc FNan = Inl (ValueError ''cannot convert float NaN to integer'')"

fun py_int :: "pyval \<Rightarrow> int result" where
  "py_int (PBool b) = Inr (if b then 1 else 0)"
| "py_int (PInt i) = Inr i"
| "py_int (PFloat x) = float_trunc x"
| "py_int (PStr s) = parse_int s"
| "py_int _ = Inl (TypeError ''int() argument must be a string or a number'')"

text \<open>\<open>int(value)\<close> with \<open>TypeError\<close> and \<open>ValueError\<close> turned into \<open>None\<close>; another exception
  (the \<open>OverflowError\<close> of an infinite float) passes through.\<close>

definition int_or_none :: "pyval \<Rightarrow> int option result" where
  "int_or_none v = (case py_int v of Inr i \<Rightarrow> Inr (Some i)
     | Inl (TypeError m) \<Rightarrow> Inr None | Inl (ValueError m) \<Rightarrow> Inr None | Inl e \<Rightarrow> Inl e)"

text \<open>\<open>v == i\<close> for an int \<open>i\<close>: bools and floats compare by value.\<close>

fun py_eq_int :: "pyval \<Rightarrow> int \<Rightarrow> bool" where
  "py_eq_int (PBool b) i = ((if b then 1 else 0) = i)"
| "py_eq_int (PInt j) i = (j = i)"
| "py_eq_int (PFloat (FFinite m e t)) i =
     (if e \<ge> 0 then m * 2 ^ nat e = i else m = i * 2 ^ nat (- e))"
| "py_eq_int _ i = False"

text \<open>Iterating over a value: a list's items, a string's characters, a dict's keys.\<close>

fun py_iter :: "pyval \<Rightarrow> pyval list result" where
  "py_iter (PList xs) = Inr xs"
| "py_iter (PStr s) = Inr (map (\<lambda>c. PStr [c]) s)"
| "py_iter (PDict kvs) = Inr (map (\<lambda>kv. PStr (fst kv)) kvs)"
| "py_iter _ = Inl (TypeError ''object is not iterable'')"

text \<open>A method call that only one type supports: \<open>v.get\<close> and \<open>v.strip\<close>.\<close>

fun need_dict :: "pyval \<Rightarrow> pydict result" where
  "need_dict (PDict d) = Inr d"
| "need_dict _ = Inl (AttributeError ''object has no attribute get'')"

fun need_str :: "pyval \<Rightarrow> string result" where
  "need_str (PStr s) = Inr s"
| "need_str _ = Inl (AttributeError ''object has no attribute strip'')"

lemma need_dict_Inr [simp]: "(need_dict v = Inr d) = (v = PDict d)"
  by (cases v) auto

lemma need_str_Inr [simp]: "(need_str v = Inr s) = (v = PStr s)"
  by (cases v) auto

section \<open>Equality of decoded values\<close>

text \<open>
  \<open>==\<close>: numbers by value, whatever their type (\<open>True == 1 == 1.0\<close>), dicts in any order of their items.
\<close>

fun number_of :: "pyval \<Rightarrow> (int \<times> int) option" where
  "number_of (PBool b) = Some (if b then 1 else 0, 0)"
| "number_of (PInt i) = Some (i, 0)"
| "number_of (PFloat (FFinite m e t)) = Some (m, e)"
| "number_of _ = None"

definition same_number :: "int \<times> int \<Rightarrow> int \<times> int \<Rightarrow> bool" where
  "same_number a b = (case (a, b) of ((m, e), (n, f)) \<Rightarrow>
     if e \<le> f then m = n * 2 ^ nat (f - e) else m * 2 ^ nat (e - f) = n)"

definition same_atom :: "pyval \<Rightarrow> pyval \<Rightarrow> bool" where
  "same_atom v w = (case (number_of v, number_of w) of
     (Some a, Some b) \<Rightarrow> same_number a b
   | _ \<Rightarrow> v = w \<and> v \<noteq> PFloat FNan)"

fun py_eq :: "pyval \<Rightarrow> pyval \<Rightarrow> bool"
  and py_eq_list :: "pyval list \<Rightarrow> pyval list \<Rightarrow> bool"
  and py_eq_items :: "pydict \<Rightarrow> pydict \<Rightarrow> bool" where
  "py_eq (PList xs) w = (case w of PList ys \<Rightarrow> py_eq_list xs ys | _ \<Rightarrow> False)"
| "py_eq (PDict d) w = (case w of PDict e \<Rightarrow> length d = length e \<and> py_eq_items d e | _ \<Rightarrow> False)"
| "py_eq v w = same_atom v w"
| "py_eq_list [] ys = (ys = [])"
| "py_eq_list (x # xs) ys = (case ys of [] \<Rightarrow> False | y # zs \<Rightarrow> py_eq x y \<and> py_eq_list xs zs)"
| "py_eq_items [] e = True"
| "py_eq_items ((k, v) # d) e = ((case map_of e k of None \<Rightarrow> False | Some w \<Rightarrow> py_eq v w) \<and> py_eq_items d e)"

end
