(* ===== verification/Sha256.thy ===== *)
theory Sha256
  imports Py_Prelude "HOL-Library.Word"
begin

text \<open>
  UTF-8 encoding of Latin-1 text, and \<open>hashlib.sha256(data).hexdigest()\<close> (FIPS 180-4) over
  byte strings; a byte is a character. The other theories treat the digest as opaque and use
  only its length, its alphabet and its being a function of the bytes.
\<close>

unbundle bit_operations_syntax

section \<open>UTF-8\<close>

definition utf8_char :: "char \<Rightarrow> string" where
  "utf8_char c = (let n = (of_char c :: int) in
     if n < 128 then [c] else [char_of (192 + n div 64), char_of (128 + n mod 64)])"

definition utf8 :: "string \<Rightarrow> string" where
  "utf8 s = concat (map utf8_char s)"

lemma utf8_ascii: "(\<And>c. c \<in> set s \<Longrightarrow> of_char c < (128 :: int)) \<Longrightarrow> utf8 s = s"
  by (induction s) (auto simp: utf8_def utf8_char_def Let_def)

section \<open>The compression function\<close>

type_synonym w32 = "32 word"

definition rotr :: "nat \<Rightarrow> w32 \<Rightarrow> w32" where
  "rotr n x = (drop_bit n x) OR (push_bit (32 - n) x)"

text \<open>
  The constants are, as the standard defines them, the first 32 bits of the fractional parts of
  the cube roots of the first 64 primes and of the square roots of the first eight.
\<close>

fun bit_root :: "nat \<Rightarrow> nat \<Rightarrow> int \<Rightarrow> int \<Rightarrow> int" where
  "bit_root k 0 n r = r"
| "bit_root k (Suc i) n r = (let t = r + 2 ^ i in bit_root k i n (if t ^ k \<le> n then t else r))"

definition primes_64 :: "int list" where
  "primes_64 = filter (\<lambda>p. list_all (\<lambda>d. p mod d \<noteq> 0) [2..p - 1]) [2..311]"

definition root_fraction :: "nat \<Rightarrow> int \<Rightarrow> w32" where
  "root_fraction k p = word_of_int (bit_root k 40 (p * 2 ^ (32 * k)) 0)"

definition sha_k :: "w32 list" where
  "sha_k = map (root_fraction 3) primes_64"

definition sha_h0 :: "w32 list" where
  "sha_h0 = map (root_fraction 2) [2, 3, 5, 7, 11, 13, 17, 19]"

text \<open>The schedule is kept newest first, so that \<open>W[t-2]\<close> is at index 1.\<close>

definition sha_next :: "w32 list \<Rightarrow> w32" where
  "sha_next ws = (let x = ws ! 14; y = ws ! 1;
     s0 = rotr 7 x XOR rotr 18 x XOR drop_bit 3 x;
     s1 = rotr 17 y XOR rotr 19 y XOR drop_bit 10 y
   in ws ! 15 + s0 + ws ! 6 + s1)"

definition sha_schedule :: "w32 list \<Rightarrow> w32 list" where
  "sha_schedule block = rev (((\<lambda>ws. sha_next ws # ws) ^^ 48) (rev block))"

definition sha_round :: "w32 \<times> w32 \<Rightarrow> w32 list \<Rightarrow> w32 list" where
  "sha_round kw st = (let a = st ! 0; b = st ! 1; c = st ! 2; d = st ! 3;
     e = st ! 4; f = st ! 5; g = st ! 6; h = st ! 7;
     t1 = h + (rotr 6 e XOR rotr 11 e XOR rotr 25 e) + ((e AND f) XOR (NOT e AND g)) + fst kw + snd kw;
     t2 = (rotr 2 a XOR rotr 13 a XOR rotr 22 a) + ((a AND b) XOR (a AND c) XOR (b AND c))
   in [t1 + t2, a, b, c, d + t1, e, f, g])"

definition sha_block :: "w32 list \<Rightarrow> w32 list \<Rightarrow> w32 list" where
  "sha_block st block = map2 (+) st (fold sha_round (zip sha_k (sha_schedule block)) st)"

section \<open>Padding and the digest\<close>

definition byte_at :: "int \<Rightarrow> nat \<Rightarrow> char" where
  "byte_at n i = char_of (n div 256 ^ i mod 256)"

definition sha_pad :: "string \<Rightarrow> string" where
  "sha_pad m = (let n = length m; z = (119 - n mod 64) mod 64 in
     m @ [CHR 0x80] @ replicate z CHR 0x00 @ map (byte_at (8 * int n)) [7, 6, 5, 4, 3, 2, 1, 0])"

fun sha_words :: "string \<Rightarrow> w32 list" where
  "sha_words (a # b # c # d # r) =
     word_of_int (((of_char a * 256 + of_char b) * 256 + of_char c) * 256 + of_char d) # sha_words r"
| "sha_words _ = []"

fun sha_fold :: "w32 list \<Rightarrow> w32 list \<Rightarrow> w32 list" where
  "sha_fold [] st = st"
| "sha_fold (w # ws) st = sha_fold (drop 15 ws) (sha_block st (w # take 15 ws))"

definition hex_nibble :: "int \<Rightarrow> char" where
  "hex_nibble n = ''0123456789abcdef'' ! nat (n mod 16)"

definition word_hex :: "w32 \<Rightarrow> string" where
  "word_hex w = map (\<lambda>i. hex_nibble (uint (drop_bit (4 * i) w))) [7, 6, 5, 4, 3, 2, 1, 0]"

definition sha256_hex :: "string \<Rightarrow> string" where
  "sha256_hex m = concat (map word_hex (sha_fold (sha_words (sha_pad m)) sha_h0))"

section \<open>Shape of a digest\<close>

lemma length_sha_round [simp]: "length (sha_round kw st) = 8"
  by (simp add: sha_round_def Let_def)

lemma length_sha_block [simp]: "length st = 8 \<Longrightarrow> length (sha_block st b) = 8"
proof -
  have "length st = 8 \<Longrightarrow> length (fold sha_round kws st) = 8" for kws
    by (induction kws arbitrary: st) auto
  then show "length st = 8 \<Longrightarrow> length (sha_block st b) = 8" by (simp add: sha_block_def)
qed

lemma length_sha_fold: "length st = 8 \<Longrightarrow> length (sha_fold ws st) = 8"
  by (induction ws st rule: sha_fold.induct) auto

lemma length_sha256_hex [simp]: "length (sha256_hex m) = 64"
proof -
  have *: "length (concat (map word_hex ws)) = 8 * length ws" for ws
    by (induction ws) (auto simp: word_hex_def)
  have "length (sha_fold (sha_words (sha_pad m)) sha_h0) = 8"
    by (rule length_sha_fold) (simp add: sha_h0_def)
  then show ?thesis by (simp add: sha256_hex_def *)
qed

lemma sha256_hex_alphabet: "set (sha256_hex m) \<subseteq> set ''0123456789abcdef''"
proof -
  have "hex_nibble n \<in> set ''0123456789abcdef''" for n
    unfolding hex_nibble_def by (rule nth_mem) (simp add: nat_less_iff)
  then show ?thesis by (auto simp: sha256_hex_def word_hex_def)
qed

end
