(* ===== verification/Py_Json.thy ===== *)
theory Py_Json
  imports Py_Prelude Sha256
begin

text \<open>
  \<open>json.dumps(value, sort_keys=True, separators=(item, key))\<close> with its default
  \<open>ensure_ascii=True\<close>, and the digests the modules build from it.
\<close>

definition esc_u :: "int \<Rightarrow> string" where
  "esc_u n = [CHR 0x5C, CHR ''u'', CHR ''0'', CHR ''0'', hex_digit (n div 16), hex_digit (n mod 16)]"

definition esc_common :: "char \<Rightarrow> string option" where
  "esc_common c = (let n = (of_char c :: int) in
     if n = 0x22 \<or> n = 0x5C then Some [CHR 0x5C, c]
     else if n = 8 then Some [CHR 0x5C, CHR ''b'']
     else if n = 9 then Some [CHR 0x5C, CHR ''t'']
     else if n = 10 then Some [CHR 0x5C, CHR ''n'']
     else if n = 12 then Some [CHR 0x5C, CHR ''f'']
     else if n = 13 then Some [CHR 0x5C, CHR ''r'']
     else if n < 32 then Some (esc_u n)
     else None)"

definition esc_ascii :: "char \<Rightarrow> string" where
  "esc_ascii c = (case esc_common c of Some t \<Rightarrow> t
     | None \<Rightarrow> if (of_char c :: int) < 127 then [c] else esc_u (of_char c))"

definition json_str :: "string \<Rightarrow> string" where
  "json_str s = [CHR 0x22] @ concat (map esc_ascii s) @ [CHR 0x22]"

fun json_float :: "pyfloat \<Rightarrow> string" where
  "json_float (FFinite m e t) = t"
| "json_float (FInf neg) = (if neg then ''-Infinity'' else ''Infinity'')"
| "json_float FNan = ''NaN''"

text \<open>\<open>is\<close> and \<open>ks\<close> are the item and key separators.\<close>

fun json_dumps :: "string \<Rightarrow> string \<Rightarrow> pyval \<Rightarrow> string"
  and json_dumps_list :: "string \<Rightarrow> string \<Rightarrow> pyval list \<Rightarrow> string list"
  and json_dumps_items :: "string \<Rightarrow> string \<Rightarrow> pydict \<Rightarrow> (string \<times> string) list" where
  "json_dumps is ks PNone = ''null''"
| "json_dumps is ks (PBool b) = (if b then ''true'' else ''false'')"
| "json_dumps is ks (PInt i) = int_to_str i"
| "json_dumps is ks (PFloat x) = json_float x"
| "json_dumps is ks (PStr s) = json_str s"
| "json_dumps is ks (PList xs) = ''['' @ py_join is (json_dumps_list is ks xs) @ '']''"
| "json_dumps is ks (PDict kvs) = ''{'' @ py_join is
     (map (\<lambda>kt. json_str (fst kt) @ ks @ snd kt) (sort_key fst (json_dumps_items is ks kvs))) @ ''}''"
| "json_dumps_list is ks [] = []"
| "json_dumps_list is ks (x # xs) = json_dumps is ks x # json_dumps_list is ks xs"
| "json_dumps_items is ks [] = []"
| "json_dumps_items is ks ((k, v) # kvs) = (k, json_dumps is ks v) # json_dumps_items is ks kvs"

abbreviation json_compact :: "pyval \<Rightarrow> string" where
  "json_compact \<equiv> json_dumps '','' '':''"

abbreviation json_default :: "pyval \<Rightarrow> string" where
  "json_default \<equiv> json_dumps '', '' '': ''"

definition sha256_prefixed :: "string \<Rightarrow> string" where
  "sha256_prefixed bytes = ''sha256:'' @ sha256_hex bytes"

text \<open>The escaped text is ASCII, so encoding it to UTF-8 changes nothing.\<close>

lemma length_sha256_prefixed [simp]: "length (sha256_prefixed b) = 71"
  by (simp add: sha256_prefixed_def)

end
