(* ===== verification/Canonical_Json.thy ===== *)
theory Canonical_Json
  imports Py_Json "HOL-Library.Multiset"
begin

text \<open>
  \<open>canonical_json.py\<close>: the integer-only RFC 8785 serialisation that content digests are taken
  over. The main facts: serialisation fails exactly on the values the error listing names, the
  bytes do not depend on the order of a dict's items, and two values with the same bytes are
  the same value up to that order, so a digest binds its payload.
\<close>

section \<open>Operations\<close>

definition MAX_SAFE_INTEGER :: int where
  "MAX_SAFE_INTEGER = 9007199254740991"

definition has_surrogate :: "string \<Rightarrow> bool" where
  "has_surrogate s = list_ex (\<lambda>c. 0xD800 \<le> (of_char c :: int) \<and> of_char c \<le> (0xDFFF :: int)) s"

fun canonicalization_errors :: "pyval \<Rightarrow> string \<Rightarrow> string list"
  and canonicalization_errors_list :: "pyval list \<Rightarrow> string \<Rightarrow> int \<Rightarrow> string list"
  and canonicalization_errors_items :: "pydict \<Rightarrow> string \<Rightarrow> string list" where
  "canonicalization_errors PNone path = []"
| "canonicalization_errors (PBool b) path = []"
| "canonicalization_errors (PStr s) path =
     (if has_surrogate s then [path @ '' contains a lone UTF-16 surrogate''] else [])"
| "canonicalization_errors (PFloat x) path =
     [path @ '' uses a floating-point value; Delivery ART artifacts require integral numbers'']"
| "canonicalization_errors (PInt i) path =
     (if \<bar>i\<bar> > MAX_SAFE_INTEGER then [path @ '' exceeds the RFC 8785 safe integer range''] else [])"
| "canonicalization_errors (PList xs) path = canonicalization_errors_list xs path 0"
| "canonicalization_errors (PDict kvs) path = canonicalization_errors_items kvs path"
| "canonicalization_errors_list [] path i = []"
| "canonicalization_errors_list (x # xs) path i =
     canonicalization_errors x (path @ ''['' @ int_to_str i @ '']'') @
     canonicalization_errors_list xs path (i + 1)"
| "canonicalization_errors_items [] path = []"
| "canonicalization_errors_items ((k, v) # kvs) path =
     canonicalization_errors (PStr k) (path @ '' key'') @
     canonicalization_errors v (path @ ''['' @ repr_str k @ '']'') @
     canonicalization_errors_items kvs path"

text \<open>\<open>json.dumps(text, ensure_ascii=False).encode("utf-8")\<close>, and the key order.\<close>

definition raw_char :: "char \<Rightarrow> string" where
  "raw_char c = (case esc_common c of Some t \<Rightarrow> t | None \<Rightarrow> utf8_char c)"

definition raw_str :: "string \<Rightarrow> string" where
  "raw_str s = [CHR 0x22] @ concat (map raw_char s) @ [CHR 0x22]"

definition utf16be :: "string \<Rightarrow> string" where
  "utf16be s = concat (map (\<lambda>c. [CHR 0x00, c]) s)"

definition check_canonical :: "pyval \<Rightarrow> 'a result \<Rightarrow> 'a result" where
  "check_canonical v r =
     (case canonicalization_errors v ''<root>'' of [] \<Rightarrow> r | e # es \<Rightarrow> Inl (ValueError e))"

fun canonical_json_bytes :: "pyval \<Rightarrow> string result"
  and canonical_list_bytes :: "pyval list \<Rightarrow> string list result"
  and canonical_item_bytes :: "pydict \<Rightarrow> (string \<times> string) list result" where
  "canonical_json_bytes PNone = check_canonical PNone (Inr ''null'')"
| "canonical_json_bytes (PBool b) =
     check_canonical (PBool b) (Inr (if b then ''true'' else ''false''))"
| "canonical_json_bytes (PInt i) = check_canonical (PInt i) (Inr (int_to_str i))"
| "canonical_json_bytes (PStr s) = check_canonical (PStr s) (Inr (raw_str s))"
| "canonical_json_bytes (PList xs) = check_canonical (PList xs)
     (rbind (canonical_list_bytes xs) (\<lambda>ts. Inr (''['' @ py_join '','' ts @ '']'')))"
| "canonical_json_bytes (PDict kvs) = check_canonical (PDict kvs)
     (rbind (canonical_item_bytes kvs) (\<lambda>kts. Inr (''{'' @ py_join '',''
        (map (\<lambda>kt. raw_str (fst kt) @ '':'' @ snd kt) (sort_key (\<lambda>kt. utf16be (fst kt)) kts)) @ ''}'')))"
| "canonical_json_bytes (PFloat x) = check_canonical (PFloat x)
     (Inl (ValueError ''unsupported canonical JSON value float''))"
| "canonical_list_bytes [] = Inr []"
| "canonical_list_bytes (x # xs) =
     rbind (canonical_json_bytes x) (\<lambda>t. rbind (canonical_list_bytes xs) (\<lambda>ts. Inr (t # ts)))"
| "canonical_item_bytes [] = Inr []"
| "canonical_item_bytes ((k, v) # kvs) =
     rbind (canonical_json_bytes v) (\<lambda>t. rbind (canonical_item_bytes kvs) (\<lambda>ts. Inr ((k, t) # ts)))"

definition sha256_digest :: "string \<Rightarrow> string" where
  "sha256_digest value = sha256_prefixed value"

definition canonical_digest :: "pyval \<Rightarrow> string result" where
  "canonical_digest v = rbind (canonical_json_bytes v) (\<lambda>b. Inr (sha256_digest b))"

definition dict_del :: "string \<Rightarrow> pydict \<Rightarrow> pydict" where
  "dict_del k d = filter (\<lambda>kv. fst kv \<noteq> k) d"

definition delivery_art_content_projection :: "pydict \<Rightarrow> pydict" where
  "delivery_art_content_projection payload =
     (let custody = py_get payload ''custody'';
          projection = dict_del ''custody'' payload;
          projection = (case custody of
              PDict c \<Rightarrow> (case py_get c ''supersedes'' of
                  PDict s \<Rightarrow> assoc_set ''custody'' (PDict [(''supersedes'', PDict s)]) projection
                | _ \<Rightarrow> projection)
            | _ \<Rightarrow> projection)
      in case py_get projection ''integrity'' of
           PDict i \<Rightarrow> assoc_set ''integrity'' (PDict (dict_del ''content_digest'' i)) projection
         | _ \<Rightarrow> projection)"

section \<open>The domain of the serialisation\<close>

text \<open>
  \<open>canonical_value\<close> is the contract domain stated without paths: no float, every int in the
  safe range, no surrogate. That the keys of a dict differ is \<open>distinct_keys\<close> of \<open>Strict_Json\<close>.
\<close>

fun canonical_value :: "pyval \<Rightarrow> bool"
  and canonical_values :: "pyval list \<Rightarrow> bool"
  and canonical_items :: "pydict \<Rightarrow> bool" where
  "canonical_value (PStr s) = (\<not> has_surrogate s)"
| "canonical_value (PFloat x) = False"
| "canonical_value (PInt i) = (\<bar>i\<bar> \<le> MAX_SAFE_INTEGER)"
| "canonical_value (PList xs) = canonical_values xs"
| "canonical_value (PDict kvs) = canonical_items kvs"
| "canonical_value _ = True"
| "canonical_values [] = True"
| "canonical_values (x # xs) = (canonical_value x \<and> canonical_values xs)"
| "canonical_items [] = True"
| "canonical_items ((k, v) # kvs) = (\<not> has_surrogate k \<and> canonical_value v \<and> canonical_items kvs)"

lemma canonicalization_errors_iff:
  "(canonicalization_errors v p = []) = canonical_value v"
  "(canonicalization_errors_list xs p i = []) = canonical_values xs"
  "(canonicalization_errors_items kvs p = []) = canonical_items kvs"
  by (induction v and xs and kvs arbitrary: p and p i and p
      rule: canonical_value_canonical_values_canonical_items.induct) auto

section \<open>The bytes without the checks\<close>

text \<open>
  \<open>canon\<close> puts the items of every dict in key order, and \<open>flat\<close> writes a value's bytes in the
  order its items have.
\<close>

fun canon :: "pyval \<Rightarrow> pyval" and canon_list :: "pyval list \<Rightarrow> pyval list"
  and canon_items :: "pydict \<Rightarrow> pydict" where
  "canon (PList xs) = PList (canon_list xs)"
| "canon (PDict kvs) = PDict (sort_key (\<lambda>kv. utf16be (fst kv)) (canon_items kvs))"
| "canon v = v"
| "canon_list [] = []"
| "canon_list (x # xs) = canon x # canon_list xs"
| "canon_items [] = []"
| "canon_items ((k, v) # kvs) = (k, canon v) # canon_items kvs"

fun flat :: "pyval \<Rightarrow> string" and flat_tail :: "pyval list \<Rightarrow> string"
  and flat_items :: "pydict \<Rightarrow> string" where
  "flat PNone = ''null''"
| "flat (PBool b) = (if b then ''true'' else ''false'')"
| "flat (PInt i) = int_to_str i"
| "flat (PStr s) = raw_str s"
| "flat (PList []) = ''[]''"
| "flat (PList (x # xs)) = ''['' @ flat x @ flat_tail xs"
| "flat (PDict []) = ''{}''"
| "flat (PDict ((k, v) # kvs)) = ''{'' @ raw_str k @ '':'' @ flat v @ flat_items kvs"
| "flat (PFloat x) = []"
| "flat_tail [] = '']''"
| "flat_tail (x # xs) = '','' @ flat x @ flat_tail xs"
| "flat_items [] = ''}''"
| "flat_items ((k, v) # kvs) = '','' @ raw_str k @ '':'' @ flat v @ flat_items kvs"

abbreviation flat_item :: "string \<times> pyval \<Rightarrow> string" where
  "flat_item kv \<equiv> raw_str (fst kv) @ '':'' @ flat (snd kv)"

lemma flat_tail_join: "flat_tail xs = concat (map (\<lambda>x. '','' @ flat x) xs) @ '']''"
  by (induction xs) auto

lemma flat_items_join: "flat_items kvs = concat (map (\<lambda>kv. '','' @ flat_item kv) kvs) @ ''}''"
  by (induction kvs) auto

lemma py_join_comma: "py_join '','' (t # ts) = t @ concat (map (\<lambda>u. '','' @ u) ts)"
  by (induction ts arbitrary: t) auto

lemma flat_PList: "flat (PList xs) = ''['' @ py_join '','' (map flat xs) @ '']''"
  by (cases xs) (auto simp: flat_tail_join py_join_comma comp_def simp del: py_join.simps(3))

lemma flat_PDict: "flat (PDict kvs) = ''{'' @ py_join '','' (map flat_item kvs) @ ''}''"
  by (cases kvs) (auto simp: flat_items_join py_join_comma comp_def simp del: py_join.simps(3))

lemma insort_key_map: "insort_key f (g x) (map g xs) = map g (insort_key (\<lambda>y. f (g y)) x xs)"
  by (induction xs) auto

lemma sort_key_map: "sort_key f (map g xs) = map g (sort_key (\<lambda>y. f (g y)) xs)"
  by (induction xs) (auto simp: insort_key_map)

lemma canon_list_map: "canon_list xs = map canon xs"
  by (induction xs) auto

lemma canon_items_map: "canon_items kvs = map (\<lambda>kv. (fst kv, canon (snd kv))) kvs"
  by (induction kvs) auto

lemma check_canonical_ok: "canonical_value v \<Longrightarrow> check_canonical v r = r"
  using canonicalization_errors_iff(1) [of v "''<root>''"] by (simp add: check_canonical_def)

lemma check_canonical_fail: "\<not> canonical_value v \<Longrightarrow> \<exists>e. check_canonical v r = Inl e"
  using canonicalization_errors_iff(1) [of v "''<root>''"]
  by (auto simp: check_canonical_def split: list.splits)

text \<open>A successful serialisation is the flat text of the value with its items in key order.\<close>

lemma canonical_bytes_flat:
  "canonical_value v \<Longrightarrow> canonical_json_bytes v = Inr (flat (canon v))"
  "canonical_values xs \<Longrightarrow> canonical_list_bytes xs = Inr (map (\<lambda>x. flat (canon x)) xs)"
  "canonical_items kvs \<Longrightarrow>
     canonical_item_bytes kvs = Inr (map (\<lambda>kv. (fst kv, flat (canon (snd kv)))) kvs)"
proof (induction v and xs and kvs rule: canonical_value_canonical_values_canonical_items.induct)
  case (4 xs)
  then show ?case
    by (simp add: check_canonical_ok flat_PList canon_list_map comp_def)
next
  case (5 kvs)
  then show ?case
    by (simp add: check_canonical_ok flat_PDict canon_items_map sort_key_map comp_def)
qed (auto simp: check_canonical_ok)

lemma canonical_bytes_Inr_iff:
  "(canonical_json_bytes v = Inr b) = (canonical_value v \<and> b = flat (canon v))"
proof (cases "canonical_value v")
  case False
  then have "\<exists>e. canonical_json_bytes v = Inl e"
    by (cases v) (auto intro!: check_canonical_fail simp del: canonical_value.simps)
  with False show ?thesis by auto
qed (auto simp: canonical_bytes_flat)

section \<open>Unique readability\<close>

text \<open>A decoder for one character of a string literal shows that the literal's text is its own.\<close>

definition hexval :: "char \<Rightarrow> int" where
  "hexval c = (let n = of_char c in if n < 58 then n - 48 else n - 87)"

fun dec1 :: "string \<Rightarrow> (char \<times> string) option" where
  "dec1 [] = None"
| "dec1 (c # s) =
    (if c = CHR 0x5C then
      (case s of [] \<Rightarrow> None | d # t \<Rightarrow>
        if d = CHR ''u'' then
          (case t of x # y # a # b # u \<Rightarrow> Some (char_of (16 * hexval a + hexval b), u) | _ \<Rightarrow> None)
        else Some (if d = CHR ''b'' then CHR 0x08 else if d = CHR ''t'' then CHR 0x09
                   else if d = CHR ''n'' then CHR 0x0A else if d = CHR ''f'' then CHR 0x0C
                   else if d = CHR ''r'' then CHR 0x0D else d, t))
     else if of_char c < (128 :: int) then Some (c, s)
     else (case s of [] \<Rightarrow> None | d # t \<Rightarrow>
        Some (char_of (64 * (of_char c - 192) + (of_char d - 128 :: int)), t)))"

lemma dec1_append: "dec1 s = Some (c, t) \<Longrightarrow> dec1 (s @ x) = Some (c, t @ x)"
  by (cases s) (auto split: if_splits list.splits)

lemma raw_char_table:
  "list_all (\<lambda>c. dec1 (raw_char c) = Some (c, []) \<and> hd (raw_char c) \<noteq> CHR 0x22 \<and> raw_char c \<noteq> [])
     Enum.enum"
  by code_simp

lemma raw_char_facts:
  "dec1 (raw_char c) = Some (c, [])" "hd (raw_char c) \<noteq> CHR 0x22" "raw_char c \<noteq> []"
  using raw_char_table by (simp_all add: list_all_iff enum_UNIV)

lemma dec1_raw_char: "dec1 (raw_char c @ x) = Some (c, x)"
  using dec1_append [OF raw_char_facts(1)] by (metis append_Nil)

lemma raw_char_inj: "raw_char c @ x = raw_char d @ y \<Longrightarrow> c = d \<and> x = y"
  by (metis dec1_raw_char option.inject prod.inject)

lemma raw_char_no_quote: "raw_char c @ x \<noteq> CHR 0x22 # y"
  using raw_char_facts(2,3) [of c] by (metis hd_append2 list.sel(1))

lemma raw_body_inj:
  "concat (map raw_char s) @ CHR 0x22 # r = concat (map raw_char t) @ CHR 0x22 # q \<Longrightarrow> s = t \<and> r = q"
proof (induction s arbitrary: t)
  case Nil
  then show ?case
    by (cases t) (auto simp: raw_char_no_quote dest: sym)
next
  case (Cons c s)
  show ?case
  proof (cases t)
    case Nil
    with Cons.prems show ?thesis by (simp add: raw_char_no_quote)
  next
    case (Cons d u)
    with Cons.prems have "c = d"
      and "concat (map raw_char s) @ CHR 0x22 # r = concat (map raw_char u) @ CHR 0x22 # q"
      using raw_char_inj by (auto dest: raw_char_inj)
    with Cons Cons.IH show ?thesis by simp
  qed
qed

lemma raw_str_inj: "raw_str s @ r = raw_str t @ q \<Longrightarrow> s = t \<and> r = q"
  using raw_body_inj [of s r t q] by (simp add: raw_str_def)

text \<open>
  What may follow a value in a text: nothing, a comma or a closing bracket. Under that, the
  bytes of a value determine the value and where it ends.
\<close>

definition delimited :: "string \<Rightarrow> bool" where
  "delimited r = (r = [] \<or> hd r \<in> set '',]}'')"

lemma delimited_tails [simp]: "delimited (flat_tail xs @ r)" "delimited (flat_items kvs @ r)"
  by (cases xs; simp add: delimited_def) (cases kvs rule: list.exhaust; auto simp: delimited_def)

lemma delimited_no_numeral: "delimited r \<Longrightarrow> r = [] \<or> \<not> numeral_char (hd r)"
  by (auto simp: delimited_def numeral_char_def)

text \<open>The first character of a text tells the kind of the value.\<close>

fun kind_of :: "pyval \<Rightarrow> nat" where
  "kind_of PNone = 0"
| "kind_of (PBool b) = 1"
| "kind_of (PInt i) = 2"
| "kind_of (PStr s) = 3"
| "kind_of (PList xs) = 4"
| "kind_of (PDict kvs) = 5"
| "kind_of (PFloat x) = 6"

definition kind_of_char :: "char \<Rightarrow> nat" where
  "kind_of_char c = (if c = CHR ''n'' then 0 else if c = CHR ''t'' \<or> c = CHR ''f'' then 1
     else if numeral_char c then 2 else if c = CHR 0x22 then 3 else if c = CHR ''['' then 4 else 5)"

lemma int_first: "int_to_str i \<noteq> [] \<and> kind_of_char (hd (int_to_str i)) = 2"
proof -
  have "numeral_char (hd (int_to_str i))" by (rule int_to_str_numeral [of _ i]) simp
  moreover from this have "hd (int_to_str i) \<notin> set ''ntf''" by (auto simp: numeral_char_def)
  ultimately show ?thesis by (simp add: kind_of_char_def)
qed

lemma flat_first:
  "canonical_value v \<Longrightarrow> flat v \<noteq> [] \<and> kind_of_char (hd (flat v)) = kind_of v"
proof (cases v)
  case (PList xs)
  then show ?thesis by (cases xs) (simp_all add: kind_of_char_def numeral_char_def)
next
  case (PDict kvs)
  then show ?thesis
    by (cases kvs) (auto simp: kind_of_char_def numeral_char_def)
qed (use int_first in \<open>auto simp: raw_str_def kind_of_char_def numeral_char_def\<close>)

lemma flat_same_kind:
  assumes "canonical_value v" "canonical_value w" "flat v @ r = flat w @ q"
  shows "kind_of v = kind_of w"
  using flat_first [OF assms(1)] flat_first [OF assms(2)] assms(3) by (metis hd_append2)

lemma flat_no_close:
  assumes "canonical_value v" shows "flat v @ r \<noteq> CHR '']'' # q"
proof
  assume "flat v @ r = CHR '']'' # q"
  then have "hd (flat v) = CHR '']''" using flat_first [OF assms] by (metis hd_append2 list.sel(1))
  then have "kind_of v = 5" using flat_first [OF assms] by (simp add: kind_of_char_def numeral_char_def)
  then obtain kvs where "v = PDict kvs" by (cases v) auto
  with \<open>hd (flat v) = _\<close> show False by (cases kvs) auto
qed

text \<open>Unique readability, for values, list tails and item tails together.\<close>

lemma flat_unique:
  "canonical_value v \<Longrightarrow> canonical_value w \<Longrightarrow> delimited r \<Longrightarrow> delimited q \<Longrightarrow>
     flat v @ r = flat w @ q \<Longrightarrow> v = w \<and> r = q"
  "canonical_values xs \<Longrightarrow> canonical_values ys \<Longrightarrow>
     flat_tail xs @ r = flat_tail ys @ q \<Longrightarrow> xs = ys \<and> r = q"
  "canonical_items kvs \<Longrightarrow> canonical_items lvs \<Longrightarrow>
     flat_items kvs @ r = flat_items lvs @ q \<Longrightarrow> kvs = lvs \<and> r = q"
proof (induction v and xs and kvs arbitrary: w r q and ys r q and lvs r q rule: flat_flat_tail_flat_items.induct)
  case 1
  then show ?case using flat_same_kind [OF "1.prems"(1,2,5)] by (cases w) auto
next
  case (2 b)
  then show ?case using flat_same_kind [OF "2.prems"(1,2,5)]
    by (cases w) (auto split: if_splits)
next
  case (3 i)
  obtain j where w: "w = PInt j"
    using flat_same_kind [OF "3.prems"(1,2,5)] by (cases w) simp_all
  with "3.prems" show ?case
    using int_to_str_prefix [of i r j q] by (auto dest: delimited_no_numeral)
next
  case (4 s)
  obtain t where w: "w = PStr t"
    using flat_same_kind [OF "4.prems"(1,2,5)] by (cases w) simp_all
  with "4.prems" show ?case using raw_str_inj [of s r t q] by auto
next
  case 5
  obtain ys where w: "w = PList ys"
    using flat_same_kind [OF "5.prems"(1,2,5)] by (cases w) simp_all
  with "5.prems" show ?case by (cases ys) (auto simp: flat_no_close flat_no_close [symmetric])
next
  case (6 x xs)
  obtain ys where w: "w = PList ys"
    using flat_same_kind [OF "6.prems"(1,2,5)] by (cases w) simp_all
  show ?case
  proof (cases ys)
    case Nil
    with "6.prems" w show ?thesis by (simp add: flat_no_close)
  next
    case (Cons y zs)
    with "6.prems" w Cons have eq: "flat x @ (flat_tail xs @ r) = flat y @ (flat_tail zs @ q)" by simp
    have "x = y \<and> flat_tail xs @ r = flat_tail zs @ q"
      by (rule "6.IH"(1) [OF _ _ _ _ eq]) (use "6.prems"(1,2) w Cons in simp_all)
    moreover from this have "xs = zs \<and> r = q"
      by (intro "6.IH"(2)) (use "6.prems"(1,2) w Cons in simp_all)
    ultimately show ?thesis using w Cons by simp
  qed
next
  case 7
  obtain lvs where w: "w = PDict lvs"
    using flat_same_kind [OF "7.prems"(1,2,5)] by (cases w) simp_all
  with "7.prems" show ?case by (cases lvs) (auto simp: raw_str_def)
next
  case (8 k x kvs)
  obtain lvs where w: "w = PDict lvs"
    using flat_same_kind [OF "8.prems"(1,2,5)] by (cases w) simp_all
  show ?case
  proof (cases lvs)
    case Nil
    with "8.prems" w show ?thesis by (simp add: raw_str_def)
  next
    case (Cons ly mvs)
    obtain l y where ly: "ly = (l, y)" by (cases ly)
    with "8.prems" w Cons have "raw_str k @ (CHR '':'' # flat x @ flat_items kvs @ r) =
        raw_str l @ (CHR '':'' # flat y @ flat_items mvs @ q)" by simp
    from raw_str_inj [OF this] have k: "k = l"
      and eq: "flat x @ (flat_items kvs @ r) = flat y @ (flat_items mvs @ q)" by simp_all
    have "x = y \<and> flat_items kvs @ r = flat_items mvs @ q"
      by (rule "8.IH"(1) [OF _ _ _ _ eq]) (use "8.prems"(1,2) w Cons ly in simp_all)
    moreover from this have "kvs = mvs \<and> r = q"
      by (intro "8.IH"(2)) (use "8.prems"(1,2) w Cons ly in simp_all)
    ultimately show ?thesis using w Cons ly k by simp
  qed
next
  case (10 ys)
  then show ?case by (cases ys) auto
next
  case (11 x xs)
  show ?case
  proof (cases ys)
    case Nil
    with "11.prems" show ?thesis by simp
  next
    case (Cons y zs)
    with "11.prems" Cons have eq: "flat x @ (flat_tail xs @ r) = flat y @ (flat_tail zs @ q)" by simp
    have "x = y \<and> flat_tail xs @ r = flat_tail zs @ q"
      by (rule "11.IH"(1) [OF _ _ _ _ eq]) (use "11.prems"(1,2) Cons in simp_all)
    moreover from this have "xs = zs \<and> r = q"
      by (intro "11.IH"(2)) (use "11.prems"(1,2) Cons in simp_all)
    ultimately show ?thesis using Cons by simp
  qed
next
  case (12 lvs)
  then show ?case by (cases lvs) auto
next
  case (13 k x kvs)
  show ?case
  proof (cases lvs)
    case Nil
    with "13.prems" show ?thesis by simp
  next
    case (Cons ly mvs)
    obtain l y where ly: "ly = (l, y)" by (cases ly)
    with "13.prems" Cons have "raw_str k @ (CHR '':'' # flat x @ flat_items kvs @ r) =
        raw_str l @ (CHR '':'' # flat y @ flat_items mvs @ q)" by simp
    from raw_str_inj [OF this] have k: "k = l"
      and eq: "flat x @ (flat_items kvs @ r) = flat y @ (flat_items mvs @ q)" by simp_all
    have "x = y \<and> flat_items kvs @ r = flat_items mvs @ q"
      by (rule "13.IH"(1) [OF _ _ _ _ eq]) (use "13.prems"(1,2) Cons ly in simp_all)
    moreover from this have "kvs = mvs \<and> r = q"
      by (intro "13.IH"(2)) (use "13.prems"(1,2) Cons ly in simp_all)
    ultimately show ?thesis using Cons ly k by simp
  qed
qed simp_all

section \<open>What the canonical bytes guarantee\<close>

lemma canonical_values_all: "canonical_values xs = list_all canonical_value xs"
  by (induction xs) auto

lemma canonical_items_all:
  "canonical_items kvs = list_all (\<lambda>kv. \<not> has_surrogate (fst kv) \<and> canonical_value (snd kv)) kvs"
  by (induction kvs) auto

lemma canonical_value_canon:
  "canonical_value (canon v) = canonical_value v"
  "canonical_values (canon_list xs) = canonical_values xs"
  "canonical_items (canon_items kvs) = canonical_items kvs"
  by (induction v and xs and kvs rule: canon_canon_list_canon_items.induct)
    (auto simp: canonical_items_all list_all_iff)

lemma canonical_bytes_eq_iff:
  assumes "canonical_value v" and "canonical_value w"
  shows "(canonical_json_bytes v = canonical_json_bytes w) = (canon v = canon w)"
  using assms flat_unique(1) [of "canon v" "canon w" "[]" "[]"]
  by (auto simp: canonical_bytes_flat canonical_value_canon delimited_def)

lemma utf16be_inj: "utf16be s = utf16be t \<Longrightarrow> s = t"
  unfolding utf16be_def by (induction s t rule: list_induct2') auto

lemma canon_items_perm:
  assumes "distinct (map fst kvs)" and "mset lvs = mset kvs"
  shows "canon (PDict lvs) = canon (PDict kvs)"
proof -
  let ?f = "\<lambda>kv :: string \<times> pyval. utf16be (fst kv)"
  have "inj_on ?f (set (canon_items lvs))"
    using assms mset_eq_setD [OF assms(2)]
    by (fastforce simp: canon_items_map inj_on_def distinct_map dest!: utf16be_inj)
  moreover have "mset (canon_items lvs) = mset (canon_items kvs)"
    using assms(2) by (simp add: canon_items_map)
  ultimately have "sort_key ?f (canon_items lvs) = sort_key ?f (canon_items kvs)"
    by (metis mset_sort sort_key_inj_key_eq sorted_sort_key)
  then show ?thesis by simp
qed

lemma dict_del_assoc_set [simp]: "dict_del k (assoc_set k v d) = dict_del k d"
  by (induction k v d rule: assoc_set.induct) (auto simp: dict_del_def)

lemma dict_del_assoc_set_other: "k \<noteq> l \<Longrightarrow> dict_del k (assoc_set l v d) = assoc_set l v (dict_del k d)"
  by (induction l v d rule: assoc_set.induct) (auto simp: dict_del_def)

lemma map_of_dict_del: "map_of (dict_del k d) l = (if l = k then None else map_of d l)"
  by (induction d) (auto simp: dict_del_def)

lemma assoc_set_twice [simp]: "assoc_set k v (assoc_set k w d) = assoc_set k v d"
  by (induction k w d rule: assoc_set.induct) auto

lemma assoc_set_absorb:
  "map_of d k \<noteq> None \<Longrightarrow> k \<noteq> l \<Longrightarrow>
     assoc_set k v (assoc_set l w (assoc_set k u d)) = assoc_set k v (assoc_set l w d)"
  by (induction k u d rule: assoc_set.induct) auto

lemma assoc_set_swap:
  "map_of d k \<noteq> None \<Longrightarrow> k \<noteq> l \<Longrightarrow> assoc_set l w (assoc_set k v d) = assoc_set k v (assoc_set l w d)"
  by (induction k v d rule: assoc_set.induct) auto

text \<open>
  C1. \<open>canonical_json_bytes\<close> returns bytes exactly for the values of the contract domain (no
  float, ints in the RFC 8785 safe range, no lone surrogate); every other value raises.
\<close>

theorem canonical_bytes_domain:
  "(\<exists>b. canonical_json_bytes v = Inr b) = canonical_value v"
  by (simp add: canonical_bytes_Inr_iff)

text \<open>
  C2. Two values that serialise to the same bytes are the same value up to the order of the
  items of their dicts, so the digest of the bytes binds the whole payload.
\<close>

theorem canonical_bytes_injective:
  assumes "canonical_json_bytes v = Inr b" and "canonical_json_bytes w = Inr b"
  shows "canon v = canon w"
proof -
  from assms have "canonical_value v" "canonical_value w" by (simp_all add: canonical_bytes_Inr_iff)
  with assms canonical_bytes_eq_iff [of v w] show ?thesis by simp
qed

theorem canonical_bytes_injective_witness:
  "canon (PDict [(''b'', PInt 1), (''a'', PNone)]) = canon (PDict [(''a'', PNone), (''b'', PInt 1)])"
  by (rule canonical_bytes_injective [where b = "''{\"a\":null,\"b\":1}''"]) code_simp+

text \<open>
  C3. The order in which a dict was built never shows in its canonical bytes: any reordering
  of the items of a dict (whose keys differ) has the same bytes.
\<close>

theorem canonical_bytes_order_free:
  assumes "distinct (map fst kvs)" and "mset lvs = mset kvs"
  shows "(canonical_json_bytes (PDict lvs) = Inr b) = (canonical_json_bytes (PDict kvs) = Inr b)"
proof -
  have "canonical_items lvs = canonical_items kvs"
    using mset_eq_setD [OF assms(2)] by (simp add: canonical_items_all list_all_iff)
  then show ?thesis
    using canon_items_perm [OF assms] unfolding canonical_bytes_Inr_iff by simp
qed

theorem canonical_bytes_order_free_witness:
  "(canonical_json_bytes (PDict [(''b'', PInt 1), (''a'', PNone)]) = Inr ''{\"a\":null,\"b\":1}'') =
   (canonical_json_bytes (PDict [(''a'', PNone), (''b'', PInt 1)]) = Inr ''{\"a\":null,\"b\":1}'')"
  by (rule canonical_bytes_order_free) simp_all

text \<open>
  Writing a content digest into a payload does not change the projection the digest is
  taken over, whatever digest is written: a payload can carry its own digest.
\<close>

theorem content_projection_ignores_digest:
  assumes "py_get payload ''integrity'' = PDict i"
  shows "delivery_art_content_projection
           (assoc_set ''integrity'' (PDict (assoc_set ''content_digest'' d i)) payload) =
         delivery_art_content_projection payload"
proof -
  let ?new = "assoc_set ''integrity'' (PDict (assoc_set ''content_digest'' d i)) payload"
  have has: "map_of payload ''integrity'' = Some (PDict i)"
    using assms by (auto simp: py_get_or_def split: option.splits)
  have custody: "py_get ?new ''custody'' = py_get payload ''custody''"
    by (simp add: py_get_or_def)
  show ?thesis
    unfolding delivery_art_content_projection_def custody
    by (cases "py_get payload ''custody''"; (cases "py_get (case py_get payload ''custody'' of PDict c \<Rightarrow> c) ''supersedes''")?)
      (simp_all add: Let_def py_get_or_def has dict_del_assoc_set_other map_of_dict_del assoc_set_absorb
        split: pyval.split)
qed

theorem content_projection_ignores_digest_witness:
  "delivery_art_content_projection
     (assoc_set ''integrity'' (PDict (assoc_set ''content_digest'' (PStr ''x'') []))
       [(''id'', PInt 7), (''integrity'', PDict [])]) =
   delivery_art_content_projection [(''id'', PInt 7), (''integrity'', PDict [])]"
  by (rule content_projection_ignores_digest) (simp add: py_get_or_def)

end
