(* ===== verification/Strict_Json.thy ===== *)
theory Strict_Json
  imports Canonical_Json
begin

text \<open>
  \<open>strict_json_loads\<close> of \<open>canonical_json.py\<close>: UTF-8 decoding, the scanner of \<open>json.loads\<close> with the
  two hooks of the function, and the check of the contract domain. Texts with characters beyond
  Latin-1, written out or escaped, are outside the model. A float is rejected whatever its value is,
  so its token stands for it.
\<close>

section \<open>Decoding the bytes\<close>

definition utf8_cont :: "char \<Rightarrow> bool" where
  "utf8_cont c = (0x80 \<le> (of_char c :: int) \<and> of_char c < (0xC0 :: int))"

definition utf8_low :: "char \<Rightarrow> int" where
  "utf8_low c = of_char c - 0x80"

fun utf8_points :: "string \<Rightarrow> int list option" where
  "utf8_points [] = Some []"
| "utf8_points (c # cs) =
     (let n = (of_char c :: int) in
      if n < 0x80 then map_option ((#) n) (utf8_points cs)
      else if 0xC2 \<le> n \<and> n \<le> 0xDF then
        (case cs of d # r \<Rightarrow>
           if utf8_cont d then map_option ((#) (64 * (n - 0xC0) + utf8_low d)) (utf8_points r) else None
         | _ \<Rightarrow> None)
      else if 0xE0 \<le> n \<and> n \<le> 0xEF then
        (case cs of d # e # r \<Rightarrow>
           if utf8_cont d \<and> utf8_cont e \<and> (n = 0xE0 \<longrightarrow> 0x20 \<le> utf8_low d) \<and> (n = 0xED \<longrightarrow> utf8_low d < 0x20)
           then map_option ((#) (4096 * (n - 0xE0) + 64 * utf8_low d + utf8_low e)) (utf8_points r) else None
         | _ \<Rightarrow> None)
      else if 0xF0 \<le> n \<and> n \<le> 0xF4 then
        (case cs of d # e # f # r \<Rightarrow>
           if utf8_cont d \<and> utf8_cont e \<and> utf8_cont f \<and> (n = 0xF0 \<longrightarrow> 0x10 \<le> utf8_low d) \<and>
              (n = 0xF4 \<longrightarrow> utf8_low d < 0x10)
           then map_option ((#) (262144 * (n - 0xF0) + 4096 * utf8_low d + 64 * utf8_low e + utf8_low f)) (utf8_points r)
           else None
         | _ \<Rightarrow> None)
      else None)"

definition decode_utf8 :: "string \<Rightarrow> string result" where
  "decode_utf8 raw = (case utf8_points raw of
     None \<Rightarrow> Inl (ValueError ''request body must be valid UTF-8 JSON'')
   | Some ps \<Rightarrow> if list_all (\<lambda>p. p < 256) ps then Inr (map char_of ps)
       else Inl (Unmodelled ''character beyond Latin-1''))"

section \<open>The scanner\<close>

abbreviation bad_json :: "string \<Rightarrow> 'a result" where
  "bad_json msg \<equiv> Inl (JSONDecodeError msg)"

definition json_space :: "char \<Rightarrow> bool" where
  "json_space c = (c = CHR '' '' \<or> c = CHR 0x09 \<or> c = CHR 0x0A \<or> c = CHR 0x0D)"

abbreviation skip_ws :: "string \<Rightarrow> string" where
  "skip_ws \<equiv> dropWhile json_space"

definition hex_value :: "char \<Rightarrow> int option" where
  "hex_value c = (let n = (of_char c :: int) in
     if 48 \<le> n \<and> n \<le> 57 then Some (n - 48)
     else if 97 \<le> n \<and> n \<le> 102 then Some (n - 87)
     else if 65 \<le> n \<and> n \<le> 70 then Some (n - 55) else None)"

definition hex4 :: "char \<Rightarrow> char \<Rightarrow> char \<Rightarrow> char \<Rightarrow> int option" where
  "hex4 a b c d = (case (hex_value a, hex_value b, hex_value c, hex_value d) of
     (Some w, Some x, Some y, Some z) \<Rightarrow> Some (((w * 16 + x) * 16 + y) * 16 + z) | _ \<Rightarrow> None)"

definition simple_escape :: "char \<Rightarrow> char option" where
  "simple_escape d = (if d = CHR 0x22 \<or> d = CHR 0x5C \<or> d = CHR ''/'' then Some d
     else if d = CHR ''b'' then Some (CHR 0x08) else if d = CHR ''f'' then Some (CHR 0x0C)
     else if d = CHR ''n'' then Some (CHR 0x0A) else if d = CHR ''r'' then Some (CHR 0x0D)
     else if d = CHR ''t'' then Some (CHR 0x09) else None)"

text \<open>The text up to the closing quote, and what follows it.\<close>

fun scan_string :: "string \<Rightarrow> string \<Rightarrow> (string \<times> string) result" where
  "scan_string acc [] = bad_json ''Unterminated string starting at''"
| "scan_string acc (c # cs) =
     (if c = CHR 0x22 then Inr (acc, cs)
      else if c = CHR 0x5C then
        (case cs of [] \<Rightarrow> bad_json ''Unterminated string starting at''
         | d # ds \<Rightarrow>
           if d = CHR ''u'' then
             (case ds of h1 # h2 # h3 # h4 # r \<Rightarrow>
                (case hex4 h1 h2 h3 h4 of None \<Rightarrow> bad_json (''Invalid '' @ [CHR 0x5C] @ ''uXXXX escape'')
                 | Some n \<Rightarrow> if n < 256 then scan_string (acc @ [char_of n]) r
                     else Inl (Unmodelled ''character beyond Latin-1''))
              | _ \<Rightarrow> bad_json (''Invalid '' @ [CHR 0x5C] @ ''uXXXX escape''))
           else (case simple_escape d of None \<Rightarrow> bad_json (''Invalid '' @ [CHR 0x5C] @ ''escape: '')
                 | Some e \<Rightarrow> scan_string (acc @ [e]) ds))
      else if of_char c < (32 :: int) then bad_json ''Invalid control character at''
      else scan_string (acc @ [c]) cs)"

abbreviation digits_of :: "string \<Rightarrow> string" where
  "digits_of \<equiv> takeWhile py_is_digit"

abbreviation after_digits :: "string \<Rightarrow> string" where
  "after_digits \<equiv> dropWhile py_is_digit"

text \<open>\<open>(-?(?:0|[1-9][0-9]*))(\.[0-9]+)?([eE][-+]?[0-9]+)?\<close>: the three parts and the rest.\<close>

definition scan_fraction :: "string \<Rightarrow> string \<times> string" where
  "scan_fraction s = (case s of c # cs \<Rightarrow>
     if c = CHR ''.'' \<and> digits_of cs \<noteq> [] then (c # digits_of cs, after_digits cs) else ([], s) | [] \<Rightarrow> ([], s))"

definition scan_exponent :: "string \<Rightarrow> string \<times> string" where
  "scan_exponent s = (case s of c # cs \<Rightarrow>
     if c = CHR ''e'' \<or> c = CHR ''E'' then
       (let sign = (case cs of d # ds \<Rightarrow> if d = CHR ''-'' \<or> d = CHR ''+'' then [d] else [] | [] \<Rightarrow> []);
            rest = drop (length sign) cs
        in if digits_of rest \<noteq> [] then (c # sign @ digits_of rest, after_digits rest) else ([], s))
     else ([], s) | [] \<Rightarrow> ([], s))"

definition scan_integer :: "string \<Rightarrow> (string \<times> string) option" where
  "scan_integer s = (let sign = (if starts_with ''-'' s then ''-'' else []); body = drop (length sign) s in
     case body of [] \<Rightarrow> None
     | c # cs \<Rightarrow> if c = CHR ''0'' then Some (sign @ [c], cs)
         else if py_is_digit c then Some (sign @ digits_of body, after_digits body) else None)"

definition token_int :: "string \<Rightarrow> int" where
  "token_int t = (if starts_with ''-'' t then - digits_value (tl t) 0 else digits_value t 0)"

text \<open>
  The hooks of \<open>json.loads\<close>: what becomes of the pairs of an object, of one of the constants \<open>NaN\<close>,
  \<open>Infinity\<close> and \<open>-Infinity\<close>, and of the text of a float.
\<close>

record json_hooks =
  jh_object :: "pydict \<Rightarrow> pydict result"
  jh_constant :: "string \<Rightarrow> pyval result"
  jh_float :: "string \<Rightarrow> pyval result"

definition scan_number :: "json_hooks \<Rightarrow> string \<Rightarrow> (pyval \<times> string) result" where
  "scan_number h s = (case scan_integer s of None \<Rightarrow> bad_json ''Expecting value''
     | Some (t, r) \<Rightarrow>
       (let (f, r1) = scan_fraction r; (e, r2) = scan_exponent r1 in
        if f \<noteq> [] \<or> e \<noteq> [] then rbind (jh_float h (t @ f @ e)) (\<lambda>v. Inr (v, r2))
        else if length (remove_prefix ''-'' t) > 4300
          then Inl (ValueError ''Exceeds the limit (4300 digits) for integer string conversion'')
        else Inr (PInt (token_int t), r2)))"

text \<open>
  The hooks of \<open>strict_json_loads\<close>: a constant is rejected, and so is the first repeated key of an
  object; a float is rejected later, whatever its value.
\<close>

definition reject_constant :: "string \<Rightarrow> 'a result" where
  "reject_constant v = Inl (ValueError (''unsupported JSON constant '' @ v))"

fun unique_object :: "pydict \<Rightarrow> pydict \<Rightarrow> pydict result" where
  "unique_object res [] = Inr res"
| "unique_object res ((k, v) # kvs) =
     (if py_has res k then Inl (ValueError (''duplicate JSON object key '' @ repr_str k))
      else unique_object (res @ [(k, v)]) kvs)"

definition strict_hooks :: json_hooks where
  "strict_hooks = \<lparr>jh_object = unique_object [], jh_constant = reject_constant,
     jh_float = (\<lambda>t. Inr (PFloat (FFinite 0 0 t)))\<rparr>"

text \<open>
  A call without hooks: the last value of a key stands at the place of the first. The value of a
  float is not modelled.
\<close>

definition plain_hooks :: json_hooks where
  "plain_hooks = \<lparr>jh_object = (\<lambda>kvs. Inr (fold (\<lambda>(k, v). assoc_set k v) kvs [])),
     jh_constant = (\<lambda>c. Inr (PFloat (if c = ''NaN'' then FNan else FInf (starts_with ''-'' c)))),
     jh_float = (\<lambda>t. Inl (Unmodelled ''float''))\<rparr>"

text \<open>
  One value, the elements of a list after its bracket or a comma, and the pairs of an object. The
  fuel bounds the depth of calls; two per character are enough.
\<close>

fun json_value :: "json_hooks \<Rightarrow> nat \<Rightarrow> string \<Rightarrow> (pyval \<times> string) result"
  and json_elements :: "json_hooks \<Rightarrow> nat \<Rightarrow> pyval list \<Rightarrow> string \<Rightarrow> (pyval list \<times> string) result"
  and json_pairs :: "json_hooks \<Rightarrow> nat \<Rightarrow> pydict \<Rightarrow> string \<Rightarrow> (pydict \<times> string) result" where
  "json_value h 0 s = Inl (Unmodelled ''fuel'')"
| "json_value h (Suc n) s =
     (if starts_with [CHR 0x22] s then rbind (scan_string [] (tl s)) (\<lambda>(t, r). Inr (PStr t, r))
      else if starts_with ''['' s then
        (let r = skip_ws (tl s) in if starts_with '']'' r then Inr (PList [], tl r)
         else rbind (json_elements h n [] r) (\<lambda>(xs, r). Inr (PList xs, r)))
      else if starts_with ''{'' s then
        (let r = skip_ws (tl s) in if starts_with ''}'' r then Inr (PDict [], tl r)
         else rbind (json_pairs h n [] r) (\<lambda>(kvs, r). rbind (jh_object h kvs) (\<lambda>d. Inr (PDict d, r))))
      else if starts_with ''null'' s then Inr (PNone, drop 4 s)
      else if starts_with ''true'' s then Inr (PBool True, drop 4 s)
      else if starts_with ''false'' s then Inr (PBool False, drop 5 s)
      else if starts_with ''NaN'' s then rbind (jh_constant h ''NaN'') (\<lambda>v. Inr (v, drop 3 s))
      else if starts_with ''Infinity'' s then rbind (jh_constant h ''Infinity'') (\<lambda>v. Inr (v, drop 8 s))
      else if starts_with ''-Infinity'' s then rbind (jh_constant h ''-Infinity'') (\<lambda>v. Inr (v, drop 9 s))
      else scan_number h s)"
| "json_elements h 0 acc s = Inl (Unmodelled ''fuel'')"
| "json_elements h (Suc n) acc s =
     rbind (json_value h n s) (\<lambda>(v, r). let r = skip_ws r in
       if starts_with '']'' r then Inr (acc @ [v], tl r)
       else if starts_with '','' r then json_elements h n (acc @ [v]) (skip_ws (tl r))
       else bad_json ''Expecting ',' delimiter'')"
| "json_pairs h 0 acc s = Inl (Unmodelled ''fuel'')"
| "json_pairs h (Suc n) acc s =
     (if \<not> starts_with [CHR 0x22] s then bad_json ''Expecting property name enclosed in double quotes''
      else rbind (scan_string [] (tl s)) (\<lambda>(k, r). let r = skip_ws r in
        if \<not> starts_with '':'' r then bad_json ''Expecting ':' delimiter''
        else rbind (json_value h n (skip_ws (tl r))) (\<lambda>(v, r). let r = skip_ws r in
          if starts_with ''}'' r then Inr (acc @ [(k, v)], tl r)
          else if starts_with '','' r then json_pairs h n (acc @ [(k, v)]) (skip_ws (tl r))
          else bad_json ''Expecting ',' delimiter'')))"

definition json_loads :: "json_hooks \<Rightarrow> string \<Rightarrow> pyval result" where
  "json_loads h text = rbind (json_value h (2 * length text + 2) (skip_ws text)) (\<lambda>(v, r).
     if skip_ws r = [] then Inr v else bad_json ''Extra data'')"

text \<open>\<open>try: ... except json.JSONDecodeError as exc: ...\<close>\<close>

definition catch_json :: "'a result \<Rightarrow> (string \<Rightarrow> 'a result) \<Rightarrow> 'a result" where
  "catch_json r handler = (case r of Inl (JSONDecodeError msg) \<Rightarrow> handler msg | _ \<Rightarrow> r)"

lemma catch_json_Inr:
  "(catch_json r (\<lambda>msg. Inl (f msg)) = Inr x) = (r = Inr x)"
  by (auto simp: catch_json_def split: sum.splits py_error.splits)

lemma catch_json_fuel:
  "(\<And>msg. f msg \<noteq> Unmodelled ''fuel'') \<Longrightarrow> r \<noteq> Inl (Unmodelled ''fuel'') \<Longrightarrow>
   catch_json r (\<lambda>msg. Inl (f msg)) \<noteq> Inl (Unmodelled ''fuel'')"
  by (auto simp: catch_json_def split: sum.splits py_error.splits)

definition strict_json_loads :: "string \<Rightarrow> pyval result" where
  "strict_json_loads raw = rbind (decode_utf8 raw) (\<lambda>text.
     rbind (catch_json (json_loads strict_hooks text)
              (\<lambda>msg. Inl (ValueError (''request body is not valid JSON: '' @ msg)))) (\<lambda>value.
     case canonicalization_errors value ''<root>'' of [] \<Rightarrow> Inr value | e # es \<Rightarrow> Inl (ValueError e)))"

section \<open>Termination of the scan\<close>

lemma scan_string_shorter: "scan_string acc s = Inr (t, r) \<Longrightarrow> length r < length s"
proof (induction s arbitrary: acc rule: length_induct)
  case (1 s)
  have IH: "scan_string acc' ys = Inr (t, r) \<Longrightarrow> length ys < length s \<Longrightarrow> length r < length s" for acc' ys
    using 1(1) by (meson less_trans)
  show ?case
  proof (cases s)
    case (Cons c cs)
    then show ?thesis using 1(2) IH
      by (auto simp: split: if_splits list.splits option.splits)
  qed (use 1(2) in simp)
qed

lemma scan_fraction_le: "length (snd (scan_fraction s)) \<le> length s"
  by (auto simp: scan_fraction_def length_dropWhile_le le_SucI split: list.splits)

lemma scan_exponent_le: "length (snd (scan_exponent s)) \<le> length s"
proof (cases s)
  case (Cons c cs)
  have "length (after_digits (drop k cs)) \<le> Suc (length cs)" for k
    using length_dropWhile_le [of py_is_digit "drop k cs"] by simp
  then show ?thesis using Cons by (auto simp: scan_exponent_def Let_def)
qed (simp add: scan_exponent_def)

lemma dropWhile_shorter: "s \<noteq> [] \<Longrightarrow> P (hd s) \<Longrightarrow> length (dropWhile P s) < length s"
  by (cases s) (auto simp: less_Suc_eq_le length_dropWhile_le)

lemma scan_integer_shorter: "scan_integer s = Some (t, r) \<Longrightarrow> length r < length s"
proof -
  assume run: "scan_integer s = Some (t, r)"
  let ?k = "length (if starts_with ''-'' s then ''-'' else [])"
  obtain c cs where body: "drop ?k s = c # cs" using run by (cases "drop ?k s") (auto simp: scan_integer_def Let_def)
  have r: "r = cs \<or> r = after_digits (c # cs) \<and> py_is_digit c"
    using run unfolding scan_integer_def Let_def body by (auto split: if_splits)
  have "length (c # cs) \<le> length s" unfolding body [symmetric] by simp
  moreover have "length (after_digits cs) \<le> length cs" by (rule length_dropWhile_le)
  ultimately show "length r < length s" using r by auto
qed

lemma scan_number_shorter: "scan_number h s = Inr (v, r) \<Longrightarrow> length r < length s"
proof -
  assume run: "scan_number h s = Inr (v, r)"
  then obtain t r0 where i: "scan_integer s = Some (t, r0)"
    by (cases "scan_integer s") (auto simp: scan_number_def)
  have "r = snd (scan_exponent (snd (scan_fraction r0)))"
    using run by (auto simp: scan_number_def i Let_def split_beta split: if_splits)
  then show ?thesis
    using scan_integer_shorter [OF i] scan_fraction_le [of r0] scan_exponent_le [of "snd (scan_fraction r0)"] by simp
qed

lemma skip_ws_le: "length (skip_ws s) \<le> length s"
  by (rule length_dropWhile_le)

text \<open>What follows a delimiter is shorter.\<close>

lemma after_token: "starts_with [c] (skip_ws s) \<Longrightarrow> length (skip_ws (tl (skip_ws s))) < length s"
  and after_token_tl: "starts_with [c] (skip_ws s) \<Longrightarrow> length (tl (skip_ws s)) < length s"
  using skip_ws_le [of s] skip_ws_le [of "tl (skip_ws s)"] by (auto simp: starts_with_iff)

lemma json_shorter:
  "json_value h n s = Inr (v, r) \<Longrightarrow> length r < length s"
  "json_elements h n acc s = Inr (xs, r) \<Longrightarrow> length r < length s"
  "json_pairs h n ps s = Inr (kvs, r) \<Longrightarrow> length r < length s"
proof (induction n arbitrary: s v r acc xs ps kvs)
  case (Suc n)
  {
    case 1
    then show ?case
      using Suc(2) [of "[]" "skip_ws (tl s)"] Suc(3) [of "[]" "skip_ws (tl s)"]
        scan_string_shorter [of "[]" "tl s"] skip_ws_le [of "tl s"] scan_number_shorter [of h s v r]
      by (auto simp: starts_with_iff Let_def split: if_splits)
  next
    case 2
    then obtain v' r' where v: "json_value h n s = Inr (v', r')" by auto
    have "length r' < length s" using Suc(1) v by blast
    then show ?case using 2 v Suc(2) [of "acc @ [v']" "skip_ws (tl (skip_ws r'))"] after_token_tl [of _ r'] after_token [of _ r']
      by (fastforce simp: Let_def split: if_splits)
  next
    case 3
    then obtain k r1 v1 r2 where k: "scan_string [] (tl s) = Inr (k, r1)" and q: "starts_with [CHR 0x22] s"
      and colon: "starts_with '':'' (skip_ws r1)" and v: "json_value h n (skip_ws (tl (skip_ws r1))) = Inr (v1, r2)"
      and rest: "(let r = skip_ws r2 in
          if starts_with ''}'' r then Inr (ps @ [(k, v1)], tl r)
          else if starts_with '','' r then json_pairs h n (ps @ [(k, v1)]) (skip_ws (tl r))
          else bad_json ''Expecting ',' delimiter'') = Inr (kvs, r)"
      by (auto simp: Let_def split: if_splits)
    have "length r2 < length s"
      using Suc(1) [OF v] after_token [OF colon] scan_string_shorter [OF k] by simp
    then show ?case
      using rest Suc(3) [of "ps @ [(k, v1)]" "skip_ws (tl (skip_ws r2))"] after_token_tl [of _ r2] after_token [of _ r2]
      by (fastforce simp: Let_def split: if_splits)
  }
qed simp_all

text \<open>Two units of fuel per character are enough: the fuel never runs out.\<close>

abbreviation out_of_fuel :: "'a result" where
  "out_of_fuel \<equiv> Inl (Unmodelled ''fuel'')"

lemma scan_string_error: "scan_string acc s = Inl e \<Longrightarrow> e \<noteq> Unmodelled ''fuel''"
proof (induction s arbitrary: acc rule: length_induct)
  case (1 s)
  have IH: "scan_string acc' ys = Inl e \<Longrightarrow> length ys < length s \<Longrightarrow> e \<noteq> Unmodelled ''fuel''" for acc' ys
    using 1(1) by blast
  show ?case
  proof (cases s)
    case (Cons c cs)
    then show ?thesis using 1(2) IH
      by (auto simp: split: if_splits list.splits option.splits)
  qed (use 1(2) in auto)
qed

lemma scan_string_fuel: "scan_string acc s \<noteq> out_of_fuel"
  using scan_string_error by blast

section \<open>What is accepted\<close>

text \<open>Every dict of the value has distinct keys.\<close>

fun distinct_keys :: "pyval \<Rightarrow> bool" and distinct_keys_list :: "pyval list \<Rightarrow> bool"
  and distinct_keys_items :: "pydict \<Rightarrow> bool" where
  "distinct_keys (PList xs) = distinct_keys_list xs"
| "distinct_keys (PDict kvs) = (distinct (map fst kvs) \<and> distinct_keys_items kvs)"
| "distinct_keys v = True"
| "distinct_keys_list [] = True"
| "distinct_keys_list (x # xs) = (distinct_keys x \<and> distinct_keys_list xs)"
| "distinct_keys_items [] = True"
| "distinct_keys_items ((k, v) # kvs) = (distinct_keys v \<and> distinct_keys_items kvs)"

lemma distinct_keys_list_iff: "distinct_keys_list xs = list_all distinct_keys xs"
  by (induction xs) auto

lemma distinct_keys_items_iff: "distinct_keys_items kvs = list_all (\<lambda>kv. distinct_keys (snd kv)) kvs"
  by (induction kvs) auto

section \<open>Hooks that are well behaved\<close>

text \<open>
  What the scanner needs of its hooks: they do not stand for the fuel, and they keep distinct keys.
\<close>

locale json_decoder =
  fixes h :: json_hooks
  assumes object_fuel: "jh_object h kvs \<noteq> out_of_fuel"
    and constant_fuel: "jh_constant h c \<noteq> out_of_fuel"
    and float_fuel: "jh_float h t \<noteq> out_of_fuel"
    and object_keys: "jh_object h kvs = Inr d \<Longrightarrow> distinct_keys_items kvs \<Longrightarrow> distinct_keys (PDict d)"
    and constant_keys: "jh_constant h c = Inr v \<Longrightarrow> distinct_keys v"
    and float_keys: "jh_float h t = Inr v \<Longrightarrow> distinct_keys v"
begin

lemma scan_number_fuel: "scan_number h s \<noteq> out_of_fuel"
  by (auto simp: scan_number_def rbind_eq_Inl float_fuel split: option.splits prod.splits if_splits)

lemma json_fuel_enough:
  "2 * length s + 1 \<le> n \<Longrightarrow> json_value h n s \<noteq> out_of_fuel"
  "2 * length s + 2 \<le> n \<Longrightarrow> json_elements h n acc s \<noteq> out_of_fuel"
  "2 * length s + 2 \<le> n \<Longrightarrow> json_pairs h n ps s \<noteq> out_of_fuel"
proof (induction n arbitrary: s acc ps)
  case (Suc n)
  {
    case 1
    have "s \<noteq> [] \<Longrightarrow> 2 * length (skip_ws (tl s)) + 2 \<le> n"
      using 1 skip_ws_le [of "tl s"] by (cases s) auto
    then have "s \<noteq> [] \<Longrightarrow> json_elements h n [] (skip_ws (tl s)) \<noteq> out_of_fuel"
      "s \<noteq> [] \<Longrightarrow> json_pairs h n [] (skip_ws (tl s)) \<noteq> out_of_fuel"
      using Suc(2,3) by blast+
    then show ?case
      by (auto simp: rbind_eq_Inl scan_string_fuel scan_number_fuel object_fuel constant_fuel Let_def starts_with_iff
          split: prod.splits)
  next
    case 2
    have "json_value h n s \<noteq> out_of_fuel" using Suc(1) 2 by simp
    moreover have "json_elements h n acc' (skip_ws (tl (skip_ws r))) \<noteq> out_of_fuel"
      if "json_value h n s = Inr (v, r)" "starts_with '','' (skip_ws r)" for acc' v r
      using Suc(2) [of "skip_ws (tl (skip_ws r))" acc'] json_shorter(1) [OF that(1)] after_token [OF that(2)] 2 by simp
    ultimately show ?case
      by (auto simp: rbind_eq_Inl Let_def split: if_splits prod.splits)
  next
    case 3
    have "json_value h n (skip_ws (tl (skip_ws r))) \<noteq> out_of_fuel"
      if "scan_string [] (tl s) = Inr (k, r)" "starts_with '':'' (skip_ws r)" for k r
      using Suc(1) [of "skip_ws (tl (skip_ws r))"] scan_string_shorter [OF that(1)] after_token [OF that(2)] 3 by simp
    moreover have "json_pairs h n ps' (skip_ws (tl (skip_ws r'))) \<noteq> out_of_fuel"
      if "scan_string [] (tl s) = Inr (k, r)" "starts_with '':'' (skip_ws r)"
        "json_value h n (skip_ws (tl (skip_ws r))) = Inr (v, r')" "starts_with '','' (skip_ws r')" for ps' k r v r'
      using Suc(3) [of "skip_ws (tl (skip_ws r'))" ps'] scan_string_shorter [OF that(1)] after_token [OF that(2)]
        json_shorter(1) [OF that(3)] after_token [OF that(4)] 3 by simp
    ultimately show ?case
      by (auto simp: rbind_eq_Inl scan_string_fuel Let_def split: if_splits prod.splits)
  }
qed simp_all

lemma json_loads_Inr: "json_loads h t = Inr v \<Longrightarrow> \<exists>n s r. json_value h n s = Inr (v, r)"
proof -
  assume run: "json_loads h t = Inr v"
  define n where "n = 2 * length t + 2"
  show ?thesis using run unfolding json_loads_def n_def [symmetric]
    by (auto split: if_splits)
qed

lemma json_loads_fuel: "json_loads h t \<noteq> out_of_fuel"
proof -
  define n where "n = 2 * length t + 2"
  have "json_value h n (skip_ws t) \<noteq> out_of_fuel"
    using json_fuel_enough(1) [of "skip_ws t" n] skip_ws_le [of t] by (simp add: n_def)
  then show ?thesis unfolding json_loads_def n_def [symmetric]
    by (auto simp: rbind_eq_Inl split: prod.splits if_splits)
qed

lemma scan_number_keys: "scan_number h s = Inr (v, r) \<Longrightarrow> distinct_keys v"
  using float_keys by (auto simp: scan_number_def split: option.splits prod.splits if_splits)

lemma json_distinct_keys:
  "json_value h n s = Inr (v, r) \<Longrightarrow> distinct_keys v"
  "json_elements h n acc s = Inr (xs, r) \<Longrightarrow> distinct_keys_list acc \<Longrightarrow> distinct_keys_list xs"
  "json_pairs h n ps s = Inr (kvs, r) \<Longrightarrow> distinct_keys_items ps \<Longrightarrow> distinct_keys_items kvs"
proof (induction n arbitrary: s v r acc xs ps kvs)
  case (Suc n)
  {
    case 1
    then show ?case
      using Suc(2) [of "[]" "skip_ws (tl s)"] Suc(3) [of "[]" "skip_ws (tl s)"] scan_number_keys [of s v r] object_keys constant_keys
      by (fastforce simp: Let_def split: if_splits)
  next
    case 2
    then obtain v' r' where v: "json_value h n s = Inr (v', r')" by auto
    then have "distinct_keys v'" using Suc(1) by blast
    then show ?case using 2 v Suc(2) [of "acc @ [v']" "skip_ws (tl (skip_ws r'))"]
      by (fastforce simp: Let_def distinct_keys_list_iff split: if_splits)
  next
    case 3
    from 3(1) obtain k r1 v1 r2 where "scan_string [] (tl s) = Inr (k, r1)" and v: "json_value h n (skip_ws (tl (skip_ws r1))) = Inr (v1, r2)"
      and rest: "(let r = skip_ws r2 in
          if starts_with ''}'' r then Inr (ps @ [(k, v1)], tl r)
          else if starts_with '','' r then json_pairs h n (ps @ [(k, v1)]) (skip_ws (tl r))
          else bad_json ''Expecting ',' delimiter'') = Inr (kvs, r)"
      by (auto simp: Let_def split: if_splits)
    have "distinct_keys v1" using Suc(1) [OF v] .
    then show ?case
      using rest 3(2) Suc(3) [of "ps @ [(k, v1)]" "skip_ws (tl (skip_ws r2))"]
      by (fastforce simp: Let_def distinct_keys_items_iff split: if_splits)
  }
qed simp_all

lemma json_loads_keys: "json_loads h t = Inr v \<Longrightarrow> distinct_keys v"
  using json_loads_Inr json_distinct_keys(1) by blast

end

lemma unique_object_iff:
  "distinct (map fst res) \<Longrightarrow>
   (unique_object res kvs = Inr d) = (d = res @ kvs \<and> distinct (map fst (res @ kvs)))"
proof (induction res kvs rule: unique_object.induct)
  case (2 res k v kvs)
  have "py_has res k = (k \<in> fst ` set res)" by (auto simp: py_has_def map_of_eq_None_iff)
  then show ?case using 2 by auto
qed auto

interpretation strict: json_decoder strict_hooks
proof
  show "jh_object strict_hooks kvs \<noteq> out_of_fuel" for kvs
  proof -
    have "unique_object res kvs \<noteq> out_of_fuel" for res
      by (induction res kvs rule: unique_object.induct) auto
    then show ?thesis by (simp add: strict_hooks_def)
  qed
qed (auto simp: strict_hooks_def reject_constant_def unique_object_iff)

lemma assoc_set_keys_items: "distinct_keys v \<Longrightarrow> distinct_keys_items d \<Longrightarrow> distinct_keys_items (assoc_set k v d)"
  by (induction k v d rule: assoc_set.induct) auto

lemma dict_of_pairs_keys:
  "distinct_keys_items kvs \<Longrightarrow> distinct (map fst d) \<Longrightarrow> distinct_keys_items d \<Longrightarrow>
   distinct_keys (PDict (fold (\<lambda>(k, v). assoc_set k v) kvs d))"
proof (induction kvs arbitrary: d)
  case (Cons kv kvs)
  then show ?case by (cases kv) (simp add: assoc_set_keys_items distinct_assoc_set)
qed simp

interpretation plain: json_decoder plain_hooks
  using dict_of_pairs_keys [of _ "[]"] by unfold_locales (auto simp: plain_hooks_def simp del: distinct_keys.simps(2))

text \<open>
  C5. What \<open>strict_json_loads\<close> accepts has the contract type: no float, every int in the safe range,
  and no object with a repeated key, at any depth, so it can always be serialised canonically. And
  the scan itself never gives up: any other text is refused with an exception of the code.
\<close>

theorem strict_json_type:
  "(strict_json_loads raw = Inr v \<longrightarrow> canonical_value v \<and> distinct_keys v \<and> (\<exists>b. canonical_json_bytes v = Inr b)) \<and>
   strict_json_loads raw \<noteq> Inl (Unmodelled ''fuel'')"
proof -
  have "\<exists>t. json_loads strict_hooks t = Inr v \<and> canonicalization_errors v ''<root>'' = []" if "strict_json_loads raw = Inr v"
  proof -
    from that obtain t x where t: "json_loads strict_hooks t = Inr x"
      and ok: "(case canonicalization_errors x ''<root>'' of [] \<Rightarrow> Inr x | e # es \<Rightarrow> Inl (ValueError e)) = Inr v"
      unfolding strict_json_loads_def rbind_eq_Inr catch_json_Inr by blast
    show ?thesis using t ok by (cases "canonicalization_errors x ''<root>''") auto
  qed
  then have "strict_json_loads raw = Inr v \<longrightarrow> canonical_value v \<and> distinct_keys v"
    using canonicalization_errors_iff(1) strict.json_loads_keys by blast
  moreover have "strict_json_loads raw \<noteq> Inl (Unmodelled ''fuel'')"
    by (auto simp: strict_json_loads_def decode_utf8_def rbind_eq_Inl catch_json_fuel strict.json_loads_fuel
        split: list.splits option.splits if_splits)
  ultimately show ?thesis by (auto simp: canonical_bytes_Inr_iff)
qed

lemma strict_json_type_witness:
  "\<exists>v. strict_json_loads ''{ \<newline>}'' = Inr v \<and> canonical_value v"
proof -
  have "strict_json_loads ''{ \<newline>}'' = Inr (PDict [])" by code_simp
  with strict_json_type [of "''{ \<newline>}''" "PDict []"] show ?thesis by blast
qed

end
