(* ===== verification/Json_Roundtrip.thy ===== *)
theory Json_Roundtrip
  imports Strict_Json
begin

text \<open>
  \<open>strict_json_loads\<close> reads back what \<open>canonical_json_bytes\<close> writes. The canonical text of a
  value is written down once more as characters, UTF-8 decoding undoes the encoding, the string and
  number scanners undo the escapes and numerals, and \<open>reads\<close> says that the scanner returns a value
  from its own text whatever delimiter follows.
\<close>

section \<open>Reading what was written\<close>

text \<open>The canonical text of a value before it is encoded; \<open>flat\<close> is its UTF-8 encoding.\<close>

definition esc_text :: "char \<Rightarrow> string" where
  "esc_text c = (case esc_common c of Some t \<Rightarrow> t | None \<Rightarrow> [c])"

definition quoted :: "string \<Rightarrow> string" where
  "quoted s = CHR 0x22 # concat (map esc_text s) @ [CHR 0x22]"

fun json_text :: "pyval \<Rightarrow> string" and text_tail :: "pyval list \<Rightarrow> string"
  and text_items :: "pydict \<Rightarrow> string" where
  "json_text PNone = ''null''"
| "json_text (PBool b) = (if b then ''true'' else ''false'')"
| "json_text (PInt i) = int_to_str i"
| "json_text (PStr s) = quoted s"
| "json_text (PList []) = ''[]''"
| "json_text (PList (x # xs)) = ''['' @ json_text x @ text_tail xs"
| "json_text (PDict []) = ''{}''"
| "json_text (PDict ((k, v) # kvs)) = ''{'' @ quoted k @ '':'' @ json_text v @ text_items kvs"
| "json_text (PFloat x) = []"
| "text_tail [] = '']''"
| "text_tail (x # xs) = '','' @ json_text x @ text_tail xs"
| "text_items [] = ''}''"
| "text_items ((k, v) # kvs) = '','' @ quoted k @ '':'' @ json_text v @ text_items kvs"

lemma esc_common_ascii: "esc_common c = Some t \<Longrightarrow> utf8 t = t"
proof -
  have "list_all (\<lambda>c. case esc_common c of None \<Rightarrow> True | Some t \<Rightarrow> utf8 t = t) Enum.enum" by code_simp
  then show "esc_common c = Some t \<Longrightarrow> utf8 t = t" by (auto simp: list_all_iff enum_UNIV split: option.splits)
qed

lemma utf8_append [simp]: "utf8 (s @ t) = utf8 s @ utf8 t"
  by (simp add: utf8_def)

lemma utf8_raw_char: "utf8 (esc_text c) = raw_char c"
  using esc_common_ascii by (auto simp: esc_text_def raw_char_def utf8_def split: option.splits)

lemma utf8_concat: "utf8 (concat xs) = concat (map utf8 xs)"
  by (induction xs) (auto simp: utf8_def)

lemma utf8_quoted: "utf8 (quoted s) = raw_str s"
proof -
  have q: "utf8 [CHR 0x22] = [CHR 0x22]" by code_simp
  have "utf8 (quoted s) = utf8 [CHR 0x22] @ utf8 (concat (map esc_text s)) @ utf8 [CHR 0x22]"
    by (simp only: quoted_def flip: utf8_append) simp
  then show ?thesis by (simp add: q raw_str_def utf8_concat utf8_raw_char comp_def)
qed

lemma utf8_plain: "list_all (\<lambda>c. of_char c < (128 :: int)) s \<Longrightarrow> utf8 s = s"
  by (rule utf8_ascii) (simp add: list_all_iff)

lemma utf8_int: "utf8 (int_to_str i) = int_to_str i"
proof (rule utf8_ascii)
  fix c assume "c \<in> set (int_to_str i)"
  then have "c \<in> set ''-0123456789''" using int_to_str_numeral by (simp add: numeral_char_def)
  then show "of_char c < (128 :: int)" by auto
qed

lemma utf8_consts:
  "utf8 ''null'' = ''null''" "utf8 ''true'' = ''true''" "utf8 ''false'' = ''false''" "utf8 ''[]'' = ''[]''" "utf8 ''{}'' = ''{}''"
  "utf8 '']'' = '']''" "utf8 ''}'' = ''}''" "utf8 (CHR ''['' # t) = CHR ''['' # utf8 t" "utf8 (CHR ''{'' # t) = CHR ''{'' # utf8 t"
  "utf8 (CHR '','' # t) = CHR '','' # utf8 t" "utf8 (CHR '':'' # t) = CHR '':'' # utf8 t"
  by (simp_all add: utf8_def utf8_char_def)

lemma flat_utf8:
  "flat v = utf8 (json_text v)" "flat_tail xs = utf8 (text_tail xs)" "flat_items kvs = utf8 (text_items kvs)"
  by (induction v and xs and kvs rule: flat_flat_tail_flat_items.induct)
    (simp_all add: utf8_int utf8_quoted utf8_consts utf8_def [of "[]"])

lemma of_char_256: "of_char c < (256 :: int)"
proof -
  have "list_all (\<lambda>c. of_char c < (256 :: int)) Enum.enum" by code_simp
  then show ?thesis by (simp add: list_all_iff enum_UNIV)
qed

lemma utf8_points_char: "utf8_points (utf8_char c @ r) = map_option ((#) (of_char c)) (utf8_points r)"
proof (cases "of_char c < (128 :: int)")
  case True
  then show ?thesis by (simp add: utf8_char_def)
next
  case False
  define n where "n = (of_char c :: int)"
  have n: "128 \<le> n" "n < 256" using False of_char_256 by (simp_all add: n_def)
  then have "0 \<le> n div 64" "n div 64 < 4" "2 \<le> n div 64" "n mod 64 < 64" "0 \<le> n mod 64" by auto
  then show ?thesis using n
    by (simp add: utf8_char_def Let_def n_def [symmetric] utf8_cont_def utf8_low_def)
qed

lemma utf8_points_utf8: "utf8_points (utf8 t) = Some (map of_char t)"
  by (induction t) (simp_all add: utf8_def utf8_points_char)

lemma decode_utf8_utf8: "decode_utf8 (utf8 t) = Inr t"
  by (simp add: decode_utf8_def utf8_points_utf8 list_all_iff comp_def of_char_256)

lemma no_surrogate [simp]: "\<not> has_surrogate s"
proof -
  have "(of_char c :: int) < 0xD800" for c using of_char_256 [of c] by simp
  then show ?thesis by (simp add: has_surrogate_def list_ex_iff not_le)
qed

lemma canonical_digest_total: "canonical_value v \<Longrightarrow> \<exists>d. canonical_digest v = Inr d"
  by (simp add: canonical_digest_def canonical_bytes_flat)

text \<open>The scanner reads back each character, and each numeral, that the serialiser writes.\<close>

definition esc_shape :: "char \<Rightarrow> string \<Rightarrow> bool" where
  "esc_shape c t = (
     t = [c] \<and> c \<noteq> CHR 0x22 \<and> c \<noteq> CHR 0x5C \<and> \<not> of_char c < (32 :: int) \<or>
     t = [CHR 0x5C, t ! 1] \<and> t ! 1 \<noteq> CHR ''u'' \<and> simple_escape (t ! 1) = Some c \<or>
     t = [CHR 0x5C, CHR ''u'', t ! 2, t ! 3, t ! 4, t ! 5] \<and>
       hex4 (t ! 2) (t ! 3) (t ! 4) (t ! 5) = Some (of_char c))"

lemma esc_text_shape: "esc_shape c (esc_text c)"
proof -
  have "list_all (\<lambda>c. esc_shape c (esc_text c)) Enum.enum" by code_simp
  then show ?thesis by (simp add: list_all_iff enum_UNIV)
qed

lemma scan_char: "scan_string acc (esc_text c @ r) = scan_string (acc @ [c]) r"
proof -
  define t where "t = esc_text c"
  consider "t = [c]" "c \<noteq> CHR 0x22" "c \<noteq> CHR 0x5C" "\<not> of_char c < (32 :: int)"
    | d where "t = [CHR 0x5C, d]" "d \<noteq> CHR ''u''" "simple_escape d = Some c"
    | h1 h2 h3 h4 where "t = [CHR 0x5C, CHR ''u'', h1, h2, h3, h4]" "hex4 h1 h2 h3 h4 = Some (of_char c)"
    using esc_text_shape [of c] unfolding esc_shape_def t_def [symmetric] by blast
  then have "scan_string acc (t @ r) = scan_string (acc @ [c]) r"
    by cases (simp_all add: of_char_256)
  then show ?thesis by (simp add: t_def)
qed

lemma scan_chars: "scan_string acc (concat (map esc_text s) @ CHR 0x22 # r) = Inr (acc @ s, r)"
  by (induction s arbitrary: acc) (simp_all add: scan_char)

lemma nat_to_str_head: "0 < n \<Longrightarrow> hd (nat_to_str n) \<noteq> CHR ''0''"
proof (induction n rule: nat_to_str.induct)
  case (1 n)
  have "list_all (\<lambda>d. char_of (48 + d :: nat) \<noteq> CHR ''0'') [1..<10]" by code_simp
  then have digit: "d < 10 \<Longrightarrow> 0 < d \<Longrightarrow> char_of (48 + d :: nat) \<noteq> CHR ''0''" for d
    by (simp add: list_all_iff)
  show ?case
  proof (cases "n < 10")
    case True
    then show ?thesis using digit 1(2) by (subst nat_to_str.simps) simp
  next
    case False
    then show ?thesis using 1 by (subst nat_to_str.simps) simp
  qed
qed

lemma nat_to_str_length: "n < 10 ^ k \<Longrightarrow> 0 < k \<Longrightarrow> length (nat_to_str n) \<le> k"
proof (induction k arbitrary: n)
  case (Suc k)
  show ?case
  proof (cases "n < 10")
    case True
    then show ?thesis by (subst nat_to_str.simps) simp
  next
    case False
    then have "0 < k" using Suc.prems by (cases k) auto
    moreover have "n div 10 < 10 ^ k" using Suc.prems(1) by (simp add: less_mult_imp_div_less mult.commute)
    ultimately show ?thesis using Suc.IH False by (subst nat_to_str.simps) simp
  qed
qed simp

lemma digit_char: "c \<in> set ''0123456789'' \<Longrightarrow> py_is_digit c \<and> int (of_char c) - 48 = int (of_char c - 48)"
  by (auto simp: py_is_digit_def)

lemma digits_value_numeral:
  "set s \<subseteq> set ''0123456789'' \<Longrightarrow> digits_value s (int a) = int (numeral_value s a)"
proof (induction s arbitrary: a)
  case (Cons c s)
  from Cons.prems have "c \<in> set ''0123456789''" by (meson list.set_intros(1) subsetD)
  from digit_char [OF this] have c: "py_is_digit c" "int (of_char c) - 48 = int (of_char c - 48)" by blast+
  have "digits_value (c # s) (int a) = digits_value s (int (10 * a + (of_char c - 48)))"
    by (simp only: digits_value.simps c if_True of_nat_add of_nat_mult of_nat_numeral)
  also have "set s \<subseteq> set ''0123456789''" using Cons.prems by (meson list.set_intros(2) subset_iff)
  note Cons.IH [OF this, of "10 * a + (of_char c - 48)"]
  finally show ?case by simp
qed simp

lemma digits_value_nat: "digits_value (nat_to_str n) 0 = int n"
  using digits_value_numeral [of "nat_to_str n" 0] nat_to_str_chars by (simp add: numeral_value_nat_to_str)

lemma nat_to_str_is_digit: "c \<in> set (nat_to_str n) \<Longrightarrow> py_is_digit c"
  using nat_to_str_chars digit_char by blast

lemma delimited_no_digit: "delimited r \<Longrightarrow> r = [] \<or> \<not> py_is_digit (hd r) \<and> hd r \<notin> set ''.eE''"
  by (auto simp: delimited_def py_is_digit_def)

lemma scan_integer_nat:
  assumes "delimited r" and sign: "s = [] \<or> s = ''-''"
  shows "scan_integer (s @ nat_to_str n @ r) = Some (s @ nat_to_str n, r)"
proof -
  obtain c cs where ccs: "nat_to_str n = c # cs" by (cases "nat_to_str n") simp_all
  have c: "py_is_digit c" and cs: "\<forall>d \<in> set cs. py_is_digit d" using nat_to_str_is_digit [of _ n] ccs by auto
  then have minus: "c \<noteq> CHR ''-''" by (auto simp: py_is_digit_def)
  have "digits_of (cs @ r) = cs" "after_digits (cs @ r) = r"
    using cs delimited_no_digit [OF assms(1)] by (cases r; simp add: takeWhile_append2 dropWhile_append2)+
  moreover have "cs = []" if "c = CHR ''0''"
  proof -
    have "n = 0" using nat_to_str_head [of n] ccs that by (cases n) auto
    then show ?thesis using ccs by (simp add: nat_to_str.simps)
  qed
  moreover have "\<not> starts_with ''-'' (c # cs @ r)" "starts_with ''-'' (CHR ''-'' # c # cs @ r)"
    using minus by (auto simp: starts_with_iff)
  ultimately show ?thesis using c sign by (auto simp: scan_integer_def ccs Let_def)
qed

lemma scan_number_int:
  assumes "delimited r" and "\<bar>i\<bar> \<le> MAX_SAFE_INTEGER"
  shows "scan_number h (int_to_str i @ r) = Inr (PInt i, r)"
proof -
  have none: "scan_fraction r = ([], r)" "scan_exponent r = ([], r)"
    using delimited_no_digit [OF assms(1)] by (cases r; simp add: scan_fraction_def scan_exponent_def)+
  define n where "n = nat \<bar>i\<bar>"
  define sg where "sg = (if i < 0 then ''-'' else [])"
  have i: "int_to_str i = sg @ nat_to_str n" by (simp add: int_to_str_def n_def sg_def)
  have "n < 10 ^ 16" using assms(2) by (simp add: n_def MAX_SAFE_INTEGER_def)
  then have len: "length (nat_to_str n) \<le> 16" by (rule nat_to_str_length) simp
  have "\<not> starts_with ''-'' (nat_to_str n)"
    using nat_to_str_is_digit [of "hd (nat_to_str n)" n] by (cases "nat_to_str n") (auto simp: starts_with_iff py_is_digit_def)
  then have "token_int (sg @ nat_to_str n) = i" and "length (remove_prefix ''-'' (sg @ nat_to_str n)) \<le> 16"
    using len by (auto simp: token_int_def sg_def n_def digits_value_nat remove_prefix_def starts_with_iff)
  then show ?thesis using scan_integer_nat [OF assms(1), of sg n]
    by (simp add: scan_number_def i none sg_def)
qed

lemma json_text_head: "canonical_value v \<Longrightarrow> json_text v \<noteq> [] \<and> \<not> json_space (hd (json_text v)) \<and> hd (json_text v) \<noteq> CHR '']''"
proof (cases v)
  case (PInt i)
  have "numeral_char (hd (int_to_str i))" by (rule int_to_str_numeral [of _ i]) simp
  then show ?thesis using PInt by (auto simp: numeral_char_def json_space_def)
next
  case (PList xs)
  then show ?thesis by (cases xs) (simp_all add: json_space_def)
next
  case (PDict kvs)
  then show ?thesis by (cases kvs) (auto simp: json_space_def)
qed (simp_all add: quoted_def json_space_def)

lemma skip_ws_text: "canonical_value v \<Longrightarrow> skip_ws (json_text v @ r) = json_text v @ r"
  using json_text_head [of v] by (cases "json_text v") simp_all

lemma text_tails_delimited: "delimited (text_tail xs @ r)" "delimited (text_items kvs @ r)"
  by (cases xs; simp add: delimited_def) (cases kvs rule: list.exhaust; auto simp: delimited_def)

lemma skip_ws_delimited: "delimited r \<Longrightarrow> skip_ws r = r"
  by (cases r) (auto simp: delimited_def json_space_def)

lemma int_not_infinity: "\<not> starts_with ''-Infinity'' (int_to_str i @ r)"
proof
  assume "starts_with ''-Infinity'' (int_to_str i @ r)"
  then obtain t where t: "int_to_str i @ r = CHR ''-'' # CHR ''I'' # t" by (auto simp: starts_with_iff)
  have "py_is_digit (hd (nat_to_str n))" for n by (rule nat_to_str_is_digit [of _ n]) simp
  moreover have "\<not> py_is_digit (CHR ''-'')" "\<not> py_is_digit (CHR ''I'')" by code_simp+
  ultimately have digit: "hd (nat_to_str n) \<notin> {CHR ''-'', CHR ''I''}" for n by (metis insertE singletonD)
  show False
  proof (cases "nat_to_str (nat \<bar>i\<bar>)")
    case (Cons c cs)
    then show False using t digit [of "nat \<bar>i\<bar>"] by (simp add: int_to_str_def split: if_splits)
  qed simp
qed

lemma json_value_int:
  assumes "delimited r" and "\<bar>i\<bar> \<le> MAX_SAFE_INTEGER"
  shows "json_value h (Suc n) (int_to_str i @ r) = Inr (PInt i, r)"
proof -
  obtain c cs where c: "int_to_str i @ r = c # cs" by (cases "int_to_str i @ r") simp_all
  have "numeral_char c" using int_to_str_numeral [of c i] c by (cases "int_to_str i") auto
  then have "\<not> starts_with (d # t) (int_to_str i @ r)" if "\<not> numeral_char d" for d t
    using that by (auto simp: starts_with_iff c)
  then show ?thesis using int_not_infinity [of i r] scan_number_int [OF assms] by (simp add: numeral_char_def)
qed

definition reads :: "json_hooks \<Rightarrow> pyval \<Rightarrow> bool" where
  "reads h v = (\<forall>n r. 2 * length (json_text v) + 1 \<le> n \<longrightarrow> delimited r \<longrightarrow> json_value h n (json_text v @ r) = Inr (v, r))"

lemma readsD: "reads h v \<Longrightarrow> 2 * length (json_text v) + 1 \<le> n \<Longrightarrow> delimited r \<Longrightarrow> json_value h n (json_text v @ r) = Inr (v, r)"
  by (simp add: reads_def)

lemma readsI: "(\<And>n r. 2 * length (json_text v) \<le> n \<Longrightarrow> delimited r \<Longrightarrow> json_value h (Suc n) (json_text v @ r) = Inr (v, r)) \<Longrightarrow> reads h v"
  unfolding reads_def by (metis Suc_eq_plus1 Suc_le_D Suc_le_mono)

lemma json_elements_text:
  assumes "list_all (reads h) (x # xs)" and "list_all canonical_value (x # xs)"
    and "2 * length (json_text x @ text_tail xs) + 1 \<le> n"
  shows "json_elements h n acc (json_text x @ text_tail xs @ r) = Inr (acc @ x # xs, r)"
  using assms
proof (induction xs arbitrary: x acc n)
  case Nil
  then obtain m where n: "n = Suc m" by (cases n) simp_all
  with Nil have "json_value h m (json_text x @ text_tail [] @ r) = Inr (x, text_tail [] @ r)"
    by (intro readsD text_tails_delimited) simp_all
  then show ?case using n skip_ws_delimited [OF text_tails_delimited(1), of "[]" r] by (simp add: starts_with_iff)
next
  case (Cons y ys)
  then obtain m where n: "n = Suc m" by (cases n) simp_all
  with Cons.prems have "json_value h m (json_text x @ text_tail (y # ys) @ r) = Inr (x, text_tail (y # ys) @ r)"
    by (intro readsD text_tails_delimited) simp_all
  moreover have "json_elements h m (acc @ [x]) (json_text y @ text_tail ys @ r) = Inr ((acc @ [x]) @ y # ys, r)"
    by (rule Cons.IH) (use Cons.prems n in simp_all)
  moreover have "skip_ws (json_text y @ text_tail ys @ r) = json_text y @ text_tail ys @ r"
    using Cons.prems(2) by (intro skip_ws_text) simp
  ultimately show ?case using n skip_ws_delimited [OF text_tails_delimited(1), of "y # ys" r] by (simp add: starts_with_def)
qed

lemma json_pairs_text:
  assumes "list_all (\<lambda>kv. reads h (snd kv)) ((k, v) # kvs)" and "list_all (\<lambda>kv. canonical_value (snd kv)) ((k, v) # kvs)"
    and "2 * length (quoted k @ '':'' @ json_text v @ text_items kvs) + 1 \<le> n"
  shows "json_pairs h n acc (quoted k @ '':'' @ json_text v @ text_items kvs @ r) = Inr (acc @ (k, v) # kvs, r)"
  using assms
proof (induction kvs arbitrary: k v acc n)
  case Nil
  then obtain m where n: "n = Suc m" by (cases n) simp_all
  have "json_value h m (json_text v @ text_items [] @ r) = Inr (v, text_items [] @ r)"
    using Nil n by (intro readsD text_tails_delimited) simp_all
  moreover have "skip_ws (json_text v @ text_items [] @ r) = json_text v @ text_items [] @ r"
    using Nil.prems(2) by (intro skip_ws_text) simp
  ultimately show ?case using n skip_ws_delimited [OF text_tails_delimited(2), of "[]" r]
    by (simp add: quoted_def scan_chars starts_with_def json_space_def)
next
  case (Cons lw kvs)
  obtain l w where lw: "lw = (l, w)" by (cases lw)
  from Cons.prems obtain m where n: "n = Suc m" by (cases n) simp_all
  have "json_value h m (json_text v @ text_items (lw # kvs) @ r) = Inr (v, text_items (lw # kvs) @ r)"
    using Cons.prems n by (intro readsD text_tails_delimited) simp_all
  moreover have "json_pairs h m (acc @ [(k, v)]) (quoted l @ '':'' @ json_text w @ text_items kvs @ r) =
      Inr ((acc @ [(k, v)]) @ (l, w) # kvs, r)"
    by (rule Cons.IH) (use Cons.prems n lw in simp_all)
  moreover have "skip_ws (json_text v @ text_items (lw # kvs) @ r) = json_text v @ text_items (lw # kvs) @ r"
    using Cons.prems(2) by (intro skip_ws_text) simp
  ultimately show ?case using n skip_ws_delimited [OF text_tails_delimited(2), of "lw # kvs" r]
    by (simp add: quoted_def scan_chars starts_with_def json_space_def lw)
qed

text \<open>Hooks that leave the pairs of an object alone when its keys differ read back every text.\<close>

locale dict_decoder = json_decoder +
  assumes object_dict: "distinct (map fst kvs) \<Longrightarrow> jh_object h kvs = Inr kvs"
begin

lemma reads_text:
  "canonical_value v \<Longrightarrow> distinct_keys v \<Longrightarrow> reads h v"
  "canonical_values xs \<Longrightarrow> distinct_keys_list xs \<Longrightarrow> list_all (reads h) xs"
  "canonical_items kvs \<Longrightarrow> distinct_keys_items kvs \<Longrightarrow> list_all (\<lambda>kv. reads h (snd kv)) kvs"
proof (induction v and xs and kvs rule: canonical_value_canonical_values_canonical_items.induct)
  case (1 s)
  show ?case by (rule readsI) (simp add: quoted_def scan_chars starts_with_def)
next
  case (3 i)
  show ?case by (rule readsI) (use 3 json_value_int in simp)
next
  case (4 xs)
  show ?case
  proof (rule readsI)
    fix n r assume n: "2 * length (json_text (PList xs)) \<le> n"
    show "json_value h (Suc n) (json_text (PList xs) @ r) = Inr (PList xs, r)"
    proof (cases xs)
      case (Cons y ys)
      have "json_elements h n [] (json_text y @ text_tail ys @ r) = Inr ([] @ y # ys, r)"
        using 4 n Cons by (intro json_elements_text) (auto simp: canonical_values_all)
      moreover have "skip_ws (json_text y @ text_tail ys @ r) = json_text y @ text_tail ys @ r"
        using 4 Cons by (intro skip_ws_text) simp
      moreover have "\<not> starts_with '']'' (json_text y @ text_tail ys @ r)"
        using 4 Cons json_text_head [of y] by (cases "json_text y") (auto simp: starts_with_iff)
      ultimately show ?thesis using Cons by (simp add: starts_with_def)
    qed (simp add: starts_with_def json_space_def)
  qed
next
  case (5 kvs)
  show ?case
  proof (rule readsI)
    fix n r assume n: "2 * length (json_text (PDict kvs)) \<le> n"
    show "json_value h (Suc n) (json_text (PDict kvs) @ r) = Inr (PDict kvs, r)"
    proof (cases kvs)
      case (Cons lw mvs)
      obtain l w where lw: "lw = (l, w)" by (cases lw)
      have "json_pairs h n [] (quoted l @ '':'' @ json_text w @ text_items mvs @ r) = Inr ([] @ (l, w) # mvs, r)"
        using 5 n Cons lw by (intro json_pairs_text) (auto simp: canonical_items_all list_all_iff)
      moreover have "jh_object h kvs = Inr kvs" using 5 by (intro object_dict) simp
      ultimately show ?thesis using Cons lw by (simp add: quoted_def starts_with_def json_space_def)
    qed (simp add: starts_with_def json_space_def)
  qed
qed (auto intro!: readsI simp: starts_with_def)

lemma json_loads_text:
  assumes "canonical_value v" and "distinct_keys v"
  shows "json_loads h (json_text v) = Inr v"
proof -
  have "reads h v" using reads_text(1) assms by blast
  define n where "n = 2 * length (json_text v) + 2"
  have "json_value h n (json_text v @ []) = Inr (v, [])"
    by (rule readsD [OF \<open>reads h v\<close>]) (simp_all add: n_def delimited_def)
  then show ?thesis using skip_ws_text [OF assms(1), of "[]"] unfolding json_loads_def n_def [symmetric] by simp
qed

end

interpretation strict: dict_decoder strict_hooks
  by unfold_locales (simp add: strict_hooks_def unique_object_iff)

lemma fold_assoc_set:
  "distinct (map fst (d @ kvs)) \<Longrightarrow> fold (\<lambda>(k, v). assoc_set k v) kvs d = d @ kvs"
proof (induction kvs arbitrary: d)
  case (Cons kv kvs)
  obtain k v where kv: "kv = (k, v)" by (cases kv)
  have new: "k \<notin> fst ` set e \<Longrightarrow> assoc_set k v e = e @ [(k, v)]" for e
    by (induction k v e rule: assoc_set.induct) auto
  have "fold (\<lambda>(k, v). assoc_set k v) kvs (d @ [(k, v)]) = (d @ [(k, v)]) @ kvs"
    by (rule Cons.IH) (use Cons.prems kv in simp)
  then show ?case using Cons.prems kv new [of d] by auto
qed simp

interpretation plain: dict_decoder plain_hooks
  by unfold_locales (use fold_assoc_set [of "[]"] in \<open>simp add: plain_hooks_def\<close>)

lemma distinct_keys_canon:
  "distinct_keys v \<Longrightarrow> distinct_keys (canon v)"
  "distinct_keys_list xs \<Longrightarrow> distinct_keys_list (canon_list xs)"
  "distinct_keys_items kvs \<Longrightarrow> distinct_keys_items (canon_items kvs)"
proof (induction v and xs and kvs rule: canon_canon_list_canon_items.induct)
  case (2 kvs)
  then have "distinct (map fst (canon_items kvs))" by (simp add: canon_items_map comp_def)
  then have "distinct (map fst (sort_key (\<lambda>kv. utf16be (fst kv)) (canon_items kvs)))"
    by (metis distinct_map distinct_sort mset_sort mset_map mset_eq_imp_distinct_iff)
  with 2 show ?case by (simp add: distinct_keys_items_iff list_all_iff)
qed auto

lemma canon_idem:
  "canon (canon v) = canon v" "canon_list (canon_list xs) = canon_list xs" "canon_items (canon_items kvs) = canon_items kvs"
proof (induction v and xs and kvs rule: canon_canon_list_canon_items.induct)
  case (2 kvs)
  have "canon_items (sort_key (\<lambda>kv. utf16be (fst kv)) (canon_items kvs)) = sort_key (\<lambda>kv. utf16be (fst kv)) (canon_items (canon_items kvs))"
    by (simp add: canon_items_map [of "sort_key f xs" for f xs] canon_items_map [of "canon_items kvs"] sort_key_map)
  then show ?case using 2 by (simp add: sort_key_id_if_sorted)
qed auto

text \<open>
  C4. Decoding canonical bytes gives the value back: for a value whose dicts have distinct keys,
  \<open>strict_json_loads\<close> of \<open>canonical_json_bytes\<close> is the value itself, its items in key order, and
  serialising that value again gives the same bytes.
\<close>

theorem canonical_json_roundtrip:
  assumes "canonical_json_bytes v = Inr b" and "distinct_keys v"
  shows "strict_json_loads b = Inr (canon v) \<and> canonical_json_bytes (canon v) = Inr b"
proof -
  let ?v = "canon v"
  have v: "canonical_value ?v" and b: "b = utf8 (json_text ?v)"
    using assms(1) by (simp_all add: canonical_bytes_Inr_iff canonical_value_canon flat_utf8)
  have "json_loads strict_hooks (json_text ?v) = Inr ?v"
    using v distinct_keys_canon(1) [OF assms(2)] by (rule strict.json_loads_text)
  then have "strict_json_loads b = Inr ?v"
    using canonicalization_errors_iff(1) [of ?v] v by (simp add: strict_json_loads_def b decode_utf8_utf8 catch_json_Inr)
  moreover have "canon ?v = ?v" by (rule canon_idem(1))
  ultimately show ?thesis using v b by (simp add: canonical_bytes_Inr_iff flat_utf8)
qed


lemma canonical_json_roundtrip_witness:
  "\<exists>b. canonical_json_bytes (PDict [(''b'', PInt (-12)), (''a'', PList [PNone, PStr ''x\<newline>''])]) = Inr b \<and>
    strict_json_loads b = Inr (PDict [(''a'', PList [PNone, PStr ''x\<newline>'']), (''b'', PInt (-12))])"
proof -
  let ?v = "PDict [(''b'', PInt (-12)), (''a'', PList [PNone, PStr ''x\<newline>''])]"
  let ?w = "PDict [(''a'', PList [PNone, PStr ''x\<newline>'']), (''b'', PInt (-12))]"
  have "canonical_value ?v" "distinct_keys ?v" "canon ?v = ?w" by code_simp+
  moreover have "canonical_json_bytes ?v = Inr (flat (canon ?v))" by (rule canonical_bytes_flat(1)) fact
  ultimately show ?thesis using canonical_json_roundtrip [of ?v "flat (canon ?v)"] by metis
qed

end
