(* ===== verification/Py_Paths.thy ===== *)
theory Py_Paths
  imports Py_Prelude
begin

text \<open>
  \<open>pathlib.PurePosixPath\<close> as CPython 3.12 has it: splitting off the root, dropping empty
  and \<open>.\<close> components, and the text of the result. \<open>..\<close> is kept.
\<close>

record posix_path =
  pp_root :: string
  pp_tail :: "string list"

definition split_root :: "string \<Rightarrow> string \<times> string" where
  "split_root s =
     (if s = [] \<or> hd s \<noteq> CHR ''/'' then ([], s)
      else if tl s = [] \<or> hd (tl s) \<noteq> CHR ''/'' \<or> starts_with ''///'' s then (''/'', tl s)
      else (''//'', drop 2 s))"

definition path_component :: "string \<Rightarrow> bool" where
  "path_component x = (x \<noteq> [] \<and> x \<noteq> ''.'')"

definition posix_path_of :: "string \<Rightarrow> posix_path" where
  "posix_path_of s = (case split_root s of (root, rel) \<Rightarrow>
     \<lparr>pp_root = root, pp_tail = filter path_component (split_on (CHR ''/'') rel)\<rparr>)"

definition path_parts :: "posix_path \<Rightarrow> string list" where
  "path_parts p = (if pp_root p = [] then pp_tail p else pp_root p # pp_tail p)"

definition path_is_absolute :: "posix_path \<Rightarrow> bool" where
  "path_is_absolute p = (pp_root p \<noteq> [])"

definition path_str :: "posix_path \<Rightarrow> string" where
  "path_str p = (let s = pp_root p @ py_join ''/'' (pp_tail p) in if s = [] then ''.'' else s)"

lemma tail_components: "x \<in> set (pp_tail (posix_path_of s)) \<Longrightarrow> path_component x \<and> CHR ''/'' \<notin> set x"
  by (auto simp: posix_path_of_def split: prod.splits dest: split_on_no_sep)

lemma join_components_head:
  assumes "\<forall>x \<in> set xs. path_component x \<and> CHR ''/'' \<notin> set x" and "xs \<noteq> []"
  shows "py_join ''/'' xs \<noteq> [] \<and> hd (py_join ''/'' xs) \<noteq> CHR ''/''"
proof -
  obtain c cs ys where "xs = (c # cs) # ys" "c \<noteq> CHR ''/''"
    using assms by (cases xs; cases "hd xs") (auto simp: path_component_def)
  then show ?thesis by (cases ys) auto
qed

text \<open>Printing a relative path and reading it again gives the path back.\<close>

lemma posix_path_roundtrip:
  assumes "pp_root (posix_path_of s) = []"
  shows "posix_path_of (path_str (posix_path_of s)) = posix_path_of s"
proof (cases "pp_tail (posix_path_of s) = []")
  case True
  have "posix_path_of ''.'' = \<lparr>pp_root = [], pp_tail = []\<rparr>" by code_simp
  then show ?thesis using assms True by (simp add: path_str_def)
next
  case False
  let ?t = "pp_tail (posix_path_of s)"
  have comps: "\<forall>x \<in> set ?t. path_component x \<and> CHR ''/'' \<notin> set x" using tail_components by blast
  note join = join_components_head [OF comps False]
  have "split_on (CHR ''/'') (py_join ''/'' ?t) = ?t"
    by (rule split_join [OF False]) (use comps in blast)
  moreover have "filter path_component ?t = ?t" by (rule filter_True) (use comps in blast)
  ultimately have "posix_path_of (py_join ''/'' ?t) = \<lparr>pp_root = [], pp_tail = ?t\<rparr>"
    using join by (simp add: posix_path_of_def split_root_def)
  then show ?thesis using assms join by (simp add: path_str_def)
qed

end
