(* ===== verification/Py_Datetime.thy ===== *)
theory Py_Datetime
  imports Py_Prelude
begin

text \<open>
  The part of the standard library's \<open>datetime\<close> the modelled modules use: aware and naive
  datetimes, \<open>fromisoformat\<close> (as CPython 3.12 reads it, with ASCII digits in
  every numeric field), \<open>isoformat\<close>, comparison of aware datetimes, and adding
  seconds with its overflow.
\<close>

section \<open>Datetimes\<close>

text \<open>
  \<open>dt_local\<close> is the wall-clock time in microseconds since 0001-01-01T00:00:00 and
  \<open>dt_off\<close> the UTC offset in microseconds, \<open>None\<close> for a naive datetime.
\<close>

record pydt =
  dt_local :: int
  dt_off :: "int option"

definition us_per_second :: int where "us_per_second = 1000000"

definition us_per_day :: int where "us_per_day = 86400000000"

definition max_local :: int where "max_local = 3652059 * us_per_day"

definition dt_utc :: "pydt \<Rightarrow> int" where
  "dt_utc d = dt_local d - (case dt_off d of None \<Rightarrow> 0 | Some z \<Rightarrow> z)"

definition dt_aware :: "pydt \<Rightarrow> bool" where
  "dt_aware d = (dt_off d \<noteq> None)"

text \<open>\<open>d if d.tzinfo else d.replace(tzinfo=UTC)\<close>\<close>

definition assume_utc :: "pydt \<Rightarrow> pydt" where
  "assume_utc d = (if dt_aware d then d else d\<lparr>dt_off := Some 0\<rparr>)"

definition dt_less :: "pydt \<Rightarrow> pydt \<Rightarrow> bool" where
  "dt_less a b = (dt_utc a < dt_utc b)"

definition dt_min_utc :: pydt where
  "dt_min_utc = \<lparr>dt_local = 0, dt_off = Some 0\<rparr>"

text \<open>\<open>d + timedelta(seconds=n)\<close>\<close>

definition dt_add_seconds :: "pydt \<Rightarrow> int \<Rightarrow> pydt result" where
  "dt_add_seconds d n = (let l = dt_local d + n * us_per_second in
     if \<bar>n\<bar> > 86400 * 999999999 \<or> l < 0 \<or> max_local \<le> l
     then Inl (OverflowError ''date value out of range'')
     else Inr (d\<lparr>dt_local := l\<rparr>))"

text \<open>\<open>d.astimezone(UTC)\<close> of an aware datetime\<close>

definition dt_to_utc :: "pydt \<Rightarrow> pydt result" where
  "dt_to_utc d = (let u = dt_utc d in
     if u < 0 \<or> max_local \<le> u then Inl (OverflowError ''date value out of range'')
     else Inr \<lparr>dt_local = u, dt_off = Some 0\<rparr>)"

lemma assume_utc_aware [simp]: "dt_aware (assume_utc d)"
  by (simp add: assume_utc_def dt_aware_def)

section \<open>Calendar\<close>

definition is_leap :: "int \<Rightarrow> bool" where
  "is_leap y = (y mod 4 = 0 \<and> (y mod 100 \<noteq> 0 \<or> y mod 400 = 0))"

definition month_table :: "int list" where
  "month_table = [31, 28, 31, 30, 31, 30, 31, 31, 30, 31, 30, 31]"

definition days_in_month :: "int \<Rightarrow> int \<Rightarrow> int" where
  "days_in_month y m = (if m = 2 \<and> is_leap y then 29 else month_table ! nat (m - 1))"

definition days_before_month :: "int \<Rightarrow> int \<Rightarrow> int" where
  "days_before_month y m =
     sum_list (take (nat (m - 1)) month_table) + (if m > 2 \<and> is_leap y then 1 else 0)"

definition ymd2ord :: "int \<Rightarrow> int \<Rightarrow> int \<Rightarrow> int" where
  "ymd2ord y m d = (let p = y - 1 in
     p * 365 + p div 4 - p div 100 + p div 400 + days_before_month y m + d)"

definition ord2ymd :: "int \<Rightarrow> int \<times> int \<times> int" where
  "ord2ymd n0 = (let n = n0 - 1;
     n400 = n div 146097; n = n mod 146097;
     n100 = n div 36524; n = n mod 36524;
     n4 = n div 1461; n = n mod 1461;
     n1 = n div 365; n = n mod 365;
     year = n400 * 400 + 1 + n100 * 100 + n4 * 4 + n1
   in if n1 = 4 \<or> n100 = 4 then (year - 1, 12, 31)
      else let leap = (n1 = 3 \<and> (n4 \<noteq> 24 \<or> n100 = 3));
        month = (n + 50) div 32;
        prec = sum_list (take (nat (month - 1)) month_table) + (if month > 2 \<and> leap then 1 else 0)
      in if prec > n
         then let month' = month - 1;
                prec' = prec - (month_table ! nat (month' - 1) + (if month' = 2 \<and> leap then 1 else 0))
              in (year, month', n - prec' + 1)
         else (year, month, n - prec + 1))"

definition isoweek_to_gregorian :: "int \<Rightarrow> int \<Rightarrow> int \<Rightarrow> (int \<times> int \<times> int) option" where
  "isoweek_to_gregorian y w d = (let first = ymd2ord y 1 1;
     long_year = (first mod 7 = 4 \<or> (first mod 7 = 3 \<and> is_leap y));
     firstweekday = (first + 6) mod 7;
     monday = first - firstweekday + (if firstweekday > 3 then 7 else 0)
   in if y < 1 \<or> 9999 < y \<or> \<not> (0 < w \<and> w < 53 \<or> w = 53 \<and> long_year) \<or> d < 1 \<or> 7 < d then None
      else Some (ord2ymd (monday + (w - 1) * 7 + (d - 1))))"

section \<open>Parsing\<close>

text \<open>\<open>parse_digits s i n\<close> reads the \<open>n\<close> digits at position \<open>i\<close>; a shorter string, a
  character that is no digit and \<open>n = 0\<close> fail.\<close>

definition slice :: "nat \<Rightarrow> nat \<Rightarrow> string \<Rightarrow> string" where
  "slice i j s = take (j - i) (drop i s)"

definition parse_digits :: "string \<Rightarrow> nat \<Rightarrow> nat \<Rightarrow> int option" where
  "parse_digits s i n = (let w = slice i (i + n) s in
     if n = 0 \<or> length w \<noteq> n \<or> \<not> list_all py_is_digit w then None else Some (digits_value w 0))"

definition char_at :: "string \<Rightarrow> nat \<Rightarrow> char option" where
  "char_at s i = (if i < length s then Some (s ! i) else None)"

definition iso_separator :: "string \<Rightarrow> nat option" where
  "iso_separator s = (let n = length s in
     if n = 7 then Some 7
     else if char_at s 4 = Some CHR ''-'' then
       if char_at s 5 = Some CHR ''W'' then
         if n > 8 \<and> char_at s 8 = Some CHR ''-'' then
           if n = 9 then None
           else if n > 10 \<and> list_all py_is_digit (slice 10 11 s) then Some 8
           else Some 10
         else Some 8
       else Some 10
     else if char_at s 4 = Some CHR ''W'' then
       let idx = 7 + length (takeWhile py_is_digit (drop 7 s)) in
       if idx < 9 then Some idx else if idx mod 2 = 0 then Some 7 else Some 8
     else Some 8)"

definition iso_date :: "string \<Rightarrow> (int \<times> int \<times> int) option" where
  "iso_date s = (let has_sep = (char_at s 4 = Some CHR ''-''); k = (if has_sep then 1 else 0) in
     case parse_digits s 0 4 of None \<Rightarrow> None | Some year \<Rightarrow>
     let pos = 4 + k in
     if char_at s pos = Some CHR ''W'' then
       (case parse_digits s (pos + 1) 2 of None \<Rightarrow> None | Some weekno \<Rightarrow>
        let pos = pos + 3 in
        if pos < length s then
          if (char_at s pos = Some CHR ''-'') \<noteq> has_sep then None
          else if length s \<noteq> pos + k + 1 then None
          else (case parse_digits s (pos + k) 1 of None \<Rightarrow> None
                | Some dayno \<Rightarrow> isoweek_to_gregorian year weekno dayno)
        else isoweek_to_gregorian year weekno 1)
     else
       (case parse_digits s pos 2 of None \<Rightarrow> None | Some month \<Rightarrow>
        let pos = pos + 2 in
        if (char_at s pos = Some CHR ''-'') \<noteq> has_sep then None
        else if length s \<noteq> pos + k + 2 then None
        else (case parse_digits s (pos + k) 2 of None \<Rightarrow> None
              | Some day \<Rightarrow> Some (year, month, day))))"

text \<open>
  \<open>HH[:?MM[:?SS[[.,]ffffff]]]\<close> as the interpreter scans it: the result is the numbers read and
  the position of the fraction, if there is one. The scanner lets one stray character, and
  anything after six fraction digits, stand before a UTC offset; \<open>lenient\<close> says that an
  offset follows.
\<close>

fun hms_loop :: "bool \<Rightarrow> nat list \<Rightarrow> string \<Rightarrow> nat \<Rightarrow> bool \<Rightarrow> int list \<Rightarrow>
    (int list \<times> nat option) option" where
  "hms_loop lenient [] s pos has_sep acc = Some (acc, Some pos)"
| "hms_loop lenient (c # cs) s pos has_sep acc =
     (case parse_digits s pos 2 of None \<Rightarrow> None | Some v \<Rightarrow>
      let nxt = char_at s (pos + 2);
          sep = (if c = 0 then nxt = Some CHR '':'' else has_sep)
      in if nxt = None then Some (acc @ [v], None)
         else if length s = pos + 3 then (if lenient then Some (acc @ [v], None) else None)
         else if sep \<and> nxt = Some CHR '':'' then
           (if c = 2 then None else hms_loop lenient cs s (pos + 3) sep (acc @ [v]))
         else if nxt = Some CHR ''.'' \<or> nxt = Some CHR '','' then Some (acc @ [v], Some (pos + 3))
         else if \<not> sep then hms_loop lenient cs s (pos + 2) sep (acc @ [v])
         else None)"

definition hms_us :: "bool \<Rightarrow> string \<Rightarrow> (int \<times> int \<times> int \<times> int) option" where
  "hms_us lenient s =
     (case hms_loop lenient [0, 1, 2] s 0 False [] of None \<Rightarrow> None | Some (acc, frac) \<Rightarrow>
      let comps = acc @ replicate (3 - length acc) 0;
          us = (case frac of None \<Rightarrow> Some 0 | Some f \<Rightarrow>
                  let k = min 6 (length s - f) in
                    (case parse_digits s f k of None \<Rightarrow> None
                     | Some v \<Rightarrow> if lenient \<or> list_all py_is_digit (drop (f + k) s)
                                then Some (v * 10 ^ (6 - k)) else None))
      in map_option (\<lambda>u. (comps ! 0, comps ! 1, comps ! 2, u)) us)"

definition find_zone :: "string \<Rightarrow> nat option" where
  "find_zone s = (let i = length (takeWhile (\<lambda>c. c \<noteq> CHR ''-'' \<and> c \<noteq> CHR ''+'' \<and> c \<noteq> CHR ''Z'') s)
     in if i < length s then Some i else None)"

definition hms_total :: "int \<times> int \<times> int \<times> int \<Rightarrow> int" where
  "hms_total t = (case t of (h, m, s, u) \<Rightarrow> ((h * 60 + m) * 60 + s) * us_per_second + u)"

text \<open>The time part: the time of day and the offset.\<close>

definition iso_time :: "string \<Rightarrow> ((int \<times> int \<times> int \<times> int) \<times> int option) option" where
  "iso_time s =
     (if length s < 2 then None
      else case find_zone s of
        None \<Rightarrow> map_option (\<lambda>t. (t, None)) (hms_us False s)
      | Some i \<Rightarrow>
         (case hms_us True (take i s) of None \<Rightarrow> None | Some t \<Rightarrow>
          if s ! i = CHR ''Z'' then (if i + 1 = length s then Some (t, Some 0) else None)
          else (case hms_us False (drop (i + 1) s) of None \<Rightarrow> None | Some tz \<Rightarrow>
              let off = (if s ! i = CHR ''-'' then - hms_total tz else hms_total tz) in
              if \<bar>off\<bar> < us_per_day then Some (t, Some off) else None)))"

definition make_datetime ::
  "int \<times> int \<times> int \<Rightarrow> int \<times> int \<times> int \<times> int \<Rightarrow> int option \<Rightarrow> pydt option" where
  "make_datetime ymd t off = (case (ymd, t) of ((y, mo, d), (h, mi, s, u)) \<Rightarrow>
     if 1 \<le> y \<and> y \<le> 9999 \<and> 1 \<le> mo \<and> mo \<le> 12 \<and> 1 \<le> d \<and> d \<le> days_in_month y mo \<and>
        0 \<le> h \<and> h < 24 \<and> 0 \<le> mi \<and> mi < 60 \<and> 0 \<le> s \<and> s < 60 \<and> 0 \<le> u \<and> u < 1000000
     then Some \<lparr>dt_local = (ymd2ord y mo d - 1) * us_per_day + hms_total t, dt_off = off\<rparr>
     else None)"

definition fromisoformat :: "string \<Rightarrow> pydt option" where
  "fromisoformat s =
     (if length s < 7 then None
      else case iso_separator s of None \<Rightarrow> None | Some k \<Rightarrow>
        (case iso_date (take k s) of None \<Rightarrow> None | Some ymd \<Rightarrow>
         let tstr = drop (k + 1) s in
         if length s \<le> k then make_datetime ymd (0, 0, 0, 0) None
         else case iso_time tstr of None \<Rightarrow> None | Some (t, off) \<Rightarrow> make_datetime ymd t off))"

section \<open>Printing\<close>

definition pad_zero :: "nat \<Rightarrow> string \<Rightarrow> string" where
  "pad_zero n s = replicate (n - length s) CHR ''0'' @ s"

definition pad_int :: "nat \<Rightarrow> int \<Rightarrow> string" where
  "pad_int n i = pad_zero n (int_to_str i)"

definition iso_clock :: "int \<Rightarrow> string" where
  "iso_clock us = (let secs = us div us_per_second; u = us mod us_per_second in
     pad_int 2 (secs div 3600) @ '':'' @ pad_int 2 (secs div 60 mod 60) @ '':'' @
     pad_int 2 (secs mod 60) @ (if u = 0 then [] else ''.'' @ pad_int 6 u))"

definition iso_offset :: "int option \<Rightarrow> string" where
  "iso_offset off = (case off of None \<Rightarrow> [] | Some z \<Rightarrow>
     let a = \<bar>z\<bar>; secs = a div us_per_second; u = a mod us_per_second in
     (if z < 0 then ''-'' else ''+'') @ pad_int 2 (secs div 3600) @ '':'' @
     pad_int 2 (secs div 60 mod 60) @
     (if secs mod 60 = 0 \<and> u = 0 then []
      else '':'' @ pad_int 2 (secs mod 60) @ (if u = 0 then [] else ''.'' @ pad_int 6 u)))"

definition isoformat :: "pydt \<Rightarrow> string" where
  "isoformat d = (case ord2ymd (dt_local d div us_per_day + 1) of (y, m, dd) \<Rightarrow>
     pad_int 4 y @ ''-'' @ pad_int 2 m @ ''-'' @ pad_int 2 dd @ ''T'' @
     iso_clock (dt_local d mod us_per_day) @ iso_offset (dt_off d))"

text \<open>\<open>d.isoformat().replace("+00:00", "Z")\<close>\<close>

definition isoformat_z :: "pydt \<Rightarrow> string" where
  "isoformat_z d = py_replace ''+00:00'' ''Z'' (isoformat d)"

section \<open>The timestamp helper of the modules\<close>

text \<open>
  The repository's modules each define the same \<open>_parse_timestamp\<close> over a decoded value
  (absent and blank values and text that is no ISO timestamp give \<open>None\<close>, a naive time is
  taken as UTC). Their own definitions in the component theories go through this one.
\<close>

definition timestamp_of_text :: "string \<Rightarrow> pydt option" where
  "timestamp_of_text s = (let raw = py_strip s in
     if raw = [] then None
     else let raw = (if ends_with ''Z'' raw then take (length raw - 1) raw @ ''+00:00'' else raw)
       in map_option assume_utc (fromisoformat raw))"

definition timestamp_of :: "pyval \<Rightarrow> pydt option" where
  "timestamp_of v = (case v of PNone \<Rightarrow> None | _ \<Rightarrow> timestamp_of_text (py_str v))"

lemma timestamp_of_aware: "timestamp_of v = Some d \<Longrightarrow> dt_aware d"
  by (auto simp: timestamp_of_def timestamp_of_text_def Let_def
      split: pyval.splits if_splits option.splits)

text \<open>An argument \<open>now: datetime | str | None\<close>; \<open>clock\<close> is what \<open>datetime.now(UTC)\<close> returns.\<close>

datatype now_arg = NowNone | NowDatetime pydt | NowText string

end
