(* ===== verification/Py_Files.thy ===== *)
theory Py_Files
  imports Py_Paths Py_Datetime Py_Json "HOL-Library.Sublist"
begin

text \<open>
  The file system the modules read and write through \<open>pathlib\<close>: a tree of directories,
  regular files and symbolic links, addressed by the list of path components below the root
  directory. Reading operations are functions of the state; the writing ones return the new state
  together with what the call returns or raises, so that an exception keeps the effects of the
  calls before it. Byte strings are lists of characters below 256.
\<close>

section \<open>The state\<close>

text \<open>
  A file carries its bytes and its modification time in units of \<open>2 ^ -30\<close> seconds since the
  epoch, which holds every \<open>st_mtime\<close> from February 1970 on exactly. Writing, creating or
  unlinking at a path of \<open>fs_protected\<close> fails with an \<open>OSError\<close>; \<open>fs_clock\<close> is the
  modification time a write leaves behind.
\<close>

type_synonym fpath = "string list"

datatype fs_node = FileNode string int | DirNode | LinkNode string

record fs =
  fs_nodes :: "(fpath \<times> fs_node) list"
  fs_protected :: "fpath list"
  fs_clock :: int
  fs_cwd :: fpath

definition node_at :: "fs \<Rightarrow> fpath \<Rightarrow> fs_node option" where
  "node_at fs p = (if p = [] then Some DirNode else map_of (fs_nodes fs) p)"

definition fpath_str :: "fpath \<Rightarrow> string" where
  "fpath_str p = ''/'' @ py_join ''/'' p"

definition proper_component :: "string \<Rightarrow> bool" where
  "proper_component c = (c \<noteq> [] \<and> c \<noteq> ''.'' \<and> c \<noteq> ''..'' \<and> CHR ''/'' \<notin> set c)"

text \<open>Every entry has a directory as its parent, and components are names.\<close>

definition wf_fs :: "fs \<Rightarrow> bool" where
  "wf_fs fs = (list_all (\<lambda>e. fst e \<noteq> [] \<and> list_all proper_component (fst e) \<and>
     node_at fs (butlast (fst e)) = Some DirNode) (fs_nodes fs) \<and> list_all proper_component (fs_cwd fs))"

section \<open>Resolving paths\<close>

text \<open>
  \<open>Path.resolve()\<close>: components are walked one at a time, \<open>..\<close> drops the last one and
  a symbolic link is replaced by its target. At most 40 links are expanded, the bound of the
  operating system.
\<close>

definition max_links :: nat where "max_links = 40"

function resolve_walk :: "fs \<Rightarrow> nat \<Rightarrow> fpath \<Rightarrow> string list \<Rightarrow> fpath result" where
  "resolve_walk fs n acc [] = Inr acc"
| "resolve_walk fs n acc (c # rest) =
     (if c = [] \<or> c = ''.'' then resolve_walk fs n acc rest
      else if c = ''..'' then resolve_walk fs n (butlast acc) rest
      else case node_at fs (acc @ [c]) of
          Some (LinkNode t) \<Rightarrow>
            (case n of 0 \<Rightarrow> Inl (Unmodelled ''symbolic link expansion'')
             | Suc k \<Rightarrow> resolve_walk fs k (if starts_with ''/'' t then [] else acc)
                         (split_on (CHR ''/'') t @ rest))
        | _ \<Rightarrow> resolve_walk fs n (acc @ [c]) rest)"
  by pat_completeness auto
termination
  by (relation "measures [\<lambda>(fs, n, acc, rest). n, \<lambda>(fs, n, acc, rest). length rest]") auto

text \<open>A path given as text; a double slash root and a NUL character are outside the model.\<close>

definition modelled_path :: "string \<Rightarrow> bool" where
  "modelled_path s = (pp_root (posix_path_of s) \<noteq> ''//'' \<and> CHR 0x00 \<notin> set s)"

definition resolve_from :: "fs \<Rightarrow> fpath \<Rightarrow> string \<Rightarrow> fpath result" where
  "resolve_from fs base s =
     (if \<not> modelled_path s then Inl (Unmodelled ''path'')
      else let p = posix_path_of s in
        resolve_walk fs max_links [] (if path_is_absolute p then pp_tail p else base @ pp_tail p))"

abbreviation path_resolve :: "fs \<Rightarrow> string \<Rightarrow> fpath result" where
  "path_resolve fs \<equiv> resolve_from fs (fs_cwd fs)"

definition link_free :: "fs \<Rightarrow> fpath \<Rightarrow> bool" where
  "link_free fs p = (list_all (\<lambda>c. c \<noteq> [] \<and> c \<noteq> ''.'' \<and> c \<noteq> ''..'') p \<and>
     list_all (\<lambda>q. case node_at fs q of Some (LinkNode t) \<Rightarrow> False | _ \<Rightarrow> True) (prefixes p))"

lemma link_free_Nil [simp]: "link_free fs []"
  by (simp add: link_free_def node_at_def)

lemma link_free_snoc:
  "link_free fs (p @ [c]) =
     (link_free fs p \<and> c \<noteq> [] \<and> c \<noteq> ''.'' \<and> c \<noteq> ''..'' \<and>
      (case node_at fs (p @ [c]) of Some (LinkNode t) \<Rightarrow> False | _ \<Rightarrow> True))"
  by (auto simp: link_free_def)

lemma link_free_butlast: "link_free fs p \<Longrightarrow> link_free fs (butlast p)"
  by (cases p rule: rev_cases) (auto simp: link_free_snoc)

lemma link_free_append: "link_free fs (p @ q) \<Longrightarrow> link_free fs p"
  by (induction q rule: rev_induct) (auto simp: link_free_snoc simp flip: append_assoc)

lemma resolve_walk_invariant:
  assumes "resolve_walk fs n acc rest = Inr p" and "P acc" and "list_all Q rest" and "P []"
    and "\<And>a. P a \<Longrightarrow> P (butlast a)"
    and "\<And>t. list_all Q (split_on (CHR ''/'') t)"
    and "\<And>a c. P a \<Longrightarrow> Q c \<Longrightarrow> c \<noteq> [] \<Longrightarrow> c \<noteq> ''.'' \<Longrightarrow> c \<noteq> ''..'' \<Longrightarrow>
      \<nexists>t. node_at fs (a @ [c]) = Some (LinkNode t) \<Longrightarrow> P (a @ [c])"
  shows "P p"
  using assms
  by (induction fs n acc rest arbitrary: p rule: resolve_walk.induct)
    (auto split: if_splits option.splits fs_node.splits nat.splits)

lemma resolve_walk_link_free:
  "resolve_walk fs n acc rest = Inr p \<Longrightarrow> link_free fs acc \<Longrightarrow> link_free fs p"
  by (erule resolve_walk_invariant [where Q = "\<lambda>c. True"])
    (auto simp: link_free_butlast link_free_snoc list_all_iff split: option.splits fs_node.splits)

lemma resolve_walk_idle:
  "link_free fs (acc @ rest) \<Longrightarrow> resolve_walk fs n acc rest = Inr (acc @ rest)"
proof (induction rest arbitrary: acc)
  case (Cons c rest)
  have lf: "link_free fs ((acc @ [c]) @ rest)" using Cons.prems by simp
  then have "link_free fs (acc @ [c])" by (rule link_free_append)
  then show ?case using Cons.IH [OF lf]
    by (auto simp: link_free_snoc split: option.splits fs_node.splits)
qed simp

text \<open>Resolving is idempotent.\<close>

lemma resolve_walk_idem:
  "resolve_walk fs n [] cs = Inr p \<Longrightarrow> resolve_walk fs m [] p = Inr p"
  using resolve_walk_link_free [of fs n "[]" cs p] resolve_walk_idle [of fs "[]" p m] by simp

lemma resolve_from_link_free: "resolve_from fs b s = Inr p \<Longrightarrow> link_free fs p"
  by (auto simp: resolve_from_def Let_def intro: resolve_walk_link_free split: if_splits)

section \<open>Reading\<close>

text \<open>
  \<open>path.is_dir()\<close>, \<open>path.is_file()\<close>, \<open>path.exists()\<close> and the node that
  \<open>path.stat()\<close> and \<open>path.read_bytes()\<close> reach: links are followed.
\<close>

definition followed :: "fs \<Rightarrow> fpath \<Rightarrow> fs_node option" where
  "followed fs p = (case resolve_walk fs max_links [] p of Inl e \<Rightarrow> None | Inr q \<Rightarrow> node_at fs q)"

definition fs_is_dir :: "fs \<Rightarrow> fpath \<Rightarrow> bool" where
  "fs_is_dir fs p = (followed fs p = Some DirNode)"

definition fs_is_file :: "fs \<Rightarrow> fpath \<Rightarrow> bool" where
  "fs_is_file fs p = (case followed fs p of Some (FileNode b t) \<Rightarrow> True | _ \<Rightarrow> False)"

definition fs_exists :: "fs \<Rightarrow> fpath \<Rightarrow> bool" where
  "fs_exists fs p = (followed fs p \<noteq> None)"

definition fs_stat :: "fs \<Rightarrow> fpath \<Rightarrow> (string \<times> int) result" where
  "fs_stat fs p = (case followed fs p of Some (FileNode b t) \<Rightarrow> Inr (b, t)
     | _ \<Rightarrow> Inl (OSError (fpath_str p)))"

lemma followed_link_free: "link_free fs p \<Longrightarrow> followed fs p = node_at fs p"
  using resolve_walk_idle [of fs "[]" p max_links] by (simp add: followed_def)

lemma fs_stat_Inr: "(fs_stat fs p = Inr (b, t)) = (followed fs p = Some (FileNode b t))"
  by (auto simp: fs_stat_def split: option.splits fs_node.splits)

text \<open>
  \<open>path.rglob(pattern)\<close> for a pattern that is a star and a literal suffix: the entries below
  the directory, without descending into linked directories.
\<close>

definition glob_name :: "string \<Rightarrow> string \<Rightarrow> bool" where
  "glob_name pattern name = (case pattern of [] \<Rightarrow> False | c # ending \<Rightarrow> ends_with ending name)"

definition fs_rglob :: "fs \<Rightarrow> fpath \<Rightarrow> string \<Rightarrow> fpath list" where
  "fs_rglob fs root pattern =
     filter (\<lambda>p. strict_prefix root p \<and> glob_name pattern (last p)) (remdups (map fst (fs_nodes fs)))"

text \<open>\<open>path.relative_to(parent)\<close> of resolved paths, and the modules' \<open>_is_relative_to\<close>.\<close>

definition fs_is_relative_to :: "fs \<Rightarrow> fpath \<Rightarrow> fpath \<Rightarrow> bool result" where
  "fs_is_relative_to fs p parent =
     rbind (resolve_walk fs max_links [] p) (\<lambda>p'.
     rbind (resolve_walk fs max_links [] parent) (\<lambda>parent'. Inr (prefix parent' p')))"

lemma fs_is_relative_to_resolved:
  "link_free fs p \<Longrightarrow> link_free fs r \<Longrightarrow> fs_is_relative_to fs p r = Inr (prefix r p)"
  using resolve_walk_idle [of fs "[]" p] resolve_walk_idle [of fs "[]" r]
  by (simp add: fs_is_relative_to_def)

text \<open>\<open>datetime.fromtimestamp(st_mtime, tz=UTC)\<close>: rounded to microseconds, half to even.\<close>

definition round_half_even :: "int \<Rightarrow> int \<Rightarrow> int" where
  "round_half_even n d = (let q = n div d; r = n mod d in
     if 2 * r < d then q else if d < 2 * r then q + 1 else if even q then q else q + 1)"

definition epoch_local :: int where "epoch_local = 719162 * us_per_day"

definition mtime_datetime :: "int \<Rightarrow> pydt result" where
  "mtime_datetime t = (let l = epoch_local + round_half_even (t * 1000000) (2 ^ 30) in
     if l < 0 \<or> max_local \<le> l then Inl (ValueError ''year is out of range'')
     else Inr \<lparr>dt_local = l, dt_off = Some 0\<rparr>)"

text \<open>\<open>data.splitlines(keepends=True)\<close> of a byte string.\<close>

fun bytes_lines_from :: "string \<Rightarrow> string \<Rightarrow> string list" where
  "bytes_lines_from acc [] = (if acc = [] then [] else [acc])"
| "bytes_lines_from acc (c # cs) =
     (if c = CHR 0x0A then (acc @ [c]) # bytes_lines_from [] cs
      else if c = CHR 0x0D then
        (case cs of d # ds \<Rightarrow> if d = CHR 0x0A then (acc @ [c, d]) # bytes_lines_from [] ds
                              else (acc @ [c]) # bytes_lines_from [] cs
         | [] \<Rightarrow> [acc @ [c]])
      else bytes_lines_from (acc @ [c]) cs)"

definition bytes_lines :: "string \<Rightarrow> string list" where
  "bytes_lines = bytes_lines_from []"

lemma concat_bytes_lines_from: "concat (bytes_lines_from acc s) = acc @ s"
  by (induction acc s rule: bytes_lines_from.induct) (auto split: list.splits)

lemma concat_bytes_lines [simp]: "concat (bytes_lines s) = s"
  by (simp add: bytes_lines_def concat_bytes_lines_from)

section \<open>Writing\<close>

type_synonym 'a io = "fs \<Rightarrow> fs \<times> 'a result"

definition io_return :: "'a \<Rightarrow> 'a io" where
  "io_return x fs = (fs, Inr x)"

definition io_result :: "'a result \<Rightarrow> 'a io" where
  "io_result r fs = (fs, r)"

definition io_bind :: "'a io \<Rightarrow> ('a \<Rightarrow> 'b io) \<Rightarrow> 'b io" where
  "io_bind m f fs = (case m fs of (fs', Inl e) \<Rightarrow> (fs', Inl e) | (fs', Inr x) \<Rightarrow> f x fs')"

text \<open>\<open>try: ... except OSError as exc: ...\<close>\<close>

definition io_catch_os :: "'a io \<Rightarrow> (string \<Rightarrow> 'a io) \<Rightarrow> 'a io" where
  "io_catch_os m h fs = (case m fs of (fs', Inl (OSError t)) \<Rightarrow> h t fs' | r \<Rightarrow> r)"

text \<open>The path a call reaches: \<open>..\<close> components are outside the model here.\<close>

definition os_target :: "fs \<Rightarrow> string \<Rightarrow> fpath result" where
  "os_target fs s =
     (if ''..'' \<in> set (pp_tail (posix_path_of s)) then Inl (Unmodelled ''parent component'')
      else path_resolve fs s)"

definition os_write :: "(string \<Rightarrow> string) \<Rightarrow> string \<Rightarrow> unit io" where
  "os_write f s fs = (case os_target fs s of Inl e \<Rightarrow> (fs, Inl e) | Inr t \<Rightarrow>
     if t \<in> set (fs_protected fs) \<or> node_at fs t = Some DirNode \<or>
        node_at fs (butlast t) \<noteq> Some DirNode
     then (fs, Inl (OSError s))
     else let old = (case node_at fs t of Some (FileNode b m) \<Rightarrow> b | _ \<Rightarrow> []) in
       (fs\<lparr>fs_nodes := assoc_set t (FileNode (f old) (fs_clock fs)) (fs_nodes fs)\<rparr>, Inr ()))"

definition os_write_bytes :: "string \<Rightarrow> string \<Rightarrow> unit io" where
  "os_write_bytes s b = os_write (\<lambda>old. b) s"

definition os_append_bytes :: "string \<Rightarrow> string \<Rightarrow> unit io" where
  "os_append_bytes s b = os_write (\<lambda>old. old @ b) s"

definition os_read_bytes :: "string \<Rightarrow> string io" where
  "os_read_bytes s fs = (case os_target fs s of Inl e \<Rightarrow> (fs, Inl e) | Inr t \<Rightarrow>
     case node_at fs t of Some (FileNode b m) \<Rightarrow> (fs, Inr b) | _ \<Rightarrow> (fs, Inl (OSError s)))"

text \<open>\<open>str(path.parent)\<close>\<close>

definition path_parent_str :: "string \<Rightarrow> string" where
  "path_parent_str s = (let p = posix_path_of s in path_str (p\<lparr>pp_tail := butlast (pp_tail p)\<rparr>))"

text \<open>\<open>path.unlink(missing_ok=True)\<close> removes the entry itself, not what it links to.\<close>

definition os_unlink :: "string \<Rightarrow> unit io" where
  "os_unlink s fs = (let p = posix_path_of s in
     if \<not> modelled_path s \<or> \<not> path_is_absolute p \<or> ''..'' \<in> set (pp_tail p)
     then (fs, Inl (Unmodelled ''path''))
     else case resolve_walk fs max_links [] (butlast (pp_tail p)) of Inl e \<Rightarrow> (fs, Inl (OSError s)) | Inr d \<Rightarrow>
       let t = (if pp_tail p = [] then [] else d @ [last (pp_tail p)]) in
       if t \<in> set (fs_protected fs) then (fs, Inl (OSError s))
       else case node_at fs t of
           None \<Rightarrow> (fs, (case node_at fs d of Some (FileNode b m) \<Rightarrow> Inl (OSError s) | _ \<Rightarrow> Inr ()))
         | Some DirNode \<Rightarrow> (fs, Inl (OSError s))
         | Some n \<Rightarrow> (fs\<lparr>fs_nodes := filter (\<lambda>e. fst e \<noteq> t) (fs_nodes fs)\<rparr>, Inr ()))"

text \<open>
  \<open>path.mkdir(parents=True, exist_ok=True)\<close>, from the outermost directory inwards. A missing
  directory behind a symbolic link is outside the model.
\<close>

fun mkdir_walk :: "string \<Rightarrow> fpath \<Rightarrow> string list \<Rightarrow> unit io" where
  "mkdir_walk s acc [] fs = (fs, Inr ())"
| "mkdir_walk s acc (c # cs) fs = (case node_at fs (acc @ [c]) of
     Some DirNode \<Rightarrow> mkdir_walk s (acc @ [c]) cs fs
   | Some n \<Rightarrow> (fs, Inl (OSError s))
   | None \<Rightarrow> if acc @ [c] \<in> set (fs_protected fs) then (fs, Inl (OSError s))
       else mkdir_walk s (acc @ [c]) cs
              (fs\<lparr>fs_nodes := assoc_set (acc @ [c]) DirNode (fs_nodes fs)\<rparr>))"

definition os_mkdir_parents :: "string \<Rightarrow> unit io" where
  "os_mkdir_parents s fs = (case os_target fs s of Inl e \<Rightarrow> (fs, Inl e) | Inr t \<Rightarrow>
     if node_at fs t = Some DirNode then (fs, Inr ())
     else if t \<noteq> (if path_is_absolute (posix_path_of s) then [] else fs_cwd fs) @ pp_tail (posix_path_of s)
       then (fs, Inl (Unmodelled ''directory behind a link''))
     else mkdir_walk s [] t fs)"

section \<open>Facts about paths and single calls\<close>

definition real_path :: "fs \<Rightarrow> fpath \<Rightarrow> bool" where
  "real_path fs p = (link_free fs p \<and> list_all proper_component p)"

lemma proper_is_component: "proper_component c \<Longrightarrow> path_component c \<and> CHR ''/'' \<notin> set c"
  by (simp add: proper_component_def path_component_def)

lemma posix_path_of_fpath_str:
  assumes "list_all proper_component p"
  shows "posix_path_of (fpath_str p) = \<lparr>pp_root = ''/'', pp_tail = p\<rparr>"
proof (cases "p = []")
  case True
  have "posix_path_of (fpath_str []) = \<lparr>pp_root = ''/'', pp_tail = []\<rparr>" by code_simp
  then show ?thesis using True by simp
next
  case False
  have comps: "\<forall>x \<in> set p. path_component x \<and> CHR ''/'' \<notin> set x"
    using assms proper_is_component by (auto simp: list_all_iff)
  note join = join_components_head [OF comps False]
  have "split_on (CHR ''/'') (py_join ''/'' p) = p"
    by (rule split_join [OF False]) (use comps in blast)
  moreover have "filter path_component p = p" by (rule filter_True) (use comps in blast)
  ultimately show ?thesis using join
    by (simp add: posix_path_of_def split_root_def fpath_str_def starts_with_def)
qed

abbreviation slash_free :: "string list \<Rightarrow> bool" where
  "slash_free cs \<equiv> list_all (\<lambda>c. CHR ''/'' \<notin> set c) cs"

lemma split_on_slash_free: "slash_free (split_on (CHR ''/'') s)"
  using split_on_no_sep by (auto simp: list_all_iff)

lemma slash_free_butlast: "slash_free a \<Longrightarrow> slash_free (butlast a)"
  by (auto simp: list_all_iff dest: in_set_butlastD)

lemma resolve_walk_slash_free:
  "resolve_walk fs n acc rest = Inr p \<Longrightarrow> slash_free acc \<Longrightarrow> slash_free rest \<Longrightarrow> slash_free p"
  by (erule resolve_walk_invariant [where Q = "\<lambda>c. CHR ''/'' \<notin> set c"])
    (simp_all add: slash_free_butlast split_on_slash_free)

lemma resolve_from_real:
  assumes "resolve_from fs b s = Inr p" and "list_all proper_component b"
  shows "real_path fs p"
proof -
  have lf: "link_free fs p" using assms(1) by (rule resolve_from_link_free)
  have "slash_free (pp_tail (posix_path_of s))" "slash_free b"
    using tail_components assms(2) by (auto simp: list_all_iff proper_component_def)
  then have "slash_free p"
    using assms(1) resolve_walk_slash_free [of fs max_links "[]" _ p]
    by (auto simp: resolve_from_def Let_def split: if_splits)
  with lf show ?thesis by (auto simp: real_path_def link_free_def list_all_iff proper_component_def)
qed

lemma real_path_resolve: "real_path fs p \<Longrightarrow> resolve_walk fs n [] p = Inr p"
  using resolve_walk_idle [of fs "[]" p n] by (simp add: real_path_def)

lemma real_path_prefix: "real_path fs p \<Longrightarrow> prefix q p \<Longrightarrow> real_path fs q"
  by (auto simp: real_path_def prefix_def dest: link_free_append)

lemma real_path_butlast: "real_path fs p \<Longrightarrow> real_path fs (butlast p)"
  by (rule real_path_prefix) (auto simp: prefixeq_butlast)

lemma os_target_real:
  assumes "real_path fs p"
  shows "os_target fs (fpath_str p) =
    (if modelled_path (fpath_str p) then Inr p else Inl (Unmodelled ''path''))"
proof -
  have comps: "list_all proper_component p" using assms by (simp add: real_path_def)
  have "''..'' \<notin> set p" using comps by (auto simp: list_all_iff proper_component_def)
  then show ?thesis
    using real_path_resolve [OF assms]
    by (simp add: os_target_def resolve_from_def posix_path_of_fpath_str [OF comps]
        path_is_absolute_def modelled_path_def)
qed

lemma node_at_set: "t \<noteq> [] \<Longrightarrow>
  node_at (fs\<lparr>fs_nodes := assoc_set t n (fs_nodes fs)\<rparr>) p = (if p = t then Some n else node_at fs p)"
  by (auto simp: node_at_def)

lemma map_of_filter_key: "map_of (filter (\<lambda>e. fst e \<noteq> t) xs) p = (if p = t then None else map_of xs p)"
  by (induction xs) auto

lemma node_at_remove: "t \<noteq> [] \<Longrightarrow>
  node_at (fs\<lparr>fs_nodes := filter (\<lambda>e. fst e \<noteq> t) (fs_nodes fs)\<rparr>) p = (if p = t then None else node_at fs p)"
  by (auto simp: node_at_def map_of_filter_key)

subsection \<open>What a call keeps\<close>

text \<open>
  Every call changes the tree only at the paths it is given: elsewhere the nodes stay, directories
  are never removed and symbolic links never made, and the tree stays well formed.
\<close>

definition fs_keeps :: "(fpath \<Rightarrow> bool) \<Rightarrow> fs \<Rightarrow> fs \<Rightarrow> bool" where
  "fs_keeps A fs fs' =
     ((\<forall>p. \<not> A p \<longrightarrow> node_at fs' p = node_at fs p) \<and>
      (\<forall>p. node_at fs p = Some DirNode \<longrightarrow> node_at fs' p = Some DirNode) \<and>
      (\<forall>p t. node_at fs' p = Some (LinkNode t) \<longrightarrow> node_at fs p = Some (LinkNode t)) \<and>
      fs_cwd fs' = fs_cwd fs \<and> fs_protected fs' = fs_protected fs \<and> (wf_fs fs \<longrightarrow> wf_fs fs'))"

lemma fs_keeps_refl [simp, intro]: "fs_keeps A fs fs"
  by (simp add: fs_keeps_def)

lemma fs_keeps_trans [trans]: "fs_keeps A fs fs' \<Longrightarrow> fs_keeps A fs' fs'' \<Longrightarrow> fs_keeps A fs fs''"
  unfolding fs_keeps_def by (elim conjE, intro conjI allI impI) metis+

lemma fs_keeps_mono: "fs_keeps A fs fs' \<Longrightarrow> (\<And>p. A p \<Longrightarrow> B p) \<Longrightarrow> fs_keeps B fs fs'"
  unfolding fs_keeps_def by blast

lemma fs_keeps_real_path: "fs_keeps A fs fs' \<Longrightarrow> real_path fs p \<Longrightarrow> real_path fs' p"
proof -
  assume k: "fs_keeps A fs fs'" and r: "real_path fs p"
  have "(case node_at fs' q of Some (LinkNode t) \<Rightarrow> False | _ \<Rightarrow> True)"
    if "case node_at fs q of Some (LinkNode t) \<Rightarrow> False | _ \<Rightarrow> True" for q
    using k that by (auto simp: fs_keeps_def split: option.splits fs_node.splits)
  with r show "real_path fs' p" by (simp add: real_path_def link_free_def list_all_iff)
qed

lemma wf_fs_entry: "wf_fs fs \<Longrightarrow> node_at fs p = Some n \<Longrightarrow> p \<noteq> [] \<Longrightarrow>
  list_all proper_component p \<and> node_at fs (butlast p) = Some DirNode"
  by (auto simp: wf_fs_def node_at_def list_all_iff dest!: map_of_SomeD)

lemma wf_fs_dirs: "wf_fs fs \<Longrightarrow> node_at fs p = Some n \<Longrightarrow> strict_prefix q p \<Longrightarrow> node_at fs q = Some DirNode"
proof (induction p arbitrary: n rule: rev_induct)
  case (snoc c p)
  have par: "node_at fs p = Some DirNode" using wf_fs_entry [OF snoc.prems(1,2)] by simp
  show ?case
  proof (cases "q = p")
    case False
    then have "strict_prefix q p" using snoc.prems(3) by (auto simp: strict_prefix_def)
    then show ?thesis using snoc.IH [OF snoc.prems(1) par] by simp
  qed (simp add: par)
qed simp

lemma set_assoc_set_subset: "set (assoc_set k v xs) \<subseteq> insert (k, v) (set xs)"
  by (induction k v xs rule: assoc_set.induct) auto

lemma wf_fs_set:
  assumes wf: "wf_fs fs" and t: "t \<noteq> []" "list_all proper_component t"
    and par: "node_at fs (butlast t) = Some DirNode"
    and old: "node_at fs t \<noteq> Some DirNode \<or> n = DirNode"
  shows "wf_fs (fs\<lparr>fs_nodes := assoc_set t n (fs_nodes fs)\<rparr>)"
  unfolding wf_fs_def list_all_iff [of _ "fs_nodes (_\<lparr>fs_nodes := _\<rparr>)"]
proof (intro conjI ballI)
  fix e assume "e \<in> set (fs_nodes (fs\<lparr>fs_nodes := assoc_set t n (fs_nodes fs)\<rparr>))"
  then have "e \<in> insert (t, n) (set (fs_nodes fs))" using set_assoc_set_subset by fastforce
  moreover have "butlast t \<noteq> t" using t(1) by (metis append_butlast_last_id append_self_conv not_Cons_self2)
  ultimately have e: "fst e \<noteq> [] \<and> list_all proper_component (fst e) \<and>
      node_at fs (butlast (fst e)) = Some DirNode"
    using wf t par by (auto simp: wf_fs_def list_all_iff)
  then show "fst e \<noteq> []" "list_all proper_component (fst e)" by auto
  show "node_at (fs\<lparr>fs_nodes := assoc_set t n (fs_nodes fs)\<rparr>) (butlast (fst e)) = Some DirNode"
    using e old by (auto simp: node_at_set [OF t(1)])
qed (use wf in \<open>simp add: wf_fs_def\<close>)

lemma keeps_set:
  assumes t: "t \<noteq> []" "list_all proper_component t" and par: "node_at fs (butlast t) = Some DirNode"
    and old: "node_at fs t \<noteq> Some DirNode \<or> n = DirNode" and new: "\<And>x. n \<noteq> LinkNode x"
  shows "fs_keeps (\<lambda>p. p = t) fs (fs\<lparr>fs_nodes := assoc_set t n (fs_nodes fs)\<rparr>)"
  using wf_fs_set [OF _ t par old] old new by (auto simp: fs_keeps_def node_at_set [OF t(1)])

lemma os_write_keeps:
  assumes "real_path fs t"
  shows "fs_keeps (\<lambda>p. p = t) fs (fst (os_write f (fpath_str t) fs))"
proof (cases "\<not> modelled_path (fpath_str t) \<or> t \<in> set (fs_protected fs) \<or>
    node_at fs t = Some DirNode \<or> node_at fs (butlast t) \<noteq> Some DirNode")
  case True
  then have "fst (os_write f (fpath_str t) fs) = fs" by (auto simp: os_write_def os_target_real [OF assms])
  then show ?thesis by simp
next
  case False
  then have "t \<noteq> []" by (auto simp: node_at_def)
  moreover have "list_all proper_component t" using assms by (simp add: real_path_def)
  ultimately show ?thesis using False
    by (simp add: os_write_def os_target_real [OF assms] Let_def keeps_set)
qed

lemma os_write_Inr:
  assumes "real_path fs t" and "os_write f (fpath_str t) fs = (fs', Inr u)"
  shows "fs' = fs\<lparr>fs_nodes := assoc_set t (FileNode (f (case node_at fs t of Some (FileNode b m) \<Rightarrow> b | _ \<Rightarrow> []))
      (fs_clock fs)) (fs_nodes fs)\<rparr>" "t \<noteq> []" "t \<notin> set (fs_protected fs)"
  using assms by (auto simp: os_write_def os_target_real Let_def node_at_def split: if_splits)

lemma wf_fs_remove:
  assumes wf: "wf_fs fs" and t: "t \<noteq> []" and old: "node_at fs t \<noteq> Some DirNode"
  shows "wf_fs (fs\<lparr>fs_nodes := filter (\<lambda>e. fst e \<noteq> t) (fs_nodes fs)\<rparr>)"
  using wf old by (auto simp: wf_fs_def list_all_iff node_at_remove [OF t])

lemma os_unlink_keeps:
  assumes "real_path fs t"
  shows "fs_keeps (\<lambda>p. p = t) fs (fst (os_unlink (fpath_str t) fs))"
proof (cases "t = []")
  case True
  have "node_at fs [] = Some DirNode" by (simp add: node_at_def)
  then show ?thesis
    using True posix_path_of_fpath_str [of "[]"] by (simp add: os_unlink_def Let_def)

next
  case False
  have comps: "list_all proper_component t" using assms by (simp add: real_path_def)
  have nolink: "node_at fs t \<noteq> Some (LinkNode x)" for x
    using assms False by (cases t rule: rev_cases) (auto simp: real_path_def link_free_snoc)
  have rm: "fs_keeps (\<lambda>p. p = t) fs (fs\<lparr>fs_nodes := filter (\<lambda>e. fst e \<noteq> t) (fs_nodes fs)\<rparr>)"
    if "node_at fs t \<noteq> Some DirNode"
    using that wf_fs_remove [OF _ False that] by (auto simp: fs_keeps_def node_at_remove [OF False])
  show ?thesis
    using False rm real_path_resolve [OF real_path_butlast [OF assms]]
    by (auto simp: os_unlink_def posix_path_of_fpath_str [OF comps] Let_def
        split: option.splits fs_node.splits)
qed

lemma mkdir_walk_keeps:
  assumes "node_at fs acc = Some DirNode" and "list_all proper_component (acc @ cs)"
  shows "fs_keeps (\<lambda>p. prefix p (acc @ cs)) fs (fst (mkdir_walk s acc cs fs))"
  using assms
proof (induction s acc cs fs rule: mkdir_walk.induct)
  case (2 s acc c cs fs)
  let ?p = "acc @ [c]" and ?fs = "fs\<lparr>fs_nodes := assoc_set (acc @ [c]) DirNode (fs_nodes fs)\<rparr>"
  have comps: "list_all proper_component ?p" "list_all proper_component (?p @ cs)" using "2.prems"(2) by auto
  have set: "fs_keeps (\<lambda>p. prefix p (acc @ c # cs)) fs ?fs"
    by (rule fs_keeps_mono [OF keeps_set]) (use comps(1) "2.prems"(1) in auto)
  show ?case
  proof (cases "node_at fs ?p")
    case None
    have "node_at ?fs ?p = Some DirNode" by (simp add: node_at_set)
    then have "?p \<notin> set (fs_protected fs) \<Longrightarrow>
        fs_keeps (\<lambda>p. prefix p (?p @ cs)) ?fs (fst (mkdir_walk s ?p cs ?fs))"
      using "2.IH"(1) [OF None] comps(2) by blast
    then show ?thesis using None set by (auto intro: fs_keeps_trans)
  next
    case (Some n)
    show ?thesis
    proof (cases "n = DirNode")
      case True
      then show ?thesis using "2.IH"(2) [OF Some] Some comps(2) by simp
    next
      case False
      then show ?thesis using Some by (cases n) auto
    qed
  qed
qed simp

lemma mkdir_walk_extends:
  "node_at fs p = Some n \<Longrightarrow> node_at (fst (mkdir_walk s acc cs fs)) p = Some n"
proof (induction s acc cs fs rule: mkdir_walk.induct)
  case (2 s acc c cs fs)
  then show ?case
    by (cases "p = acc @ [c]") (auto simp: node_at_set split: option.splits fs_node.splits)
qed simp

lemma os_mkdir_parents_keeps:
  assumes "real_path fs t"
  shows "fs_keeps (\<lambda>p. prefix p t) fs (fst (os_mkdir_parents (fpath_str t) fs))"
proof -
  have comps: "list_all proper_component t" using assms by (simp add: real_path_def)
  have "fs_keeps (\<lambda>p. prefix p ([] @ t)) fs (fst (mkdir_walk s [] t fs))" for s
    by (rule mkdir_walk_keeps) (use comps in \<open>simp_all add: node_at_def\<close>)
  then show ?thesis
    by (simp add: os_mkdir_parents_def os_target_real [OF assms] posix_path_of_fpath_str [OF comps]
        path_is_absolute_def)
qed

lemma os_mkdir_parents_extends:
  "node_at fs p = Some n \<Longrightarrow> node_at (fst (os_mkdir_parents s fs)) p = Some n"
  by (simp add: os_mkdir_parents_def mkdir_walk_extends split: sum.splits)

lemma path_str_root: "path_str \<lparr>pp_root = ''/'', pp_tail = p\<rparr> = fpath_str p"
  by (simp add: path_str_def fpath_str_def)

lemma path_parent_real: "list_all proper_component t \<Longrightarrow> path_parent_str (fpath_str t) = fpath_str (butlast t)"
  by (simp add: path_parent_str_def posix_path_of_fpath_str path_str_root)

lemma path_str_real: "list_all proper_component t \<Longrightarrow> path_str (posix_path_of (fpath_str t)) = fpath_str t"
  by (simp add: posix_path_of_fpath_str path_str_root)

lemma os_read_bytes_state [simp]: "fst (os_read_bytes s fs) = fs"
  by (simp add: os_read_bytes_def split: sum.splits option.splits fs_node.splits)

lemma os_read_bytes_real:
  assumes "real_path fs t" and "os_read_bytes (fpath_str t) fs = (fs', Inr b)"
  shows "fs' = fs" and "\<exists>m. node_at fs t = Some (FileNode b m)"
  using assms by (auto simp: os_read_bytes_def os_target_real split: if_splits option.splits fs_node.splits)

subsection \<open>Composing calls\<close>

text \<open>
  \<open>io_keeps T A m\<close>: as long as the paths of \<open>T\<close> are free of links, running \<open>m\<close> changes
  the tree only at the paths of \<open>A\<close>.
\<close>

named_theorems io_keeps_intros

definition io_keeps :: "fpath set \<Rightarrow> (fpath \<Rightarrow> bool) \<Rightarrow> 'a io \<Rightarrow> bool" where
  "io_keeps T A m = (\<forall>fs. (\<forall>t \<in> T. real_path fs t) \<longrightarrow> fs_keeps A fs (fst (m fs)))"

lemma io_keepsI [io_keeps_intros]:
  "io_keeps T A (io_return x)" "io_keeps T A (io_result r)" "io_keeps T A (\<lambda>fs. (fs, g fs))"
  "io_keeps T A (os_read_bytes s)"
  by (simp_all add: io_keeps_def io_return_def io_result_def)

lemma io_keeps_then:
  assumes "io_keeps T A m" and "\<And>x. io_keeps T A (f x)" and "\<forall>t \<in> T. real_path fs t" 
  shows "fs_keeps A fs (fst (f x (fst (m fs))))"
proof -
  have m: "fs_keeps A fs (fst (m fs))" using assms(1,3) by (simp add: io_keeps_def)
  then have "\<forall>t \<in> T. real_path (fst (m fs)) t" using assms(3) fs_keeps_real_path by blast
  then have "fs_keeps A (fst (m fs)) (fst (f x (fst (m fs))))" using assms(2) by (simp add: io_keeps_def)
  with m show ?thesis by (rule fs_keeps_trans)
qed

lemma io_keeps_bind [io_keeps_intros]:
  assumes "io_keeps T A m" and "\<And>x. io_keeps T A (f x)"
  shows "io_keeps T A (io_bind m f)"
  unfolding io_keeps_def
proof (intro allI impI)
  fix fs assume T: "\<forall>t \<in> T. real_path fs t"
  have "fs_keeps A fs (fst (m fs))" using assms(1) T by (simp add: io_keeps_def)
  then show "fs_keeps A fs (fst (io_bind m f fs))"
    using io_keeps_then [OF assms T] by (auto simp: io_bind_def split: prod.splits sum.splits)
qed

lemma io_keeps_catch [io_keeps_intros]:
  assumes "io_keeps T A m" and "\<And>x. io_keeps T A (h x)"
  shows "io_keeps T A (io_catch_os m h)"
  unfolding io_keeps_def
proof (intro allI impI)
  fix fs assume T: "\<forall>t \<in> T. real_path fs t"
  have "fs_keeps A fs (fst (m fs))" using assms(1) T by (simp add: io_keeps_def)
  then show "fs_keeps A fs (fst (io_catch_os m h fs))"
    using io_keeps_then [OF assms T]
    by (auto simp: io_catch_os_def split: prod.splits sum.splits py_error.splits)
qed

lemma io_keeps_call:
  assumes "t \<in> T" and "\<And>p. prefix p t \<Longrightarrow> A p"
  shows "io_keeps T A (os_write f (fpath_str t))" "io_keeps T A (os_write_bytes (fpath_str t) b)"
    "io_keeps T A (os_append_bytes (fpath_str t) b)" "io_keeps T A (os_unlink (fpath_str t))"
    "io_keeps T A (os_mkdir_parents (fpath_str t))"
proof -
  have t: "real_path fs t \<Longrightarrow> fs_keeps A fs (fst (os_write f (fpath_str t) fs))" for f fs
    by (rule fs_keeps_mono [OF os_write_keeps]) (use assms(2) in auto)
  show "io_keeps T A (os_write f (fpath_str t))" "io_keeps T A (os_write_bytes (fpath_str t) b)"
    "io_keeps T A (os_append_bytes (fpath_str t) b)"
    using t assms(1) by (simp_all add: io_keeps_def os_write_bytes_def os_append_bytes_def)
  have "real_path fs t \<Longrightarrow> fs_keeps A fs (fst (os_unlink (fpath_str t) fs))" for fs
    by (rule fs_keeps_mono [OF os_unlink_keeps]) (use assms(2) in auto)
  then show "io_keeps T A (os_unlink (fpath_str t))" using assms(1) by (simp add: io_keeps_def)
  have "real_path fs t \<Longrightarrow> fs_keeps A fs (fst (os_mkdir_parents (fpath_str t) fs))" for fs
    by (rule fs_keeps_mono [OF os_mkdir_parents_keeps]) (use assms(2) in auto)
  then show "io_keeps T A (os_mkdir_parents (fpath_str t))" using assms(1) by (simp add: io_keeps_def)
qed

lemma io_keeps_unlink: "t \<in> T \<Longrightarrow> A t \<Longrightarrow> io_keeps T A (os_unlink (fpath_str t))"
  using fs_keeps_mono [OF os_unlink_keeps] by (metis io_keeps_def)

lemma io_keeps_mkdir_parent:
  assumes "t \<in> T" and "\<And>p. prefix p t \<Longrightarrow> A p" and "list_all proper_component t"
  shows "io_keeps T A (os_mkdir_parents (path_parent_str (fpath_str t)))"
proof -
  have pb: "prefix p (butlast t) \<Longrightarrow> A p" for p
    using assms(2) by (meson prefix_order.trans prefixeq_butlast)
  have "real_path fs t \<Longrightarrow> fs_keeps A fs (fst (os_mkdir_parents (fpath_str (butlast t)) fs))" for fs
    by (rule fs_keeps_mono [OF os_mkdir_parents_keeps [OF real_path_butlast]]) (use pb in auto)
  then show ?thesis using assms(1) by (simp add: io_keeps_def path_parent_real [OF assms(3)])
qed

subsection \<open>Runs that return\<close>

lemma io_bind_Inr:
  "(io_bind m f fs = (fs'', Inr y)) = (\<exists>fs' x. m fs = (fs', Inr x) \<and> f x fs' = (fs'', Inr y))"
  by (auto simp: io_bind_def split: prod.splits sum.splits)

lemma io_result_Inr [simp]: "(io_result r fs = (fs', Inr x)) = (fs' = fs \<and> r = Inr x)"
  by (auto simp: io_result_def)

lemma io_return_Inr [simp]: "(io_return y fs = (fs', Inr x)) = (fs' = fs \<and> x = y)"
  by (auto simp: io_return_def)

end
