(* ===== verification/Json_Files.thy ===== *)
theory Json_Files
  imports Json_Roundtrip Py_Files
begin

text \<open>Reading text files: \<open>Path.read_text\<close> with its decoding and newline translation.\<close>

text \<open>\<open>read_text(encoding="utf-8")\<close>, with its newline translation; \<open>None\<close> when nothing is there.\<close>

fun universal_newlines :: "string \<Rightarrow> string" where
  "universal_newlines [] = []"
| "universal_newlines [c] = [if c = CHR 0x0D then CHR 0x0A else c]"
| "universal_newlines (c # d # cs) =
     (if c = CHR 0x0D \<and> d = CHR 0x0A then CHR 0x0A # universal_newlines cs
      else (if c = CHR 0x0D then CHR 0x0A else c) # universal_newlines (d # cs))"

definition read_text :: "fs \<Rightarrow> fpath \<Rightarrow> string option result" where
  "read_text fs p = rbind (resolve_walk fs max_links [] p) (\<lambda>t. case node_at fs t of
     Some (FileNode bytes mtime) \<Rightarrow> map_sum id (\<lambda>s. Some (universal_newlines s)) (decode_utf8 bytes)
   | None \<Rightarrow> Inr None | _ \<Rightarrow> Inl (OSError (fpath_str t)))"

lemma no_carriage_return: "CHR 0x0D \<notin> set (json_text v)" "CHR 0x0D \<notin> set (text_tail xs)" "CHR 0x0D \<notin> set (text_items kvs)"
proof -
  have "list_all (\<lambda>c. CHR 0x0D \<notin> set (esc_text c)) Enum.enum" by code_simp
  then have "CHR 0x0D \<notin> set (esc_text c)" for c by (simp add: list_all_iff enum_UNIV)
  then have "CHR 0x0D \<notin> set (quoted s)" for s by (simp add: quoted_def)
  moreover have "CHR 0x0D \<notin> set (int_to_str i)" for i
    using int_to_str_numeral [of "CHR 0x0D" i] by (auto simp: numeral_char_def)
  ultimately show "CHR 0x0D \<notin> set (json_text v)" "CHR 0x0D \<notin> set (text_tail xs)" "CHR 0x0D \<notin> set (text_items kvs)"
    by (induction v and xs and kvs rule: flat_flat_tail_flat_items.induct) simp_all
qed

lemma universal_newlines_idle: "CHR 0x0D \<notin> set t \<Longrightarrow> universal_newlines t = t"
  by (induction t rule: universal_newlines.induct) auto

text \<open>A file that holds the UTF-8 text of a value is read as that text.\<close>

lemma read_text_written:
  assumes "link_free fs p" and "node_at fs p = Some (FileNode (utf8 (json_text v)) mtime)"
  shows "read_text fs p = Inr (Some (json_text v))"
  using resolve_walk_idle [of fs "[]" p max_links] assms
  by (simp add: read_text_def decode_utf8_utf8 universal_newlines_idle no_carriage_return)

end
