(* ===== verification/Workspace_Digest.thy ===== *)
theory Workspace_Digest
  imports Json_Files
begin

text \<open>
  The workspace digest of \<open>workspace_intake_contracts.py\<close>, which the readiness policies bind their
  artifacts with, and the parser that goes with it. It sorts the keys by code point and takes ints of
  any size, where \<open>canonical_json.py\<close> follows RFC 8785.
\<close>

section \<open>Operations\<close>

fun float_free :: "pyval \<Rightarrow> bool" and float_free_list :: "pyval list \<Rightarrow> bool" and float_free_items :: "pydict \<Rightarrow> bool" where
  "float_free (PFloat x) = False"
| "float_free (PDict kvs) = float_free_items kvs"
| "float_free (PList xs) = float_free_list xs"
| "float_free v = True"
| "float_free_list [] = True"
| "float_free_list (x # xs) = (float_free x \<and> float_free_list xs)"
| "float_free_items [] = True"
| "float_free_items ((k, v) # kvs) = (float_free v \<and> float_free_items kvs)"

text \<open>\<open>sort_keys=True\<close>\<close>

fun sort_keys :: "pyval \<Rightarrow> pyval" and sort_keys_list :: "pyval list \<Rightarrow> pyval list" and sort_keys_items :: "pydict \<Rightarrow> pydict" where
  "sort_keys (PList xs) = PList (sort_keys_list xs)"
| "sort_keys (PDict kvs) = PDict (sort_key fst (sort_keys_items kvs))"
| "sort_keys v = v"
| "sort_keys_list [] = []"
| "sort_keys_list (x # xs) = sort_keys x # sort_keys_list xs"
| "sort_keys_items [] = []"
| "sort_keys_items ((k, v) # kvs) = (k, sort_keys v) # sort_keys_items kvs"

definition workspace_bytes :: "pyval \<Rightarrow> string result" where
  "workspace_bytes value =
     (if \<not> float_free value then Inl (ValueError ''floating point is not allowed in intake artifacts'')
      else Inr (utf8 (json_text (sort_keys value))))"

fun unique_pairs :: "pydict \<Rightarrow> pydict \<Rightarrow> pydict result" where
  "unique_pairs res [] = Inr res"
| "unique_pairs res ((k, v) # kvs) =
     (if py_has res k then Inl (ValueError ''duplicate JSON key'') else unique_pairs (res @ [(k, v)]) kvs)"

definition workspace_hooks :: json_hooks where
  "workspace_hooks = \<lparr>jh_object = unique_pairs [], jh_constant = (\<lambda>c. Inr (PFloat FNan)),
     jh_float = (\<lambda>t. Inr (PFloat (FFinite 0 0 t)))\<rparr>"

text \<open>A \<open>UnicodeDecodeError\<close> is a \<open>ValueError\<close>; any float is refused, so its value is not needed.\<close>

definition parse_json :: "string \<Rightarrow> pyval result" where
  "parse_json raw = rbind (decode_utf8 raw) (\<lambda>t. rbind (json_loads workspace_hooks t) (\<lambda>value.
     rbind (workspace_bytes value) (\<lambda>_. Inr value)))"

definition workspace_digest :: "pyval \<Rightarrow> string result" where
  "workspace_digest value = rbind (workspace_bytes value) (\<lambda>b. Inr (sha256_prefixed b))"

definition artifact_digest :: "pydict \<Rightarrow> string \<Rightarrow> string result" where
  "artifact_digest value field = workspace_digest (PDict (filter (\<lambda>kv. fst kv \<noteq> field) value))"

section \<open>Agreement with RFC 8785\<close>

lemma utf16be_le: "(utf16be s \<le> utf16be t) = (s \<le> t)"
proof (induction s arbitrary: t)
  case Nil
  then show ?case by (simp add: utf16be_def)
next
  case (Cons c s)
  then show ?case by (cases t) (auto simp: utf16be_def)
qed

lemma sort_key_same_order:
  assumes "\<And>x y. (f x \<le> f y) = (g x \<le> g y)"
  shows "sort_key f xs = sort_key g xs"
proof -
  have "insort_key f x ys = insort_key g x ys" for x ys by (induction ys) (auto simp: assms)
  then show ?thesis by (induction xs) auto
qed

lemma sort_keys_canon:
  "sort_keys v = canon v" "sort_keys_list xs = canon_list xs" "sort_keys_items kvs = canon_items kvs"
  by (induction v and xs and kvs rule: canon_canon_list_canon_items.induct)
    (simp_all add: sort_key_same_order [of fst "\<lambda>kv. utf16be (fst kv)"] utf16be_le)

lemma canonical_float_free:
  "canonical_value v \<Longrightarrow> float_free v" "canonical_values xs \<Longrightarrow> float_free_list xs" "canonical_items kvs \<Longrightarrow> float_free_items kvs"
  by (induction v and xs and kvs rule: canonical_value_canonical_values_canonical_items.induct) auto

section \<open>Reading an artifact back\<close>

lemma unique_pairs_iff:
  "distinct (map fst res) \<Longrightarrow>
   (unique_pairs res kvs = Inr d) = (d = res @ kvs \<and> distinct (map fst (res @ kvs)))"
proof (induction res kvs rule: unique_pairs.induct)
  case (2 res k v kvs)
  have "py_has res k = (k \<in> fst ` set res)" by (auto simp: py_has_def map_of_eq_None_iff)
  then show ?case using 2 by auto
qed auto

interpretation workspace: dict_decoder workspace_hooks
proof
  show "jh_object workspace_hooks kvs \<noteq> out_of_fuel" for kvs
  proof -
    have "unique_pairs res kvs \<noteq> out_of_fuel" for res by (induction res kvs rule: unique_pairs.induct) auto
    then show ?thesis by (simp add: workspace_hooks_def)
  qed
qed (auto simp: workspace_hooks_def unique_pairs_iff)



end
