(* ===== verification/Record_Helpers.thy ===== *)
theory Record_Helpers
  imports Py_Datetime Py_Json
begin

text \<open>
  The small helpers nearly every module of the package defines for itself with the same body
  (\<open>_optional_str\<close>, \<open>_parse_timestamp\<close>, \<open>_coerce_timestamp\<close>,
  \<open>_digest_json\<close>), and the shape shared by the decision functions: a verdict that is the
  worst of the severities of the reasons found.
\<close>

section \<open>Text, timestamps and digests\<close>

definition text_of :: "pyval \<Rightarrow> string" where
  "text_of v = py_strip (py_str (py_or v (PStr [])))"

text \<open>A field that is used as text without a conversion.\<close>

definition as_text :: "pyval \<Rightarrow> string result" where
  "as_text v = (case v of PStr s \<Rightarrow> Inr s | _ \<Rightarrow> Inl (Unmodelled ''text field''))"

definition optional_str :: "pyval \<Rightarrow> string option" where
  "optional_str v = (let text = text_of v in if text = [] then None else Some text)"

text \<open>\<open>now if now.tzinfo else now.replace(tzinfo=UTC)\<close>, or the parsed text.\<close>

definition coerce_timestamp :: "string \<Rightarrow> pydt \<Rightarrow> now_arg \<Rightarrow> pydt result" where
  "coerce_timestamp what clock now = (case now of
     NowNone \<Rightarrow> Inr clock
   | NowDatetime d \<Rightarrow> Inr (assume_utc d)
   | NowText t \<Rightarrow> (case timestamp_of (PStr t) of
       None \<Rightarrow> Inl (ValueError (what @ repr_str t)) | Some d \<Rightarrow> Inr d))"

definition digest_json :: "pyval \<Rightarrow> string" where
  "digest_json v = sha256_prefixed (json_compact v)"

text \<open>The first 24 hexadecimal digits of a digest, as the record identifiers use them.\<close>

definition digest_id :: "string \<Rightarrow> string \<Rightarrow> string" where
  "digest_id prefix digest = prefix @ take 24 (remove_prefix ''sha256:'' digest)"

lemma optional_str_Some: "optional_str v = Some t \<Longrightarrow> t \<noteq> [] \<and> py_strip t = t"
  by (auto simp: optional_str_def text_of_def Let_def split: if_splits)

lemma optional_str_idem [simp]: "optional_str v = Some t \<Longrightarrow> optional_str (PStr t) = Some t"
  using optional_str_Some [of v t] by (simp add: optional_str_def text_of_def py_or_def)

lemma optional_str_None [simp]: "optional_str PNone = None"
  by (simp add: optional_str_def text_of_def py_or_def)

lemma length_digest_id [simp]: "length (digest_id p (sha256_prefixed b)) = length p + 24"
  using remove_prefix_append [of "''sha256:''" "sha256_hex b"] by (simp add: digest_id_def sha256_prefixed_def)

section \<open>Verdicts that are the worst severity\<close>

text \<open>
  A decision collects reasons and its outcome is the worst of their severities. \<open>rank\<close>
  orders the outcomes and \<open>weight\<close> the reasons.
\<close>

locale worst_verdict =
  fixes rank :: "'o \<Rightarrow> nat"
    and weight :: "'r \<Rightarrow> nat"
    and verdict :: "'r list \<Rightarrow> 'o"
  assumes rank_verdict: "rank (verdict rs) = fold max (map weight rs) 0"
    and rank_inject: "rank (verdict rs) = rank (verdict qs) \<Longrightarrow> verdict rs = verdict qs"
begin

lemma fold_max: "fold max (map weight rs) k = Max (insert k (weight ` set rs))"
  using Max.set_eq_fold [of k "map weight rs"] by simp

lemma rank_verdict_Max: "rank (verdict rs) = Max (insert 0 (weight ` set rs))"
  by (simp add: rank_verdict fold_max)

lemma verdict_set: "set rs = set qs \<Longrightarrow> verdict rs = verdict qs"
  by (rule rank_inject) (simp add: rank_verdict_Max)

lemma verdict_mono: "set rs \<subseteq> set qs \<Longrightarrow> rank (verdict rs) \<le> rank (verdict qs)"
  unfolding rank_verdict_Max by (rule Max_mono) auto

lemma verdict_ge: "r \<in> set rs \<Longrightarrow> weight r \<le> rank (verdict rs)"
  unfolding rank_verdict_Max by (rule Max_ge) auto

lemma verdict_attained: "rank (verdict rs) = 0 \<or> (\<exists>r \<in> set rs. weight r = rank (verdict rs))"
proof -
  have "Max (insert 0 (weight ` set rs)) \<in> insert 0 (weight ` set rs)" by (rule Max_in) auto
  then show ?thesis unfolding rank_verdict_Max by force
qed

lemma verdict_less: "(rank (verdict rs) < k) = (0 < k \<and> (\<forall>r \<in> set rs. weight r < k))"
  unfolding rank_verdict_Max by (subst Max_less_iff) auto

end

end
