(* ===== verification/Prototype_Closure.thy ===== *)
theory Prototype_Closure
  imports Workspace_Digest Record_Helpers
begin

text \<open>
  \<open>prototype_closure_policy.py\<close> and the resolver of \<open>prototype_closure_evidence.py\<close>: whether a closure
  action on a prototype (applying its delivery, graduating its source, retiring or reopening it) may
  proceed, judged against the committed source and against evidence its owners gave. The owner readers
  are other services and parameters here.
\<close>

section \<open>Reference forms\<close>

definition lower_alpha :: "char \<Rightarrow> bool" where
  "lower_alpha c = (c \<in> set ''abcdefghijklmnopqrstuvwxyz'')"

definition upper_alpha :: "char \<Rightarrow> bool" where
  "upper_alpha c = (c \<in> set ''ABCDEFGHIJKLMNOPQRSTUVWXYZ'')"

definition ascii_alnum :: "char \<Rightarrow> bool" where
  "ascii_alnum c = (lower_alpha c \<or> upper_alpha c \<or> py_is_digit c)"

definition hex_char :: "char \<Rightarrow> bool" where
  "hex_char c = (py_is_digit c \<or> c \<in> set ''abcdef'')"

definition is_sha256_ref :: "string \<Rightarrow> bool" where
  "is_sha256_ref s = (starts_with ''sha256:'' s \<and> length (drop 7 s) = 64 \<and> list_all hex_char (drop 7 s))"

definition is_commit :: "string \<Rightarrow> bool" where
  "is_commit s = (length s = 40 \<and> list_all hex_char s)"

definition is_safe_ref :: "string \<Rightarrow> bool" where
  "is_safe_ref s =
     (let scheme = takeWhile (\<lambda>c. c \<noteq> CHR '':'') s; rest = drop (length scheme) s; tail = drop 3 rest in
      scheme \<noteq> [] \<and> lower_alpha (hd scheme) \<and>
      list_all (\<lambda>c. lower_alpha c \<or> py_is_digit c \<or> c \<in> set ''+.-'') scheme \<and>
      starts_with ''://'' rest \<and> tail \<noteq> [] \<and> ascii_alnum (hd tail) \<and>
      list_all (\<lambda>c. ascii_alnum c \<or> c \<in> set ''._~:/%+=-'') tail)"

definition is_safe_owner :: "string \<Rightarrow> bool" where
  "is_safe_owner s = (s \<noteq> [] \<and> ascii_alnum (hd s) \<and> list_all (\<lambda>c. ascii_alnum c \<or> c \<in> set ''._:/-'') s)"

definition is_delivery_target :: "string \<Rightarrow> bool" where
  "is_delivery_target s = (let n = remove_prefix ''openproject://work_packages/'' s in
     starts_with ''openproject://work_packages/'' s \<and> n \<noteq> [] \<and> hd n \<noteq> CHR ''0'' \<and> list_all py_is_digit n)"

definition is_kebab :: "string \<Rightarrow> bool" where
  "is_kebab s = list_all (\<lambda>w. w \<noteq> [] \<and> list_all (\<lambda>c. lower_alpha c \<or> py_is_digit c) w) (split_on (CHR ''-'') s)"

section \<open>Data\<close>

record verified_reference =
  vr_ref :: string
  vr_owner_ref :: string
  vr_digest :: string
  vr_state :: string
  vr_subject_ref :: "string option"
  vr_source_revision :: "string option"
  vr_source_packet_ref :: "string option"
  vr_prototype_id :: "string option"

record closure_source =
  cs_revision :: string
  cs_record :: pydict
  cs_record_digest :: string
  cs_lifecycle :: string
  cs_custody :: string
  cs_history_digest :: "string option"
  cs_last_event :: "pydict option"

type_synonym closure_evidence = "(string \<times> verified_reference) list"

definition ACTION_EVIDENCE :: "(string \<times> (string \<times> string) list) list" where
  "ACTION_EVIDENCE =
    [(''apply-delivery'',
       [(''accepted_baseline_receipt_ref'', ''operator-orchestration-service''),
        (''accepted_delivery_target_receipt_ref'', ''operator-orchestration-service''),
        (''target_delivery_ref'', ''workspace-delivery-art'')]),
     (''graduate-source'',
       [(''accepted_delivery_target_receipt_ref'', ''operator-orchestration-service''),
        (''durable_owner_acceptance_ref'', ''requested-owner''),
        (''source_transfer_receipt_ref'', ''requested-owner'')]),
     (''retire-incubation'',
       [(''retention_plan_ref'', ''workspace-prototype-studio''),
        (''runtime_disposition_plan_ref'', ''platform-engineering''),
        (''runtime_disposition_proof_ref'', ''platform-engineering'')]),
     (''reopen-incubation'',
       [(''prior_retirement_receipt_ref'', ''operator-orchestration-service''),
        (''retained_source_readback_ref'', ''workspace-prototype-studio'')])]"

text \<open>The evidence an action needs; an already owned source replaces the transfer receipt by a proof.\<close>

definition needed_evidence :: "pydict \<Rightarrow> string \<Rightarrow> (string \<times> string) list result" where
  "needed_evidence request action = (case map_of ACTION_EVIDENCE action of
     None \<Rightarrow> Inl (KeyError action)
   | Some needed \<Rightarrow>
     if action = ''graduate-source'' then
       rbind (py_index request ''transfer_strategy'') (\<lambda>strategy.
         Inr (if strategy = PStr ''already-owned''
              then assoc_set ''already_owned_source_proof_ref'' ''requested-owner''
                (filter (\<lambda>e. fst e \<noteq> ''source_transfer_receipt_ref'') needed)
              else needed))
     else Inr needed)"

section \<open>The policy\<close>

record closure_finding =
  cf_code :: string
  cf_detail :: string
  cf_owner_ref :: pyval

text \<open>The checks made so far, each with its state, and the findings.\<close>

type_synonym closure_report = "(string \<times> string) list \<times> closure_finding list"

definition check :: "string \<Rightarrow> string \<Rightarrow> string \<Rightarrow> string \<Rightarrow> pyval \<Rightarrow> closure_report \<Rightarrow> closure_report" where
  "check check_id state code detail owner_ref report =
     (fst report @ [(check_id, state)],
      snd report @ (if state \<noteq> ''ready'' then [\<lparr>cf_code = code, cf_detail = detail, cf_owner_ref = owner_ref\<rparr>] else []))"

abbreviation ready_check :: "string \<Rightarrow> closure_report \<Rightarrow> closure_report" where
  "ready_check check_id \<equiv> check check_id ''ready'' [] [] (PStr [])"

abbreviation studio :: pyval where
  "studio \<equiv> PStr ''workspace-prototype-studio''"

definition allowed_from :: "pyval \<Rightarrow> pyval list result" where
  "allowed_from expected = (case expected of
     PStr s \<Rightarrow> Inr [PStr s]
   | PList xs \<Rightarrow> if list_ex (\<lambda>x. is_list x \<or> is_dict x) xs then Inl (TypeError ''unhashable type'') else Inr xs
   | PDict d \<Rightarrow> Inr (map (\<lambda>kv. PStr (fst kv)) d)
   | _ \<Rightarrow> Inl (TypeError ''object is not iterable''))"

definition custody_valid :: "string \<Rightarrow> closure_source \<Rightarrow> bool" where
  "custody_valid action source =
     (if action = ''retire-incubation''
      then cs_custody source \<in> {''incubation-repo'', ''dedicated-owner-repo'', ''shared-owner-repo''}
      else cs_custody source = ''incubation-repo'')"

definition source_valid :: "pydict \<Rightarrow> string \<Rightarrow> closure_source \<Rightarrow> bool result" where
  "source_valid request action source = (let rec = cs_record source in
     if action = ''apply-delivery'' then
       (if py_truthy (py_get rec ''delivery_packet_ref'') \<and> py_truthy (py_get rec ''design_baseline_ref'') \<and>
           py_get request ''target_kind'' = PStr ''new-delivery-epic''
        then (case py_get_or (PStr []) request ''target_delivery_ref'' of
            PStr t \<Rightarrow> Inr (is_delivery_target t \<and> py_truthy (py_get request ''accepted_delivery_target_receipt_ref''))
          | _ \<Rightarrow> Inl (TypeError ''expected string or bytes-like object''))
        else Inr False)
     else if action = ''graduate-source'' then
       (if py_get rec ''project_phase'' = PStr ''delivery-governed'' \<and> py_truthy (py_get rec ''delivery_packet_ref'')
        then rbind (py_index request ''accepted_delivery_target_receipt_ref'') (\<lambda>r.
          Inr (py_eq (py_get rec ''accepted_delivery_target_receipt_ref'') r))
        else Inr False)
     else if action = ''reopen-incubation'' then
       Inr (case cs_last_event source of None \<Rightarrow> False
         | Some event \<Rightarrow> py_get event ''event_type'' = PStr ''incubation-retired'' \<and>
             py_eq (py_get rec ''retirement_ref'') (py_get rec ''closure_event_ref''))
     else Inr True)"

text \<open>The first of several guards that holds names the problem; later guards are not evaluated.\<close>

fun first_problem :: "(bool result \<times> string \<times> string) list \<Rightarrow> (string \<times> string) option result" where
  "first_problem [] = Inr None"
| "first_problem ((guard, code, detail) # rest) =
     rbind guard (\<lambda>b. if b then Inr (Some (code, detail)) else first_problem rest)"

definition evidence_guards ::
  "pydict \<Rightarrow> string \<Rightarrow> closure_source \<Rightarrow> closure_evidence \<Rightarrow> string \<Rightarrow> pyval \<Rightarrow> verified_reference \<Rightarrow>
     (bool result \<times> string \<times> string) list" where
  "evidence_guards request action source evidence field expected_owner proof =
     (let rec = cs_record source; subject = opt_val (vr_subject_ref proof);
          pid_differs = rbind (py_index request ''prototype_id'') (\<lambda>p. Inr (\<not> py_eq (opt_val (vr_prototype_id proof)) p));
          delivery = (field = ''accepted_delivery_target_receipt_ref'');
          durable = (field \<in> {''source_transfer_receipt_ref'', ''already_owned_source_proof_ref''})
      in
      [(Inr (vr_state proof \<noteq> ''accepted''), ''evidence-unavailable'',
          ''Accepted '' @ field @ '' readback is missing or not active.''),
       (Inr (PStr (vr_owner_ref proof) \<noteq> expected_owner \<or> \<not> is_sha256_ref (vr_digest proof)), ''evidence-authority-mismatch'',
          field @ '' is not bound to the required owner and digest.''),
       (Inr (py_get request field \<noteq> PNone \<and> PStr (vr_ref proof) \<noteq> py_get request field), ''evidence-reference-mismatch'',
          field @ '' readback differs from the requested reference.''),
       (Inr (delivery \<and> action = ''graduate-source'' \<and>
             PStr (vr_ref proof) \<noteq> py_get rec ''accepted_delivery_target_receipt_ref''), ''delivery-target-mismatch'',
          ''Accepted Delivery target differs from committed Studio truth.''),
       (if \<not> delivery then Inr False
        else if \<not> py_eq (opt_val (vr_source_packet_ref proof)) (py_get rec ''delivery_packet_ref'') then Inr True
        else pid_differs, ''delivery-source-mismatch'', ''Delivery acceptance does not bind this Prototype packet.''),
       (Inr (delivery \<and> action = ''apply-delivery'' \<and> (case map_of evidence ''target_delivery_ref'' of
             None \<Rightarrow> True | Some target \<Rightarrow> subject \<noteq> PStr (vr_ref target))), ''delivery-target-mismatch'',
          ''Delivery acceptance does not bind the selected target.''),
       (Inr (field = ''accepted_baseline_receipt_ref'' \<and> \<not> py_eq subject (py_get rec ''design_baseline_ref'')),
          ''baseline-receipt-mismatch'', ''Accepted baseline receipt does not bind the staged design baseline.''),
       (if field = ''accepted_baseline_receipt_ref'' then pid_differs else Inr False, ''baseline-source-mismatch'',
          ''Accepted baseline receipt does not bind this Prototype.''),
       (Inr ((durable \<or> field = ''durable_owner_acceptance_ref'') \<and> \<not> py_eq subject (py_get request ''durable_repo_ref'')),
          ''durable-repo-mismatch'', field @ '' does not identify the selected durable repository.''),
       (Inr (durable \<and> vr_source_revision proof \<noteq> Some (cs_revision source)), ''source-transfer-stale'',
          ''Durable source proof does not bind this exact Studio revision.''),
       (Inr (field = ''target_delivery_ref'' \<and> py_truthy (py_get request ''target_delivery_ref'') \<and>
             PStr (vr_ref proof) \<noteq> py_get request ''target_delivery_ref''), ''delivery-target-mismatch'',
          ''Accepted target differs from the requested Delivery item.''),
       (Inr (field = ''prior_retirement_receipt_ref'' \<and> (case cs_last_event source of None \<Rightarrow> False | Some e \<Rightarrow> e \<noteq> []) \<and>
             \<not> py_eq subject (py_get rec ''retirement_ref'')), ''retirement-receipt-mismatch'',
          ''Retirement receipt does not bind the active Studio retirement event.''),
       (Inr (field = ''runtime_disposition_proof_ref'' \<and> \<not> py_eq subject (py_get request ''runtime_disposition_plan_ref'')),
          ''runtime-plan-mismatch'', ''Runtime disposition proof does not bind the accepted plan.''),
       (Inr (field = ''retained_source_readback_ref'' \<and> vr_source_revision proof \<noteq> Some (cs_revision source)),
          ''retained-source-stale'', ''Retained source readback does not bind current Studio source.'')])"

definition evidence_problem ::
  "pydict \<Rightarrow> string \<Rightarrow> closure_source \<Rightarrow> closure_evidence \<Rightarrow> string \<Rightarrow> pyval \<Rightarrow> (string \<times> string) option result" where
  "evidence_problem request action source evidence field expected_owner = (case map_of evidence field of
     None \<Rightarrow> Inr (Some (''evidence-unavailable'', ''Accepted '' @ field @ '' readback is missing or not active.''))
   | Some proof \<Rightarrow> first_problem (evidence_guards request action source evidence field expected_owner proof))"

definition evidence_check ::
  "pydict \<Rightarrow> string \<Rightarrow> closure_source \<Rightarrow> closure_evidence \<Rightarrow> string \<times> string \<Rightarrow> closure_report \<Rightarrow> closure_report result" where
  "evidence_check request action source evidence need report = (case need of (field, owner) \<Rightarrow>
     let expected_owner = (if owner = ''requested-owner'' then py_get request ''durable_owner_ref'' else PStr owner) in
     rbind (evidence_problem request action source evidence field expected_owner) (\<lambda>problem. case problem of
       Some (code, detail) \<Rightarrow> Inr (check field ''blocked'' code detail expected_owner report)
     | None \<Rightarrow> Inr (ready_check field report)))"

definition operator_check :: "pydict \<Rightarrow> string \<Rightarrow> closure_report \<Rightarrow> closure_report result" where
  "operator_check request action report =
     (if action = ''retire-incubation'' then
        rbind (py_index request ''retirement_reason'') (\<lambda>reason. case reason of
          PStr t \<Rightarrow> Inr (if py_strip t = []
            then check ''operator-decision'' ''blocked'' ''retirement-decision-missing''
              ''Retirement requires an explicit operator decision.'' (PStr ''operator-orchestration-service'') report
            else ready_check ''operator-decision'' report)
        | _ \<Rightarrow> Inl (AttributeError ''object has no attribute 'strip''))
      else Inr (ready_check ''operator-decision'' report))"

definition source_checks ::
  "pydict \<Rightarrow> string \<Rightarrow> closure_source \<Rightarrow> pyval \<Rightarrow> string \<Rightarrow> closure_report result" where
  "source_checks request action source expected_from expected_record_digest =
     rbind (allowed_from expected_from) (\<lambda>allowed.
     rbind (py_index request ''expected_source_revision'') (\<lambda>revision.
     let report = (if revision \<noteq> PStr (cs_revision source)
         then check ''source-revision'' ''stale'' ''source-revision-stale''
           ''Prototype Studio has a newer committed source revision.'' studio ([], [])
         else ready_check ''source-revision'' ([], []));
       report = (if expected_record_digest \<noteq> cs_record_digest source
         then check ''source-record'' ''stale'' ''source-record-stale''
           ''Prototype record changed since the request was prepared.'' studio report
         else ready_check ''source-record'' report)
     in rbind (py_index request ''expected_lifecycle'') (\<lambda>lifecycle.
     let report = (if lifecycle \<noteq> PStr (cs_lifecycle source) \<or> PStr (cs_lifecycle source) \<notin> set allowed
         then check ''lifecycle'' ''blocked'' ''invalid-lifecycle''
           (action @ '' cannot start from the committed '' @ cs_lifecycle source @ '' lifecycle.'') studio report
         else ready_check ''lifecycle'' report);
       report = (if \<not> custody_valid action source
         then check ''source-custody'' ''blocked'' ''custody-conflict''
           ''Source custody does not allow this incubation transition.'' studio report
         else ready_check ''source-custody'' report)
     in rbind (source_valid request action source) (\<lambda>valid.
       Inr (check ''source-preconditions'' (if valid then ''ready'' else ''blocked'') ''source-precondition-missing''
         ''Committed Studio source lacks the action-specific prerequisite.'' studio report)))))"

definition closure_outcome :: "closure_report \<Rightarrow> string" where
  "closure_outcome report = (if list_ex (\<lambda>c. snd c = ''blocked'') (fst report) then ''blocked''
     else if list_ex (\<lambda>c. snd c = ''stale'') (fst report) then ''stale'' else ''ready'')"

definition evidence_row :: "string \<times> verified_reference \<Rightarrow> pyval" where
  "evidence_row e = (case e of (field, proof) \<Rightarrow> PDict
     [(''field'', PStr field), (''ref'', PStr (vr_ref proof)), (''owner_ref'', PStr (vr_owner_ref proof)),
      (''digest'', PStr (vr_digest proof)), (''state'', PStr (vr_state proof)),
      (''subject_ref'', opt_val (vr_subject_ref proof)), (''source_revision'', opt_val (vr_source_revision proof)),
      (''source_packet_ref'', opt_val (vr_source_packet_ref proof)), (''prototype_id'', opt_val (vr_prototype_id proof))])"

definition policy_from_lifecycle :: "pyval \<Rightarrow> string \<Rightarrow> pyval result" where
  "policy_from_lifecycle policy action =
     rbind (py_sub policy ''actions'') (\<lambda>actions. rbind (py_sub actions action) (\<lambda>a. py_sub a ''from_lifecycle''))"

record closure_result =
  cr_outcome :: string
  cr_checks :: "(string \<times> string) list"
  cr_findings :: "closure_finding list"
  cr_evidence :: "pyval list"
  cr_evidence_digest :: string

definition closure_result_to_record :: "closure_result \<Rightarrow> pyval" where
  "closure_result_to_record r = PDict
     [(''outcome'', PStr (cr_outcome r)),
      (''checks'', PList (map (\<lambda>c. PDict [(''id'', PStr (fst c)), (''state'', PStr (snd c))]) (cr_checks r))),
      (''findings'', PList (map (\<lambda>f. PDict [(''code'', PStr (cf_code f)), (''detail'', PStr (cf_detail f)),
         (''owner_ref'', cf_owner_ref f)]) (cr_findings r))),
      (''evidence'', PList (cr_evidence r)), (''evidence_digest'', PStr (cr_evidence_digest r))]"

definition evaluate_prototype_closure ::
  "pydict \<Rightarrow> closure_source \<Rightarrow> closure_evidence \<Rightarrow> pyval \<Rightarrow> string \<Rightarrow> closure_result result" where
  "evaluate_prototype_closure request source evidence policy expected_record_digest =
     rbind (rbind (py_index request ''action'') as_text) (\<lambda>action.
     rbind (policy_from_lifecycle policy action) (\<lambda>expected_from.
     rbind (source_checks request action source expected_from expected_record_digest) (\<lambda>report.
     rbind (needed_evidence request action) (\<lambda>needed.
     rbind (rfold (evidence_check request action source evidence) needed report) (\<lambda>report.
     rbind (operator_check request action report) (\<lambda>report.
     let rows = map evidence_row (sort_key fst evidence) in
     rbind (workspace_digest (PList rows)) (\<lambda>d.
     Inr \<lparr>cr_outcome = closure_outcome report, cr_checks = fst report, cr_findings = snd report,
       cr_evidence = rows, cr_evidence_digest = d\<rparr>)))))))"

section \<open>Owner-backed evidence\<close>

record evidence_lookup =
  el_field :: string
  el_owner_ref :: pyval
  el_prototype_id :: pyval
  el_requested_ref :: pyval
  el_subject_ref :: pyval
  el_source_revision :: string
  el_source_packet_ref :: pyval
  el_target_delivery_ref :: pyval
  el_accepted_delivery_target_receipt_ref :: pyval
  el_operator_id :: pyval
  el_retirement_reason :: pyval
  el_durable_owner_acceptance_ref :: pyval

text \<open>A reader is asked for one proof and may raise.\<close>

type_synonym owner_reader = "evidence_lookup \<Rightarrow> verified_reference option result"

definition evidence_subject :: "string \<Rightarrow> pydict \<Rightarrow> closure_source \<Rightarrow> pyval result" where
  "evidence_subject field request source =
     (if field = ''accepted_baseline_receipt_ref'' then Inr (py_get (cs_record source) ''design_baseline_ref'')
      else if field \<in> {''accepted_delivery_target_receipt_ref'', ''target_delivery_ref''} then
        rbind (py_index request ''action'') (\<lambda>a.
          Inr (if a = PStr ''apply-delivery'' then py_get request ''target_delivery_ref'' else PNone))
      else if field \<in> {''durable_owner_acceptance_ref'', ''source_transfer_receipt_ref'', ''already_owned_source_proof_ref''}
      then Inr (py_get request ''durable_repo_ref'')
      else if field = ''runtime_disposition_proof_ref'' then Inr (py_get request ''runtime_disposition_plan_ref'')
      else if field = ''prior_retirement_receipt_ref'' then Inr (py_get (cs_record source) ''retirement_ref'')
      else Inr PNone)"

definition reader_for :: "(string \<times> owner_reader) list \<Rightarrow> string \<Rightarrow> pyval \<Rightarrow> owner_reader option" where
  "reader_for readers owner owner_ref =
     (case (case owner_ref of PStr t \<Rightarrow> map_of readers t | _ \<Rightarrow> None) of
        Some r \<Rightarrow> Some r
      | None \<Rightarrow> if owner = ''requested-owner'' then map_of readers ''requested-owner'' else None)"

definition evidence_lookup_for ::
  "pydict \<Rightarrow> closure_source \<Rightarrow> string \<Rightarrow> string \<Rightarrow> pyval \<Rightarrow> evidence_lookup result" where
  "evidence_lookup_for request source action field owner_ref =
     rbind (py_index request ''prototype_id'') (\<lambda>pid. rbind (evidence_subject field request source) (\<lambda>subject.
     rbind (py_index request ''operator_id'') (\<lambda>operator_id.
     Inr \<lparr>el_field = field, el_owner_ref = owner_ref, el_prototype_id = pid, el_requested_ref = py_get request field,
       el_subject_ref = subject, el_source_revision = cs_revision source,
       el_source_packet_ref = (if field \<in> {''accepted_delivery_target_receipt_ref'', ''target_delivery_ref'',
           ''durable_owner_acceptance_ref'', ''source_transfer_receipt_ref'', ''already_owned_source_proof_ref''}
         then py_get (cs_record source) ''delivery_packet_ref'' else PNone),
       el_target_delivery_ref = py_or (py_get request ''target_delivery_ref'')
         (if action = ''graduate-source'' then py_get (cs_record source) ''delivery_target_ref'' else PNone),
       el_accepted_delivery_target_receipt_ref = py_or (py_get request ''accepted_delivery_target_receipt_ref'')
         (py_get (cs_record source) ''accepted_delivery_target_receipt_ref''),
       el_operator_id = operator_id, el_retirement_reason = py_get request ''retirement_reason'',
       el_durable_owner_acceptance_ref = py_get request ''durable_owner_acceptance_ref''\<rparr>)))"

definition read_evidence ::
  "(string \<times> owner_reader) list \<Rightarrow> pydict \<Rightarrow> closure_source \<Rightarrow> string \<Rightarrow> string \<times> string \<Rightarrow>
     closure_evidence \<Rightarrow> closure_evidence result" where
  "read_evidence readers request source action need evidence = (case need of (field, owner) \<Rightarrow>
     rbind (if owner = ''requested-owner'' then py_index request ''durable_owner_ref'' else Inr (PStr owner)) (\<lambda>owner_ref.
     if is_list owner_ref \<or> is_dict owner_ref then Inl (TypeError ''unhashable type'') else
     case reader_for readers owner owner_ref of
       None \<Rightarrow> Inl (RuntimeError (''Closure owner reader is unavailable: '' @ py_str owner_ref))
     | Some reader \<Rightarrow> rbind (evidence_lookup_for request source action field owner_ref) (\<lambda>lookup.
         rbind (reader lookup) (\<lambda>proof. Inr (case proof of None \<Rightarrow> evidence | Some p \<Rightarrow> assoc_set field p evidence)))))"

definition owner_backed_resolve ::
  "(string \<times> owner_reader) list \<Rightarrow> pydict \<Rightarrow> closure_source \<Rightarrow> closure_evidence result" where
  "owner_backed_resolve readers request source =
     rbind (rbind (py_index request ''action'') as_text) (\<lambda>action.
     rbind (needed_evidence request action) (\<lambda>needed.
     rfold (read_evidence readers request source action) needed []))"

definition safe_optional :: "(string \<Rightarrow> bool) \<Rightarrow> string option \<Rightarrow> bool" where
  "safe_optional P v = (case v of None \<Rightarrow> True | Some t \<Rightarrow> P t)"

definition short_safe_ref :: "string \<Rightarrow> bool" where
  "short_safe_ref t = (length t \<le> 512 \<and> is_safe_ref t)"

definition safe_proof :: "verified_reference \<Rightarrow> bool" where
  "safe_proof proof =
     (short_safe_ref (vr_ref proof) \<and> length (vr_owner_ref proof) \<le> 256 \<and> is_safe_owner (vr_owner_ref proof) \<and>
      is_sha256_ref (vr_digest proof) \<and>
      vr_state proof \<in> {''accepted'', ''missing'', ''revoked'', ''stale'', ''denied''} \<and>
      safe_optional short_safe_ref (vr_subject_ref proof) \<and> safe_optional is_commit (vr_source_revision proof) \<and>
      safe_optional short_safe_ref (vr_source_packet_ref proof) \<and> safe_optional is_kebab (vr_prototype_id proof))"

text \<open>Whatever the resolver raises, the evidence authority is unavailable.\<close>

definition resolve_evidence ::
  "(pydict \<Rightarrow> closure_source \<Rightarrow> closure_evidence result) \<Rightarrow> pydict \<Rightarrow> closure_source \<Rightarrow> closure_evidence result" where
  "resolve_evidence resolver request source = (case resolver request source of
     Inl e \<Rightarrow> Inl (RuntimeError ''Closure evidence authority is unavailable'')
   | Inr evidence \<Rightarrow>
     if 16 < length evidence then Inl (RuntimeError ''Closure evidence resolver returned invalid proof'')
     else rbind (rbind (py_index request ''action'') as_text) (\<lambda>action.
       rbind (needed_evidence request action) (\<lambda>needed.
       if \<not> set (map fst evidence) \<subseteq> set (map fst needed)
       then Inl (RuntimeError ''Closure evidence resolver returned unrelated proof'')
       else if \<not> list_all (\<lambda>e. safe_proof (snd e)) evidence
       then Inl (RuntimeError ''Closure evidence resolver returned unsafe proof metadata'')
       else Inr evidence)))"

end
