(* ===== verification/Closure_Decisions.thy ===== *)
theory Closure_Decisions
  imports Prototype_Closure
begin

text \<open>
  What a closure decision of \<open>Prototype_Closure\<close> means: the reports are followed check by check, and an
  outcome of \<open>ready\<close> is traced back to the proofs of the owners.
\<close>


section \<open>What a ready outcome means\<close>

definition fine :: "closure_report \<Rightarrow> bool" where
  "fine report = list_all (\<lambda>c. snd c \<notin> {''blocked'', ''stale''}) (fst report)"

lemma fine_check [simp]:
  "fine (check i st c d w report) = (fine report \<and> st \<notin> {''blocked'', ''stale''})"
  by (auto simp: fine_def check_def)

lemma fine_start [simp]: "fine ([], [])"
  by (simp add: fine_def)

lemma outcome_ready_iff: "(closure_outcome report = ''ready'') = fine report"
  by (auto simp: closure_outcome_def fine_def list_all_iff list_ex_iff)

lemma first_problem_None: "(first_problem gs = Inr None) = list_all (\<lambda>g. fst g = Inr False) gs"
  by (induction gs rule: first_problem.induct) auto

lemma evidence_check_fine:
  assumes "evidence_check request action source evidence (field, owner) report = Inr report'"
  shows "fine report' = (fine report \<and> evidence_problem request action source evidence field
    (if owner = ''requested-owner'' then py_get request ''durable_owner_ref'' else PStr owner) = Inr None)"
proof -
  obtain problem where problem: "evidence_problem request action source evidence field
      (if owner = ''requested-owner'' then py_get request ''durable_owner_ref'' else PStr owner) = Inr problem"
    using assms by (auto simp: evidence_check_def Let_def simp del: if_split)
  then show ?thesis using assms by (cases problem) (auto simp: evidence_check_def Let_def simp del: if_split)
qed

lemma evidence_checks_fine:
  assumes "rfold (evidence_check request action source evidence) needed report = Inr report'"
  shows "fine report' = (fine report \<and> (\<forall>(field, owner) \<in> set needed. evidence_problem request action source evidence field
    (if owner = ''requested-owner'' then py_get request ''durable_owner_ref'' else PStr owner) = Inr None))"
  using assms
proof (induction needed arbitrary: report)
  case (Cons need needed)
  obtain field owner where need: "need = (field, owner)" by (cases need)
  from Cons.prems need obtain m where m: "evidence_check request action source evidence (field, owner) report = Inr m"
    "rfold (evidence_check request action source evidence) needed m = Inr report'" by auto
  show ?case using Cons.IH [OF m(2)] evidence_check_fine [OF m(1)] need by auto
qed simp

lemma source_checks_fine:
  assumes "source_checks request action source expected_from digest = Inr report"
  shows "fine report = (\<exists>allowed. allowed_from expected_from = Inr allowed \<and>
    py_get request ''expected_source_revision'' = PStr (cs_revision source) \<and> digest = cs_record_digest source \<and>
    py_get request ''expected_lifecycle'' = PStr (cs_lifecycle source) \<and> PStr (cs_lifecycle source) \<in> set allowed \<and>
    custody_valid action source \<and> source_valid request action source = Inr True)"
proof -
  obtain allowed revision lifecycle valid where steps: "allowed_from expected_from = Inr allowed"
    "py_index request ''expected_source_revision'' = Inr revision" "py_index request ''expected_lifecycle'' = Inr lifecycle"
    "source_valid request action source = Inr valid"
    using assms unfolding source_checks_def Let_def rbind_eq_Inr by blast
  have get: "py_get request ''expected_source_revision'' = revision" "py_get request ''expected_lifecycle'' = lifecycle"
    using steps py_index_get_Inr by blast+
  have "fine (projr (source_checks request action source expected_from digest)) =
    (revision = PStr (cs_revision source) \<and> digest = cs_record_digest source \<and>
    lifecycle = PStr (cs_lifecycle source) \<and> PStr (cs_lifecycle source) \<in> set allowed \<and>
    custody_valid action source \<and> valid)"
    by (simp add: source_checks_def Let_def steps if_distrib [of fine] cong: if_cong) blast
  then show ?thesis using assms by (simp add: get steps)
qed

lemma operator_check_fine:
  assumes "operator_check request action report = Inr report'"
  shows "fine report' = (fine report \<and> (action = ''retire-incubation'' \<longrightarrow>
    (\<exists>t. py_get request ''retirement_reason'' = PStr t \<and> py_strip t \<noteq> [])))"
proof (cases "action = ''retire-incubation''")
  case True
  then obtain v where v: "py_index request ''retirement_reason'' = Inr v" using assms by (auto simp: operator_check_def)
  with True assms show ?thesis using py_index_get_Inr [OF v]
    by (cases v) (auto simp: operator_check_def split: if_split_asm)
qed (use assms in \<open>auto simp: operator_check_def\<close>)

lemma closureE:
  assumes "evaluate_prototype_closure request source evidence policy digest = Inr r"
  obtains action expected_from r1 needed r2 r3 where
    "py_get request ''action'' = PStr action" "policy_from_lifecycle policy action = Inr expected_from"
    "source_checks request action source expected_from digest = Inr r1" "needed_evidence request action = Inr needed"
    "rfold (evidence_check request action source evidence) needed r1 = Inr r2" "operator_check request action r2 = Inr r3"
    "cr_outcome r = closure_outcome r3" "py_index request ''action'' = Inr (PStr action)"
proof -
  have as_str: "as_text v = Inr t \<longleftrightarrow> v = PStr t" for v t by (cases v) (auto simp: as_text_def)
  show ?thesis
    using assms unfolding evaluate_prototype_closure_def Let_def rbind_eq_Inr as_str
    by (elim exE conjE) (rule that, auto dest: py_index_get_Inr)
qed

lemma problem_free_proof:
  assumes "evidence_problem request action source evidence field owner = Inr None"
  obtains pr where "map_of evidence field = Some pr"
    "list_all (\<lambda>g. fst g = Inr False) (evidence_guards request action source evidence field owner pr)"
  using assms that by (auto simp: evidence_problem_def first_problem_None split: option.splits)


lemma guards_fine:
  assumes "list_all (\<lambda>g. fst g = Inr False) (evidence_guards request action source evidence field owner pr)"
  shows "vr_state pr = ''accepted''" and "PStr (vr_owner_ref pr) = owner" and "is_sha256_ref (vr_digest pr)"
    and "py_get request field \<in> {PNone, PStr (vr_ref pr)}"
    and "field \<in> {''source_transfer_receipt_ref'', ''already_owned_source_proof_ref''} \<Longrightarrow>
        vr_source_revision pr = Some (cs_revision source) \<and>
        py_eq (opt_val (vr_subject_ref pr)) (py_get request ''durable_repo_ref'')"
    and "field = ''accepted_delivery_target_receipt_ref'' \<Longrightarrow>
        py_eq (opt_val (vr_source_packet_ref pr)) (py_get (cs_record source) ''delivery_packet_ref'') \<and>
        rbind (py_index request ''prototype_id'') (\<lambda>p. Inr (\<not> py_eq (opt_val (vr_prototype_id pr)) p)) = Inr False"
proof -
  let ?gs = "evidence_guards request action source evidence field owner pr"
  have g: "fst (?gs ! i) = Inr False" if "i < 14" for i
    using assms that by (simp add: list_all_length evidence_guards_def Let_def del: nth_Cons_numeral)
  show "vr_state pr = ''accepted''"
    using g [of 0] by (simp add: evidence_guards_def Let_def)
  show "PStr (vr_owner_ref pr) = owner" "is_sha256_ref (vr_digest pr)"
    using g [of 1] by (simp_all add: evidence_guards_def Let_def)
  show "py_get request field \<in> {PNone, PStr (vr_ref pr)}"
    using g [of 2] by (auto simp: evidence_guards_def Let_def)
  show "vr_source_revision pr = Some (cs_revision source) \<and>
        py_eq (opt_val (vr_subject_ref pr)) (py_get request ''durable_repo_ref'')"
    if "field \<in> {''source_transfer_receipt_ref'', ''already_owned_source_proof_ref''}"
    using g [of 8] g [of 9] that by (simp add: evidence_guards_def Let_def) blast
  show "py_eq (opt_val (vr_source_packet_ref pr)) (py_get (cs_record source) ''delivery_packet_ref'') \<and>
        rbind (py_index request ''prototype_id'') (\<lambda>p. Inr (\<not> py_eq (opt_val (vr_prototype_id pr)) p)) = Inr False"
    if "field = ''accepted_delivery_target_receipt_ref''"
    using g [of 4] that by (simp add: evidence_guards_def Let_def split: if_split_asm)
qed



definition sample_closure_request :: pydict where
  "sample_closure_request =
    [(''action'', PStr ''reopen-incubation''), (''prototype_id'', PStr ''alpha''), (''expected_source_revision'', PStr ''r1''),
     (''expected_lifecycle'', PStr ''retired''), (''prior_retirement_receipt_ref'', PStr ''oos://receipts/1'')]"

definition sample_closure_source :: closure_source where
  "sample_closure_source = \<lparr>cs_revision = ''r1'',
     cs_record = [(''retirement_ref'', PStr ''oos://receipts/1''), (''closure_event_ref'', PStr ''oos://receipts/1'')],
     cs_record_digest = ''d1'', cs_lifecycle = ''retired'', cs_custody = ''incubation-repo'', cs_history_digest = None,
     cs_last_event = Some [(''event_type'', PStr ''incubation-retired'')]\<rparr>"

definition sample_closure_proof :: "string \<Rightarrow> string \<Rightarrow> verified_reference" where
  "sample_closure_proof owner r = \<lparr>vr_ref = r, vr_owner_ref = owner, vr_digest = ''sha256:'' @ replicate 64 (CHR ''a''),
     vr_state = ''accepted'', vr_subject_ref = Some ''oos://receipts/1'', vr_source_revision = Some ''r1'',
     vr_source_packet_ref = None, vr_prototype_id = None\<rparr>"

definition sample_closure_evidence :: closure_evidence where
  "sample_closure_evidence =
    [(''retained_source_readback_ref'', sample_closure_proof ''workspace-prototype-studio'' ''studio://sources/1''),
     (''prior_retirement_receipt_ref'', sample_closure_proof ''operator-orchestration-service'' ''oos://receipts/1'')]"

definition sample_closure_policy :: pyval where
  "sample_closure_policy = PDict [(''actions'', PDict [(''reopen-incubation'', PDict [(''from_lifecycle'', PStr ''retired'')])])]"

lemma sample_closure_runs:
  "\<exists>r. evaluate_prototype_closure sample_closure_request sample_closure_source sample_closure_evidence
    sample_closure_policy ''d1'' = Inr r \<and> cr_outcome r = ''ready''"
proof -
  let ?a = "''reopen-incubation''"
  have steps: "rbind (py_index sample_closure_request ''action'') as_text = Inr ?a"
    "policy_from_lifecycle sample_closure_policy ?a = Inr (PStr ''retired'')"
    "needed_evidence sample_closure_request ?a = Inr
      [(''prior_retirement_receipt_ref'', ''operator-orchestration-service''),
       (''retained_source_readback_ref'', ''workspace-prototype-studio'')]"
    by code_simp+
  obtain r1 r2 r3 where run: "source_checks sample_closure_request ?a sample_closure_source (PStr ''retired'') ''d1'' = Inr r1"
    "rfold (evidence_check sample_closure_request ?a sample_closure_source sample_closure_evidence)
      [(''prior_retirement_receipt_ref'', ''operator-orchestration-service''),
       (''retained_source_readback_ref'', ''workspace-prototype-studio'')] r1 = Inr r2"
    "operator_check sample_closure_request ?a r2 = Inr r3" "closure_outcome r3 = ''ready''"
  proof -
    have "rbind (source_checks sample_closure_request ?a sample_closure_source (PStr ''retired'') ''d1'') (\<lambda>r1.
      rbind (rfold (evidence_check sample_closure_request ?a sample_closure_source sample_closure_evidence)
        [(''prior_retirement_receipt_ref'', ''operator-orchestration-service''),
         (''retained_source_readback_ref'', ''workspace-prototype-studio'')] r1) (\<lambda>r2.
      rbind (operator_check sample_closure_request ?a r2) (\<lambda>r3. Inr (closure_outcome r3)))) = Inr ''ready''" by code_simp
    then show ?thesis using that unfolding rbind_eq_Inr by blast
  qed
  have "float_free (PList (map evidence_row (sort_key fst sample_closure_evidence)))" by code_simp
  then obtain d where "workspace_digest (PList (map evidence_row (sort_key fst sample_closure_evidence))) = Inr d"
    by (auto simp: workspace_digest_def workspace_bytes_def)
  then show ?thesis using run by (simp add: evaluate_prototype_closure_def steps Let_def del: rfold.simps)
qed


end
