(* ===== verification/Ledger_Records.thy ===== *)
theory Ledger_Records
  imports Record_Helpers Py_Files
begin

text \<open>
  The append-only ledger events of \<open>validation_execution.py\<close>, which policy decisions,
  validation runs and lifecycle operations all emit.
\<close>

record artifact_ref =
  ar_artifact_id :: string
  ar_byte_count :: int
  ar_digest :: string
  ar_media_type :: string
  ar_path :: string
  ar_purpose :: string

definition artifact_ref_to_record :: "artifact_ref \<Rightarrow> pyval" where
  "artifact_ref_to_record a = PDict
     [(''artifact_id'', PStr (ar_artifact_id a)), (''byte_count'', PInt (ar_byte_count a)),
      (''digest'', PStr (ar_digest a)), (''media_type'', PStr (ar_media_type a)),
      (''path'', PStr (ar_path a)), (''purpose'', PStr (ar_purpose a))]"

definition LEDGER_SCHEMA_VERSION :: int where "LEDGER_SCHEMA_VERSION = 1"

record ledger_event =
  le_action :: string
  le_actor :: string
  le_artifact_refs :: "artifact_ref list"
  le_event_id :: string
  le_event_time :: string
  le_outcome :: string
  le_receipt_refs :: "pydict list"
  le_schema_version :: int
  le_target :: string

definition ledger_event_to_record :: "ledger_event \<Rightarrow> pyval" where
  "ledger_event_to_record e = PDict
     [(''action'', PStr (le_action e)), (''actor'', PStr (le_actor e)),
      (''artifact_refs'', PList (map artifact_ref_to_record (le_artifact_refs e))),
      (''event_id'', PStr (le_event_id e)), (''event_time'', PStr (le_event_time e)),
      (''outcome'', PStr (le_outcome e)), (''receipt_refs'', PList (map PDict (le_receipt_refs e))),
      (''schema_version'', PInt (le_schema_version e)), (''target'', PStr (le_target e))]"

text \<open>
  Appending one event as a JSON line. The text is ASCII, so the bytes written are its characters.
\<close>

definition append_ledger_event :: "string \<Rightarrow> pyval \<Rightarrow> string io" where
  "append_ledger_event path event =
     io_bind (os_mkdir_parents (path_parent_str path)) (\<lambda>_.
     io_bind (os_append_bytes path (json_default event @ [CHR 0x0A])) (\<lambda>_.
     io_return (path_str (posix_path_of path))))"

end
