(* ===== verification/Agent_Actions.thy ===== *)
theory Agent_Actions
  imports Json_Files Ledger_Records "HOL-Library.Sublist"
begin

text \<open>
  \<open>agent_action_policy.py\<close>: the fail-closed decision on one action request of an agent. The request
  is compared, binding by binding, with what the control plane currently knows; a binding that
  differs denies, one that is not known asks for review. The validators of the pinned JSON schemas
  and the YAML parser are third-party code and parameters here.
\<close>

section \<open>The contract bundle\<close>

text \<open>
  A schema error has a place in the document and a message. Parts of two places that agree up to
  them are of the same kind, so the order between an index and a key is never asked for.
\<close>

datatype path_part = PathIndex nat | PathKey string

instantiation path_part :: linorder
begin

fun less_path_part :: "path_part \<Rightarrow> path_part \<Rightarrow> bool" where
  "less_path_part (PathIndex i) (PathIndex j) = (i < j)"
| "less_path_part (PathIndex i) (PathKey s) = True"
| "less_path_part (PathKey s) (PathIndex i) = False"
| "less_path_part (PathKey s) (PathKey t) = (s < t)"

definition less_eq_path_part :: "path_part \<Rightarrow> path_part \<Rightarrow> bool" where
  "less_eq_path_part p q = (p = q \<or> p < q)"

instance
proof
  fix p q r :: path_part
  show "(p < q) = (p \<le> q \<and> \<not> q \<le> p)"
    by (cases p; cases q) (auto simp: less_eq_path_part_def)
  show "p \<le> p" by (simp add: less_eq_path_part_def)
  show "p \<le> q \<Longrightarrow> q \<le> r \<Longrightarrow> p \<le> r"
    by (cases p; cases q; cases r) (auto simp: less_eq_path_part_def)
  show "p \<le> q \<Longrightarrow> q \<le> p \<Longrightarrow> p = q"
    by (cases p; cases q) (auto simp: less_eq_path_part_def)
  show "p \<le> q \<or> q \<le> p"
    by (cases p; cases q) (auto simp: less_eq_path_part_def)
qed

end

fun path_part_str :: "path_part \<Rightarrow> string" where
  "path_part_str (PathIndex i) = nat_to_str i"
| "path_part_str (PathKey s) = s"

record schema_error =
  se_path :: "path_part list"
  se_message :: string

record agent_bundle =
  ab_authority :: pydict
  ab_authority_digest :: string
  ab_authority_uri :: string
  ab_root :: fpath
  ab_source_commit :: string
  ab_validators :: "(string \<times> (pyval \<Rightarrow> schema_error list)) list"

text \<open>An \<open>AgentActionContractError\<close>, which is a \<open>ValueError\<close>.\<close>

definition contract_error :: "string \<Rightarrow> 'a result" where
  "contract_error msg = Inl (ValueError msg)"

definition bundle_validate :: "agent_bundle \<Rightarrow> string \<Rightarrow> pyval \<Rightarrow> unit result" where
  "bundle_validate bundle artifact_type artifact = (case map_of (ab_validators bundle) artifact_type of
     None \<Rightarrow> contract_error (''unsupported agent-action artifact '' @ artifact_type)
   | Some iter_errors \<Rightarrow> (case sort_key se_path (iter_errors artifact) of [] \<Rightarrow> Inr ()
     | e # es \<Rightarrow>
       (let at = py_join ''.'' (map path_part_str (se_path e)) in
        contract_error (artifact_type @ '' '' @ (if at = [] then ''<root>'' else at) @ '': '' @ se_message e))))"

definition non_empty_string :: "pyval \<Rightarrow> string option" where
  "non_empty_string v = (case v of PStr s \<Rightarrow> if py_strip s = [] then None else Some (py_strip s) | _ \<Rightarrow> None)"

text \<open>\<open>_verified_path\<close> of a resolved root: the path returned is resolved too.\<close>

definition verified_path :: "fs \<Rightarrow> fpath \<Rightarrow> pydict \<Rightarrow> fpath result" where
  "verified_path fs root entry =
     (case (non_empty_string (py_get entry ''path''), non_empty_string (py_get entry ''sha256'')) of
        (Some relative, Some expected) \<Rightarrow>
          rbind (resolve_from fs root relative) (\<lambda>path.
            if \<not> prefix root path then contract_error ''agent-action contract path escapes its bundle''
            else (case node_at fs path of
                Some (FileNode bytes mtime) \<Rightarrow>
                  if sha256_hex bytes \<noteq> expected
                  then contract_error (''agent-action contract file '' @ relative @ '' does not match its manifest digest'')
                  else Inr path
              | _ \<Rightarrow> contract_error (''agent-action contract file '' @ relative @ '' is unavailable'')))
      | _ \<Rightarrow> contract_error ''agent-action manifest entry is incomplete'')"

text \<open>
  \<open>yaml\<close> stands for \<open>yaml.safe_load\<close>, \<open>None\<close> being a \<open>YAMLError\<close>, and \<open>validator\<close> for
  \<open>check_schema\<close> with the validator of the schema, \<open>None\<close> being a \<open>SchemaError\<close>.
\<close>

definition load_authority :: "(string \<Rightarrow> pyval option) \<Rightarrow> fs \<Rightarrow> fpath \<Rightarrow> pydict \<Rightarrow> pydict result" where
  "load_authority yaml fs root entry =
     rbind (verified_path fs root entry) (\<lambda>path. rbind (read_text fs path) (\<lambda>content.
     case content of None \<Rightarrow> contract_error ''agent-action authority contract is invalid''
     | Some t \<Rightarrow> (case yaml t of None \<Rightarrow> contract_error ''agent-action authority contract is invalid''
       | Some (PDict authority) \<Rightarrow>
         if py_get authority ''owner_repo'' \<noteq> PStr ''workspace-governance''
         then contract_error ''agent-action authority ownership is invalid''
         else (case py_get authority ''action_classes'' of
             PDict classes \<Rightarrow>
               if set (map fst classes) = {''read'', ''advise'', ''draft'', ''mutate''} then Inr authority
               else contract_error ''agent-action authority classes are incomplete''
           | _ \<Rightarrow> contract_error ''agent-action authority classes are incomplete'')
       | Some v \<Rightarrow> contract_error ''agent-action authority ownership is invalid'')))"

definition load_validator ::
  "(pyval \<Rightarrow> (pyval \<Rightarrow> schema_error list) option) \<Rightarrow> fs \<Rightarrow> fpath \<Rightarrow> pydict \<Rightarrow> string \<Rightarrow>
     (string \<times> (pyval \<Rightarrow> schema_error list)) result" where
  "load_validator validator fs root schema_entries artifact_type =
     (case py_get schema_entries artifact_type of
        PDict entry \<Rightarrow> rbind (verified_path fs root entry) (\<lambda>path. rbind (read_text fs path) (\<lambda>content.
          case content of None \<Rightarrow> contract_error (''schema '' @ artifact_type @ '' is invalid'')
          | Some t \<Rightarrow> rbind (catch_json (json_loads plain_hooks t)
                (\<lambda>msg. contract_error (''schema '' @ artifact_type @ '' is invalid''))) (\<lambda>schema.
              case validator schema of None \<Rightarrow> contract_error (''schema '' @ artifact_type @ '' is invalid'')
              | Some iter_errors \<Rightarrow> Inr (artifact_type, iter_errors))))
      | _ \<Rightarrow> contract_error (''schema entry '' @ artifact_type @ '' is missing''))"

definition load_manifest :: "fs \<Rightarrow> fpath \<Rightarrow> pydict result" where
  "load_manifest fs root = rbind (read_text fs (root @ [''manifest.json''])) (\<lambda>content.
     case content of None \<Rightarrow> contract_error ''agent-action contract manifest is unavailable or invalid''
     | Some t \<Rightarrow> rbind (catch_json (json_loads plain_hooks t)
           (\<lambda>msg. contract_error ''agent-action contract manifest is unavailable or invalid'')) (\<lambda>v.
         case v of PDict manifest \<Rightarrow> Inr manifest
         | _ \<Rightarrow> Inl (AttributeError ''object has no attribute 'get'')))"

definition bundle_of_entries ::
  "(string \<Rightarrow> pyval option) \<Rightarrow> (pyval \<Rightarrow> (pyval \<Rightarrow> schema_error list) option) \<Rightarrow> fs \<Rightarrow> fpath \<Rightarrow>
     string \<Rightarrow> pydict \<Rightarrow> pydict \<Rightarrow> agent_bundle result" where
  "bundle_of_entries yaml validator fs root commit authority_entry schema_entries =
     rbind (load_authority yaml fs root authority_entry) (\<lambda>authority.
     rbind (rmapM (load_validator validator fs root schema_entries)
       [''agent_action_request'', ''agent_action_policy_decision'']) (\<lambda>validators.
     rbind (py_index authority_entry ''sha256'') (\<lambda>sha.
     Inr \<lparr>ab_authority = authority, ab_authority_digest = ''sha256:'' @ py_str sha,
       ab_authority_uri = text_of (py_get authority_entry ''uri''), ab_root = root,
       ab_source_commit = commit, ab_validators = validators\<rparr>)))"

definition bundle_of_manifest ::
  "(string \<Rightarrow> pyval option) \<Rightarrow> (pyval \<Rightarrow> (pyval \<Rightarrow> schema_error list) option) \<Rightarrow> fs \<Rightarrow> fpath \<Rightarrow>
     pydict \<Rightarrow> agent_bundle result" where
  "bundle_of_manifest yaml validator fs root manifest = (case py_get manifest ''source'' of
     PDict source \<Rightarrow>
       if py_get source ''repo'' \<noteq> PStr ''workspace-governance''
       then contract_error ''agent-action contract source must be workspace-governance''
       else (case non_empty_string (py_get source ''commit'') of
           None \<Rightarrow> contract_error ''agent-action contract source commit is required''
         | Some commit \<Rightarrow> (case (py_get manifest ''authority'', py_get manifest ''schemas'') of
             (PDict authority_entry, PDict schema_entries) \<Rightarrow>
               bundle_of_entries yaml validator fs root commit authority_entry schema_entries
           | _ \<Rightarrow> contract_error ''agent-action contract manifest is incomplete''))
   | _ \<Rightarrow> contract_error ''agent-action contract source must be workspace-governance'')"

definition bundle_load ::
  "(string \<Rightarrow> pyval option) \<Rightarrow> (pyval \<Rightarrow> (pyval \<Rightarrow> schema_error list) option) \<Rightarrow> fs \<Rightarrow> string \<Rightarrow>
     agent_bundle result" where
  "bundle_load yaml validator fs root_text =
     rbind (path_resolve fs root_text) (\<lambda>root. rbind (load_manifest fs root)
       (bundle_of_manifest yaml validator fs root))"

section \<open>Times and digests\<close>

text \<open>\<open>_parse_timestamp\<close> requires an aware time, and \<open>_coerce_timestamp\<close> an aware \<open>now\<close>.\<close>

definition parse_timestamp :: "pyval \<Rightarrow> string \<Rightarrow> pydt result" where
  "parse_timestamp v field_name = (case v of
     PStr s \<Rightarrow>
       if py_strip s = [] then contract_error (field_name @ '' must be a date-time string'')
       else (case fromisoformat (py_replace ''Z'' ''+00:00'' s) of
           None \<Rightarrow> contract_error (field_name @ '' must be a valid date-time'')
         | Some d \<Rightarrow> if \<not> dt_aware d then contract_error (field_name @ '' must include a timezone'') else dt_to_utc d)
   | _ \<Rightarrow> contract_error (field_name @ '' must be a date-time string''))"

definition decision_timestamp :: "pydt \<Rightarrow> now_arg \<Rightarrow> pydt result" where
  "decision_timestamp clock now = (case now of
     NowNone \<Rightarrow> Inr clock
   | NowDatetime d \<Rightarrow> if \<not> dt_aware d then contract_error ''decision time must include a timezone'' else dt_to_utc d
   | NowText t \<Rightarrow> parse_timestamp (PStr t) ''decision time'')"

definition format_timestamp :: "pydt \<Rightarrow> string result" where
  "format_timestamp d = rbind (dt_to_utc d) (\<lambda>u. Inr (isoformat_z u))"

definition content_projection :: "pydict \<Rightarrow> pydict" where
  "content_projection artifact = (case py_get artifact ''integrity'' of
     PDict i \<Rightarrow> assoc_set ''integrity'' (PDict (dict_del ''content_digest'' i)) artifact
   | _ \<Rightarrow> artifact)"

definition validate_content_digest :: "pydict \<Rightarrow> string \<Rightarrow> unit result" where
  "validate_content_digest artifact label = (case py_get_or (PDict []) artifact ''integrity'' of
     PDict i \<Rightarrow> rbind (canonical_digest (PDict (content_projection artifact))) (\<lambda>expected.
       if py_get i ''content_digest'' \<noteq> PStr expected
       then contract_error (label @ '' integrity.content_digest does not match canonical content'') else Inr ())
   | _ \<Rightarrow> Inl (AttributeError ''object has no attribute 'get''))"

section \<open>Comparing bindings\<close>

text \<open>The codes collected so far: those that deny, and those that ask for review.\<close>

type_synonym action_codes = "string list \<times> string list"

definition deny_code :: "string \<Rightarrow> action_codes \<Rightarrow> action_codes" where
  "deny_code c codes = (fst codes @ [c], snd codes)"

definition review_code :: "string \<Rightarrow> action_codes \<Rightarrow> action_codes" where
  "review_code c codes = (fst codes, snd codes @ [c])"

definition compare_binding :: "pyval \<Rightarrow> pyval \<Rightarrow> string \<Rightarrow> string \<Rightarrow> action_codes \<Rightarrow> action_codes" where
  "compare_binding requested current unverified mismatch codes =
     (if current = PNone then review_code unverified codes
      else if \<not> py_eq current requested then deny_code mismatch codes else codes)"

definition compare_optional_binding :: "pyval \<Rightarrow> pyval \<Rightarrow> string \<Rightarrow> string \<Rightarrow> action_codes \<Rightarrow> action_codes" where
  "compare_optional_binding requested current unverified mismatch codes =
     (if requested = PNone then codes else compare_binding requested current unverified mismatch codes)"

text \<open>
  A comparison reads one field of a part of the request, whose name comes first, and the current
  value under a key.
\<close>

type_synonym binding = "string \<times> string \<times> string \<times> string"

definition compare_field :: "pyval \<Rightarrow> pydict \<Rightarrow> binding \<Rightarrow> action_codes \<Rightarrow> action_codes result" where
  "compare_field part current b codes = (case b of (field, key, unverified, mismatch) \<Rightarrow>
     rbind (py_sub part field) (\<lambda>v. Inr (compare_binding v (py_get current key) unverified mismatch codes)))"

definition compare_fields :: "pydict \<Rightarrow> string \<Rightarrow> pydict \<Rightarrow> binding list \<Rightarrow> action_codes \<Rightarrow> action_codes result" where
  "compare_fields request part current bs codes =
     rbind (py_index request part) (\<lambda>p. rfold (compare_field p current) bs codes)"

definition operator_bindings :: "binding list" where
  "operator_bindings =
    [(''principal_id'', ''operator_principal_id'', ''operator-identity-unverified'', ''operator-identity-mismatch''),
     (''session_ref'', ''operator_session_ref'', ''operator-session-unverified'', ''operator-session-stale''),
     (''acceptance_ref'', ''operator_acceptance_ref'', ''operator-acceptance-unverified'', ''operator-acceptance-mismatch'')]"

definition caller_bindings :: "binding list" where
  "caller_bindings =
    [(''workload_id'', ''caller_workload_id'', ''caller-identity-unverified'', ''caller-identity-mismatch''),
     (''credential_binding_ref'', ''caller_credential_binding_ref'', ''caller-credential-unverified'', ''caller-credential-stale'')]"

definition agent_bindings :: "binding list" where
  "agent_bindings =
    [(''instance_id'', ''agent_instance_id'', ''agent-instance-unverified'', ''agent-instance-stale'')]"

definition workflow_bindings :: "binding list" where
  "workflow_bindings =
    [(''workflow_id'', ''workflow_id'', ''workflow-admission-unverified'', ''workflow-not-admitted''),
     (''workflow_version'', ''workflow_version'', ''workflow-version-unverified'', ''workflow-version-mismatch'')]"

definition target_bindings :: "binding list" where
  "target_bindings =
    [(''owner_repo'', ''target_owner_repo'', ''target-owner-unverified'', ''target-owner-mismatch''),
     (''resource_id'', ''target_resource_id'', ''target-resource-unverified'', ''target-resource-mismatch''),
     (''source_version'', ''source_version'', ''source-version-unverified'', ''source-version-mismatch'')]"

definition authority_bindings :: "binding list" where
  "authority_bindings =
    [(''delegation_ref'', ''delegation_ref'', ''delegation-unverified'', ''delegation-mismatch''),
     (''policy_profile_ref'', ''policy_profile_ref'', ''policy-profile-unverified'', ''policy-profile-mismatch'')]"

definition approval_bindings :: "binding list" where
  "approval_bindings =
    [(''approval_ref'', ''approval_ref'', ''approval-unverified'', ''approval-mismatch'')]"

section \<open>The checks of a request\<close>

definition window_check :: "pydt \<Rightarrow> pydt \<Rightarrow> pydt \<Rightarrow> action_codes" where
  "window_check decision_time requested_at expires_at =
     (if \<not> dt_less requested_at expires_at then ([''invalid-request-window''], [])
      else if dt_less decision_time requested_at then ([''request-not-yet-current''], [])
      else if \<not> dt_less decision_time expires_at then ([''request-expired''], [])
      else ([], []))"

definition command_check :: "pydict \<Rightarrow> pydict \<Rightarrow> action_codes \<Rightarrow> action_codes result" where
  "command_check request current codes = (case py_get current ''admitted_commands'' of
     PList admitted \<Rightarrow> rbind (py_index request ''workflow'') (\<lambda>w. rbind (py_sub w ''command'') (\<lambda>command.
       Inr (if list_ex (\<lambda>a. py_eq a command) admitted then codes
            else deny_code ''workflow-command-not-admitted'' codes)))
   | _ \<Rightarrow> Inr (review_code ''workflow-command-admission-unverified'' codes))"

definition context_check :: "pydict \<Rightarrow> pydict \<Rightarrow> action_codes \<Rightarrow> action_codes result" where
  "context_check request current codes = rbind (py_index request ''context'') (\<lambda>c. case c of
     PDict context \<Rightarrow> Inr
       (compare_optional_binding (py_get context ''receipt_ref'') (py_get current ''context_receipt_ref'')
          ''context-receipt-unverified'' ''context-receipt-mismatch''
         (compare_optional_binding (py_get context ''packet_ref'') (py_get current ''context_packet_ref'')
            ''context-packet-unverified'' ''context-packet-mismatch'' codes))
   | _ \<Rightarrow> Inl (AttributeError ''object has no attribute 'get''))"

definition approval_expiry_check :: "pydict \<Rightarrow> pydt \<Rightarrow> action_codes \<Rightarrow> action_codes result" where
  "approval_expiry_check current decision_time codes = (case py_get current ''approval_expires_at'' of
     PNone \<Rightarrow> Inr (review_code ''approval-expiry-unverified'' codes)
   | v \<Rightarrow> (case parse_timestamp v ''approval_expires_at'' of
       Inr t \<Rightarrow> Inr (if \<not> dt_less decision_time t then deny_code ''approval-expired'' codes else codes)
     | Inl (ValueError msg) \<Rightarrow> Inr (deny_code ''approval-expiry-invalid'' codes)
     | Inl e \<Rightarrow> Inl e))"

fun consumed_loop :: "pydict \<Rightarrow> pyval list \<Rightarrow> action_codes \<Rightarrow> action_codes result" where
  "consumed_loop request [] codes = Inr codes"
| "consumed_loop request (entry # rest) codes = (case entry of
     PDict e \<Rightarrow> rbind (py_index request ''idempotency_key'') (\<lambda>key.
       if \<not> py_eq (py_get e ''idempotency_key'') key then consumed_loop request rest codes
       else rbind (py_index request ''intent'') (\<lambda>i. rbind (py_sub i ''digest'') (\<lambda>d.
         Inr (if py_eq (py_get e ''intent_digest'') d then deny_code ''idempotency-key-consumed'' codes
              else deny_code ''idempotency-intent-conflict'' codes))))
   | _ \<Rightarrow> consumed_loop request rest codes)"

definition consumed_check :: "pydict \<Rightarrow> pydict \<Rightarrow> action_codes \<Rightarrow> action_codes result" where
  "consumed_check request current codes = (case py_get current ''consumed_idempotency'' of
     PList consumed \<Rightarrow> consumed_loop request consumed codes
   | _ \<Rightarrow> Inr (review_code ''idempotency-state-unverified'' codes))"

text \<open>The codes of a request, in the order of the code.\<close>

definition model_invocation_check :: "pydict \<Rightarrow> pydict \<Rightarrow> action_codes \<Rightarrow> action_codes" where
  "model_invocation_check request current =
     compare_optional_binding (py_get request ''model_invocation_ref'') (py_get current ''model_invocation_ref'')
       ''model-invocation-unverified'' ''model-invocation-mismatch''"

definition approval_check :: "pydict \<Rightarrow> pydict \<Rightarrow> pydt \<Rightarrow> action_codes \<Rightarrow> action_codes result" where
  "approval_check request current decision_time codes =
     rbind (compare_fields request ''authority'' current approval_bindings codes)
       (approval_expiry_check current decision_time)"

definition agent_action_codes ::
  "pydict \<Rightarrow> pydict \<Rightarrow> string \<Rightarrow> pydt \<Rightarrow> pydt \<Rightarrow> pydt \<Rightarrow> action_codes result" where
  "agent_action_codes request current action_class decision_time requested_at expires_at =
     rbind (compare_fields request ''operator'' current operator_bindings
              (window_check decision_time requested_at expires_at)) (\<lambda>codes.
     rbind (compare_fields request ''caller'' current caller_bindings codes) (\<lambda>codes.
     rbind (compare_fields request ''agent'' current agent_bindings codes) (\<lambda>codes.
     rbind (compare_fields request ''workflow'' current workflow_bindings
              (model_invocation_check request current codes)) (\<lambda>codes.
     rbind (command_check request current codes) (\<lambda>codes.
     rbind (compare_fields request ''target'' current target_bindings codes) (\<lambda>codes.
     rbind (context_check request current codes) (\<lambda>codes.
     rbind (compare_fields request ''authority'' current authority_bindings codes) (\<lambda>codes.
     rbind (if action_class = ''mutate'' then approval_check request current decision_time codes else Inr codes)
       (consumed_check request current)))))))))"

text \<open>\<open>list(dict.fromkeys(values))\<close>: the first occurrence of each.\<close>

definition unique :: "string list \<Rightarrow> string list" where
  "unique values = rev (remdups (rev values))"

definition action_outcome :: "action_codes \<Rightarrow> string \<times> string list" where
  "action_outcome codes = (let deny_codes = unique (fst codes); review_codes = unique (snd codes) in
     if deny_codes \<noteq> [] then (''deny'', deny_codes @ review_codes)
     else if review_codes \<noteq> [] then (''review-required'', review_codes)
     else (''allow'', [''authority-bindings-current'', ''owner-workflow-admitted'']))"

section \<open>The decision record\<close>

definition BASE_OBLIGATIONS :: "string list" where
  "BASE_OBLIGATIONS = [''record-terminal-action-receipt'', ''require-current-source-version'', ''deny-raw-context-projection'']"

definition MUTATE_OBLIGATIONS :: "string list" where
  "MUTATE_OBLIGATIONS = [''require-exact-operator-approval'', ''require-owner-receipt-after-invocation'']"

fun unique_refs :: "string list \<Rightarrow> pyval list \<Rightarrow> pyval list result" where
  "unique_refs seen [] = Inr []"
| "unique_refs seen (v # vs) = rbind (canonical_digest v) (\<lambda>key.
     if key \<in> set seen then unique_refs seen vs
     else map_sum id ((#) v) (unique_refs (key # seen) vs))"

definition request_field :: "pydict \<Rightarrow> string \<Rightarrow> string \<Rightarrow> pyval result" where
  "request_field request part field = rbind (py_index request part) (\<lambda>p. py_sub p field)"

text \<open>\<open>text.split(":", 1)[-1]\<close>\<close>

definition after_colon :: "string \<Rightarrow> string" where
  "after_colon t = (if CHR '':'' \<in> set t then tl (dropWhile (\<lambda>c. c \<noteq> CHR '':'') t) else t)"

definition action_bindings :: "pydict \<Rightarrow> pyval result" where
  "action_bindings request = map_sum id PDict (rmapM (\<lambda>(key, part, field).
     map_sum id (Pair key) (request_field request part field))
     [(''operator_principal_id'', ''operator'', ''principal_id''), (''operator_session_ref'', ''operator'', ''session_ref''),
      (''caller_workload_id'', ''caller'', ''workload_id''), (''agent_instance_id'', ''agent'', ''instance_id''),
      (''workflow_execution_id'', ''workflow'', ''execution_id''), (''target_owner_repo'', ''target'', ''owner_repo''),
      (''target_resource_id'', ''target'', ''resource_id''), (''source_version'', ''target'', ''source_version''),
      (''approval_ref'', ''authority'', ''approval_ref'')])"

definition identity_projection ::
  "agent_bundle \<Rightarrow> pydict \<Rightarrow> string \<Rightarrow> pydt \<Rightarrow> string \<times> string list \<Rightarrow> pydict result" where
  "identity_projection bundle request action_class decision_time verdict =
     rbind (request_field request ''integrity'' ''content_digest'') (\<lambda>request_digest.
     rbind (py_index request ''request_id'') (\<lambda>request_id.
     rbind (action_bindings request) (\<lambda>bindings.
     rbind (request_field request ''authority'' ''policy_profile_ref'') (\<lambda>profile.
     rbind (unique_refs []
       [PDict [(''uri'', PStr (ab_authority_uri bundle)), (''digest'', PStr (ab_authority_digest bundle))], profile]) (\<lambda>refs.
     rbind (format_timestamp decision_time) (\<lambda>decided_at.
     rbind (py_index request ''expires_at'') (\<lambda>expires_at.
     Inr [(''request_ref'', PDict [(''uri'', PStr (''wgcf://agent-actions/requests/'' @ after_colon (py_str request_id))),
            (''digest'', request_digest)]),
          (''action_class'', PStr action_class), (''outcome'', PStr (fst verdict)),
          (''reason_codes'', PList (map PStr (snd verdict))),
          (''obligations'', PList (map PStr (BASE_OBLIGATIONS @ (if action_class = ''mutate'' then MUTATE_OBLIGATIONS else [])))),
          (''decided_at'', PStr decided_at), (''expires_at'', expires_at), (''bindings'', bindings),
          (''policy_refs'', PList refs)])))))))"

definition decision_record :: "pydict \<Rightarrow> pydict result" where
  "decision_record projection =
     rbind (canonical_digest (PDict projection)) (\<lambda>decision_digest.
     let integrity = [(''canonicalization'', PStr ''RFC8785''), (''algorithm'', PStr ''sha256''), (''content_digest'', PStr [])];
         record = [(''schema_version'', PInt 1), (''artifact_type'', PStr ''agent_action_policy_decision''),
           (''decision_id'', PStr (digest_id ''agent-action-decision:'' decision_digest))] @ projection @
           [(''integrity'', PDict integrity)]
     in rbind (canonical_digest (PDict (content_projection record))) (\<lambda>content_digest.
        Inr (assoc_set ''integrity'' (PDict (assoc_set ''content_digest'' (PStr content_digest) integrity)) record)))"

definition evaluate_agent_action_request ::
  "agent_bundle \<Rightarrow> pydt \<Rightarrow> pyval \<Rightarrow> pyval \<Rightarrow> now_arg \<Rightarrow> pydict result" where
  "evaluate_agent_action_request bundle clock request_value current_value now =
     (case (request_value, current_value) of
        (PDict request, PDict current) \<Rightarrow>
          (case canonicalization_errors (PDict request) ''<root>'' of e # es \<Rightarrow> contract_error e | [] \<Rightarrow>
          rbind (bundle_validate bundle ''agent_action_request'' (PDict request)) (\<lambda>_.
          rbind (validate_content_digest request ''agent-action request'') (\<lambda>_.
          rbind (decision_timestamp clock now) (\<lambda>decision_time.
          rbind (parse_timestamp (py_get request ''requested_at'') ''requested_at'') (\<lambda>requested_at.
          rbind (parse_timestamp (py_get request ''expires_at'') ''expires_at'') (\<lambda>expires_at.
          rbind (map_sum id py_str (py_index request ''action_class'')) (\<lambda>action_class.
          rbind (agent_action_codes request current action_class decision_time requested_at expires_at) (\<lambda>codes.
          rbind (identity_projection bundle request action_class decision_time (action_outcome codes)) (\<lambda>projection.
          rbind (decision_record projection) (\<lambda>record.
          rbind (bundle_validate bundle ''agent_action_policy_decision'' (PDict record)) (\<lambda>_.
          Inr record)))))))))))
      | (PDict request, _) \<Rightarrow> contract_error ''agent-action current bindings must be an object''
      | _ \<Rightarrow> contract_error ''agent-action request must be an object'')"

text \<open>The properties of an \<open>AgentActionPolicyDecision\<close>.\<close>

definition policy_decision_id :: "pydict \<Rightarrow> string result" where
  "policy_decision_id record = map_sum id py_str (py_index record ''decision_id'')"

definition policy_decision_outcome :: "pydict \<Rightarrow> string result" where
  "policy_decision_outcome record = map_sum id py_str (py_index record ''outcome'')"

section \<open>The ledger event\<close>

definition AGENT_ACTION_LEDGER_SCHEMA_VERSION :: int where "AGENT_ACTION_LEDGER_SCHEMA_VERSION = 1"

definition build_agent_action_policy_ledger_event :: "string \<Rightarrow> pydict \<Rightarrow> ledger_event result" where
  "build_agent_action_policy_ledger_event actor record =
     rbind (py_index record ''decision_id'') (\<lambda>decision_id.
     rbind (request_field record ''integrity'' ''content_digest'') (\<lambda>digest.
     rbind (rbind (py_index record ''outcome'') as_text) (\<lambda>outcome.
     rbind (request_field record ''bindings'' ''target_owner_repo'') (\<lambda>owner.
     rbind (request_field record ''bindings'' ''target_resource_id'') (\<lambda>resource.
     rbind (rbind (py_index record ''decided_at'') as_text) (\<lambda>decided_at.
     let decision_ref = [(''receipt_id'', decision_id), (''digest'', digest), (''outcome'', PStr outcome)];
         target = py_str owner @ '':'' @ py_str resource
     in rbind (canonical_digest (PDict [(''action'', PStr ''agent-action.policy-decision.issued''), (''actor'', PStr actor),
            (''decision_ref'', PDict decision_ref), (''event_time'', PStr decided_at), (''target'', PStr target)]))
          (\<lambda>event_digest.
        Inr \<lparr>le_action = ''agent-action.policy-decision.issued'', le_actor = actor, le_artifact_refs = [],
          le_event_id = digest_id ''ledger-event:'' event_digest, le_event_time = decided_at, le_outcome = outcome,
          le_receipt_refs = [decision_ref], le_schema_version = AGENT_ACTION_LEDGER_SCHEMA_VERSION,
          le_target = target\<rparr>)))))))"

record agent_action_result =
  aa_decision :: pydict
  aa_ledger_event :: ledger_event

definition agent_action_result_to_record :: "agent_action_result \<Rightarrow> pyval" where
  "agent_action_result_to_record r = PDict
     [(''decision'', PDict (aa_decision r)), (''ledger_event'', ledger_event_to_record (aa_ledger_event r))]"

definition run_agent_action_evaluation ::
  "agent_bundle \<Rightarrow> pydt \<Rightarrow> pyval \<Rightarrow> string \<Rightarrow> pyval \<Rightarrow> string \<Rightarrow> now_arg \<Rightarrow> agent_action_result io" where
  "run_agent_action_evaluation bundle clock request actor current ledger_path now =
     io_bind (io_result (evaluate_agent_action_request bundle clock request current now)) (\<lambda>decision.
     io_bind (io_result (build_agent_action_policy_ledger_event actor decision)) (\<lambda>event.
     io_bind (append_ledger_event ledger_path (ledger_event_to_record event)) (\<lambda>_.
     io_return \<lparr>aa_decision = decision, aa_ledger_event = event\<rparr>)))"

end
