(* ===== verification/Agent_Decisions.thy ===== *)
theory Agent_Decisions
  imports Agent_Actions
begin

text \<open>
  What the decisions of \<open>agent_action_policy.py\<close> guarantee. The locale \<open>code_check\<close> is the contract all
  comparisons share, and each of them is an interpretation of it; the decision is then the conjunction
  of what the checks ask for.
\<close>

section \<open>What every check has in common\<close>

text \<open>
  A check adds codes at the end of those collected, and adds none exactly when the request passes it.
  Checks in sequence are a check.
\<close>

definition clean :: "action_codes \<Rightarrow> bool" where
  "clean codes = (fst codes = [] \<and> snd codes = [])"

locale code_check =
  fixes check :: "action_codes \<Rightarrow> action_codes result" and passes :: bool
  assumes verdict: "check codes = Inr codes' \<Longrightarrow> clean codes' = (clean codes \<and> passes)"
    and keeps: "check codes = Inr codes' \<Longrightarrow> set (fst codes) \<subseteq> set (fst codes')"
begin

lemma denied_stays: "check codes = Inr codes' \<Longrightarrow> fst codes \<noteq> [] \<Longrightarrow> fst codes' \<noteq> []"
  using keeps [of codes codes'] by (cases "fst codes") auto

lemma clean_passes: "clean codes \<Longrightarrow> check codes = Inr codes' \<Longrightarrow> clean codes' = passes"
  using verdict by blast

end

lemma code_check_id: "code_check Inr True"
  by unfold_locales auto

lemma code_check_seq:
  assumes "code_check f P" and "code_check g Q"
  shows "code_check (\<lambda>codes. rbind (f codes) g) (P \<and> Q)"
proof
  fix codes codes'
  assume "rbind (f codes) g = Inr codes'"
  then obtain c where c: "f codes = Inr c" "g c = Inr codes'" by auto
  show "clean codes' = (clean codes \<and> P \<and> Q)"
    using code_check.verdict [OF assms(1) c(1)] code_check.verdict [OF assms(2) c(2)] by blast
  show "set (fst codes) \<subseteq> set (fst codes')"
    using code_check.keeps [OF assms(1) c(1)] code_check.keeps [OF assms(2) c(2)] by (rule subset_trans)
qed

lemma code_check_rfold:
  "(\<And>b. b \<in> set bs \<Longrightarrow> code_check (f b) (P b)) \<Longrightarrow> code_check (rfold f bs) (\<forall>b \<in> set bs. P b)"
proof (induction bs)
  case Nil
  then show ?case using code_check_id by (simp add: code_check_def)
next
  case (Cons b bs)
  then have "code_check (f b) (P b)" "code_check (rfold f bs) (\<forall>b \<in> set bs. P b)" by simp_all
  from code_check_seq [OF this] show ?case by (simp add: code_check_def)
qed

lemma code_check_rbind_const: "(\<And>v. r = Inr v \<Longrightarrow> code_check (f v) P) \<Longrightarrow> code_check (\<lambda>codes. rbind r (\<lambda>v. f v codes)) P"
  by (cases r) (auto simp: code_check_def)

lemma code_check_pure:
  "(\<And>codes. clean (f codes) = (clean codes \<and> P)) \<Longrightarrow> (\<And>codes. set (fst codes) \<subseteq> set (fst (f codes))) \<Longrightarrow>
   code_check (\<lambda>codes. Inr (f codes)) P"
  by unfold_locales (simp, metis sum.inject(2))+

lemma added_code [simp]: "\<not> clean (deny_code c codes)" "\<not> clean (review_code c codes)"
  by (simp_all add: deny_code_def review_code_def clean_def)

lemma added_code_keeps [simp]:
  "set (fst codes) \<subseteq> set (fst (deny_code c codes))" "set (fst codes) \<subseteq> set (fst (review_code c codes))"
  by (auto simp: deny_code_def review_code_def)

text \<open>A binding is current when its current value is known and equal.\<close>

definition binding_current :: "pyval \<Rightarrow> pyval \<Rightarrow> bool" where
  "binding_current requested current = (current \<noteq> PNone \<and> py_eq current requested)"

definition optional_binding_current :: "pyval \<Rightarrow> pyval \<Rightarrow> bool" where
  "optional_binding_current requested current = (requested = PNone \<or> binding_current requested current)"

definition fields_current :: "pydict \<Rightarrow> string \<Rightarrow> pydict \<Rightarrow> binding list \<Rightarrow> bool" where
  "fields_current request part current bs = list_all (\<lambda>(field, key, u, m). case request_field request part field of
     Inr v \<Rightarrow> binding_current v (py_get current key) | Inl e \<Rightarrow> False) bs"

lemma compare_binding_check:
  "code_check (\<lambda>codes. Inr (compare_binding v c u m codes)) (binding_current v c)"
  by (rule code_check_pure) (simp_all add: compare_binding_def binding_current_def)

lemma compare_optional_binding_check:
  "code_check (\<lambda>codes. Inr (compare_optional_binding v c u m codes)) (optional_binding_current v c)"
  using compare_binding_check [of v c u m]
  by (auto simp: compare_optional_binding_def optional_binding_current_def code_check_def)

interpretation fields: code_check "compare_fields request part current bs" "fields_current request part current bs"
  for request part current bs
proof -
  have "code_check (compare_field p current b)
      (case b of (field, key, u, m) \<Rightarrow> case py_sub p field of Inr v \<Rightarrow> binding_current v (py_get current key) | Inl e \<Rightarrow> False)" for p b
  proof (cases b)
    case (fields field key u m)
    then show ?thesis using compare_binding_check
      by (cases "py_sub p field") (auto simp: compare_field_def code_check_def)
  qed
  then have "code_check (rfold (compare_field p current) bs) (fields_current request part current bs)"
    if "py_index request part = Inr p" for p
    using code_check_rfold [of bs "compare_field p current"] that
    by (fastforce simp: fields_current_def list_all_iff request_field_def)
  then show "code_check (compare_fields request part current bs) (fields_current request part current bs)"
    unfolding compare_fields_def by (rule code_check_rbind_const)
qed

lemma code_check_deny: "code_check (\<lambda>codes. Inr (deny_code c codes)) False"
  and code_check_review: "code_check (\<lambda>codes. Inr (review_code c codes)) False"
  by (rule code_check_pure; simp)+

lemma code_check_raise: "code_check (\<lambda>codes. Inl e) P"
  by (simp add: code_check_def)

lemma code_check_keep: "P \<Longrightarrow> code_check Inr P" "P \<Longrightarrow> code_check (\<lambda>codes. Inr codes) P"
  using code_check_id by (simp_all add: code_check_def)

lemmas code_checks = code_check_deny code_check_review code_check_raise code_check_keep

definition command_admitted :: "pydict \<Rightarrow> pydict \<Rightarrow> bool" where
  "command_admitted request current = (case (py_get current ''admitted_commands'', request_field request ''workflow'' ''command'') of
     (PList admitted, Inr command) \<Rightarrow> list_ex (\<lambda>a. py_eq a command) admitted | _ \<Rightarrow> False)"

interpretation command: code_check "command_check request current" "command_admitted request current" for request current
proof -
  show "code_check (command_check request current) (command_admitted request current)"
  proof (cases "py_get current ''admitted_commands''")
    case (PList admitted)
    have "code_check (command_check request current) (command_admitted request current)"
      if "request_field request ''workflow'' ''command'' = Inr command" for command
      using that PList by (cases "list_ex (\<lambda>a. py_eq a command) admitted")
        (auto simp: command_check_def [abs_def] command_admitted_def request_field_def intro: code_checks)
    then show ?thesis using PList
      by (cases "request_field request ''workflow'' ''command''")
        (auto simp: command_check_def [abs_def] request_field_def rbind_eq_Inl intro: code_checks)
  qed (simp_all add: command_check_def [abs_def] command_admitted_def code_checks)
qed

definition context_current :: "pydict \<Rightarrow> pydict \<Rightarrow> bool" where
  "context_current request current = (case py_index request ''context'' of
     Inr (PDict context) \<Rightarrow>
       optional_binding_current (py_get context ''packet_ref'') (py_get current ''context_packet_ref'') \<and>
       optional_binding_current (py_get context ''receipt_ref'') (py_get current ''context_receipt_ref'')
   | _ \<Rightarrow> False)"

interpretation context_refs: code_check "context_check request current" "context_current request current" for request current
proof -
  have two: "code_check (\<lambda>codes. Inr (compare_optional_binding v' c' u' m' (compare_optional_binding v c u m codes)))
      (optional_binding_current v c \<and> optional_binding_current v' c')" for v c u m v' c' u' m'
    using code_check_seq [OF compare_optional_binding_check [of v c u m] compare_optional_binding_check [of v' c' u' m']] by simp
  show "code_check (context_check request current) (context_current request current)"
    unfolding context_check_def
  proof (rule code_check_rbind_const)
    fix c assume c: "py_index request ''context'' = Inr c"
    show "code_check (\<lambda>codes. case c of
        PDict context \<Rightarrow> Inr
          (compare_optional_binding (py_get context ''receipt_ref'') (py_get current ''context_receipt_ref'')
             ''context-receipt-unverified'' ''context-receipt-mismatch''
            (compare_optional_binding (py_get context ''packet_ref'') (py_get current ''context_packet_ref'')
               ''context-packet-unverified'' ''context-packet-mismatch'' codes))
      | _ \<Rightarrow> Inl (AttributeError ''object has no attribute 'get'')) (context_current request current)"
      using two c by (cases c) (simp_all add: context_current_def code_check_def)
  qed
qed

definition approval_live :: "pydict \<Rightarrow> pydt \<Rightarrow> bool" where
  "approval_live current decision_time = (py_get current ''approval_expires_at'' \<noteq> PNone \<and>
     (case parse_timestamp (py_get current ''approval_expires_at'') ''approval_expires_at'' of
        Inr t \<Rightarrow> dt_less decision_time t | Inl e \<Rightarrow> False))"

lemma approval_expiry_code_check: "code_check (approval_expiry_check current t) (approval_live current t)"
proof (cases "py_get current ''approval_expires_at'' = PNone")
  case True
  then show ?thesis by (simp add: approval_expiry_check_def [abs_def] approval_live_def code_checks)
next
  case False
  let ?time = "parse_timestamp (py_get current ''approval_expires_at'') ''approval_expires_at''"
  from False have "approval_expiry_check current t = (\<lambda>codes. case ?time of
         Inr u \<Rightarrow> Inr (if \<not> dt_less t u then deny_code ''approval-expired'' codes else codes)
       | Inl (ValueError msg) \<Rightarrow> Inr (deny_code ''approval-expiry-invalid'' codes)
       | Inl e \<Rightarrow> Inl e)"
    by (cases "py_get current ''approval_expires_at''") (simp_all add: approval_expiry_check_def [abs_def])
  note run = this
  show ?thesis
  proof (cases ?time)
    case (Inl e)
    then show ?thesis using False run by (cases e) (simp_all add: approval_live_def code_checks)
  next
    case (Inr u)
    then show ?thesis using False run by (cases "dt_less t u") (simp_all add: approval_live_def code_checks)
  qed
qed

interpretation approval: code_check "approval_check request current t"
    "fields_current request ''authority'' current approval_bindings \<and> approval_live current t" for request current t
  unfolding approval_check_def using code_check_seq [OF fields.code_check_axioms approval_expiry_code_check] .

text \<open>The idempotency key is known not to be consumed.\<close>

definition key_entry :: "pyval \<Rightarrow> pyval \<Rightarrow> bool" where
  "key_entry key entry = (case entry of PDict e \<Rightarrow> py_eq (py_get e ''idempotency_key'') key | _ \<Rightarrow> False)"

definition key_unused :: "pydict \<Rightarrow> pydict \<Rightarrow> bool" where
  "key_unused request current = (case py_get current ''consumed_idempotency'' of
     PList consumed \<Rightarrow> \<not> list_ex (key_entry (py_get request ''idempotency_key'')) consumed | _ \<Rightarrow> False)"

lemma consumed_loop_check:
  "code_check (consumed_loop request consumed) (\<not> list_ex (key_entry (py_get request ''idempotency_key'')) consumed)"
proof (induction consumed)
  case Nil
  then show ?case by unfold_locales auto
next
  case (Cons entry rest)
  show ?case
  proof (cases entry)
    case (PDict e)
    show ?thesis
    proof (cases "py_index request ''idempotency_key''")
      case (Inr key)
      then have "py_get request ''idempotency_key'' = key" by (rule py_index_get_Inr)
      moreover have "consumed_loop request (entry # rest) =
          (if \<not> py_eq (py_get e ''idempotency_key'') key then consumed_loop request rest
           else (\<lambda>codes. rbind (request_field request ''intent'' ''digest'') (\<lambda>d.
             Inr (if py_eq (py_get e ''intent_digest'') d then deny_code ''idempotency-key-consumed'' codes
                  else deny_code ''idempotency-intent-conflict'' codes))))"
        by (auto simp: PDict Inr request_field_def rbind_def split: sum.splits)
      moreover have "code_check (\<lambda>codes. rbind (request_field request ''intent'' ''digest'') (\<lambda>d.
             Inr (if py_eq (py_get e ''intent_digest'') d then deny_code ''idempotency-key-consumed'' codes
                  else deny_code ''idempotency-intent-conflict'' codes))) False"
      proof (rule code_check_rbind_const)
        show "code_check (\<lambda>codes. Inr (if py_eq (py_get e ''intent_digest'') d then deny_code ''idempotency-key-consumed'' codes
                  else deny_code ''idempotency-intent-conflict'' codes)) False" for d
          by (cases "py_eq (py_get e ''intent_digest'') d") (simp_all add: code_checks)
      qed
      ultimately show ?thesis using PDict Cons by (simp add: key_entry_def)
    qed (simp add: PDict code_check_def)
  qed (use Cons in \<open>simp_all add: code_check_def key_entry_def\<close>)
qed

interpretation consumed: code_check "consumed_check request current" "key_unused request current" for request current
proof -
  show "code_check (consumed_check request current) (key_unused request current)"
    using consumed_loop_check by (cases "py_get current ''consumed_idempotency''")
      (auto simp: code_check_def consumed_check_def key_unused_def)
qed


section \<open>The decision\<close>

text \<open>
  What has to hold for an action to be allowed, each condition read off the request and the current
  state alone.
\<close>

definition in_window :: "pydt \<Rightarrow> pydt \<Rightarrow> pydt \<Rightarrow> bool" where
  "in_window decision_time requested_at expires_at =
     (\<not> dt_less decision_time requested_at \<and> dt_less decision_time expires_at)"

definition action_permitted :: "pydict \<Rightarrow> pydict \<Rightarrow> string \<Rightarrow> pydt \<Rightarrow> pydt \<Rightarrow> pydt \<Rightarrow> bool" where
  "action_permitted request current action_class decision_time requested_at expires_at =
     (in_window decision_time requested_at expires_at \<and>
      list_all (\<lambda>(part, bs). fields_current request part current bs)
        [(''operator'', operator_bindings), (''caller'', caller_bindings), (''agent'', agent_bindings),
         (''workflow'', workflow_bindings), (''target'', target_bindings), (''authority'', authority_bindings)] \<and>
      optional_binding_current (py_get request ''model_invocation_ref'') (py_get current ''model_invocation_ref'') \<and>
      context_current request current \<and> command_admitted request current \<and> key_unused request current \<and>
      (action_class = ''mutate'' \<longrightarrow>
        fields_current request ''authority'' current approval_bindings \<and> approval_live current decision_time))"

lemma window_clean: "clean (window_check t r e) = in_window t r e"
  by (auto simp: window_check_def in_window_def clean_def dt_less_def)

lemma agent_action_codes_clean:
  assumes "agent_action_codes request current action_class t r e = Inr codes"
  shows "clean codes = action_permitted request current action_class t r e"
proof -
  obtain c1 c2 c3 c4 c5 c6 c7 c8 c9 where
    c: "compare_fields request ''operator'' current operator_bindings (window_check t r e) = Inr c1"
    "compare_fields request ''caller'' current caller_bindings c1 = Inr c2"
    "compare_fields request ''agent'' current agent_bindings c2 = Inr c3"
    "compare_fields request ''workflow'' current workflow_bindings (model_invocation_check request current c3) = Inr c4"
    "command_check request current c4 = Inr c5"
    "compare_fields request ''target'' current target_bindings c5 = Inr c6"
    "context_check request current c6 = Inr c7"
    "compare_fields request ''authority'' current authority_bindings c7 = Inr c8"
    "(if action_class = ''mutate'' then approval_check request current t c8 else Inr c8) = Inr c9"
    "consumed_check request current c9 = Inr codes"
    using assms unfolding agent_action_codes_def rbind_eq_Inr by blast
  have model: "clean (model_invocation_check request current c3) = (clean c3 \<and>
      optional_binding_current (py_get request ''model_invocation_ref'') (py_get current ''model_invocation_ref''))"
    unfolding model_invocation_check_def by (rule code_check.verdict [OF compare_optional_binding_check]) simp
  have mutate: "clean c9 = (clean c8 \<and> (action_class = ''mutate'' \<longrightarrow>
        fields_current request ''authority'' current approval_bindings \<and> approval_live current t))"
    using c(9) approval.verdict [of request current t c8 c9] by (auto split: if_splits)
  show ?thesis
    using fields.verdict [OF c(1)] fields.verdict [OF c(2)] fields.verdict [OF c(3)] model fields.verdict [OF c(4)]
      command.verdict [OF c(5)] fields.verdict [OF c(6)] context_refs.verdict [OF c(7)] fields.verdict [OF c(8)]
      mutate consumed.verdict [OF c(10)]
    unfolding action_permitted_def window_clean by (simp only: list.pred_inject prod.case) blast
qed

lemma unique_set [simp]: "set (unique xs) = set xs"
  by (simp add: unique_def)

lemma unique_empty [simp]: "(unique xs = []) = (xs = [])"
  by (metis unique_set set_empty)

lemma action_outcome_simps:
  "fst (action_outcome codes) = (if fst codes \<noteq> [] then ''deny'' else if snd codes \<noteq> [] then ''review-required'' else ''allow'')"
  by (simp add: action_outcome_def Let_def)

lemma identity_projection_outcome:
  "identity_projection bundle request action_class t verdict = Inr p \<Longrightarrow>
     map_of p ''outcome'' = Some (PStr (fst verdict)) \<and> ''integrity'' \<notin> fst ` set p \<and>
     fst ` set p \<inter> {''schema_version'', ''artifact_type'', ''decision_id''} = {}"
  by (auto simp: identity_projection_def)

lemma decision_record_get:
  "decision_record p = Inr record \<Longrightarrow> map_of p k = Some v \<Longrightarrow>
   k \<notin> {''schema_version'', ''artifact_type'', ''decision_id'', ''integrity''} \<Longrightarrow> py_get record k = v"
  by (auto simp: decision_record_def Let_def py_get_or_def)

text \<open>The steps of an evaluation that returned.\<close>

lemma evaluateE:
  assumes "evaluate_agent_action_request bundle clock request_value current_value now = Inr record"
  obtains request current t r e action_class codes projection where
    "request_value = PDict request" "current_value = PDict current"
    "canonicalization_errors request_value ''<root>'' = []"
    "validate_content_digest request ''agent-action request'' = Inr ()"
    "decision_timestamp clock now = Inr t"
    "parse_timestamp (py_get request ''requested_at'') ''requested_at'' = Inr r"
    "parse_timestamp (py_get request ''expires_at'') ''expires_at'' = Inr e"
    "map_sum id py_str (py_index request ''action_class'') = Inr action_class"
    "agent_action_codes request current action_class t r e = Inr codes"
    "identity_projection bundle request action_class t (action_outcome codes) = Inr projection"
    "decision_record projection = Inr record"
    "bundle_validate bundle ''agent_action_request'' request_value = Inr ()"
    "bundle_validate bundle ''agent_action_policy_decision'' (PDict record) = Inr ()"
proof -
  obtain request current where v: "request_value = PDict request" "current_value = PDict current"
    using assms by (auto simp: evaluate_agent_action_request_def contract_error_def split: pyval.splits)
  show ?thesis
    using assms that [OF v] unfolding v evaluate_agent_action_request_def
    by (simp add: contract_error_def split: list.splits) blast
qed

lemma evaluate_outcome:
  assumes "evaluate_agent_action_request bundle clock request_value current_value now = Inr record"
  obtains request current t r e action_class codes where
    "request_value = PDict request" "current_value = PDict current" "decision_timestamp clock now = Inr t"
    "parse_timestamp (py_get request ''requested_at'') ''requested_at'' = Inr r"
    "parse_timestamp (py_get request ''expires_at'') ''expires_at'' = Inr e"
    "map_sum id py_str (py_index request ''action_class'') = Inr action_class"
    "agent_action_codes request current action_class t r e = Inr codes"
    "py_get record ''outcome'' = PStr (fst (action_outcome codes))"
    "py_get record ''reason_codes'' = PList (map PStr (snd (action_outcome codes)))"
proof (rule evaluateE [OF assms])
  fix request current t r e action_class codes projection
  assume run: "request_value = PDict request" "current_value = PDict current" "decision_timestamp clock now = Inr t"
    "parse_timestamp (py_get request ''requested_at'') ''requested_at'' = Inr r"
    "parse_timestamp (py_get request ''expires_at'') ''expires_at'' = Inr e"
    "map_sum id py_str (py_index request ''action_class'') = Inr action_class"
    "agent_action_codes request current action_class t r e = Inr codes"
    and p: "identity_projection bundle request action_class t (action_outcome codes) = Inr projection"
    and d: "decision_record projection = Inr record"
  have "map_of projection ''outcome'' = Some (PStr (fst (action_outcome codes)))"
    "map_of projection ''reason_codes'' = Some (PList (map PStr (snd (action_outcome codes))))"
    using p by (auto simp: identity_projection_def)
  then show thesis using that [OF run] decision_record_get [OF d] by simp
qed

text \<open>
  C36. An action is allowed exactly when everything it binds is current: it is decided within its
  window, each of its bindings to operator, caller, agent, workflow, target and authority (and to a
  model invocation and context, if it names them) is known and equal to the current value, its command is
  admitted, its idempotency key is known to be unused and, for a mutation, its approval is the current
  one and has not expired. One unknown or different binding is enough to withhold the allowance.
\<close>

theorem agent_action_allow_iff:
  assumes "evaluate_agent_action_request bundle clock (PDict request) (PDict current) now = Inr record"
  shows "\<exists>t r e action_class.
    decision_timestamp clock now = Inr t \<and>
    parse_timestamp (py_get request ''requested_at'') ''requested_at'' = Inr r \<and>
    parse_timestamp (py_get request ''expires_at'') ''expires_at'' = Inr e \<and>
    action_class = py_str (py_get request ''action_class'') \<and>
    (py_get record ''outcome'' = PStr ''allow'') = action_permitted request current action_class t r e"
proof (rule evaluate_outcome [OF assms], goal_cases)
  case (1 request' current' t r e action_class codes)
  then have "action_class = py_str (py_get request' ''action_class'')"
    by (auto simp: map_sum_Inr dest: py_index_get_Inr)
  moreover have "(py_get record ''outcome'' = PStr ''allow'') = clean codes"
    using 1 by (simp add: action_outcome_simps clean_def)
  ultimately show ?case using 1 agent_action_codes_clean [OF 1(7)] by auto
qed

text \<open>
  C37. A used idempotency key never acts again: when the current state lists the key of a request as
  consumed, the decision is \<open>deny\<close>, with the reason that says whether the intent is the same.
\<close>

theorem consumed_key_denied:
  assumes "evaluate_agent_action_request bundle clock (PDict request) (PDict current) now = Inr record"
    and "py_get current ''consumed_idempotency'' = PList consumed"
    and "list_ex (key_entry (py_get request ''idempotency_key'')) consumed"
  shows "py_get record ''outcome'' = PStr ''deny'' \<and>
    (\<exists>codes. py_get record ''reason_codes'' = PList (map PStr codes) \<and>
      (''idempotency-key-consumed'' \<in> set codes \<or> ''idempotency-intent-conflict'' \<in> set codes))"
proof (rule evaluate_outcome [OF assms(1)], goal_cases)
  case (1 request' current' t r e action_class codes)
  have loop: "list_ex (key_entry (py_get request ''idempotency_key'')) es \<Longrightarrow>
      consumed_loop request es c = Inr codes \<Longrightarrow>
      ''idempotency-key-consumed'' \<in> set (fst codes) \<or> ''idempotency-intent-conflict'' \<in> set (fst codes)" for es c
    by (induction es) (auto simp: key_entry_def deny_code_def split: pyval.splits if_splits dest: py_index_get_Inr)
  obtain c where "consumed_check request current c = Inr codes"
    using 1 by (auto simp: agent_action_codes_def)
  then have "consumed_loop request consumed c = Inr codes" using assms(2) by (simp add: consumed_check_def)
  from loop [OF assms(3) this] have "''idempotency-key-consumed'' \<in> set (fst codes) \<or> ''idempotency-intent-conflict'' \<in> set (fst codes)" .
  moreover from this have "action_outcome codes = (''deny'', unique (fst codes) @ unique (snd codes))"
    by (cases "fst codes") (auto simp: action_outcome_def Let_def)
  ultimately show ?case using 1
    by (intro conjI exI [of _ "unique (fst codes) @ unique (snd codes)"]) auto
qed

lemma content_projection_integrity:
  "map_of d ''integrity'' = Some (PDict i) \<Longrightarrow>
   content_projection (assoc_set ''integrity'' (PDict (assoc_set ''content_digest'' v i)) d) = content_projection d"
  by (simp add: content_projection_def py_get_or_def)

lemma decision_record_self:
  assumes "decision_record p = Inr record" and "''integrity'' \<notin> fst ` set p"
  shows "validate_content_digest record label = Inr ()"
proof -
  obtain d0 i d where d0: "map_of d0 ''integrity'' = Some (PDict i)"
    and d: "canonical_digest (PDict (content_projection d0)) = Inr d"
    and rec: "record = assoc_set ''integrity'' (PDict (assoc_set ''content_digest'' (PStr d) i)) d0"
  proof -
    fix thesis
    assume found: "\<And>d0 i d. map_of d0 ''integrity'' = Some (PDict i) \<Longrightarrow>
      canonical_digest (PDict (content_projection d0)) = Inr d \<Longrightarrow>
      record = assoc_set ''integrity'' (PDict (assoc_set ''content_digest'' (PStr d) i)) d0 \<Longrightarrow> thesis"
    obtain d1 where "canonical_digest (PDict p) = Inr d1" using assms(1) by (auto simp: decision_record_def)
    moreover have "map_of p ''integrity'' = None" using assms(2) by (simp add: map_of_eq_None_iff)
    ultimately show thesis using assms(1) unfolding decision_record_def Let_def rbind_simps rbind_eq_Inr
      by (elim exE conjE) (rule found, auto simp: map_add_def)
  qed
  then show ?thesis
    using content_projection_integrity [OF d0] d by (simp add: rec validate_content_digest_def py_get_or_def)
qed



section \<open>A permitted action\<close>

definition sample_bundle :: agent_bundle where
  "sample_bundle = \<lparr>ab_authority = [], ab_authority_digest = ''sha256:00'', ab_authority_uri = ''repo://authority'',
     ab_root = [], ab_source_commit = ''c'',
     ab_validators = [(''agent_action_request'', \<lambda>v. []), (''agent_action_policy_decision'', \<lambda>v. [])]\<rparr>"

definition sample_content :: "string \<Rightarrow> pydict" where
  "sample_content action_class =
    [(''request_id'', PStr ''agent-action-request:7''), (''action_class'', PStr action_class),
     (''idempotency_key'', PStr ''key''),
     (''requested_at'', PStr ''2026-01-01T00:00:00Z''), (''expires_at'', PStr ''2026-01-01T01:00:00Z''),
     (''operator'', PDict [(''principal_id'', PStr ''op''), (''session_ref'', PStr ''s''), (''acceptance_ref'', PStr ''a'')]),
     (''caller'', PDict [(''workload_id'', PStr ''w''), (''credential_binding_ref'', PStr ''c'')]),
     (''agent'', PDict [(''instance_id'', PStr ''i'')]),
     (''workflow'', PDict [(''workflow_id'', PStr ''f''), (''workflow_version'', PInt 1), (''command'', PStr ''go''), (''execution_id'', PStr ''x'')]),
     (''target'', PDict [(''owner_repo'', PStr ''r''), (''resource_id'', PStr ''t''), (''source_version'', PStr ''v'')]),
     (''context'', PDict []), (''intent'', PDict [(''digest'', PStr ''d'')]),
     (''authority'', PDict [(''delegation_ref'', PStr ''g''), (''policy_profile_ref'', PStr ''p''), (''approval_ref'', PStr ''ok'')]),
     (''integrity'', PDict [(''content_digest'', PNone)])]"

definition sample_request :: "string \<Rightarrow> string \<Rightarrow> pydict" where
  "sample_request action_class d =
     assoc_set ''integrity'' (PDict (assoc_set ''content_digest'' (PStr d) [(''content_digest'', PNone)])) (sample_content action_class)"

definition sample_current :: "pyval list \<Rightarrow> pydict" where
  "sample_current consumed =
    [(''operator_principal_id'', PStr ''op''), (''operator_session_ref'', PStr ''s''), (''operator_acceptance_ref'', PStr ''a''),
     (''caller_workload_id'', PStr ''w''), (''caller_credential_binding_ref'', PStr ''c''), (''agent_instance_id'', PStr ''i''),
     (''workflow_id'', PStr ''f''), (''workflow_version'', PInt 1), (''admitted_commands'', PList [PStr ''go'']),
     (''target_owner_repo'', PStr ''r''), (''target_resource_id'', PStr ''t''), (''source_version'', PStr ''v''),
     (''delegation_ref'', PStr ''g''), (''policy_profile_ref'', PStr ''p''), (''approval_ref'', PStr ''ok''),
     (''approval_expires_at'', PStr ''2026-02-01T00:00:00+01:00''), (''consumed_idempotency'', PList consumed)]"

lemma unique_refs_total: "list_all canonical_value vs \<Longrightarrow> \<exists>refs. unique_refs seen vs = Inr refs \<and> canonical_values refs"
proof (induction vs arbitrary: seen)
  case (Cons v vs)
  then obtain d where d: "canonical_digest v = Inr d" using canonical_digest_total [of v] by auto
  obtain refs where "unique_refs (if d \<in> set seen then seen else d # seen) vs = Inr refs" "canonical_values refs"
    using Cons by fastforce
  then show ?case using d Cons.prems by (auto split: if_splits)
qed simp

lemma decision_record_total:
  assumes "canonical_items p" and "''integrity'' \<notin> fst ` set p"
  shows "\<exists>r. decision_record p = Inr r"
proof -
  obtain d where d: "canonical_digest (PDict p) = Inr d"
    using canonical_digest_total [of "PDict p"] assms(1) by auto
  let ?r = "[(''schema_version'', PInt 1), (''artifact_type'', PStr ''agent_action_policy_decision''),
      (''decision_id'', PStr (digest_id ''agent-action-decision:'' d))] @ p @
      [(''integrity'', PDict [(''canonicalization'', PStr ''RFC8785''), (''algorithm'', PStr ''sha256''), (''content_digest'', PStr [])])]"
  have assoc: "canonical_items r \<Longrightarrow> canonical_value v \<Longrightarrow> canonical_items (assoc_set k v r)" for k v r
    by (induction k v r rule: assoc_set.induct) auto
  have "map_of ?r ''integrity'' =
      Some (PDict [(''canonicalization'', PStr ''RFC8785''), (''algorithm'', PStr ''sha256''), (''content_digest'', PStr [])])"
    using assms(2) by (simp add: map_add_def map_of_eq_None_iff [THEN iffD2])
  moreover have "canonical_items ?r" using assms(1) by (simp add: canonical_items_all MAX_SAFE_INTEGER_def)
  ultimately have "canonical_value (PDict (content_projection ?r))"
    by (simp add: content_projection_def py_get_or_def assoc dict_del_def del: append_Cons)
  from canonical_digest_total [OF this] obtain e where "canonical_digest (PDict (content_projection ?r)) = Inr e" ..
  then show ?thesis using d by (simp add: decision_record_def)
qed

lemma sample_times:
  "decision_timestamp clock (NowText ''2026-01-01T00:30:00Z'') = Inr \<lparr>dt_local = 63902824200000000, dt_off = Some 0\<rparr>"
  "parse_timestamp (PStr ''2026-01-01T00:00:00Z'') n = Inr \<lparr>dt_local = 63902822400000000, dt_off = Some 0\<rparr>"
  "parse_timestamp (PStr ''2026-01-01T01:00:00Z'') n = Inr \<lparr>dt_local = 63902826000000000, dt_off = Some 0\<rparr>"
  "parse_timestamp (PStr ''2026-02-01T00:00:00+01:00'') n = Inr \<lparr>dt_local = 63905497200000000, dt_off = Some 0\<rparr>"
  by (simp_all add: decision_timestamp_def) code_simp+

lemma sample_evaluates:
  assumes "action_class \<in> {''read'', ''mutate''}"
    and "consumed \<in> {[], [PDict [(''idempotency_key'', PStr ''key''), (''intent_digest'', PStr ''d'')]]}"
  shows "\<exists>d rec. evaluate_agent_action_request sample_bundle clock (PDict (sample_request action_class d))
    (PDict (sample_current consumed)) (NowText ''2026-01-01T00:30:00Z'') = Inr rec"
proof -
  have "canonical_value (PDict (content_projection (sample_content action_class)))"
    by (simp add: sample_content_def content_projection_def py_get_or_def dict_del_def MAX_SAFE_INTEGER_def)
  from canonical_digest_total [OF this] obtain d
    where d: "canonical_digest (PDict (content_projection (sample_content action_class))) = Inr d" ..
  let ?r = "sample_request action_class d"
  have "canonicalization_errors (PDict ?r) ''<root>'' = []"
    unfolding canonicalization_errors_iff(1) by (simp add: sample_request_def sample_content_def MAX_SAFE_INTEGER_def)
  moreover have "validate_content_digest ?r l = Inr ()" for l
    using content_projection_integrity [of "sample_content action_class" "[(''content_digest'', PNone)]" "PStr d"] d
    by (simp add: sample_request_def validate_content_digest_def py_get_or_def) (simp add: sample_content_def)
  moreover have "\<not> isl (agent_action_codes ?r (sample_current consumed) action_class
      \<lparr>dt_local = 63902824200000000, dt_off = Some 0\<rparr> \<lparr>dt_local = 63902822400000000, dt_off = Some 0\<rparr>
      \<lparr>dt_local = 63902826000000000, dt_off = Some 0\<rparr>)"
  proof -
    consider "action_class = ''read''" "consumed = []" | "action_class = ''mutate''" "consumed = []"
      | "action_class = ''read''" "consumed = [PDict [(''idempotency_key'', PStr ''key''), (''intent_digest'', PStr ''d'')]]"
      | "action_class = ''mutate''" "consumed = [PDict [(''idempotency_key'', PStr ''key''), (''intent_digest'', PStr ''d'')]]"
      using assms by blast
    then show ?thesis by cases (simp only:, code_simp)+
  qed
  moreover have "\<exists>p. identity_projection sample_bundle ?r action_class
      \<lparr>dt_local = 63902824200000000, dt_off = Some 0\<rparr> verdict = Inr p \<and> canonical_items p \<and> ''integrity'' \<notin> fst ` set p" for verdict
  proof -
    let ?vs = "[PDict [(''uri'', PStr ''repo://authority''), (''digest'', PStr ''sha256:00'')], PStr ''p'']"
    have "list_all canonical_value ?vs" by simp
    then obtain refs where "unique_refs [] ?vs = Inr refs" "canonical_values refs"
      using unique_refs_total by blast
    moreover have "\<exists>s. format_timestamp \<lparr>dt_local = 63902824200000000, dt_off = Some 0\<rparr> = Inr s"
      by (simp add: format_timestamp_def dt_to_utc_def dt_utc_def max_local_def us_per_day_def Let_def)
    moreover have "canonical_values (map PStr xs @ map PStr ys)" "canonical_values (map PStr xs)" for xs ys
      by (auto simp: canonical_values_all list_all_iff)
    ultimately show ?thesis
      by (auto simp: identity_projection_def request_field_def action_bindings_def sample_request_def sample_content_def sample_bundle_def
          py_index_def MAX_SAFE_INTEGER_def simp del: unique_refs.simps)
  qed
  moreover have "bundle_validate sample_bundle ''agent_action_request'' v = Inr ()"
      "bundle_validate sample_bundle ''agent_action_policy_decision'' v = Inr ()" for v
    by (simp_all add: bundle_validate_def sample_bundle_def)
  moreover have "py_get ?r ''requested_at'' = PStr ''2026-01-01T00:00:00Z''" "py_get ?r ''expires_at'' = PStr ''2026-01-01T01:00:00Z''"
      "py_index ?r ''action_class'' = Inr (PStr action_class)"
    by (simp_all add: sample_request_def sample_content_def py_get_or_def py_index_def)
  ultimately show ?thesis
    using decision_record_total
    by (intro exI [of _ d]) (simp add: evaluate_agent_action_request_def sample_times not_isl_Inr, metis)
qed

lemma agent_action_allow_iff_witness:
  "\<exists>d rec. evaluate_agent_action_request sample_bundle dt_min_utc (PDict (sample_request ''mutate'' d))
    (PDict (sample_current [])) (NowText ''2026-01-01T00:30:00Z'') = Inr rec \<and> py_get rec ''outcome'' = PStr ''allow''"
proof -
  obtain d rec where run: "evaluate_agent_action_request sample_bundle dt_min_utc (PDict (sample_request ''mutate'' d))
    (PDict (sample_current [])) (NowText ''2026-01-01T00:30:00Z'') = Inr rec"
    using sample_evaluates [of "''mutate''" "[]" dt_min_utc] by blast
  have request: "py_get (sample_request ''mutate'' d) ''requested_at'' = PStr ''2026-01-01T00:00:00Z''"
    "py_get (sample_request ''mutate'' d) ''expires_at'' = PStr ''2026-01-01T01:00:00Z''"
    "py_str (py_get (sample_request ''mutate'' d) ''action_class'') = ''mutate''"
    by code_simp+
  have "action_permitted (sample_request ''mutate'' d) (sample_current []) ''mutate''
      \<lparr>dt_local = 63902824200000000, dt_off = Some 0\<rparr> \<lparr>dt_local = 63902822400000000, dt_off = Some 0\<rparr>
      \<lparr>dt_local = 63902826000000000, dt_off = Some 0\<rparr>"
    by code_simp
  then show ?thesis using agent_action_allow_iff [OF run] run unfolding request sample_times by auto
qed

lemma consumed_key_denied_witness:
  "\<exists>d rec. evaluate_agent_action_request sample_bundle dt_min_utc (PDict (sample_request ''read'' d))
    (PDict (sample_current [PDict [(''idempotency_key'', PStr ''key''), (''intent_digest'', PStr ''d'')]]))
    (NowText ''2026-01-01T00:30:00Z'') = Inr rec \<and> py_get rec ''outcome'' = PStr ''deny''"
proof -
  let ?used = "[PDict [(''idempotency_key'', PStr ''key''), (''intent_digest'', PStr ''d'')]]"
  obtain d rec where run: "evaluate_agent_action_request sample_bundle dt_min_utc (PDict (sample_request ''read'' d))
    (PDict (sample_current ?used)) (NowText ''2026-01-01T00:30:00Z'') = Inr rec"
    using sample_evaluates [of "''read''" ?used dt_min_utc] by blast
  have "py_get (sample_current ?used) ''consumed_idempotency'' = PList ?used"
    "list_ex (key_entry (py_get (sample_request ''read'' d) ''idempotency_key'')) ?used"
    by code_simp+
  then show ?thesis using consumed_key_denied [OF run] run by blast
qed


end
