(* ===== verification/Agent_Bundle.thy ===== *)
theory Agent_Bundle
  imports Agent_Actions
begin

text \<open>
  Loading the contract bundle of \<open>agent_action_policy.py\<close>: what is loaded is what the manifest pins.
\<close>

text \<open>The text a manifest entry pins: that of a file in the bundle with the digest the entry has.\<close>

definition pinned_text :: "fs \<Rightarrow> fpath \<Rightarrow> pydict \<Rightarrow> string \<Rightarrow> bool" where
  "pinned_text fs root entry t = (\<exists>path bytes mtime s. prefix root path \<and> node_at fs path = Some (FileNode bytes mtime) \<and>
     non_empty_string (py_get entry ''sha256'') = Some (sha256_hex bytes) \<and>
     decode_utf8 bytes = Inr s \<and> t = universal_newlines s)"

lemma contract_error_Inr [simp]: "contract_error msg \<noteq> Inr x"
  by (simp add: contract_error_def)

lemma verified_read:
  assumes "verified_path fs root entry = Inr path" and "read_text fs path = Inr (Some t)"
  shows "pinned_text fs root entry t"
proof -
  obtain relative expected where e: "non_empty_string (py_get entry ''path'') = Some relative"
    "non_empty_string (py_get entry ''sha256'') = Some expected"
    using assms(1) by (auto simp: verified_path_def split: option.split_asm)
  moreover obtain p where p: "resolve_from fs root relative = Inr p"
    using assms(1) e by (auto simp: verified_path_def)
  ultimately obtain bytes mtime where path: "p = path" "prefix root path" "node_at fs path = Some (FileNode bytes mtime)"
    and hex: "expected = sha256_hex bytes"
    using assms(1) by (auto simp: verified_path_def split: option.split_asm if_split_asm fs_node.split_asm)
  have "resolve_walk fs max_links [] path = Inr path"
    using resolve_walk_idle [of fs "[]" path] resolve_from_link_free [OF p] path(1) by simp
  then obtain s where "decode_utf8 bytes = Inr s" "t = universal_newlines s"
    using assms(2) path(3) by (auto simp: read_text_def map_sum_Inr)
  then show ?thesis using e hex path unfolding pinned_text_def by blast
qed

lemma load_authority_pinned:
  assumes "load_authority yaml fs root entry = Inr authority"
  shows "\<exists>t. pinned_text fs root entry t \<and> yaml t = Some (PDict authority) \<and>
    py_get authority ''owner_repo'' = PStr ''workspace-governance''"
proof -
  obtain path content where path: "verified_path fs root entry = Inr path" "read_text fs path = Inr content"
    using assms by (auto simp: load_authority_def)
  then obtain t v where t: "content = Some t" "yaml t = Some v"
    using assms by (auto simp: load_authority_def split: option.split_asm)
  then have "v = PDict authority \<and> py_get authority ''owner_repo'' = PStr ''workspace-governance''"
    using assms path by (auto simp: load_authority_def split: pyval.split_asm if_split_asm)
  then show ?thesis using verified_read path t by blast
qed

lemma load_validator_pinned:
  assumes "load_validator validator fs root entries ty = Inr (ty', iter_errors)"
  shows "ty' = ty \<and> (\<exists>entry t schema. py_get entries ty = PDict entry \<and> pinned_text fs root entry t \<and>
    json_loads plain_hooks t = Inr schema \<and> validator schema = Some iter_errors)"
proof -
  have catch: "(catch_json r (\<lambda>msg. contract_error m) = Inr x) = (r = Inr x)" for r :: "pyval result" and m x
    unfolding contract_error_def by (rule catch_json_Inr)
  obtain entry where entry: "py_get entries ty = PDict entry"
    using assms by (auto simp: load_validator_def split: pyval.split_asm)
  then obtain path content where path: "verified_path fs root entry = Inr path" "read_text fs path = Inr content"
    using assms by (auto simp: load_validator_def)
  then obtain t where t: "content = Some t" using assms entry by (cases content) (auto simp: load_validator_def)
  then obtain schema where "json_loads plain_hooks t = Inr schema" "validator schema = Some iter_errors" "ty' = ty"
    using assms entry path by (auto simp: load_validator_def catch split: option.split_asm)
  then show ?thesis using verified_read entry path t by blast
qed

text \<open>
  C39. A loaded bundle is what its manifest pins: the authority and each schema were read from files
  inside the bundle directory (whatever links the tree holds) whose SHA-256 is the digest the manifest
  gives, and the authority belongs to the governance repository. A file that was exchanged is not
  loaded.
\<close>

theorem bundle_is_pinned:
  assumes "bundle_load yaml validator fs root_text = Inr bundle"
  shows "\<exists>manifest entry schemas t. load_manifest fs (ab_root bundle) = Inr manifest \<and>
    py_get manifest ''authority'' = PDict entry \<and> py_get manifest ''schemas'' = PDict schemas \<and>
    pinned_text fs (ab_root bundle) entry t \<and> yaml t = Some (PDict (ab_authority bundle)) \<and>
    py_get (ab_authority bundle) ''owner_repo'' = PStr ''workspace-governance'' \<and>
    map fst (ab_validators bundle) = [''agent_action_request'', ''agent_action_policy_decision''] \<and>
    (\<forall>(ty, iter_errors) \<in> set (ab_validators bundle). \<exists>entry t schema. py_get schemas ty = PDict entry \<and>
      pinned_text fs (ab_root bundle) entry t \<and> json_loads plain_hooks t = Inr schema \<and>
      validator schema = Some iter_errors)"
proof -
  obtain root manifest where m: "load_manifest fs root = Inr manifest"
    and run: "bundle_of_manifest yaml validator fs root manifest = Inr bundle"
    using assms unfolding bundle_load_def by auto
  obtain source where "py_get manifest ''source'' = PDict source"
    using run by (auto simp: bundle_of_manifest_def split: pyval.split_asm)
  moreover from this run obtain commit where "non_empty_string (py_get source ''commit'') = Some commit"
    by (auto simp: bundle_of_manifest_def split: if_split_asm option.split_asm)
  ultimately obtain entry schemas where e: "py_get manifest ''authority'' = PDict entry" "py_get manifest ''schemas'' = PDict schemas"
    and steps: "bundle_of_entries yaml validator fs root commit entry schemas = Inr bundle"
    using run by (auto simp: bundle_of_manifest_def split: if_split_asm pyval.split_asm)
  obtain authority validators where a: "load_authority yaml fs root entry = Inr authority"
    and v: "rmapM (load_validator validator fs root schemas) [''agent_action_request'', ''agent_action_policy_decision''] = Inr validators"
    and b: "ab_root bundle = root" "ab_authority bundle = authority" "ab_validators bundle = validators"
    using steps unfolding bundle_of_entries_def rbind_eq_Inr by auto
  have "\<exists>entry t schema. py_get schemas ty = PDict entry \<and> pinned_text fs root entry t \<and>
      json_loads plain_hooks t = Inr schema \<and> validator schema = Some iter_errors"
    if mem: "(ty, iter_errors) \<in> set validators" for ty iter_errors
  proof -
    obtain ty' where "load_validator validator fs root schemas ty' = Inr (ty, iter_errors)"
      using rmapM_set [OF v mem] by blast
    with load_validator_pinned show ?thesis by blast
  qed
  then have all: "\<forall>(ty, iter_errors) \<in> set validators. \<exists>entry t schema. py_get schemas ty = PDict entry \<and>
      pinned_text fs root entry t \<and> json_loads plain_hooks t = Inr schema \<and> validator schema = Some iter_errors"
    by blast
  have names: "map fst validators = [''agent_action_request'', ''agent_action_policy_decision'']"
    using v load_validator_pinned by fastforce
  obtain t where "pinned_text fs root entry t" "yaml t = Some (PDict authority)"
      "py_get authority ''owner_repo'' = PStr ''workspace-governance''"
    using load_authority_pinned [OF a] by blast
  with m e names all show ?thesis unfolding b by (intro exI conjI)
qed


section \<open>A bundle on disk\<close>

lemma non_empty_hex: "non_empty_string (PStr (sha256_hex b)) = Some (sha256_hex b)"
proof -
  have "\<not> py_is_space c" if "c \<in> set (sha256_hex b)" for c
    using sha256_hex_alphabet that by (fastforce simp: py_is_space_def)
  moreover have "sha256_hex b \<noteq> []" using length_sha256_hex [of b] by fastforce
  ultimately have "dropWhile py_is_space (sha256_hex b) = sha256_hex b" "dropWhile py_is_space (rev (sha256_hex b)) = rev (sha256_hex b)"
    by (metis dropWhile_eq_self_iff list.set_sel(1), metis dropWhile_eq_self_iff hd_rev last_in_set)
  then show ?thesis using \<open>sha256_hex b \<noteq> []\<close> by (simp add: non_empty_string_def strip_by_def)
qed

definition sample_manifest :: pyval where
  "sample_manifest = PDict
    [(''source'', PDict [(''repo'', PStr ''workspace-governance''), (''commit'', PStr ''c'')]),
     (''authority'', PDict [(''path'', PStr ''a''), (''sha256'', PStr (sha256_hex ''x''))]),
     (''schemas'', PDict [(''agent_action_request'', PDict [(''path'', PStr ''s''), (''sha256'', PStr (sha256_hex ''{}''))]),
       (''agent_action_policy_decision'', PDict [(''path'', PStr ''s''), (''sha256'', PStr (sha256_hex ''{}''))])])]"

definition sample_tree :: "string \<Rightarrow> fs" where
  "sample_tree b = \<lparr>fs_nodes = [([''manifest.json''], FileNode b 0),
     ([''a''], FileNode ''x'' 0), ([''s''], FileNode ''{}'' 0)], fs_protected = [], fs_clock = 0, fs_cwd = []\<rparr>"

definition sample_yaml :: "string \<Rightarrow> pyval option" where
  "sample_yaml t = Some (PDict [(''owner_repo'', PStr ''workspace-governance''),
     (''action_classes'', PDict [(''read'', PNone), (''advise'', PNone), (''draft'', PNone), (''mutate'', PNone)])])"

lemma bundle_is_pinned_witness:
  "\<exists>bundle. bundle_load sample_yaml (\<lambda>s. Some (\<lambda>v. [])) (sample_tree (utf8 (json_text sample_manifest))) ''/'' = Inr bundle \<and>
    py_get (ab_authority bundle) ''owner_repo'' = PStr ''workspace-governance''"
proof -
  define fs where "fs = sample_tree (utf8 (json_text sample_manifest))"
  have code: "path_resolve (sample_tree b) ''/'' = Inr []" "read_text (sample_tree b) [''a''] = Inr (Some ''x'')"
    "read_text (sample_tree b) [''s''] = Inr (Some ''{}'')" "resolve_from (sample_tree b) [] ''a'' = Inr [''a'']"
    "resolve_from (sample_tree b) [] ''s'' = Inr [''s'']" for b
    by code_simp+
  note code = code [of "utf8 (json_text sample_manifest)", folded fs_def]
  have nodes: "node_at fs [''manifest.json''] = Some (FileNode (utf8 (json_text sample_manifest)) 0)"
    "node_at fs [''a''] = Some (FileNode ''x'' 0)" "node_at fs [''s''] = Some (FileNode ''{}'' 0)"
    by (simp_all add: fs_def sample_tree_def node_at_def)
  have "canonical_value sample_manifest" "distinct_keys sample_manifest" by (simp_all add: sample_manifest_def)
  then have parsed: "json_loads plain_hooks (json_text sample_manifest) = Inr sample_manifest" by (rule plain.json_loads_text)
  obtain m where m: "sample_manifest = PDict m" by (simp add: sample_manifest_def)
  have "read_text fs [''manifest.json''] = Inr (Some (json_text sample_manifest))"
    using nodes(1) by (simp add: read_text_def decode_utf8_utf8 universal_newlines_idle no_carriage_return)
  then have "load_manifest fs [] = Inr m"
    using parsed [unfolded m] by (simp add: load_manifest_def catch_json_def m)
  moreover have "\<exists>bundle. bundle_of_manifest sample_yaml (\<lambda>s. Some (\<lambda>v. [])) fs [] m = Inr bundle"
  proof -
    have strip: "non_empty_string (PStr ''a'') = Some ''a''" "non_empty_string (PStr ''s'') = Some ''s''" "non_empty_string (PStr ''c'') = Some ''c''"
      by code_simp+
    have "json_loads plain_hooks ''{}'' = Inr (PDict [])" by code_simp
    then have schema: "load_validator (\<lambda>s. Some (\<lambda>v. [])) fs [] entries ty = Inr (ty, \<lambda>v. [])"
      if "py_get entries ty = PDict [(''path'', PStr ''s''), (''sha256'', PStr (sha256_hex ''{}''))]" for entries ty
      using that by (simp add: load_validator_def verified_path_def py_get_or_def strip code nodes non_empty_hex catch_json_def)
    have "\<exists>authority. load_authority sample_yaml fs [] [(''path'', PStr ''a''), (''sha256'', PStr (sha256_hex ''x''))] = Inr authority"
      by (simp add: load_authority_def verified_path_def py_get_or_def strip code nodes non_empty_hex sample_yaml_def insert_commute)
    then show ?thesis using m
      by (auto simp: bundle_of_manifest_def bundle_of_entries_def sample_manifest_def strip schema py_get_or_def py_index_def)
  qed
  ultimately obtain b where run: "bundle_load sample_yaml (\<lambda>s. Some (\<lambda>v. [])) fs ''/'' = Inr b"
    by (auto simp: bundle_load_def code)
  with bundle_is_pinned [OF run] show ?thesis unfolding fs_def by blast
qed

end
