(* ===== verification/Manifests.thy ===== *)
theory Manifests
  imports Py_Prelude
begin

text \<open>
  \<open>manifests.py\<close>: the dependency-free validation of a governance manifest that runs before
  graph ingestion and planning. The error list is passed through the helpers in the order the
  code appends to it. The main fact is that the error list is empty exactly for the manifests
  a declarative predicate, \<open>manifest_ok\<close>, describes.
\<close>

section \<open>Tables\<close>

definition MANIFEST_SCHEMA_VERSION :: int where "MANIFEST_SCHEMA_VERSION = 1"

datatype manifest_section = Repos | Components | Validators | Projections

definition MANIFEST_SECTIONS :: "manifest_section list" where
  "MANIFEST_SECTIONS = [Repos, Components, Validators, Projections]"

fun section_name :: "manifest_section \<Rightarrow> string" where
  "section_name Repos = ''repos''"
| "section_name Components = ''components''"
| "section_name Validators = ''validators''"
| "section_name Projections = ''projections''"

definition AUTHORITY_REF_REQUIRED_FIELDS :: "string list" where
  "AUTHORITY_REF_REQUIRED_FIELDS = [''authority_id'', ''repo'', ''path'', ''ref'']"

fun section_id_field :: "manifest_section \<Rightarrow> string" where
  "section_id_field Components = ''component_id''"
| "section_id_field Projections = ''projection_id''"
| "section_id_field Repos = ''repo_id''"
| "section_id_field Validators = ''validator_id''"

fun section_required_fields :: "manifest_section \<Rightarrow> string list" where
  "section_required_fields Components = [''component_id'', ''owner_repo'', ''component_type'', ''authority_ref_ids'']"
| "section_required_fields Projections = [''projection_id'', ''owner_repo'', ''source_ref_ids'', ''output_ref'']"
| "section_required_fields Repos = [''repo_id'', ''owner_repo'', ''authority_ref_ids'']"
| "section_required_fields Validators =
     [''validator_id'', ''owner_repo'', ''command'', ''scopes'', ''authority_ref_ids'']"

section \<open>Validation\<close>

fun is_non_empty_string :: "pyval \<Rightarrow> bool" where
  "is_non_empty_string (PStr s) = (py_strip s \<noteq> [])"
| "is_non_empty_string _ = False"

text \<open>The stripped text of a value known to be a string.\<close>

fun stripped :: "pyval \<Rightarrow> string" where
  "stripped (PStr s) = py_strip s"
| "stripped _ = []"

definition path_prefix :: "string \<Rightarrow> string" where
  "path_prefix path = (if path = [] then [] else path @ ''.'')"

definition index_path :: "string \<Rightarrow> int \<Rightarrow> string" where
  "index_path name i = name @ ''['' @ int_to_str i @ '']''"

definition require_value :: "pydict \<Rightarrow> string \<Rightarrow> string list \<Rightarrow> string list" where
  "require_value item field_name errors =
     (if py_has item field_name then errors else errors @ [field_name @ '' is required''])"

definition require_non_empty_string :: "pydict \<Rightarrow> string \<Rightarrow> string list \<Rightarrow> string \<Rightarrow> string list" where
  "require_non_empty_string item field_name errors path =
     (if is_non_empty_string (py_get item field_name) then errors
      else errors @ [path_prefix path @ field_name @ '' must be a non-empty string''])"

definition require_list ::
  "pydict \<Rightarrow> string \<Rightarrow> string list \<Rightarrow> nat \<Rightarrow> string \<Rightarrow> pyval list \<times> string list" where
  "require_list item field_name errors min_items path =
     (case py_get item field_name of
        PList value \<Rightarrow> (value,
          if length value < min_items
          then errors @ [path_prefix path @ field_name @ '' must contain at least '' @
                         int_to_str (int min_items) @ '' item(s)'']
          else errors)
      | _ \<Rightarrow> ([], errors @ [path_prefix path @ field_name @ '' must be a list'']))"

fun validate_authority_refs_loop ::
  "pyval list \<Rightarrow> int \<Rightarrow> string list \<Rightarrow> string list \<Rightarrow> string list \<times> string list" where
  "validate_authority_refs_loop [] i ids errors = (ids, errors)"
| "validate_authority_refs_loop (r # rs) i ids errors =
     (let path = index_path ''authority_refs'' i in
      case r of
        PDict d \<Rightarrow>
          let errors = fold (\<lambda>f es. require_non_empty_string d f es path) AUTHORITY_REF_REQUIRED_FIELDS errors;
              authority_id = py_get d ''authority_id''
          in if \<not> is_non_empty_string authority_id then validate_authority_refs_loop rs (i + 1) ids errors
             else let normalized = stripped authority_id;
                      errors = (if normalized \<in> set ids
                                then errors @ [path @ ''.authority_id duplicates '' @ normalized] else errors)
                  in validate_authority_refs_loop rs (i + 1) (normalized # ids) errors
      | _ \<Rightarrow> validate_authority_refs_loop rs (i + 1) ids (errors @ [path @ '' must be an object'']))"

definition validate_authority_refs :: "pyval list \<Rightarrow> string list \<Rightarrow> string list \<times> string list" where
  "validate_authority_refs refs errors = validate_authority_refs_loop refs 0 [] errors"

fun validate_string_items :: "pyval list \<Rightarrow> int \<Rightarrow> string list \<Rightarrow> string \<Rightarrow> string list \<Rightarrow> string list" where
  "validate_string_items [] i seen p errors = errors"
| "validate_string_items (v # vs) i seen p errors =
     (let item_path = index_path p i in
      if \<not> is_non_empty_string v
      then validate_string_items vs (i + 1) seen p (errors @ [item_path @ '' must be a non-empty string''])
      else let normalized = stripped v;
               errors = (if normalized \<in> set seen
                         then errors @ [item_path @ '' duplicates '' @ normalized] else errors)
           in validate_string_items vs (i + 1) (normalized # seen) p errors)"

definition validate_string_list :: "pydict \<Rightarrow> string \<Rightarrow> string list \<Rightarrow> string \<Rightarrow> string list" where
  "validate_string_list item field_name errors path =
     (case require_list item field_name errors 1 path of (values, errors) \<Rightarrow>
      validate_string_items values 0 [] (path @ ''.'' @ field_name) errors)"

definition validate_known_authority_ids :: "pyval \<Rightarrow> string list \<Rightarrow> string list \<Rightarrow> string \<Rightarrow> string list" where
  "validate_known_authority_ids values authority_ids errors path =
     (case values of
        PList vs \<Rightarrow> fold (\<lambda>v es. if is_non_empty_string v \<and> stripped v \<notin> set authority_ids
             then es @ [path @ '' references unknown authority id '' @ stripped v] else es) vs errors
      | _ \<Rightarrow> errors)"

definition validate_output_ref :: "pyval \<Rightarrow> string list \<Rightarrow> string \<Rightarrow> string list" where
  "validate_output_ref output_ref errors path =
     (case output_ref of
        PDict d \<Rightarrow> fold (\<lambda>f es. require_non_empty_string d f es path) [''repo'', ''path''] errors
      | _ \<Rightarrow> errors @ [path @ '' must be an object''])"

definition validate_field :: "string \<Rightarrow> pydict \<Rightarrow> string \<Rightarrow> string list \<Rightarrow> string list" where
  "validate_field path item field_name errors =
     (if field_name \<in> {''authority_ref_ids'', ''source_ref_ids'', ''scopes''}
      then validate_string_list item field_name errors path
      else if field_name = ''output_ref''
      then validate_output_ref (py_get item field_name) errors (path @ ''.'' @ field_name)
      else require_non_empty_string item field_name errors path)"

definition ref_field_name :: "manifest_section \<Rightarrow> string" where
  "ref_field_name sec = (if sec = Projections then ''source_ref_ids'' else ''authority_ref_ids'')"

fun validate_section_loop ::
  "manifest_section \<Rightarrow> pyval list \<Rightarrow> int \<Rightarrow> string list \<Rightarrow> string list \<Rightarrow> string list \<Rightarrow> string list" where
  "validate_section_loop sec [] i seen authority_ids errors = errors"
| "validate_section_loop sec (x # xs) i seen authority_ids errors =
     (let path = index_path (section_name sec) i in
      case x of
        PDict d \<Rightarrow>
          let errors = fold (validate_field path d) (section_required_fields sec) errors;
              entity_id = py_get d (section_id_field sec);
              (seen, errors) =
                (if is_non_empty_string entity_id
                 then (stripped entity_id # seen,
                       if stripped entity_id \<in> set seen
                       then errors @ [path @ ''.'' @ section_id_field sec @ '' duplicates '' @ stripped entity_id]
                       else errors)
                 else (seen, errors));
              errors = validate_known_authority_ids (py_get d (ref_field_name sec)) authority_ids errors
                         (path @ ''.'' @ ref_field_name sec)
          in validate_section_loop sec xs (i + 1) seen authority_ids errors
      | _ \<Rightarrow> validate_section_loop sec xs (i + 1) seen authority_ids (errors @ [path @ '' must be an object'']))"

definition validate_section :: "manifest_section \<Rightarrow> pyval list \<Rightarrow> string list \<Rightarrow> string list \<Rightarrow> string list" where
  "validate_section sec items authority_ids errors = validate_section_loop sec items 0 [] authority_ids errors"

text \<open>\<open>validate_governance_manifest(manifest).errors\<close>; the manifest is valid when there are none.\<close>

definition validate_governance_manifest :: "pyval \<Rightarrow> string list" where
  "validate_governance_manifest manifest =
     (case manifest of
        PDict m \<Rightarrow>
          let errors = require_value m ''schema_version'' [];
              errors = (if py_eq_int (py_get m ''schema_version'') MANIFEST_SCHEMA_VERSION then errors
                        else errors @ [''schema_version must equal '' @ int_to_str MANIFEST_SCHEMA_VERSION]);
              errors = fold (\<lambda>f es. require_non_empty_string m f es []) [''manifest_id'', ''owner_repo''] errors;
              (authority_refs, errors) = require_list m ''authority_refs'' errors 1 [];
              (authority_ids, errors) = validate_authority_refs authority_refs errors
          in fold (\<lambda>sec es. (case require_list m (section_name sec) es 0 [] of (items, es) \<Rightarrow>
                 validate_section sec items authority_ids es)) MANIFEST_SECTIONS errors
      | _ \<Rightarrow> [''manifest must be an object''])"

definition manifest_valid :: "pyval \<Rightarrow> bool" where
  "manifest_valid m = (validate_governance_manifest m = [])"

definition manifest_validation_to_status :: "string list \<Rightarrow> pyval" where
  "manifest_validation_to_status errors =
     PDict [(''errors'', PList (map PStr errors)), (''valid'', PBool (errors = []))]"

text \<open>\<open>manifest_entity_ids\<close>: the ids per section; \<open>manifest.get(name, [])\<close> that is no list is
  iterated as Python iterates it.\<close>

definition manifest_entity_ids :: "pydict \<Rightarrow> (string \<times> string list) list result" where
  "manifest_entity_ids m = rmapM (\<lambda>sec.
     rbind (py_iter (py_get_or (PList []) m (section_name sec))) (\<lambda>items.
       Inr (section_name sec,
            concat (map (\<lambda>item. case item of
                PDict d \<Rightarrow> if is_non_empty_string (py_get d (section_id_field sec))
                          then [stripped (py_get d (section_id_field sec))] else []
              | _ \<Rightarrow> []) items)))) MANIFEST_SECTIONS"

section \<open>What a valid manifest is\<close>

definition text_field :: "pydict \<Rightarrow> string \<Rightarrow> bool" where
  "text_field d f = is_non_empty_string (py_get d f)"

definition text_list_field :: "pydict \<Rightarrow> string \<Rightarrow> bool" where
  "text_list_field d f = (case py_get d f of
     PList vs \<Rightarrow> vs \<noteq> [] \<and> list_all is_non_empty_string vs \<and> distinct (map stripped vs) | _ \<Rightarrow> False)"

definition known_refs :: "string list \<Rightarrow> pydict \<Rightarrow> string \<Rightarrow> bool" where
  "known_refs ids d f = (case py_get d f of
     PList vs \<Rightarrow> list_all (\<lambda>v. is_non_empty_string v \<longrightarrow> stripped v \<in> set ids) vs | _ \<Rightarrow> True)"

definition output_ref_ok :: "pyval \<Rightarrow> bool" where
  "output_ref_ok v = (case v of PDict d \<Rightarrow> text_field d ''repo'' \<and> text_field d ''path'' | _ \<Rightarrow> False)"

definition field_ok :: "pydict \<Rightarrow> string \<Rightarrow> bool" where
  "field_ok d f =
     (if f \<in> {''authority_ref_ids'', ''source_ref_ids'', ''scopes''} then text_list_field d f
      else if f = ''output_ref'' then output_ref_ok (py_get d f)
      else text_field d f)"

definition item_ok :: "manifest_section \<Rightarrow> string list \<Rightarrow> pyval \<Rightarrow> bool" where
  "item_ok sec ids x = (case x of
     PDict d \<Rightarrow> list_all (field_ok d) (section_required_fields sec) \<and> known_refs ids d (ref_field_name sec)
   | _ \<Rightarrow> False)"

definition item_id :: "string \<Rightarrow> pyval \<Rightarrow> string" where
  "item_id f x = (case x of PDict d \<Rightarrow> stripped (py_get d f) | _ \<Rightarrow> [])"

definition authority_ref_ok :: "pyval \<Rightarrow> bool" where
  "authority_ref_ok x = (case x of PDict d \<Rightarrow> list_all (text_field d) AUTHORITY_REF_REQUIRED_FIELDS | _ \<Rightarrow> False)"

definition section_ok :: "pydict \<Rightarrow> string list \<Rightarrow> manifest_section \<Rightarrow> bool" where
  "section_ok m ids sec = (case py_get m (section_name sec) of
     PList items \<Rightarrow> list_all (item_ok sec ids) items \<and> distinct (map (item_id (section_id_field sec)) items)
   | _ \<Rightarrow> False)"

definition manifest_ok :: "pyval \<Rightarrow> bool" where
  "manifest_ok x = (case x of
     PDict m \<Rightarrow> py_eq_int (py_get m ''schema_version'') 1 \<and> text_field m ''manifest_id'' \<and>
       text_field m ''owner_repo'' \<and>
       (case py_get m ''authority_refs'' of
          PList refs \<Rightarrow> refs \<noteq> [] \<and> list_all authority_ref_ok refs \<and>
            distinct (map (item_id ''authority_id'') refs) \<and>
            list_all (section_ok m (map (item_id ''authority_id'') refs)) MANIFEST_SECTIONS
        | _ \<Rightarrow> False)
   | _ \<Rightarrow> False)"

section \<open>The helpers report an error exactly when their part is wrong\<close>

named_theorems no_errors

lemma fold_errors_iff:
  assumes "\<And>x es. x \<in> set xs \<Longrightarrow> (f x es = []) = (es = [] \<and> P x)"
  shows "(fold f xs es = []) = (es = [] \<and> list_all P xs)"
  using assms by (induction xs arbitrary: es) auto

lemma require_non_empty_string_iff [no_errors]:
  "(require_non_empty_string d f es p = []) = (es = [] \<and> text_field d f)"
  by (simp add: require_non_empty_string_def text_field_def)

lemma require_value_iff [no_errors]: "(require_value d f es = []) = (es = [] \<and> py_has d f)"
  by (simp add: require_value_def)

lemma require_list_iff:
  "(snd (require_list d f es n p) = []) =
     (es = [] \<and> (\<exists>vs. py_get d f = PList vs \<and> n \<le> length vs))"
  by (auto simp: require_list_def split: pyval.split)

lemma require_list_PList: "py_get d f = PList vs \<Longrightarrow> fst (require_list d f es n p) = vs"
  by (simp add: require_list_def)

lemma validate_string_items_iff:
  "(validate_string_items vs i seen p es = []) =
     (es = [] \<and> list_all is_non_empty_string vs \<and> distinct (map stripped vs) \<and>
      set (map stripped vs) \<inter> set seen = {})"
  by (induction vs i seen p es rule: validate_string_items.induct) (auto simp: Let_def)

lemma validate_string_list_iff [no_errors]:
  "(validate_string_list d f es p = []) = (es = [] \<and> text_list_field d f)"
  by (auto simp: validate_string_list_def require_list_def text_list_field_def validate_string_items_iff
      split: pyval.split)

lemma validate_known_authority_ids_iff [no_errors]:
  "(validate_known_authority_ids (py_get d f) ids es p = []) = (es = [] \<and> known_refs ids d f)"
proof (cases "py_get d f")
  case (PList vs)
  have "(fold (\<lambda>v es. if is_non_empty_string v \<and> stripped v \<notin> set ids
             then es @ [p @ '' references unknown authority id '' @ stripped v] else es) vs es = []) =
        (es = [] \<and> list_all (\<lambda>v. is_non_empty_string v \<longrightarrow> stripped v \<in> set ids) vs)"
    by (rule fold_errors_iff) simp
  with PList show ?thesis by (simp add: validate_known_authority_ids_def known_refs_def)
qed (auto simp: validate_known_authority_ids_def known_refs_def)

lemma validate_output_ref_iff [no_errors]:
  "(validate_output_ref v es p = []) = (es = [] \<and> output_ref_ok v)"
  by (cases v) (auto simp: validate_output_ref_def output_ref_ok_def no_errors)

lemma validate_field_iff [no_errors]: "(validate_field p d f es = []) = (es = [] \<and> field_ok d f)"
  by (simp add: validate_field_def field_ok_def no_errors)

lemma text_field_item_id: "text_field d f \<Longrightarrow> item_id f (PDict d) = stripped (py_get d f)"
  by (simp add: item_id_def)

lemma section_id_required: "list_all (field_ok d) (section_required_fields sec) \<Longrightarrow> text_field d (section_id_field sec)"
  by (cases sec) (simp_all add: field_ok_def)

lemma validate_section_loop_iff:
  "(validate_section_loop sec xs i seen ids es = []) =
     (es = [] \<and> list_all (item_ok sec ids) xs \<and> distinct (map (item_id (section_id_field sec)) xs) \<and>
      set (map (item_id (section_id_field sec)) xs) \<inter> set seen = {})"
proof (induction xs arbitrary: i seen es)
  case (Cons x xs)
  have fields: "(fold (validate_field p d) (section_required_fields sec) es = []) =
      (es = [] \<and> list_all (field_ok d) (section_required_fields sec))" for p d es
    by (rule fold_errors_iff) (simp add: no_errors)
  show ?case
  proof (cases x)
    case (PDict d)
    show ?thesis
    proof (cases "text_field d (section_id_field sec)")
      case True
      then show ?thesis
        using PDict by (auto simp: Let_def Cons.IH no_errors fields item_ok_def item_id_def text_field_def)
    next
      case False
      then show ?thesis
        using PDict section_id_required [of d sec]
        by (auto simp: Let_def Cons.IH no_errors fields item_ok_def item_id_def text_field_def)
    qed
  qed (simp_all add: Cons.IH Let_def item_ok_def)
qed simp

lemma validate_authority_refs_loop_iff:
  "(snd (validate_authority_refs_loop rs i ids es) = []) =
     (es = [] \<and> list_all authority_ref_ok rs \<and> distinct (map (item_id ''authority_id'') rs) \<and>
      set (map (item_id ''authority_id'') rs) \<inter> set ids = {})"
proof (induction rs arbitrary: i ids es)
  case (Cons x xs)
  have fields: "(fold (\<lambda>f es. require_non_empty_string d f es p) AUTHORITY_REF_REQUIRED_FIELDS es = []) =
      (es = [] \<and> list_all (text_field d) AUTHORITY_REF_REQUIRED_FIELDS)" for p d es
    by (rule fold_errors_iff) (simp add: no_errors)
  have id: "list_all (text_field d) AUTHORITY_REF_REQUIRED_FIELDS \<Longrightarrow> is_non_empty_string (py_get d ''authority_id'')" for d
    by (simp add: AUTHORITY_REF_REQUIRED_FIELDS_def text_field_def)
  show ?case
  proof (cases x)
    case (PDict d)
    then show ?thesis
      using id [of d] by (auto simp: Let_def Cons.IH no_errors fields authority_ref_ok_def item_id_def)
  qed (simp_all add: Cons.IH Let_def authority_ref_ok_def)
qed simp

lemma validate_authority_refs_loop_ids:
  "list_all authority_ref_ok rs \<Longrightarrow>
     set (fst (validate_authority_refs_loop rs i ids es)) = set ids \<union> set (map (item_id ''authority_id'') rs)"
proof (induction rs arbitrary: i ids es)
  case (Cons x xs)
  then obtain d where "x = PDict d" by (cases x) (auto simp: authority_ref_ok_def)
  with Cons show ?case
    by (auto simp: Let_def item_id_def authority_ref_ok_def AUTHORITY_REF_REQUIRED_FIELDS_def text_field_def)
qed simp

lemma item_ok_cong: "set ids = set ids' \<Longrightarrow> item_ok sec ids x = item_ok sec ids' x"
  by (simp add: item_ok_def known_refs_def cong: pyval.case_cong)

lemma section_ok_cong: "set ids = set ids' \<Longrightarrow> section_ok m ids sec = section_ok m ids' sec"
proof -
  assume eq: "set ids = set ids'"
  have "item_ok sec ids = item_ok sec ids'" by (rule ext) (rule item_ok_cong [OF eq])
  then show ?thesis by (simp only: section_ok_def)
qed

lemma section_step_iff:
  "((case require_list m (section_name sec) es 0 [] of (items, es) \<Rightarrow>
       validate_section sec items ids es) = []) = (es = [] \<and> section_ok m ids sec)"
  by (auto simp: require_list_def validate_section_def validate_section_loop_iff section_ok_def split: pyval.split)

lemma manifest_valid_iff: "manifest_valid x = manifest_ok x"
proof (cases x)
  case (PDict m)
  let ?es = "fold (\<lambda>f es. require_non_empty_string m f es []) [''manifest_id'', ''owner_repo'']
     (if py_eq_int (py_get m ''schema_version'') MANIFEST_SCHEMA_VERSION
      then require_value m ''schema_version'' []
      else require_value m ''schema_version'' [] @ [''schema_version must equal '' @ int_to_str MANIFEST_SCHEMA_VERSION])"
  have has: "py_eq_int (py_get m ''schema_version'') 1 \<Longrightarrow> py_has m ''schema_version''"
    by (cases "map_of m ''schema_version''") (auto simp: py_has_def py_get_or_def)
  have es: "(?es = []) = (py_eq_int (py_get m ''schema_version'') 1 \<and> text_field m ''manifest_id'' \<and> text_field m ''owner_repo'')"
    using has by (auto simp: no_errors MANIFEST_SCHEMA_VERSION_def)
  obtain refs es1 where r: "require_list m ''authority_refs'' ?es 1 [] = (refs, es1)" by fastforce
  obtain ids es2 where v: "validate_authority_refs refs es1 = (ids, es2)" by fastforce
  have "(fold (\<lambda>sec es. (case require_list m (section_name sec) es 0 [] of (items, es) \<Rightarrow>
           validate_section sec items ids es)) MANIFEST_SECTIONS es2 = []) =
        (es2 = [] \<and> list_all (section_ok m ids) MANIFEST_SECTIONS)"
    by (rule fold_errors_iff) (rule section_step_iff)
  then have valid: "manifest_valid x = (es2 = [] \<and> list_all (section_ok m ids) MANIFEST_SECTIONS)"
    using PDict r v by (simp add: manifest_valid_def validate_governance_manifest_def Let_def)
  have es2: "(es2 = []) = (es1 = [] \<and> list_all authority_ref_ok refs \<and> distinct (map (item_id ''authority_id'') refs))"
    using validate_authority_refs_loop_iff [of refs 0 "[]" es1] v by (simp add: validate_authority_refs_def)
  have es1: "(es1 = []) = (?es = [] \<and> (\<exists>vs. py_get m ''authority_refs'' = PList vs \<and> vs \<noteq> []))"
    using require_list_iff [of m "''authority_refs''" ?es 1 "[]"] r by (auto simp: Suc_le_eq)
  show ?thesis
  proof (cases "\<exists>vs. py_get m ''authority_refs'' = PList vs \<and> vs \<noteq> [] \<and> list_all authority_ref_ok vs")
    case False
    then have "es2 \<noteq> []" using es1 es2 r by (auto simp: require_list_def split: pyval.splits if_splits)
    with False valid PDict show ?thesis by (auto simp: manifest_ok_def split: pyval.splits)
  next
    case True
    then obtain vs where vs: "py_get m ''authority_refs'' = PList vs" "vs \<noteq> []" "list_all authority_ref_ok vs" by auto
    then have refs: "refs = vs" using r require_list_PList [OF vs(1)] by (metis fst_conv)
    have "set ids = set (map (item_id ''authority_id'') refs)"
      using validate_authority_refs_loop_ids [of refs 0 "[]" es1] v vs(3) refs
      by (simp add: validate_authority_refs_def)
    then have "section_ok m ids = section_ok m (map (item_id ''authority_id'') refs)"
      by (intro ext section_ok_cong)
    then have "list_all (section_ok m ids) MANIFEST_SECTIONS =
        list_all (section_ok m (map (item_id ''authority_id'') refs)) MANIFEST_SECTIONS"
      by (simp only:)
    moreover have "(es1 = []) = (?es = [])" using es1 vs by blast
    ultimately show ?thesis
      using valid es2 es vs refs PDict by (simp only: manifest_ok_def pyval.case) blast
  qed
qed (simp_all add: manifest_valid_def manifest_ok_def validate_governance_manifest_def)

text \<open>What planning and graph ingestion take from a valid manifest.\<close>

lemma manifest_valid_dict: "manifest_valid x \<Longrightarrow> \<exists>m. x = PDict m"
  by (cases x) (auto simp: manifest_valid_iff manifest_ok_def)

lemma text_field_index: "text_field d f = (\<exists>t. py_index d f = Inr (PStr t) \<and> py_strip t \<noteq> [])"
  by (cases "py_get d f") (auto simp: text_field_def py_index_def py_get_or_def split: option.splits)

lemma non_empty_strings: "list_all is_non_empty_string vs = (\<exists>ts. vs = map PStr ts \<and> (\<forall>t \<in> set ts. py_strip t \<noteq> []))"
proof (induction vs)
  case (Cons v vs)
  show ?case
  proof (cases v)
    case (PStr t)
    have "(\<exists>ts. PStr t # vs = map PStr ts \<and> (\<forall>t \<in> set ts. py_strip t \<noteq> [])) =
        (py_strip t \<noteq> [] \<and> (\<exists>ts. vs = map PStr ts \<and> (\<forall>t \<in> set ts. py_strip t \<noteq> [])))"
      by (force simp: Cons_eq_map_conv)
    then show ?thesis using PStr Cons by simp
  qed (simp_all add: Cons_eq_map_conv)
qed simp

lemma text_list_index:
  "text_list_field d f \<Longrightarrow>
     \<exists>ts. py_index d f = Inr (PList (map PStr ts)) \<and> ts \<noteq> [] \<and> (\<forall>t \<in> set ts. py_strip t \<noteq> [])"
  by (auto simp: text_list_field_def non_empty_strings py_index_def py_get_or_def split: option.splits pyval.splits)

lemma known_refs_strings:
  assumes "known_refs ids d f" and "py_index d f = Inr (PList (map PStr ts))" and "t \<in> set ts" and "py_strip t \<noteq> []"
  shows "py_strip t \<in> set ids"
  using assms by (auto simp: known_refs_def py_index_def py_get_or_def list_all_iff split: option.splits)

definition declared_ids :: "pydict \<Rightarrow> string list" where
  "declared_ids m = (case py_get m ''authority_refs'' of PList refs \<Rightarrow> map (item_id ''authority_id'') refs | _ \<Rightarrow> [])"

definition section_items :: "pydict \<Rightarrow> manifest_section \<Rightarrow> pyval list" where
  "section_items m sec = (case py_get m (section_name sec) of PList xs \<Rightarrow> xs | _ \<Rightarrow> [])"

definition section_ids :: "pydict \<Rightarrow> manifest_section \<Rightarrow> string list" where
  "section_ids m sec = map (item_id (section_id_field sec)) (section_items m sec)"

lemma get_PList_index: "py_get d k = PList xs \<Longrightarrow> py_index d k = Inr (PList xs)"
  using py_index_get [of d k] by simp

lemma valid_authority_refs:
  assumes "manifest_valid (PDict m)"
  obtains refs where "py_index m ''authority_refs'' = Inr (PList refs)" "list_all authority_ref_ok refs"
    "declared_ids m = map (item_id ''authority_id'') refs"
proof -
  from assms obtain refs where "py_get m ''authority_refs'' = PList refs" "list_all authority_ref_ok refs"
    unfolding manifest_valid_iff manifest_ok_def by (cases "py_get m ''authority_refs''") auto
  then show thesis by (intro that [of refs]) (auto simp: get_PList_index declared_ids_def)
qed

lemma valid_section:
  assumes "manifest_valid (PDict m)"
  shows "py_index m (section_name sec) = Inr (PList (section_items m sec)) \<and>
    list_all (item_ok sec (declared_ids m)) (section_items m sec)"
proof -
  have "section_ok m (declared_ids m) sec"
    using assms unfolding manifest_valid_iff manifest_ok_def declared_ids_def
    by (cases "py_get m ''authority_refs''"; cases sec) (auto simp: MANIFEST_SECTIONS_def)
  then show ?thesis
    unfolding section_ok_def section_items_def
    by (cases "py_get m (section_name sec)") (auto simp: get_PList_index)
qed

lemma valid_manifest_id: "manifest_valid (PDict m) \<Longrightarrow> \<exists>t. py_index m ''manifest_id'' = Inr (PStr t)"
  by (auto simp: manifest_valid_iff manifest_ok_def text_field_index)

section \<open>Properties\<close>

text \<open>
  C9. The validator accepts exactly the manifests the declarative predicate describes: schema
  version 1, the required text fields, a non-empty list of authority refs with distinct ids,
  and in each of the four sections a list of objects whose required fields are present, whose
  ids are distinct and whose references name declared authorities.
\<close>

theorem manifest_valid_iff_ok: "manifest_valid x = manifest_ok x"
  by (rule manifest_valid_iff)

end
