(* ===== verification/Graph_Ingestion.thy ===== *)
theory Graph_Ingestion
  imports Manifests Sha256
begin

text \<open>
  \<open>graph_ingestion.py\<close>: the nodes and edges built from one manifest. The two dicts the
  builder fills are association lists in insertion order, threaded through the loops as a
  record. Both are keyed stores whose entries sit under their own key; that interface and its
  consequence for the loops is the locale \<open>keyed_store\<close>, interpreted on both.
\<close>

section \<open>Nodes, edges and the builder's state\<close>

record graph_node =
  gn_node_id :: string
  gn_node_type :: string
  gn_owner_repo :: pyval
  gn_external_ref :: pyval
  gn_properties :: pydict

record graph_edge =
  ge_edge_id :: string
  ge_source :: string
  ge_target :: string
  ge_edge_type :: string
  ge_properties :: pydict

record manifest_graph =
  mg_manifest_id :: pyval
  mg_nodes :: "graph_node list"
  mg_edges :: "graph_edge list"

record graph_state =
  gs_nodes :: "(string \<times> graph_node) list"
  gs_edges :: "(string \<times> graph_edge) list"

definition node_to_record :: "graph_node \<Rightarrow> pyval" where
  "node_to_record n = PDict [(''node_id'', PStr (gn_node_id n)), (''node_type'', PStr (gn_node_type n)),
     (''owner_repo'', gn_owner_repo n), (''external_ref'', gn_external_ref n),
     (''properties'', PDict (gn_properties n))]"

definition edge_to_record :: "graph_edge \<Rightarrow> pyval" where
  "edge_to_record e = PDict [(''edge_id'', PStr (ge_edge_id e)), (''source_node_id'', PStr (ge_source e)),
     (''target_node_id'', PStr (ge_target e)), (''edge_type'', PStr (ge_edge_type e)),
     (''properties'', PDict (ge_properties e))]"

definition graph_to_records :: "manifest_graph \<Rightarrow> pyval" where
  "graph_to_records g = PDict [(''edges'', PList (map edge_to_record (mg_edges g))),
     (''nodes'', PList (map node_to_record (mg_nodes g)))]"

section \<open>Identifiers\<close>

definition node_id :: "string \<Rightarrow> string \<Rightarrow> string" where
  "node_id prefix raw_id =
     (let candidate = prefix @ '':'' @ py_strip raw_id in
      if length candidate \<le> 128 then candidate
      else prefix @ '':'' @ take 24 (sha256_hex (utf8 candidate)))"

definition edge_id :: "string \<Rightarrow> string \<Rightarrow> string \<Rightarrow> string" where
  "edge_id source edge_type target =
     ''edge:'' @ take 24 (sha256_hex (utf8 (source @ ''|'' @ edge_type @ ''|'' @ target)))"

definition manifest_node ::
  "pyval \<Rightarrow> string \<Rightarrow> pyval \<Rightarrow> string \<Rightarrow> pydict \<Rightarrow> string \<Rightarrow> graph_node" where
  "manifest_node external_ref node_type owner_repo prefix properties raw_id =
     \<lparr>gn_node_id = node_id prefix raw_id, gn_node_type = node_type, gn_owner_repo = owner_repo,
      gn_external_ref = external_ref, gn_properties = properties\<rparr>"

section \<open>The builder's steps\<close>

definition add_node :: "graph_node \<Rightarrow> graph_state \<Rightarrow> graph_state" where
  "add_node n s = s\<lparr>gs_nodes := assoc_set (gn_node_id n) n (gs_nodes s)\<rparr>"

definition put_edge :: "graph_edge \<Rightarrow> graph_state \<Rightarrow> graph_state" where
  "put_edge e s = s\<lparr>gs_edges := assoc_set (ge_edge_id e) e (gs_edges s)\<rparr>"

definition add_edge :: "string \<Rightarrow> string \<Rightarrow> string \<Rightarrow> pydict \<Rightarrow> graph_state \<Rightarrow> graph_state" where
  "add_edge source target edge_type properties s =
     (let e = \<lparr>ge_edge_id = edge_id source edge_type target, ge_source = source, ge_target = target,
               ge_edge_type = edge_type, ge_properties = properties\<rparr>
      in put_edge e s)"

definition has_node :: "string \<Rightarrow> graph_state \<Rightarrow> bool" where
  "has_node k s = (map_of (gs_nodes s) k \<noteq> None)"

definition resolve_scope_node_id :: "string \<Rightarrow> graph_state \<Rightarrow> string" where
  "resolve_scope_node_id scope s = (if has_node scope s then scope else node_id ''scope'' scope)"

fun find_entry :: "pyval list \<Rightarrow> string \<Rightarrow> string \<Rightarrow> pyval result" where
  "find_entry [] id_field entity_id = Inl StopIteration"
| "find_entry (x # xs) id_field entity_id =
     rbind (py_sub x id_field) (\<lambda>v. rbind (need_str v) (\<lambda>t.
       if py_strip t = entity_id then Inr x else find_entry xs id_field entity_id))"

definition sub_list :: "pyval \<Rightarrow> string \<Rightarrow> pyval list result" where
  "sub_list x k = rbind (py_sub x k) py_iter"

definition add_authority_edges ::
  "string \<Rightarrow> pyval list \<Rightarrow> string \<Rightarrow> string \<Rightarrow> graph_state \<Rightarrow> graph_state result" where
  "add_authority_edges source items id_field entity_id s =
     rbind (find_entry items id_field entity_id) (\<lambda>item.
     rbind (sub_list item ''authority_ref_ids'') (\<lambda>ids.
     rfold (\<lambda>a s. rbind (need_str a) (\<lambda>a.
       Inr (add_edge source (node_id ''authority'' a) ''declared-by-authority'' [] s))) ids s))"

definition authority_node :: "pydict \<Rightarrow> pyval \<Rightarrow> (string \<times> graph_node) result" where
  "authority_node m r =
     rbind (py_sub r ''authority_id'') (\<lambda>i. rbind (need_str i) (\<lambda>i.
     rbind (py_sub r ''repo'') (\<lambda>repo. rbind (py_sub r ''path'') (\<lambda>path. rbind (py_sub r ''ref'') (\<lambda>ref.
     rbind (py_sub (PDict m) ''manifest_id'') (\<lambda>mid. rbind (need_dict r) (\<lambda>d.
     let authority_id = py_strip i in
     Inr (authority_id,
       manifest_node (PStr (py_str repo @ '':'' @ py_str path @ ''@'' @ py_str ref))
         ''authority-reference'' repo ''authority''
         [(''digest'', py_get d ''digest''), (''freshness_status'', py_get d ''freshness_status''),
          (''manifest_id'', mid), (''path'', path), (''ref'', ref), (''repo'', repo)] authority_id))))))))"

definition authority_nodes :: "pydict \<Rightarrow> (string \<times> graph_node) list result" where
  "authority_nodes m = rbind (sub_list (PDict m) ''authority_refs'') (\<lambda>refs.
     rfold (\<lambda>r nodes. rbind (authority_node m r) (\<lambda>(i, n). Inr (assoc_set i n nodes))) refs [])"

definition repo_node :: "pydict \<Rightarrow> pyval \<Rightarrow> (string \<times> graph_node) result" where
  "repo_node m r =
     rbind (py_sub r ''repo_id'') (\<lambda>i. rbind (need_str i) (\<lambda>i. rbind (py_sub r ''owner_repo'') (\<lambda>owner.
     rbind (need_dict r) (\<lambda>d. rbind (py_sub r ''authority_ref_ids'') (\<lambda>ids.
     rbind (py_sub (PDict m) ''manifest_id'') (\<lambda>mid.
     let repo_id = py_strip i; repo_name = py_or (py_get d ''repo_name'') (PStr repo_id) in
     Inr (repo_id, manifest_node repo_name ''repo'' owner ''repo''
       [(''authority_ref_ids'', ids), (''manifest_id'', mid), (''repo_name'', repo_name)] repo_id)))))))"

definition repo_nodes :: "pydict \<Rightarrow> (string \<times> graph_node) list result" where
  "repo_nodes m = rbind (sub_list (PDict m) ''repos'') (\<lambda>repos.
     rfold (\<lambda>r nodes. rbind (repo_node m r) (\<lambda>(i, n). Inr (assoc_set i n nodes))) repos [])"

text \<open>\<open>repo_nodes.get(key)\<close> for a decoded key: only a string can be one of the keys.\<close>

fun lookup_node :: "(string \<times> graph_node) list \<Rightarrow> pyval \<Rightarrow> graph_node option" where
  "lookup_node nodes (PStr k) = map_of nodes k"
| "lookup_node nodes _ = None"

definition add_owner_edge ::
  "string \<Rightarrow> string \<Rightarrow> (string \<times> graph_node) list \<Rightarrow> pyval \<Rightarrow> graph_state \<Rightarrow> graph_state" where
  "add_owner_edge source edge_type repos owner s =
     (case lookup_node repos owner of None \<Rightarrow> s | Some n \<Rightarrow> add_edge source (gn_node_id n) edge_type [] s)"

text \<open>\<open>",".join(component.get("source_paths") or [])\<close>: every item must be a string.\<close>

definition joined_source_paths :: "pyval \<Rightarrow> string result" where
  "joined_source_paths v = rbind (py_iter (py_or v (PList []))) (\<lambda>xs.
     rbind (rmapM (\<lambda>x. case x of PStr t \<Rightarrow> Inr t | _ \<Rightarrow> Inl (TypeError ''expected str instance'')) xs) (\<lambda>ts.
     Inr (py_join '','' ts)))"

definition component_node :: "pydict \<Rightarrow> pyval \<Rightarrow> (string \<times> graph_node) result" where
  "component_node m c =
     rbind (py_sub c ''component_id'') (\<lambda>i. rbind (need_str i) (\<lambda>i. rbind (py_sub c ''owner_repo'') (\<lambda>owner.
     rbind (need_dict c) (\<lambda>d. rbind (joined_source_paths (py_get d ''source_paths'')) (\<lambda>paths.
     rbind (py_sub c ''authority_ref_ids'') (\<lambda>ids. rbind (py_sub c ''component_type'') (\<lambda>ty.
     rbind (py_sub (PDict m) ''manifest_id'') (\<lambda>mid.
     let component_id = py_strip i in
     Inr (component_id, manifest_node (if paths = [] then PNone else PStr paths) ''component'' owner ''component''
       [(''authority_ref_ids'', ids), (''component_type'', ty), (''manifest_id'', mid),
        (''source_paths'', py_or (py_get d ''source_paths'') (PList []))] component_id)))))))))"

definition ingest_repo :: "pyval list \<Rightarrow> string \<times> graph_node \<Rightarrow> graph_state \<Rightarrow> graph_state result" where
  "ingest_repo repos = (\<lambda>(repo_id, n) s. add_authority_edges (gn_node_id n) repos ''repo_id'' repo_id (add_node n s))"

definition ingest_component ::
  "pydict \<Rightarrow> (string \<times> graph_node) list \<Rightarrow> pyval list \<Rightarrow> pyval \<Rightarrow> graph_state \<Rightarrow> graph_state result" where
  "ingest_component m repos components c s =
     rbind (component_node m c) (\<lambda>(component_id, n).
     rbind (add_authority_edges (gn_node_id n) components ''component_id'' component_id (add_node n s)) (\<lambda>s.
     rbind (py_sub c ''owner_repo'') (\<lambda>owner.
     Inr (add_owner_edge (gn_node_id n) ''owned-by-repo'' repos owner s))))"

definition validator_node :: "pydict \<Rightarrow> pyval \<Rightarrow> (string \<times> graph_node) result" where
  "validator_node m v =
     rbind (py_sub v ''validator_id'') (\<lambda>i. rbind (need_str i) (\<lambda>i. rbind (py_sub v ''owner_repo'') (\<lambda>owner.
     rbind (py_sub v ''command'') (\<lambda>cmd. rbind (py_sub v ''authority_ref_ids'') (\<lambda>ids.
     rbind (py_sub (PDict m) ''manifest_id'') (\<lambda>mid. rbind (py_sub v ''scopes'') (\<lambda>scopes.
     let validator_id = py_strip i in
     Inr (validator_id, manifest_node cmd ''validator'' owner ''validator''
       [(''authority_ref_ids'', ids), (''command'', cmd), (''manifest_id'', mid), (''scopes'', scopes)]
       validator_id))))))))"

definition add_scope_edge :: "string \<Rightarrow> pyval \<Rightarrow> graph_state \<Rightarrow> graph_state result" where
  "add_scope_edge source scope s = rbind (need_str scope) (\<lambda>t.
     let target = resolve_scope_node_id t s in
     Inr (add_edge source target ''validates-scope''
       [(''scope'', scope), (''target_resolved'', PBool (has_node target s))] s))"

definition ingest_validator :: "pydict \<Rightarrow> pyval list \<Rightarrow> pyval \<Rightarrow> graph_state \<Rightarrow> graph_state result" where
  "ingest_validator m validators v s =
     rbind (validator_node m v) (\<lambda>(validator_id, n).
     rbind (add_authority_edges (gn_node_id n) validators ''validator_id'' validator_id (add_node n s)) (\<lambda>s.
     rbind (sub_list v ''scopes'') (\<lambda>scopes. rfold (add_scope_edge (gn_node_id n)) scopes s)))"

definition projection_node :: "pydict \<Rightarrow> pyval \<Rightarrow> graph_node result" where
  "projection_node m p =
     rbind (py_sub p ''projection_id'') (\<lambda>i. rbind (need_str i) (\<lambda>i. rbind (py_sub p ''output_ref'') (\<lambda>out.
     rbind (py_sub p ''owner_repo'') (\<lambda>owner. rbind (py_sub out ''repo'') (\<lambda>repo. rbind (py_sub out ''path'') (\<lambda>path.
     rbind (py_sub (PDict m) ''manifest_id'') (\<lambda>mid. rbind (py_sub p ''source_ref_ids'') (\<lambda>ids.
     Inr (manifest_node (PStr (py_str repo @ '':'' @ py_str path)) ''projection'' owner ''projection''
       [(''manifest_id'', mid), (''output_ref'', out), (''source_ref_ids'', ids)] (py_strip i))))))))))"

definition ingest_projection ::
  "pydict \<Rightarrow> (string \<times> graph_node) list \<Rightarrow> pyval \<Rightarrow> graph_state \<Rightarrow> graph_state result" where
  "ingest_projection m repos p s =
     rbind (projection_node m p) (\<lambda>n.
     rbind (sub_list p ''source_ref_ids'') (\<lambda>ids.
     rbind (rfold (\<lambda>a s. rbind (need_str a) (\<lambda>a.
        Inr (add_edge (gn_node_id n) (node_id ''authority'' a) ''projects-from-authority'' [] s))) ids (add_node n s)) (\<lambda>s.
     rbind (py_sub p ''output_ref'') (\<lambda>out. rbind (py_sub out ''repo'') (\<lambda>repo.
     Inr (add_owner_edge (gn_node_id n) ''emits-to-repo'' repos repo s))))))"

definition ingest_manifest :: "pydict \<Rightarrow> graph_state result" where
  "ingest_manifest m =
     rbind (authority_nodes m) (\<lambda>authorities.
     let s = fold (\<lambda>(i, n). add_node n) authorities \<lparr>gs_nodes = [], gs_edges = []\<rparr> in
     rbind (repo_nodes m) (\<lambda>repos.
     rbind (sub_list (PDict m) ''repos'') (\<lambda>repo_items. rbind (rfold (ingest_repo repo_items) repos s) (\<lambda>s.
     rbind (sub_list (PDict m) ''components'') (\<lambda>components. rbind (rfold (ingest_component m repos components) components s) (\<lambda>s.
     rbind (sub_list (PDict m) ''validators'') (\<lambda>validators. rbind (rfold (ingest_validator m validators) validators s) (\<lambda>s.
     rbind (sub_list (PDict m) ''projections'') (\<lambda>projections. rfold (ingest_projection m repos) projections s)))))))))"

definition sorted_values :: "(string \<times> 'a) list \<Rightarrow> 'a list" where
  "sorted_values kvs = map (\<lambda>k. the (map_of kvs k)) (sort (map fst kvs))"

definition build_manifest_graph :: "pyval \<Rightarrow> manifest_graph result" where
  "build_manifest_graph manifest =
     (let errors = validate_governance_manifest manifest in
      if errors \<noteq> [] then Inl (ValueError (''manifest is invalid: '' @ py_join ''; '' errors))
      else rbind (need_dict manifest) (\<lambda>m. rbind (ingest_manifest m) (\<lambda>s.
        rbind (py_sub manifest ''manifest_id'') (\<lambda>mid.
        Inr \<lparr>mg_manifest_id = mid, mg_nodes = sorted_values (gs_nodes s), mg_edges = sorted_values (gs_edges s)\<rparr>))))"

section \<open>Keyed stores\<close>

text \<open>A store that keeps each record under the record's own key, the last one written winning.\<close>

locale keyed_store =
  fixes get :: "'s \<Rightarrow> string \<Rightarrow> 'r option"
    and put :: "'r \<Rightarrow> 's \<Rightarrow> 's"
    and key :: "'r \<Rightarrow> string"
  assumes get_put: "get (put r s) k = (if k = key r then Some r else get s k)"
begin

lemma put_all:
  assumes "\<And>k r. get s k = Some r \<Longrightarrow> key r = k \<and> P r" and "P x" and "get (put x s) k = Some r"
  shows "key r = k \<and> P r"
  using assms by (auto simp: get_put split: if_splits)

lemma put_present: "(get (put x s) k \<noteq> None) = (k = key x \<or> get s k \<noteq> None)"
  by (simp add: get_put)

end

interpretation node_store: keyed_store "\<lambda>s. map_of (gs_nodes s)" add_node gn_node_id
  by unfold_locales (simp add: add_node_def)

interpretation edge_store: keyed_store "\<lambda>s. map_of (gs_edges s)" put_edge ge_edge_id
  by unfold_locales (simp add: put_edge_def)

lemma has_node_add_node: "has_node k (add_node n s) = (k = gn_node_id n \<or> has_node k s)"
  unfolding has_node_def by (rule node_store.put_present)

lemma has_node_put_edge [simp]: "has_node k (put_edge e s) = has_node k s"
  by (simp add: has_node_def put_edge_def)

lemma has_node_add_edge [simp]: "has_node k (add_edge a b ty ps s) = has_node k s"
  by (simp add: add_edge_def Let_def)

section \<open>The builder's invariant\<close>

text \<open>An edge is sound when its id is computed from its ends, it starts at a node, and it ends
  at a node unless it is a scope edge marked unresolved whose end is a synthetic scope id.\<close>

definition dangling_scope :: "graph_edge \<Rightarrow> bool" where
  "dangling_scope e = (ge_edge_type e = ''validates-scope'' \<and>
     map_of (ge_properties e) ''target_resolved'' = Some (PBool False) \<and> starts_with ''scope:'' (ge_target e))"

definition edge_sound :: "string set \<Rightarrow> graph_edge \<Rightarrow> bool" where
  "edge_sound K e = (ge_edge_id e = edge_id (ge_source e) (ge_edge_type e) (ge_target e) \<and>
     ge_source e \<in> K \<and> (ge_target e \<in> K \<or> dangling_scope e))"

definition build_inv :: "string set \<Rightarrow> graph_state \<Rightarrow> bool" where
  "build_inv K s = (K = {k. has_node k s} \<and>
     distinct (map fst (gs_nodes s)) \<and> distinct (map fst (gs_edges s)) \<and>
     (\<forall>k n. map_of (gs_nodes s) k = Some n \<longrightarrow> gn_node_id n = k) \<and>
     (\<forall>k e. map_of (gs_edges s) k = Some e \<longrightarrow> ge_edge_id e = k \<and> edge_sound K e))"

lemma edge_sound_mono: "edge_sound K e \<Longrightarrow> K \<subseteq> L \<Longrightarrow> edge_sound L e"
  by (auto simp: edge_sound_def)

lemma build_inv_add_node:
  assumes "build_inv K s"
  shows "build_inv (insert (gn_node_id n) K) (add_node n s)"
  unfolding build_inv_def
proof (intro conjI allI impI)
  show "insert (gn_node_id n) K = {k. has_node k (add_node n s)}"
    using assms by (auto simp: build_inv_def has_node_add_node)
  show "distinct (map fst (gs_nodes (add_node n s)))"
    using assms by (simp add: build_inv_def add_node_def distinct_assoc_set)
  show "distinct (map fst (gs_edges (add_node n s)))"
    using assms by (simp add: build_inv_def add_node_def)
  show "gn_node_id x = k" if "map_of (gs_nodes (add_node n s)) k = Some x" for k x
    using node_store.put_all [of s "\<lambda>_. True", OF _ _ that] assms by (auto simp: build_inv_def)
  fix k e assume "map_of (gs_edges (add_node n s)) k = Some e"
  then have "map_of (gs_edges s) k = Some e" by (simp add: add_node_def)
  then have "ge_edge_id e = k \<and> edge_sound K e" using assms unfolding build_inv_def by blast
  then show "ge_edge_id e = k" "edge_sound (insert (gn_node_id n) K) e"
    by (simp_all add: edge_sound_mono [OF _ subset_insertI])
qed

lemma build_inv_put_edge:
  assumes "build_inv K s" and "edge_sound K e"
  shows "build_inv K (put_edge e s)"
  unfolding build_inv_def
proof (intro conjI allI impI)
  show "K = {k. has_node k (put_edge e s)}" using assms by (simp add: build_inv_def)
  show "distinct (map fst (gs_nodes (put_edge e s)))"
    using assms by (simp add: build_inv_def put_edge_def)
  show "distinct (map fst (gs_edges (put_edge e s)))"
    using assms by (simp add: build_inv_def put_edge_def distinct_assoc_set)
  show "gn_node_id x = k" if "map_of (gs_nodes (put_edge e s)) k = Some x" for k x
    using that assms by (simp add: build_inv_def put_edge_def)
  fix k x assume "map_of (gs_edges (put_edge e s)) k = Some x"
  then have "ge_edge_id x = k \<and> edge_sound K x"
    using edge_store.put_all [of s "edge_sound K" e k x] assms by (auto simp: build_inv_def)
  then show "ge_edge_id x = k" "edge_sound K x" by auto
qed

lemma build_inv_add_edge:
  assumes "build_inv K s" and "source \<in> K" and "target \<in> K"
  shows "build_inv K (add_edge source target ty ps s)"
  unfolding add_edge_def Let_def
  by (rule build_inv_put_edge) (use assms in \<open>simp_all add: edge_sound_def\<close>)

lemma build_inv_rfold:
  assumes "\<And>x s t. x \<in> set xs \<Longrightarrow> build_inv K s \<Longrightarrow> f x s = Inr t \<Longrightarrow> build_inv K t"
    and "build_inv K s" and "rfold f xs s = Inr t"
  shows "build_inv K t"
  using assms(1) assms(2,3) by (rule rfold_invariant [where P = "build_inv K"])

text \<open>A loop each of whose steps adds the node \<open>g x\<close>.\<close>

lemma build_inv_grow:
  assumes "\<And>x L s t. x \<in> set xs \<Longrightarrow> K \<subseteq> L \<Longrightarrow> build_inv L s \<Longrightarrow> f x s = Inr t \<Longrightarrow> build_inv (insert (g x) L) t"
    and "build_inv K s" and "rfold f xs s = Inr t"
  shows "build_inv (K \<union> g ` set xs) t"
  using assms
proof (induction xs arbitrary: K s)
  case (Cons x xs)
  from Cons.prems(3) obtain s' where s': "f x s = Inr s'" "rfold f xs s' = Inr t" by auto
  have "build_inv (insert (g x) K) s'" using Cons.prems(1,2) s'(1) by simp
  moreover have "build_inv (insert (g y) L) t"
    if "y \<in> set xs" "insert (g x) K \<subseteq> L" "build_inv L s" "f y s = Inr t" for y L s t
    using Cons.prems(1) [of y L s t] that by auto
  ultimately have "build_inv (insert (g x) K \<union> g ` set xs) t" using s'(2) by (intro Cons.IH)
  then show ?case by simp
qed simp

lemma node_id_strip [simp]: "node_id p (py_strip t) = node_id p t"
  by (simp add: node_id_def)

text \<open>The three ways a manifest item's references become edges.\<close>

abbreviation authority_keys :: "string list \<Rightarrow> string set" where
  "authority_keys ids \<equiv> node_id ''authority'' ` set ids"

lemma authority_key:
  assumes "list_all (item_ok sec ids) items" "PDict d \<in> set items" "py_index d (ref_field_name sec) = Inr (PList vs)"
    "PStr a \<in> set vs"
  shows "node_id ''authority'' a \<in> authority_keys ids"
proof -
  have "item_ok sec ids (PDict d)" using assms by (simp add: list_all_iff)
  then have "known_refs ids d (ref_field_name sec)" "text_list_field d (ref_field_name sec)"
    by (cases sec; auto simp: item_ok_def ref_field_name_def field_ok_def)+
  moreover from this(2) obtain ts where "vs = map PStr ts" "\<forall>t \<in> set ts. py_strip t \<noteq> []"
    using text_list_index assms(3) by fastforce
  ultimately have "py_strip a \<in> set ids" using known_refs_strings assms(3,4) by fastforce
  then have "node_id ''authority'' (py_strip a) \<in> authority_keys ids" by (rule imageI)
  then show ?thesis by simp
qed

lemma find_entry_member: "find_entry xs f i = Inr x \<Longrightarrow> x \<in> set xs"
  by (induction xs) (auto split: if_splits)

lemma item_refs:
  assumes "list_all (item_ok sec ids) items" "x \<in> set items" "sub_list x (ref_field_name sec) = Inr vs" "a \<in> set vs"
  shows "\<exists>t. a = PStr t \<and> node_id ''authority'' t \<in> authority_keys ids"
proof -
  have "item_ok sec ids x" using assms by (simp add: list_all_iff)
  then obtain d where d: "x = PDict d" and "text_list_field d (ref_field_name sec)"
    by (cases x; cases sec; auto simp: item_ok_def ref_field_name_def field_ok_def)
  then obtain ts where ts: "py_index d (ref_field_name sec) = Inr (PList (map PStr ts))"
    using text_list_index by blast
  then have vs: "vs = map PStr ts" using assms(3) d by (simp add: sub_list_def)
  with assms(4) obtain t where "a = PStr t" by auto
  then show ?thesis using authority_key [OF assms(1) _ ts, of t] assms(2,4) d vs by auto
qed

lemma add_authority_edges_inv:
  assumes items: "list_all (item_ok sec ids) items" and sec: "sec \<noteq> Projections"
    and K: "authority_keys ids \<subseteq> K" "source \<in> K" and s: "build_inv K s"
    and t: "add_authority_edges source items f i s = Inr t"
  shows "build_inv K t"
proof -
  from t obtain x vs where x: "find_entry items f i = Inr x" "sub_list x ''authority_ref_ids'' = Inr vs"
    and fold: "rfold (\<lambda>a s. rbind (need_str a) (\<lambda>a.
       Inr (add_edge source (node_id ''authority'' a) ''declared-by-authority'' [] s))) vs s = Inr t"
    unfolding add_authority_edges_def by auto
  have ref: "ref_field_name sec = ''authority_ref_ids''" using sec by (simp add: ref_field_name_def)
  show ?thesis
  proof (rule build_inv_rfold [OF _ s fold])
    fix a s t
    assume "a \<in> set vs" "build_inv K s"
      "rbind (need_str a) (\<lambda>a. Inr (add_edge source (node_id ''authority'' a) ''declared-by-authority'' [] s)) = Inr t"
    moreover obtain u where "a = PStr u" "node_id ''authority'' u \<in> authority_keys ids"
      using item_refs [OF items find_entry_member [OF x(1)]] x(2) ref \<open>a \<in> set vs\<close> by metis
    ultimately show "build_inv K t" using build_inv_add_edge K by auto
  qed
qed

lemma add_owner_edge_inv:
  assumes "build_inv K s" "source \<in> K" "\<And>k n. map_of repos k = Some n \<Longrightarrow> gn_node_id n \<in> K"
  shows "build_inv K (add_owner_edge source ty repos owner s)"
  using assms by (cases owner) (auto simp: add_owner_edge_def intro: build_inv_add_edge split: option.split)

lemma scope_node_id: "starts_with ''scope:'' (node_id ''scope'' t)"
  by (auto simp: node_id_def Let_def starts_with_def)

lemma add_scope_edge_inv:
  assumes "build_inv K s" "source \<in> K" "add_scope_edge source scope s = Inr t"
  shows "build_inv K t"
proof -
  from assms(3) obtain u where t: "t = add_edge source (resolve_scope_node_id u s) ''validates-scope''
       [(''scope'', scope), (''target_resolved'', PBool (has_node (resolve_scope_node_id u s) s))] s"
    by (auto simp: add_scope_edge_def Let_def)
  have "resolve_scope_node_id u s \<in> K \<or> (\<not> has_node (resolve_scope_node_id u s) s \<and>
      starts_with ''scope:'' (resolve_scope_node_id u s))"
    using assms(1) scope_node_id by (auto simp: build_inv_def resolve_scope_node_id_def)
  then have "edge_sound K \<lparr>ge_edge_id = edge_id source ''validates-scope'' (resolve_scope_node_id u s),
      ge_source = source, ge_target = resolve_scope_node_id u s, ge_edge_type = ''validates-scope'',
      ge_properties = [(''scope'', scope), (''target_resolved'', PBool (has_node (resolve_scope_node_id u s) s))]\<rparr>"
    using assms(2) by (auto simp: edge_sound_def dangling_scope_def)
  then show ?thesis
    unfolding t add_edge_def Let_def by (intro build_inv_put_edge [OF assms(1)]) simp
qed

section \<open>Every section keeps the invariant\<close>

abbreviation item_key :: "manifest_section \<Rightarrow> pyval \<Rightarrow> string" where
  "item_key sec x \<equiv> item_id (section_id_field sec) x"

lemma sub_item_id: "py_sub x f = Inr (PStr i) \<Longrightarrow> item_id f x = py_strip i"
  by (cases x) (auto simp: item_id_def dest: py_index_get_Inr)

lemma manifest_node_id [simp]: "gn_node_id (manifest_node e ty owner p props i) = node_id p i"
  by (simp add: manifest_node_def)

lemma authority_node_key:
  "authority_node m r = Inr (i, n) \<Longrightarrow> i = item_id ''authority_id'' r \<and> gn_node_id n = node_id ''authority'' i"
  by (auto simp: authority_node_def Let_def sub_item_id)

lemma repo_node_key:
  "repo_node m r = Inr (i, n) \<Longrightarrow> i = item_id ''repo_id'' r \<and> gn_node_id n = node_id ''repo'' i"
  by (auto simp: repo_node_def Let_def sub_item_id)

lemma component_node_key:
  "component_node m c = Inr (i, n) \<Longrightarrow> i = item_id ''component_id'' c \<and> gn_node_id n = node_id ''component'' i"
  by (auto simp: component_node_def Let_def sub_item_id)

lemma validator_node_key:
  "validator_node m v = Inr (i, n) \<Longrightarrow> i = item_id ''validator_id'' v \<and> gn_node_id n = node_id ''validator'' i"
  by (auto simp: validator_node_def Let_def sub_item_id)

lemma projection_node_key:
  "projection_node m p = Inr n \<Longrightarrow> gn_node_id n = node_id ''projection'' (item_id ''projection_id'' p)"
  by (auto simp: projection_node_def sub_item_id)

text \<open>The tables \<open>_authority_nodes\<close> and \<open>_repo_nodes\<close> build: keyed by the item ids.\<close>

lemma node_table:
  fixes tab :: "(string \<times> graph_node) list" and mk :: "pyval \<Rightarrow> (string \<times> graph_node) result"
  assumes key: "\<And>r i n. mk r = Inr (i, n) \<Longrightarrow> i = item_id f r \<and> gn_node_id n = node_id p i"
    and loop: "rfold (\<lambda>r nodes. rbind (mk r) (\<lambda>(i, n). Inr (assoc_set i n nodes))) rs [] = Inr tab"
  shows "fst ` set tab = item_id f ` set rs \<and> distinct (map fst tab) \<and>
    (\<forall>i n. (i, n) \<in> set tab \<longrightarrow> gn_node_id n = node_id p i)"
proof -
  have set: "snd ` set (assoc_set i n kvs) \<subseteq> insert n (snd ` set kvs) \<and>
      (\<forall>k x. (k, x) \<in> set (assoc_set i n kvs) \<longrightarrow> (k, x) = (i, n) \<or> (k, x) \<in> set kvs)"
    for i :: string and n :: graph_node and kvs
    by (induction i n kvs rule: assoc_set.induct) auto
  have "rfold (\<lambda>r nodes. rbind (mk r) (\<lambda>(i, n). Inr (assoc_set i n nodes))) rs acc = Inr tab \<Longrightarrow>
      distinct (map fst acc) \<Longrightarrow> \<forall>i n. (i, n) \<in> set acc \<longrightarrow> gn_node_id n = node_id p i \<Longrightarrow>
      fst ` set tab = fst ` set acc \<union> item_id f ` set rs \<and> distinct (map fst tab) \<and>
      (\<forall>i n. (i, n) \<in> set tab \<longrightarrow> gn_node_id n = node_id p i)" for acc
  proof (induction rs arbitrary: acc)
    case (Cons r rs)
    from Cons.prems(1) obtain i n where r: "mk r = Inr (i, n)"
      and rest: "rfold (\<lambda>r nodes. rbind (mk r) (\<lambda>(i, n). Inr (assoc_set i n nodes))) rs (assoc_set i n acc) = Inr tab"
      by auto
    have in': "\<forall>k x. (k, x) \<in> set (assoc_set i n acc) \<longrightarrow> gn_node_id x = node_id p k"
      using Cons.prems(3) set [of i n acc] key [OF r] by blast
    have "fst ` set tab = fst ` set (assoc_set i n acc) \<union> item_id f ` set rs \<and> distinct (map fst tab) \<and>
      (\<forall>i n. (i, n) \<in> set tab \<longrightarrow> gn_node_id n = node_id p i)"
      by (rule Cons.IH [OF rest distinct_assoc_set [OF Cons.prems(2)] in'])
    then show ?case using key [OF r] by simp
  qed simp
  from this [of "[]"] loop show ?thesis by simp
qed

lemma table_keys:
  fixes tab :: "(string \<times> graph_node) list"
  assumes "fst ` set tab = A" and "\<forall>i n. (i, n) \<in> set tab \<longrightarrow> gn_node_id n = node_id p i"
  shows "gn_node_id ` snd ` set tab = node_id p ` A"
proof -
  have "gn_node_id ` snd ` set tab = (\<lambda>e. node_id p (fst e)) ` set tab"
    unfolding image_image by (rule image_cong) (use assms(2) in auto)
  then show ?thesis unfolding assms(1) [symmetric] by (simp add: image_image)
qed

lemma fold_add_node_inv:
  fixes tab :: "(string \<times> graph_node) list"
  shows "build_inv K s \<Longrightarrow> build_inv (K \<union> gn_node_id ` snd ` set tab) (fold (\<lambda>(i, n). add_node n) tab s)"
proof (induction tab arbitrary: K s)
  case (Cons p tab)
  obtain i n where p: "p = (i, n)" by fastforce
  from Cons.IH [OF build_inv_add_node [OF Cons.prems, of n]] show ?case by (simp add: p)
qed simp

lemma ingest_repo_inv:
  assumes "list_all (item_ok Repos ids) repos" "authority_keys ids \<subseteq> K" "build_inv K s"
    and "ingest_repo repos (i, n :: graph_node) s = Inr t"
  shows "build_inv (insert (gn_node_id n) K) t"
  using assms(4) unfolding ingest_repo_def prod.case
  by (rule add_authority_edges_inv [OF assms(1) _ _ _ build_inv_add_node [OF assms(3)], rotated 3])
    (use assms(2) in auto)

lemma ingest_component_inv:
  assumes items: "list_all (item_ok Components ids) components" "authority_keys ids \<subseteq> K" "build_inv K s"
    and repos: "\<And>k r. map_of repos k = Some r \<Longrightarrow> gn_node_id r \<in> K"
    and t: "ingest_component m repos components c s = Inr t"
  shows "build_inv (insert (node_id ''component'' (item_id ''component_id'' c)) K) t"
proof -
  from t obtain i n s1 owner where n: "component_node m c = Inr (i, n)"
    and s1: "add_authority_edges (gn_node_id n) components ''component_id'' i (add_node n s) = Inr s1"
    and t: "t = add_owner_edge (gn_node_id n) ''owned-by-repo'' repos owner s1"
    by (auto simp: ingest_component_def)
  have "build_inv (insert (gn_node_id n) K) s1"
    by (rule add_authority_edges_inv [OF items(1) _ _ _ build_inv_add_node [OF items(3)] s1])
      (use items(2) in auto)
  then have "build_inv (insert (gn_node_id n) K) t"
    unfolding t using repos by (intro add_owner_edge_inv) auto
  then show ?thesis using component_node_key [OF n] by simp
qed

lemma ingest_validator_inv:
  assumes items: "list_all (item_ok Validators ids) validators" "authority_keys ids \<subseteq> K" "build_inv K s"
    and t: "ingest_validator m validators v s = Inr t"
  shows "build_inv (insert (node_id ''validator'' (item_id ''validator_id'' v)) K) t"
proof -
  from t obtain i n s1 scopes where n: "validator_node m v = Inr (i, n)"
    and s1: "add_authority_edges (gn_node_id n) validators ''validator_id'' i (add_node n s) = Inr s1"
    and t: "rfold (add_scope_edge (gn_node_id n)) scopes s1 = Inr t"
    by (auto simp: ingest_validator_def)
  have "build_inv (insert (gn_node_id n) K) s1"
    by (rule add_authority_edges_inv [OF items(1) _ _ _ build_inv_add_node [OF items(3)] s1])
      (use items(2) in auto)
  then have "build_inv (insert (gn_node_id n) K) t"
    by (rule build_inv_rfold [OF _ _ t, rotated]) (auto intro: add_scope_edge_inv)
  then show ?thesis using validator_node_key [OF n] by simp
qed

lemma ingest_projection_inv:
  assumes items: "list_all (item_ok Projections ids) projections" "p \<in> set projections"
    "authority_keys ids \<subseteq> K" "build_inv K s"
    and repos: "\<And>k r. map_of repos k = Some r \<Longrightarrow> gn_node_id r \<in> K"
    and t: "ingest_projection m repos p s = Inr t"
  shows "build_inv (insert (node_id ''projection'' (item_id ''projection_id'' p)) K) t"
proof -
  from t obtain n vs s1 repo where n: "projection_node m p = Inr n" and vs: "sub_list p ''source_ref_ids'' = Inr vs"
    and s1: "rfold (\<lambda>a s. rbind (need_str a) (\<lambda>a.
        Inr (add_edge (gn_node_id n) (node_id ''authority'' a) ''projects-from-authority'' [] s))) vs (add_node n s) = Inr s1"
    and t: "t = add_owner_edge (gn_node_id n) ''emits-to-repo'' repos repo s1"
    by (auto simp: ingest_projection_def)
  have ref: "ref_field_name Projections = ''source_ref_ids''" by (simp add: ref_field_name_def)
  have "build_inv (insert (gn_node_id n) K) s1"
  proof (rule build_inv_rfold [OF _ build_inv_add_node [OF items(4)] s1])
    fix a s t
    assume a: "a \<in> set vs" "build_inv (insert (gn_node_id n) K) s"
      "rbind (need_str a) (\<lambda>a. Inr (add_edge (gn_node_id n) (node_id ''authority'' a) ''projects-from-authority'' [] s)) = Inr t"
    obtain u where "a = PStr u" "node_id ''authority'' u \<in> authority_keys ids"
      using item_refs [OF items(1,2)] vs ref a(1) by metis
    with a items(3) show "build_inv (insert (gn_node_id n) K) t" using build_inv_add_edge by auto
  qed
  then have "build_inv (insert (gn_node_id n) K) t"
    unfolding t using repos by (intro add_owner_edge_inv) auto
  then show ?thesis using projection_node_key [OF n] by simp
qed

definition declared_keys :: "pydict \<Rightarrow> string set" where
  "declared_keys m = authority_keys (declared_ids m) \<union> node_id ''repo'' ` set (section_ids m Repos) \<union>
     node_id ''component'' ` set (section_ids m Components) \<union>
     node_id ''validator'' ` set (section_ids m Validators) \<union>
     node_id ''projection'' ` set (section_ids m Projections)"

lemma sub_list_section:
  "manifest_valid (PDict m) \<Longrightarrow> sub_list (PDict m) (section_name sec) = Inr (section_items m sec)"
  using valid_section [of m sec] by (simp add: sub_list_def)

lemmas sub_lists = sub_list_section [where sec = Repos, simplified] sub_list_section [where sec = Components, simplified]
  sub_list_section [where sec = Validators, simplified] sub_list_section [where sec = Projections, simplified]

lemma authority_table:
  assumes "manifest_valid (PDict m)" and "authority_nodes m = Inr tab"
  shows "gn_node_id ` snd ` set tab = authority_keys (declared_ids m)"
proof -
  obtain refs where refs: "py_index m ''authority_refs'' = Inr (PList refs)" "declared_ids m = map (item_id ''authority_id'') refs"
    using valid_authority_refs [OF assms(1)] by metis
  then have "rfold (\<lambda>r nodes. rbind (authority_node m r) (\<lambda>(i, n). Inr (assoc_set i n nodes))) refs [] = Inr tab"
    using assms(2) by (simp add: authority_nodes_def sub_list_def)
  from node_table [OF authority_node_key this] show ?thesis
    unfolding refs(2) set_map by (intro table_keys) simp_all
qed

lemma repo_table:
  assumes "manifest_valid (PDict m)" and "repo_nodes m = Inr tab"
  shows "gn_node_id ` snd ` set tab = node_id ''repo'' ` set (section_ids m Repos)"
proof -
  have "rfold (\<lambda>r nodes. rbind (repo_node m r) (\<lambda>(i, n). Inr (assoc_set i n nodes))) (section_items m Repos) [] = Inr tab"
    using assms by (simp add: repo_nodes_def sub_lists)
  from node_table [OF repo_node_key this] show ?thesis
    unfolding section_ids_def set_map by (intro table_keys) simp_all
qed

lemma ingest_manifest_inv:
  assumes valid: "manifest_valid (PDict m)" and s: "ingest_manifest m = Inr s"
  shows "build_inv (declared_keys m) s"
proof -
  let ?A = "authority_keys (declared_ids m)"
  obtain auths repos s1 s2 s3 where auths: "authority_nodes m = Inr auths" and repos: "repo_nodes m = Inr repos"
    and s1: "rfold (ingest_repo (section_items m Repos)) repos
        (fold (\<lambda>(i, n). add_node n) auths \<lparr>gs_nodes = [], gs_edges = []\<rparr>) = Inr s1"
    and s2: "rfold (ingest_component m repos (section_items m Components)) (section_items m Components) s1 = Inr s2"
    and s3: "rfold (ingest_validator m (section_items m Validators)) (section_items m Validators) s2 = Inr s3"
    and s4: "rfold (ingest_projection m repos) (section_items m Projections) s3 = Inr s"
    using s by (auto simp: ingest_manifest_def sub_lists [OF valid] Let_def)
  have items: "list_all (item_ok sec (declared_ids m)) (section_items m sec)" for sec
    using valid_section [OF valid] by simp
  have "build_inv {} \<lparr>gs_nodes = [], gs_edges = []\<rparr>" by (simp add: build_inv_def has_node_def)
  from fold_add_node_inv [OF this, of auths] authority_table [OF valid auths]
  have "build_inv ?A (fold (\<lambda>(i, n). add_node n) auths \<lparr>gs_nodes = [], gs_edges = []\<rparr>)" by simp
  from build_inv_grow [OF _ this s1, of "\<lambda>p. gn_node_id (snd p)"] ingest_repo_inv [OF items]
  have "build_inv (?A \<union> (\<lambda>p. gn_node_id (snd p)) ` set repos) s1" by fastforce
  then have i1: "build_inv (?A \<union> node_id ''repo'' ` set (section_ids m Repos)) s1" (is "build_inv ?R s1")
    using repo_table [OF valid repos] by (simp add: image_image)
  have rk: "gn_node_id r \<in> ?R" if "map_of repos k = Some r" for k r
    using repo_table [OF valid repos] map_of_SomeD [OF that] by force
  have i2: "build_inv (?R \<union> (\<lambda>c. node_id ''component'' (item_id ''component_id'' c)) ` set (section_items m Components)) s2"
    by (rule build_inv_grow [OF ingest_component_inv [OF items] i1 s2]) (use rk in blast)+
  have i3: "build_inv (?R \<union> (\<lambda>c. node_id ''component'' (item_id ''component_id'' c)) ` set (section_items m Components) \<union>
      (\<lambda>c. node_id ''validator'' (item_id ''validator_id'' c)) ` set (section_items m Validators)) s3"
    by (rule build_inv_grow [OF ingest_validator_inv [OF items] i2 s3]) blast+
  have "build_inv (?R \<union> (\<lambda>c. node_id ''component'' (item_id ''component_id'' c)) ` set (section_items m Components) \<union>
      (\<lambda>c. node_id ''validator'' (item_id ''validator_id'' c)) ` set (section_items m Validators) \<union>
      (\<lambda>c. node_id ''projection'' (item_id ''projection_id'' c)) ` set (section_items m Projections)) s"
  proof (rule build_inv_grow [OF _ i3 s4])
    fix p L s t
    assume p: "p \<in> set (section_items m Projections)" and i: "build_inv L s"
      "ingest_projection m repos p s = Inr t" and L: "?R \<union> (\<lambda>c. node_id ''component'' (item_id ''component_id'' c)) ` set (section_items m Components) \<union>
      (\<lambda>c. node_id ''validator'' (item_id ''validator_id'' c)) ` set (section_items m Validators) \<subseteq> L"
    show "build_inv (insert (node_id ''projection'' (item_id ''projection_id'' p)) L) t"
    proof (rule ingest_projection_inv [OF items p _ i(1) _ i(2)])
      show A: "?A \<subseteq> L" using L by blast
      have "?R \<subseteq> L" using L by blast
      then show "gn_node_id r \<in> L" if "map_of repos k = Some r" for k r
        by (rule subsetD) (rule rk [OF that])
    qed
  qed
  then show ?thesis by (simp add: declared_keys_def section_ids_def image_image Un_assoc)
qed

lemma sorted_values_facts:
  assumes "distinct (map fst kvs)" and key: "\<And>k v. map_of kvs k = Some v \<Longrightarrow> key v = k"
  shows "sorted_wrt (<) (map key (sorted_values kvs))" "set (sorted_values kvs) = snd ` set kvs"
    "key ` set (sorted_values kvs) = fst ` set kvs"
proof -
  have at: "\<exists>v. map_of kvs k = Some v" if "k \<in> fst ` set kvs" for k
    using that by (metis map_of_eq_None_iff not_None_eq)
  have map: "map key (sorted_values kvs) = sort (map fst kvs)"
    unfolding sorted_values_def map_map o_def by (rule map_idI) (use at key in fastforce)
  then show "sorted_wrt (<) (map key (sorted_values kvs))"
    using assms(1) by (simp add: strict_sorted_iff)
  show "key ` set (sorted_values kvs) = fst ` set kvs"
    using arg_cong [OF map, of set] by simp
  show "set (sorted_values kvs) = snd ` set kvs"
    using assms(1) by (force simp: sorted_values_def image_iff)
qed

lemma build_graph_inv:
  assumes "build_manifest_graph x = Inr g"
  obtains m s where "x = PDict m" "manifest_valid x" "build_inv (declared_keys m) s"
    "mg_nodes g = sorted_values (gs_nodes s)" "mg_edges g = sorted_values (gs_edges s)"
proof -
  from assms have valid: "manifest_valid x"
    by (auto simp: build_manifest_graph_def Let_def manifest_valid_def split: if_splits)
  then obtain m where x: "x = PDict m" using manifest_valid_dict by blast
  from assms valid x obtain s where "ingest_manifest m = Inr s"
    "mg_nodes g = sorted_values (gs_nodes s)" "mg_edges g = sorted_values (gs_edges s)"
    by (auto simp: build_manifest_graph_def Let_def manifest_valid_def)
  then show thesis using that [OF x valid] ingest_manifest_inv valid x by blast
qed

lemma build_graph_facts:
  assumes "build_manifest_graph (PDict m) = Inr g"
  shows "sorted_wrt (<) (map gn_node_id (mg_nodes g))" "gn_node_id ` set (mg_nodes g) = declared_keys m"
    "sorted_wrt (<) (map ge_edge_id (mg_edges g))" "e \<in> set (mg_edges g) \<Longrightarrow> edge_sound (declared_keys m) e"
proof -
  obtain s where s: "build_inv (declared_keys m) s" "mg_nodes g = sorted_values (gs_nodes s)"
    "mg_edges g = sorted_values (gs_edges s)"
    using build_graph_inv [OF assms] by auto
  note nodes = sorted_values_facts [of "gs_nodes s" gn_node_id]
  note edges = sorted_values_facts [of "gs_edges s" ge_edge_id]
  have inv: "distinct (map fst (gs_nodes s))" "distinct (map fst (gs_edges s))"
    "\<And>k n. map_of (gs_nodes s) k = Some n \<Longrightarrow> gn_node_id n = k"
    "\<And>k e. map_of (gs_edges s) k = Some e \<Longrightarrow> ge_edge_id e = k \<and> edge_sound (declared_keys m) e"
    "declared_keys m = {k. has_node k s}"
    using s(1) unfolding build_inv_def by blast+
  show "sorted_wrt (<) (map gn_node_id (mg_nodes g))" using nodes(1) inv s by simp
  have "{k. has_node k s} = fst ` set (gs_nodes s)"
    by (simp add: has_node_def map_of_eq_None_iff)
  then show "gn_node_id ` set (mg_nodes g) = declared_keys m"
    using nodes(3) [OF inv(1,3)] inv(5) s(2) by simp
  show "sorted_wrt (<) (map ge_edge_id (mg_edges g))" using edges(1) inv s by simp
  assume "e \<in> set (mg_edges g)"
  then obtain k where "(k, e) \<in> set (gs_edges s)" using edges(2) [OF inv(2)] inv(4) s(3) by auto
  then have "map_of (gs_edges s) k = Some e" using inv(2) by simp
  then show "edge_sound (declared_keys m) e" using inv(4) by blast
qed

section \<open>Building succeeds\<close>

text \<open>The one thing the validator leaves open that the builder needs: \<open>source_paths\<close> of a
  component must be joinable.\<close>

definition source_paths_ok :: "pyval \<Rightarrow> bool" where
  "source_paths_ok c = (case c of PDict d \<Rightarrow>
     (case py_or (py_get d ''source_paths'') (PList []) of
        PList xs \<Rightarrow> list_all is_str xs | PStr t \<Rightarrow> True | PDict kvs \<Rightarrow> True | _ \<Rightarrow> False)
   | _ \<Rightarrow> True)"

lemma joined_source_paths_iff:
  "(\<exists>t. joined_source_paths v = Inr t) =
     (case py_or v (PList []) of PList xs \<Rightarrow> list_all is_str xs | PStr t \<Rightarrow> True | PDict kvs \<Rightarrow> True | _ \<Rightarrow> False)"
proof -
  have str: "(\<exists>ts. rmapM (\<lambda>x. case x of PStr t \<Rightarrow> Inr t | _ \<Rightarrow> Inl (TypeError e)) xs = Inr ts) = list_all is_str xs"
    for xs e
  proof (induction xs)
    case (Cons x xs)
    then show ?case by (cases x) auto
  qed simp
  show ?thesis
  proof (cases "py_or v (PList [])")
    case (PList xs)
    then show ?thesis using str [of _ xs] by (simp add: joined_source_paths_def)
  next
    case (PStr t)
    have "list_all is_str (map (\<lambda>c. PStr [c]) t)" by (simp add: list_all_iff)
    then show ?thesis using PStr str [of _ "map (\<lambda>c. PStr [c]) t"] by (simp add: joined_source_paths_def)
  next
    case (PDict kvs)
    have "list_all is_str (map (\<lambda>kv. PStr (fst kv)) kvs)" by (simp add: list_all_iff)
    then show ?thesis using PDict str [of _ "map (\<lambda>kv. PStr (fst kv)) kvs"] by (simp add: joined_source_paths_def)
  qed (simp_all add: joined_source_paths_def)
qed

lemma item_ok_text:
  assumes "item_ok sec ids x" and "f \<in> set (section_required_fields sec)"
    and "f \<notin> {''authority_ref_ids'', ''source_ref_ids'', ''scopes'', ''output_ref''}"
  shows "\<exists>t. py_sub x f = Inr (PStr t) \<and> py_strip t \<noteq> []"
proof -
  from assms(1,2) obtain d where "x = PDict d" "field_ok d f"
    by (cases x) (auto simp: item_ok_def list_all_iff)
  with assms(3) show ?thesis by (auto simp: field_ok_def text_field_index)
qed

lemma item_ok_list:
  assumes "item_ok sec ids x" and "f \<in> set (section_required_fields sec)"
    and "f \<in> {''authority_ref_ids'', ''source_ref_ids'', ''scopes''}"
  shows "\<exists>ts. py_sub x f = Inr (PList (map PStr ts))"
proof -
  from assms(1,2) obtain d where "x = PDict d" "field_ok d f"
    by (cases x) (auto simp: item_ok_def list_all_iff)
  with assms(3) show ?thesis by (auto simp: field_ok_def dest: text_list_index)
qed

lemma item_ok_output:
  assumes "item_ok Projections ids x"
  shows "\<exists>out r p. py_sub x ''output_ref'' = Inr out \<and> py_sub out ''repo'' = Inr (PStr r) \<and> py_sub out ''path'' = Inr (PStr p)"
proof -
  from assms obtain d where d: "x = PDict d" "output_ref_ok (py_get d ''output_ref'')"
    by (cases x) (auto simp: item_ok_def field_ok_def)
  then obtain q where q: "py_get d ''output_ref'' = PDict q" "text_field q ''repo''" "text_field q ''path''"
    by (auto simp: output_ref_ok_def split: pyval.splits)
  then have "py_index d ''output_ref'' = Inr (PDict q)" using py_index_get [of d "''output_ref''"] by simp
  with d q show ?thesis by (auto simp: text_field_index)
qed

lemma item_ok_dict: "item_ok sec ids x \<Longrightarrow> \<exists>d. x = PDict d"
  by (cases x) (auto simp: item_ok_def)

lemma find_entry_total:
  assumes "list_all (item_ok sec ids) xs" and "x \<in> set xs"
  shows "\<exists>y. find_entry xs (section_id_field sec) (item_key sec x) = Inr y"
  using assms
proof (induction xs)
  case (Cons a xs)
  have "section_id_field sec \<in> set (section_required_fields sec)"
    "section_id_field sec \<notin> {''authority_ref_ids'', ''source_ref_ids'', ''scopes'', ''output_ref''}"
    by (cases sec; simp)+
  then obtain t where t: "py_sub a (section_id_field sec) = Inr (PStr t)"
    using item_ok_text Cons.prems(1) by fastforce
  show ?case
  proof (cases "x = a")
    case True
    then show ?thesis using t sub_item_id [OF t] by simp
  next
    case False
    then show ?thesis using Cons t by auto
  qed
qed simp

lemma rfold_strings_total:
  assumes "\<And>t s. \<exists>u. f (PStr t) s = Inr u"
  shows "\<exists>u. rfold f (map PStr ts) s = Inr u"
  using rfold_total [of "map PStr ts" "\<lambda>_. True" f s] assms by auto

lemma add_authority_edges_total:
  assumes items: "list_all (item_ok sec ids) items" "x \<in> set items" and sec: "sec \<noteq> Projections"
  shows "\<exists>t. add_authority_edges source items (section_id_field sec) (item_key sec x) s = Inr t"
proof -
  obtain y where y: "find_entry items (section_id_field sec) (item_key sec x) = Inr y"
    using find_entry_total [OF items] by blast
  have "''authority_ref_ids'' \<in> set (section_required_fields sec)" using sec by (cases sec) simp_all
  then obtain ts where ts: "py_sub y ''authority_ref_ids'' = Inr (PList (map PStr ts))"
    using item_ok_list [of sec ids y] items(1) find_entry_member [OF y] by (auto simp: list_all_iff)
  obtain u where "rfold (\<lambda>a s. rbind (need_str a) (\<lambda>a.
      Inr (add_edge source (node_id ''authority'' a) ''declared-by-authority'' [] s))) (map PStr ts) s = Inr u"
    using rfold_strings_total [of "\<lambda>a s. rbind (need_str a) (\<lambda>a.
      Inr (add_edge source (node_id ''authority'' a) ''declared-by-authority'' [] s))" ts s] by auto
  then show ?thesis unfolding add_authority_edges_def sub_list_def using y ts by simp
qed

lemma authority_node_total:
  assumes "authority_ref_ok r" and "py_index m ''manifest_id'' = Inr mid"
  shows "\<exists>p. authority_node m r = Inr p"
proof -
  from assms(1) obtain d where "r = PDict d" "list_all (text_field d) AUTHORITY_REF_REQUIRED_FIELDS"
    by (cases r) (auto simp: authority_ref_ok_def)
  then show ?thesis
    using assms(2) by (auto simp: AUTHORITY_REF_REQUIRED_FIELDS_def text_field_index authority_node_def Let_def)
qed

lemma authority_nodes_total:
  assumes "manifest_valid (PDict m)"
  shows "\<exists>tab. authority_nodes m = Inr tab"
proof -
  obtain mid where mid: "py_index m ''manifest_id'' = Inr (PStr mid)" using valid_manifest_id [OF assms] by blast
  obtain refs where refs: "py_index m ''authority_refs'' = Inr (PList refs)" "list_all authority_ref_ok refs"
    using valid_authority_refs [OF assms] by metis
  have "\<exists>u. rfold (\<lambda>r nodes. rbind (authority_node m r) (\<lambda>(i, n). Inr (assoc_set i n nodes))) refs [] = Inr u \<and> True"
  proof (rule rfold_total)
    fix r nodes assume "r \<in> set refs"
    then have "authority_ref_ok r" using refs(2) by (simp add: list_all_iff)
    then obtain p where "authority_node m r = Inr p" using authority_node_total [OF _ mid] by blast
    then show "\<exists>u. rbind (authority_node m r) (\<lambda>(i, n). Inr (assoc_set i n nodes)) = Inr u \<and> True"
      by (cases p) simp
  qed simp
  then show ?thesis using refs(1) by (simp add: authority_nodes_def sub_list_def)
qed

lemma repo_nodes_total:
  assumes "manifest_valid (PDict m)"
  shows "\<exists>tab. repo_nodes m = Inr tab"
proof -
  obtain mid where mid: "py_index m ''manifest_id'' = Inr (PStr mid)" using valid_manifest_id [OF assms] by blast
  have "\<exists>u. rfold (\<lambda>r nodes. rbind (repo_node m r) (\<lambda>(i, n). Inr (assoc_set i n nodes))) (section_items m Repos) [] = Inr u \<and> True"
  proof (rule rfold_total)
    fix r nodes assume "r \<in> set (section_items m Repos)"
    then have r: "item_ok Repos (declared_ids m) r" using valid_section [OF assms] by (simp add: list_all_iff)
    then obtain d where "r = PDict d" using item_ok_dict by blast
    then have "\<exists>p. repo_node m r = Inr p"
      using item_ok_text [OF r, of "''repo_id''"] item_ok_text [OF r, of "''owner_repo''"]
        item_ok_list [OF r, of "''authority_ref_ids''"] mid
      by (auto simp: repo_node_def Let_def)
    then show "\<exists>u. rbind (repo_node m r) (\<lambda>(i, n). Inr (assoc_set i n nodes)) = Inr u \<and> True" by auto
  qed simp
  then show ?thesis by (simp add: repo_nodes_def sub_lists [OF assms])
qed

lemma component_node_iff:
  assumes c: "item_ok Components ids c" and mid: "py_index m ''manifest_id'' = Inr mid"
  shows "(\<exists>p. component_node m c = Inr p) = source_paths_ok c"
proof -
  obtain d where d: "c = PDict d" using c item_ok_dict by blast
  obtain i owner ty ts where "py_index d ''component_id'' = Inr (PStr i)" "py_index d ''owner_repo'' = Inr (PStr owner)"
    "py_index d ''component_type'' = Inr (PStr ty)" "py_index d ''authority_ref_ids'' = Inr (PList (map PStr ts))"
    using item_ok_text [OF c, of "''component_id''"] item_ok_text [OF c, of "''owner_repo''"]
      item_ok_text [OF c, of "''component_type''"] item_ok_list [OF c, of "''authority_ref_ids''"] d
    by auto
  then have "(\<exists>p. component_node m c = Inr p) = (\<exists>t. joined_source_paths (py_get d ''source_paths'') = Inr t)"
    using mid d by (cases "joined_source_paths (py_get d ''source_paths'')") (simp_all add: component_node_def Let_def)
  then show ?thesis by (simp add: joined_source_paths_iff source_paths_ok_def d)
qed

lemma ingest_component_iff:
  assumes items: "list_all (item_ok Components ids) components" "c \<in> set components"
    and mid: "py_index m ''manifest_id'' = Inr mid"
  shows "(\<exists>t. ingest_component m repos components c s = Inr t) = source_paths_ok c"
proof
  assume "\<exists>t. ingest_component m repos components c s = Inr t"
  then show "source_paths_ok c"
    using component_node_iff [OF _ mid, of ids c] items by (auto simp: ingest_component_def list_all_iff)
next
  assume "source_paths_ok c"
  have ok: "item_ok Components ids c" using items by (simp add: list_all_iff)
  with \<open>source_paths_ok c\<close> obtain i n where n: "component_node m c = Inr (i, n)"
    using component_node_iff [OF _ mid] by (metis surj_pair)
  moreover obtain t where "add_authority_edges (gn_node_id n) components ''component_id'' i (add_node n s) = Inr t"
    using add_authority_edges_total [OF items, of "gn_node_id n" "add_node n s"] component_node_key [OF n] by auto
  moreover obtain o1 where "py_sub c ''owner_repo'' = Inr o1" using item_ok_text [OF ok, of "''owner_repo''"] by auto
  ultimately show "\<exists>t. ingest_component m repos components c s = Inr t" by (simp add: ingest_component_def)
qed

lemma ingest_validator_total:
  assumes items: "list_all (item_ok Validators ids) validators" "v \<in> set validators"
    and mid: "py_index m ''manifest_id'' = Inr mid"
  shows "\<exists>t. ingest_validator m validators v s = Inr t"
proof -
  have ok: "item_ok Validators ids v" using items by (simp add: list_all_iff)
  obtain scopes where scopes: "py_sub v ''scopes'' = Inr (PList (map PStr scopes))"
    using item_ok_list [OF ok, of "''scopes''"] by auto
  obtain i n where n: "validator_node m v = Inr (i, n)"
    using item_ok_text [OF ok, of "''validator_id''"] item_ok_text [OF ok, of "''owner_repo''"]
      item_ok_text [OF ok, of "''command''"] item_ok_list [OF ok, of "''authority_ref_ids''"] scopes mid
    by (auto simp: validator_node_def Let_def)
  moreover obtain s1 where "add_authority_edges (gn_node_id n) validators ''validator_id'' i (add_node n s) = Inr s1"
    using add_authority_edges_total [OF items, of "gn_node_id n" "add_node n s"] validator_node_key [OF n] by auto
  moreover obtain t where "rfold (add_scope_edge (gn_node_id n)) (map PStr scopes) s1 = Inr t"
    using rfold_strings_total [of "add_scope_edge (gn_node_id n)" scopes s1] by (auto simp: add_scope_edge_def Let_def)
  ultimately show ?thesis using scopes by (simp add: ingest_validator_def sub_list_def)
qed

lemma ingest_projection_total:
  assumes ok: "item_ok Projections ids p" and mid: "py_index m ''manifest_id'' = Inr mid"
  shows "\<exists>t. ingest_projection m repos p s = Inr t"
proof -
  obtain out r q where out: "py_sub p ''output_ref'' = Inr out" "py_sub out ''repo'' = Inr (PStr r)" "py_sub out ''path'' = Inr (PStr q)"
    using item_ok_output [OF ok] by blast
  obtain ts where ts: "py_sub p ''source_ref_ids'' = Inr (PList (map PStr ts))"
    using item_ok_list [OF ok, of "''source_ref_ids''"] by auto
  obtain n where n: "projection_node m p = Inr n"
    using item_ok_text [OF ok, of "''projection_id''"] item_ok_text [OF ok, of "''owner_repo''"] out ts mid
    by (auto simp: projection_node_def)
  obtain t where "rfold (\<lambda>a s. rbind (need_str a) (\<lambda>a.
      Inr (add_edge (gn_node_id n) (node_id ''authority'' a) ''projects-from-authority'' [] s))) (map PStr ts) (add_node n s) = Inr t"
    using rfold_strings_total [of "\<lambda>a s. rbind (need_str a) (\<lambda>a.
      Inr (add_edge (gn_node_id n) (node_id ''authority'' a) ''projects-from-authority'' [] s))" ts "add_node n s"] by auto
  then show ?thesis using out ts n by (simp add: ingest_projection_def sub_list_def)
qed

lemma rfold_each:
  assumes "rfold f xs s = Inr t" and "x \<in> set xs"
  shows "\<exists>s' t'. f x s' = Inr t'"
  by (rule rfold_establishes [OF _ _ assms, of "\<lambda>x t. \<exists>s' t'. f x s' = Inr t'"]) auto

lemma rfold_total_simple: "(\<And>x s. x \<in> set xs \<Longrightarrow> \<exists>t. f x s = Inr t) \<Longrightarrow> \<exists>t. rfold f xs s = Inr t"
  using rfold_total [of xs "\<lambda>_. True" f s] by auto

lemma repo_tab_item:
  assumes "manifest_valid (PDict m)" and "repo_nodes m = Inr tab" and "(i, n) \<in> set tab"
  shows "\<exists>x \<in> set (section_items m Repos). i = item_id ''repo_id'' x"
proof -
  have "rfold (\<lambda>r nodes. rbind (repo_node m r) (\<lambda>(i, n). Inr (assoc_set i n nodes))) (section_items m Repos) [] = Inr tab"
    using assms by (simp add: repo_nodes_def sub_lists)
  then have "fst ` set tab = item_id ''repo_id'' ` set (section_items m Repos)"
    using node_table [where mk = "repo_node m" and f = "''repo_id''" and p = "''repo''", OF repo_node_key] by simp
  moreover have "i \<in> fst ` set tab" using assms(3) by force
  ultimately show ?thesis by auto
qed

lemma ingest_manifest_iff:
  assumes valid: "manifest_valid (PDict m)"
  shows "(\<exists>s. ingest_manifest m = Inr s) = list_all source_paths_ok (section_items m Components)"
proof -
  obtain mid where mid: "py_index m ''manifest_id'' = Inr (PStr mid)" using valid_manifest_id [OF valid] by blast
  have items: "list_all (item_ok sec (declared_ids m)) (section_items m sec)" for sec
    using valid_section [OF valid] by simp
  obtain auths where auths: "authority_nodes m = Inr auths" using authority_nodes_total [OF valid] by blast
  obtain repos where repos: "repo_nodes m = Inr repos" using repo_nodes_total [OF valid] by blast
  have "\<exists>t. ingest_repo (section_items m Repos) p s = Inr t" if p_in: "p \<in> set repos" for p s
  proof -
    obtain i n where p: "p = (i, n)" by fastforce
    then obtain x where "x \<in> set (section_items m Repos)" "i = item_id ''repo_id'' x"
      using repo_tab_item [OF valid repos, of i n] p_in by auto
    then show ?thesis
      using add_authority_edges_total [OF items, of x Repos "gn_node_id n" "add_node n s"] by (simp add: ingest_repo_def p)
  qed
  then have "\<exists>t. rfold (ingest_repo (section_items m Repos)) repos s = Inr t" for s
    by (intro rfold_total_simple)
  then obtain s1 where s1: "rfold (ingest_repo (section_items m Repos)) repos
      (fold (\<lambda>(i, n). add_node n) auths \<lparr>gs_nodes = [], gs_edges = []\<rparr>) = Inr s1"
    by blast
  have comps: "(\<exists>s. rfold (ingest_component m repos (section_items m Components)) (section_items m Components) s1 = Inr s) =
      list_all source_paths_ok (section_items m Components)"
  proof
    assume "\<exists>s. rfold (ingest_component m repos (section_items m Components)) (section_items m Components) s1 = Inr s"
    then obtain t where t: "rfold (ingest_component m repos (section_items m Components)) (section_items m Components) s1 = Inr t" ..
    show "list_all source_paths_ok (section_items m Components)"
      unfolding list_all_iff
      using rfold_each [OF t] ingest_component_iff [OF items _ mid] by blast
  next
    assume "list_all source_paths_ok (section_items m Components)"
    then show "\<exists>s. rfold (ingest_component m repos (section_items m Components)) (section_items m Components) s1 = Inr s"
      by (intro rfold_total_simple) (simp add: ingest_component_iff [OF items _ mid] list_all_iff)
  qed
  have vals: "\<exists>t. rfold (ingest_validator m (section_items m Validators)) (section_items m Validators) s = Inr t" for s
    by (intro rfold_total_simple ingest_validator_total [OF items _ mid])
  have projs: "\<exists>t. rfold (ingest_projection m repos) (section_items m Projections) s = Inr t" for s
    by (intro rfold_total_simple ingest_projection_total [where ids = "declared_ids m", OF _ mid]) (use items [of Projections] in \<open>simp add: list_all_iff\<close>)
  show ?thesis
    unfolding comps [symmetric] ingest_manifest_def sub_lists [OF valid] auths repos Let_def rbind_simps s1
  proof (cases "rfold (ingest_component m repos (section_items m Components)) (section_items m Components) s1")
    case (Inr s2)
    obtain s3 where "rfold (ingest_validator m (section_items m Validators)) (section_items m Validators) s2 = Inr s3"
      using vals by blast
    with Inr projs [of s3] show "(\<exists>s. rbind (rfold (ingest_component m repos (section_items m Components)) (section_items m Components) s1)
        (\<lambda>s. rbind (rfold (ingest_validator m (section_items m Validators)) (section_items m Validators) s)
          (rfold (ingest_projection m repos) (section_items m Projections))) = Inr s) =
      (\<exists>s. rfold (ingest_component m repos (section_items m Components)) (section_items m Components) s1 = Inr s)"
      by simp
  qed simp
qed

lemma build_graph_iff:
  "(\<exists>g. build_manifest_graph x = Inr g) =
     (manifest_valid x \<and> (\<forall>m. x = PDict m \<longrightarrow> list_all source_paths_ok (section_items m Components)))"
proof (cases "manifest_valid x")
  case True
  then obtain m where x: "x = PDict m" using manifest_valid_dict by blast
  then obtain mid where "py_index m ''manifest_id'' = Inr (PStr mid)" using valid_manifest_id True by blast
  then have "(\<exists>g. build_manifest_graph x = Inr g) = (\<exists>s. ingest_manifest m = Inr s)"
    using True x by (cases "ingest_manifest m") (simp_all add: build_manifest_graph_def manifest_valid_def)
  then show ?thesis using ingest_manifest_iff True x by simp
next
  case False
  then show ?thesis by (simp add: build_manifest_graph_def manifest_valid_def Let_def)
qed

section \<open>Properties\<close>

text \<open>A manifest with one entry per section, for the witnesses.\<close>

definition sample_manifest :: pydict where
  "sample_manifest =
     [(''schema_version'', PInt 1), (''manifest_id'', PStr ''m''), (''owner_repo'', PStr ''wg''),
      (''authority_refs'', PList [PDict [(''authority_id'', PStr ''a''), (''repo'', PStr ''wg''),
         (''path'', PStr ''p''), (''ref'', PStr ''main'')]]),
      (''repos'', PList [PDict [(''repo_id'', PStr ''r''), (''owner_repo'', PStr ''r''),
         (''authority_ref_ids'', PList [PStr ''a''])]]),
      (''components'', PList [PDict [(''component_id'', PStr ''c''), (''owner_repo'', PStr ''r''),
         (''component_type'', PStr ''t''), (''authority_ref_ids'', PList [PStr ''a''])]]),
      (''validators'', PList [PDict [(''validator_id'', PStr ''v''), (''owner_repo'', PStr ''r''),
         (''command'', PStr ''x''), (''scopes'', PList [PStr ''s'']), (''authority_ref_ids'', PList [PStr ''a''])]]),
      (''projections'', PList [])]"

lemma sample_manifest_valid: "manifest_valid (PDict sample_manifest)"
  unfolding manifest_valid_iff by code_simp

lemma sample_source_paths: "list_all source_paths_ok (section_items sample_manifest Components)"
  by code_simp

text \<open>
  C10. Building the graph succeeds exactly when the manifest is valid and every component's
  \<open>source_paths\<close> can be joined: validation alone does not rule out the \<open>TypeError\<close> of
  the join, and nothing else can fail.
\<close>

theorem graph_builds_iff:
  "(\<exists>g. build_manifest_graph x = Inr g) =
     (manifest_valid x \<and> (\<forall>m. x = PDict m \<longrightarrow> list_all source_paths_ok (section_items m Components)))"
  by (rule build_graph_iff)

theorem graph_builds_iff_witness: "\<exists>g. build_manifest_graph (PDict sample_manifest) = Inr g"
  using graph_builds_iff [of "PDict sample_manifest"] sample_manifest_valid sample_source_paths by simp

text \<open>
  The nodes of a built graph are sorted by id without duplicates, and their ids are exactly
  those of the declared authorities, repos, components, validators and projections.
\<close>

theorem graph_nodes_declared:
  assumes "build_manifest_graph (PDict m) = Inr g"
  shows "sorted_wrt (<) (map gn_node_id (mg_nodes g)) \<and> gn_node_id ` set (mg_nodes g) = declared_keys m"
  using build_graph_facts [OF assms] by blast

theorem graph_nodes_declared_witness:
  "\<exists>g. build_manifest_graph (PDict sample_manifest) = Inr g \<and> sorted_wrt (<) (map gn_node_id (mg_nodes g))"
proof -
  obtain g where "build_manifest_graph (PDict sample_manifest) = Inr g"
    using build_graph_iff [of "PDict sample_manifest"] sample_manifest_valid sample_source_paths by auto
  with graph_nodes_declared [OF this] show ?thesis by blast
qed

text \<open>
  C11. Referential integrity: the edges are sorted by id without duplicates, every edge's id is
  the digest of its ends and type, it starts at a node of the graph, and it ends at a node of
  the graph unless it is a scope edge that is marked unresolved and ends at a \<open>scope:\<close> id.
\<close>

theorem graph_edges_sound:
  assumes "build_manifest_graph (PDict m) = Inr g"
  shows "sorted_wrt (<) (map ge_edge_id (mg_edges g)) \<and>
    list_all (edge_sound (gn_node_id ` set (mg_nodes g))) (mg_edges g)"
  using build_graph_facts [OF assms] by (simp add: list_all_iff)

theorem graph_edges_sound_witness:
  "\<exists>g. build_manifest_graph (PDict sample_manifest) = Inr g \<and>
     list_all (edge_sound (gn_node_id ` set (mg_nodes g))) (mg_edges g)"
proof -
  obtain g where "build_manifest_graph (PDict sample_manifest) = Inr g"
    using build_graph_iff [of "PDict sample_manifest"] sample_manifest_valid sample_source_paths by auto
  with graph_edges_sound [OF this] show ?thesis by blast
qed

end
