(* ===== verification/Performance_Budgets.thy ===== *)
theory Performance_Budgets
  imports Py_Prelude
begin

text \<open>
  \<open>performance_budgets.py\<close>: the budget table, its profile overrides, the evaluation of an
  observed shape against a budget, the caps put on a validator's execution policy, and the
  budget-bounded pagination every operator listing goes through.
\<close>

section \<open>Data\<close>

datatype invocation_class = INLINE_FAST | RECEIPT_CHECK | HARD_GATE | CHECKPOINT_BATCH | OFFLINE_ADVISORY

fun invocation_value :: "invocation_class \<Rightarrow> string" where
  "invocation_value INLINE_FAST = ''inline-fast''"
| "invocation_value RECEIPT_CHECK = ''receipt-check''"
| "invocation_value HARD_GATE = ''hard-gate''"
| "invocation_value CHECKPOINT_BATCH = ''checkpoint-batch''"
| "invocation_value OFFLINE_ADVISORY = ''offline-advisory''"

record performance_budget =
  pb_budget_id :: string
  pb_operation :: string
  pb_invocation_class :: string
  pb_recommended_action :: string
  pb_max_duration_ms :: int
  pb_failure_mode :: string
  pb_max_graph_edges :: "int option"
  pb_max_graph_nodes :: "int option"
  pb_max_output_budget_bytes :: "int option"
  pb_max_page_size :: "int option"
  pb_max_retry_count :: "int option"
  pb_max_selected_checks :: "int option"
  pb_max_timeout_seconds :: "int option"
  pb_receipt_freshness_seconds :: "int option"

definition performance_budget_to_record :: "performance_budget \<Rightarrow> pyval" where
  "performance_budget_to_record b = PDict [
     (''budget_id'', PStr (pb_budget_id b)),
     (''operation'', PStr (pb_operation b)),
     (''invocation_class'', PStr (pb_invocation_class b)),
     (''recommended_action'', PStr (pb_recommended_action b)),
     (''max_duration_ms'', PInt (pb_max_duration_ms b)),
     (''failure_mode'', PStr (pb_failure_mode b)),
     (''max_graph_edges'', opt_int_val (pb_max_graph_edges b)),
     (''max_graph_nodes'', opt_int_val (pb_max_graph_nodes b)),
     (''max_output_budget_bytes'', opt_int_val (pb_max_output_budget_bytes b)),
     (''max_page_size'', opt_int_val (pb_max_page_size b)),
     (''max_retry_count'', opt_int_val (pb_max_retry_count b)),
     (''max_selected_checks'', opt_int_val (pb_max_selected_checks b)),
     (''max_timeout_seconds'', opt_int_val (pb_max_timeout_seconds b)),
     (''receipt_freshness_seconds'', opt_int_val (pb_receipt_freshness_seconds b))]"

record budget_decision =
  bd_budget :: performance_budget
  bd_observed :: pydict
  bd_recommended_action :: string
  bd_reasons :: "string list"
  bd_within_budget :: bool

definition budget_decision_to_record :: "budget_decision \<Rightarrow> pyval" where
  "budget_decision_to_record d = PDict [
     (''budget'', performance_budget_to_record (bd_budget d)),
     (''invocation_class'', PStr (pb_invocation_class (bd_budget d))),
     (''observed'', PDict (bd_observed d)),
     (''recommended_action'', PStr (bd_recommended_action d)),
     (''reasons'', PList (map PStr (bd_reasons d))),
     (''within_budget'', PBool (bd_within_budget d))]"

record execution_limit_decision =
  el_decision :: budget_decision
  el_output_budget_bytes :: "int option"
  el_retry_count :: int
  el_timeout_seconds :: int

definition execution_limit_to_record :: "execution_limit_decision \<Rightarrow> pyval" where
  "execution_limit_to_record d = (case budget_decision_to_record (el_decision d) of
     PDict r \<Rightarrow> PDict (assoc_set ''effective_limits'' (PDict [
         (''output_budget_bytes'', opt_int_val (el_output_budget_bytes d)),
         (''retry_count'', PInt (el_retry_count d)),
         (''timeout_seconds'', PInt (el_timeout_seconds d))]) r)
   | v \<Rightarrow> v)"

record pagination_result =
  pg_effective_limit :: int
  pg_has_next_page :: bool
  pg_next_offset :: "int option"
  pg_offset :: int
  pg_returned_count :: int
  pg_total_count :: int

definition pagination_to_record :: "pagination_result \<Rightarrow> pyval" where
  "pagination_to_record p = PDict [
     (''effective_limit'', PInt (pg_effective_limit p)),
     (''has_next_page'', PBool (pg_has_next_page p)),
     (''next_offset'', opt_int_val (pg_next_offset p)),
     (''offset'', PInt (pg_offset p)),
     (''returned_count'', PInt (pg_returned_count p)),
     (''total_count'', PInt (pg_total_count p))]"

section \<open>The budget table\<close>

definition DEFAULT_PROFILE :: string where "DEFAULT_PROFILE = ''developer''"

definition UNKNOWN_OPERATION :: string where "UNKNOWN_OPERATION = ''unknown''"

definition new_budget :: "string \<Rightarrow> string \<Rightarrow> invocation_class \<Rightarrow> string \<Rightarrow> int \<Rightarrow> string \<Rightarrow> performance_budget" where
  "new_budget bid op cls act dur fail = \<lparr>
     pb_budget_id = bid, pb_operation = op, pb_invocation_class = invocation_value cls,
     pb_recommended_action = act, pb_max_duration_ms = dur, pb_failure_mode = fail,
     pb_max_graph_edges = None, pb_max_graph_nodes = None, pb_max_output_budget_bytes = None,
     pb_max_page_size = None, pb_max_retry_count = None, pb_max_selected_checks = None,
     pb_max_timeout_seconds = None, pb_receipt_freshness_seconds = None\<rparr>"

definition DEFAULT_OPERATION_BUDGETS :: "(string \<times> performance_budget) list" where
  "DEFAULT_OPERATION_BUDGETS = [
    (''art.continuation'', (new_budget ''budget:art-continuation-inline-v1'' ''art.continuation'' INLINE_FAST
        ''evaluate_cached_compact_context'' 750 ''advisory_on_timeout'')
        \<lparr>pb_max_graph_edges := Some 150, pb_max_graph_nodes := Some 100, pb_max_page_size := Some 50\<rparr>),
    (''art.complete'', new_budget ''budget:art-complete-hard-gate-v1'' ''art.complete'' HARD_GATE
        ''fail_closed_before_mutation'' 5000 ''fail_closed''),
    (''art.blocker'', new_budget ''budget:art-blocker-hard-gate-v1'' ''art.blocker'' HARD_GATE
        ''fail_closed_before_mutation'' 5000 ''fail_closed''),
    (''art.risk'', new_budget ''budget:art-risk-hard-gate-v1'' ''art.risk'' HARD_GATE
        ''fail_closed_before_mutation'' 5000 ''fail_closed''),
    (''artifact.output'', (new_budget ''budget:artifact-output-checkpoint-v1'' ''artifact.output'' CHECKPOINT_BATCH
        ''write_artifacts_and_project_compact_refs'' 30000 ''record_and_route_owner'')
        \<lparr>pb_max_output_budget_bytes := Some 500000\<rparr>),
    (''draft.submit'', (new_budget ''budget:draft-submit-receipt-check-v1'' ''draft.submit'' RECEIPT_CHECK
        ''verify_payload_digest_and_fresh_receipt'' 250 ''require_revalidation_receipt'')
        \<lparr>pb_receipt_freshness_seconds := Some 900\<rparr>),
    (''draft.validate'', (new_budget ''budget:draft-validate-inline-v1'' ''draft.validate'' INLINE_FAST
        ''validate_schema_and_emit_receipt'' 1000 ''return_findings_without_mutation'')
        \<lparr>pb_receipt_freshness_seconds := Some 900\<rparr>),
    (''graph.query'', (new_budget ''budget:graph-query-inline-v1'' ''graph.query'' INLINE_FAST
        ''paginate_compact_graph_slice'' 500 ''paginate_or_narrow_scope'')
        \<lparr>pb_max_graph_edges := Some 100, pb_max_graph_nodes := Some 50, pb_max_page_size := Some 50\<rparr>),
    (''projection.sync'', new_budget ''budget:projection-sync-checkpoint-v1'' ''projection.sync'' CHECKPOINT_BATCH
        ''batch_at_projection_checkpoint'' 60000 ''record_dirty_and_retry_checkpoint''),
    (''quality.full'', new_budget ''budget:quality-full-checkpoint-v1'' ''quality.full'' CHECKPOINT_BATCH
        ''run_batch_quality_gate'' 60000 ''block_final_quality_claim''),
    (''validation.plan'', (new_budget ''budget:validation-plan-inline-v1'' ''validation.plan'' INLINE_FAST
        ''build_compact_plan'' 1000 ''route_to_checkpoint_batch'')
        \<lparr>pb_max_selected_checks := Some 20\<rparr>),
    (''validation.run'', (new_budget ''budget:validation-run-hard-gate-v1'' ''validation.run'' HARD_GATE
        ''run_bounded_checks_and_emit_receipt'' 120000 ''emit_failure_receipt'')
        \<lparr>pb_max_output_budget_bytes := Some 500000, pb_max_retry_count := Some 3, pb_max_timeout_seconds := Some 120\<rparr>)]"

text \<open>The integer fields of a budget a profile may override, and the table of overrides.\<close>

datatype budget_field =
    Max_graph_edges | Max_graph_nodes | Max_output_budget_bytes | Max_page_size
  | Max_retry_count | Max_selected_checks | Receipt_freshness_seconds

fun override_field :: "budget_field \<times> int \<Rightarrow> performance_budget \<Rightarrow> performance_budget" where
  "override_field (Max_graph_edges, n) b = b\<lparr>pb_max_graph_edges := Some n\<rparr>"
| "override_field (Max_graph_nodes, n) b = b\<lparr>pb_max_graph_nodes := Some n\<rparr>"
| "override_field (Max_output_budget_bytes, n) b = b\<lparr>pb_max_output_budget_bytes := Some n\<rparr>"
| "override_field (Max_page_size, n) b = b\<lparr>pb_max_page_size := Some n\<rparr>"
| "override_field (Max_retry_count, n) b = b\<lparr>pb_max_retry_count := Some n\<rparr>"
| "override_field (Max_selected_checks, n) b = b\<lparr>pb_max_selected_checks := Some n\<rparr>"
| "override_field (Receipt_freshness_seconds, n) b = b\<lparr>pb_receipt_freshness_seconds := Some n\<rparr>"

definition PROFILE_OVERRIDES :: "(string \<times> (string \<times> (budget_field \<times> int) list) list) list" where
  "PROFILE_OVERRIDES = [
     (''casual'', [
        (''graph.query'', [(Max_page_size, 25), (Max_graph_nodes, 25), (Max_graph_edges, 50)]),
        (''validation.plan'', [(Max_selected_checks, 5)])]),
     (''enterprise'', [
        (''draft.submit'', [(Receipt_freshness_seconds, 300)]),
        (''validation.run'', [(Max_output_budget_bytes, 250000), (Max_retry_count, 1)])])]"

section \<open>Operations\<close>

definition str_or :: "string \<Rightarrow> string \<Rightarrow> string" where
  "str_or a b = (if a = [] then b else a)"

definition safe_token :: "string \<Rightarrow> string" where
  "safe_token value = str_or (strip_by (\<lambda>c. c = CHR ''-'')
     (map (\<lambda>c. if py_isalnum_char c then c else CHR ''-'') (py_lower value))) ''operation''"

definition resolve_performance_budget :: "string \<Rightarrow> string \<Rightarrow> performance_budget" where
  "resolve_performance_budget operation profile =
     (let operation_key = str_or (py_strip operation) UNKNOWN_OPERATION in
      case map_of DEFAULT_OPERATION_BUDGETS operation_key of
        None \<Rightarrow> new_budget (''budget:unclassified-'' @ safe_token operation_key @ ''-v1'') operation_key
                 OFFLINE_ADVISORY ''classify_operation_before_synchronous_gate'' 0 ''classification_required''
      | Some base \<Rightarrow>
          let by_operation = (case map_of PROFILE_OVERRIDES (py_strip (str_or profile DEFAULT_PROFILE)) of
                None \<Rightarrow> [] | Some t \<Rightarrow> t);
              overrides = (case map_of by_operation operation_key of None \<Rightarrow> [] | Some o' \<Rightarrow> o')
          in if overrides = [] then base else fold override_field overrides base)"

definition optional_int :: "pyval \<Rightarrow> int \<Rightarrow> int option result" where
  "optional_int value minimum =
     (if value = PNone then Inr None
      else rbind (int_or_none value) (\<lambda>r. Inr (case r of None \<Rightarrow> None
        | Some parsed \<Rightarrow> if parsed \<ge> minimum then Some parsed else None)))"

definition int_or_default :: "pyval \<Rightarrow> int \<Rightarrow> int \<Rightarrow> int result" where
  "int_or_default value dflt minimum =
     rbind (optional_int value minimum) (\<lambda>r. Inr (case r of None \<Rightarrow> dflt | Some parsed \<Rightarrow> parsed))"

definition check_max :: "string \<Rightarrow> int option \<Rightarrow> pydict \<Rightarrow> string list \<Rightarrow> string list result" where
  "check_max label limit observed reasons =
     (case limit of None \<Rightarrow> Inr reasons | Some l \<Rightarrow>
      let value = py_get observed label in
      if value = PNone then Inr reasons
      else rbind (int_or_none value) (\<lambda>r. case r of None \<Rightarrow> Inr reasons | Some parsed \<Rightarrow>
        Inr (if parsed > l
             then reasons @ [label @ '' '' @ int_to_str parsed @ '' exceeds budget '' @ int_to_str l]
             else reasons)))"

definition evaluate_operation_budget :: "string \<Rightarrow> pydict \<Rightarrow> string \<Rightarrow> budget_decision result" where
  "evaluate_operation_budget operation observed profile =
     (let budget = resolve_performance_budget operation profile in
      rbind (check_max ''selected_checks'' (pb_max_selected_checks budget) observed []) (\<lambda>reasons.
      rbind (check_max ''graph_nodes'' (pb_max_graph_nodes budget) observed reasons) (\<lambda>reasons.
      rbind (check_max ''graph_edges'' (pb_max_graph_edges budget) observed reasons) (\<lambda>reasons.
      rbind (check_max ''duration_ms'' (Some (pb_max_duration_ms budget)) observed reasons) (\<lambda>reasons.
      rbind (check_max ''output_bytes'' (pb_max_output_budget_bytes budget) observed reasons) (\<lambda>reasons.
      let within = (reasons = []);
          (action, within) =
            (if \<not> within \<and> pb_invocation_class budget = invocation_value INLINE_FAST
             then (''route_to_checkpoint_batch_or_paginate'', within)
             else if pb_operation budget = UNKNOWN_OPERATION \<or> pb_failure_mode budget = ''classification_required''
             then (''classify_operation_before_synchronous_gate'', False)
             else (pb_recommended_action budget, within));
          reasons = (if reasons = [] then [''within configured WGCF performance budget''] else reasons)
      in Inr \<lparr>bd_budget = budget, bd_observed = observed, bd_recommended_action = action,
              bd_reasons = reasons, bd_within_budget = within\<rparr>))))))"

definition evaluate_validation_plan_budget :: "string \<Rightarrow> int \<Rightarrow> string \<Rightarrow> budget_decision result" where
  "evaluate_validation_plan_budget profile selected_check_count tier =
     evaluate_operation_budget ''validation.plan''
       [(''selected_checks'', PInt selected_check_count), (''tier'', PStr tier)] profile"

definition coerce_execution_limits :: "pydict \<Rightarrow> int \<Rightarrow> string \<Rightarrow> execution_limit_decision result" where
  "coerce_execution_limits execution_policy default_timeout_seconds profile =
     (let budget = resolve_performance_budget ''validation.run'' profile in
      rbind (int_or_default (py_get execution_policy ''timeout_seconds'') default_timeout_seconds 1) (\<lambda>timeout.
      rbind (int_or_default (py_get execution_policy ''retry_count'') 0 0) (\<lambda>retry.
      rbind (optional_int (py_get execution_policy ''output_budget_bytes'') 0) (\<lambda>output.
      let observed = [(''requested_output_budget_bytes'', opt_int_val output),
                      (''requested_retry_count'', PInt retry),
                      (''requested_timeout_seconds'', PInt timeout)];
          (timeout', r1) = (case pb_max_timeout_seconds budget of
             Some m \<Rightarrow> if timeout > m
               then (m, [''timeout_seconds capped from '' @ int_to_str timeout @ '' to '' @ int_to_str m])
               else (timeout, [])
           | None \<Rightarrow> (timeout, []));
          (retry', r2) = (case pb_max_retry_count budget of
             Some m \<Rightarrow> if retry > m
               then (m, [''retry_count capped from '' @ int_to_str retry @ '' to '' @ int_to_str m])
               else (retry, [])
           | None \<Rightarrow> (retry, []));
          (output', r3) = (case pb_max_output_budget_bytes budget of
             Some m \<Rightarrow> (case output of
                 None \<Rightarrow> (Some m, [''output_budget_bytes defaulted to '' @ int_to_str m])
               | Some n \<Rightarrow> if n > m
                   then (Some m, [''output_budget_bytes capped from '' @ int_to_str n @ '' to '' @ int_to_str m])
                   else (output, []))
           | None \<Rightarrow> (output, []));
          reasons = r1 @ r2 @ r3;
          reasons = (if reasons = [] then [''execution policy is within validation-run budget''] else reasons)
      in Inr \<lparr>
        el_decision = \<lparr>bd_budget = budget, bd_observed = observed,
          bd_recommended_action = pb_recommended_action budget, bd_reasons = reasons,
          bd_within_budget = \<not> list_ex (str_contains ''capped'') reasons\<rparr>,
        el_output_budget_bytes = output', el_retry_count = retry', el_timeout_seconds = timeout'\<rparr>))))"

definition paginate_items ::
  "'a list \<Rightarrow> pyval \<Rightarrow> pyval \<Rightarrow> string \<Rightarrow> string \<Rightarrow> ('a list \<times> pagination_result) result" where
  "paginate_items items limit offset operation profile =
     (let budget = resolve_performance_budget operation profile;
          total = int (length items);
          max_page_size = (case pb_max_page_size budget of Some n \<Rightarrow> if n \<noteq> 0 then n else if total \<noteq> 0 then total else 1
                           | None \<Rightarrow> if total \<noteq> 0 then total else 1)
      in rbind (int_or_default limit max_page_size 1) (\<lambda>requested.
         rbind (int_or_default offset 0 0) (\<lambda>off.
         let effective_limit = min requested max_page_size;
             effective_offset = max off 0;
             page = take (nat effective_limit) (drop (nat effective_offset) items);
             next_offset = effective_offset + effective_limit;
             has_next_page = next_offset < total
         in Inr (page, \<lparr>pg_effective_limit = effective_limit, pg_has_next_page = has_next_page,
              pg_next_offset = (if has_next_page then Some next_offset else None),
              pg_offset = effective_offset, pg_returned_count = int (length page),
              pg_total_count = total\<rparr>))))"

definition operation_budget_records :: "string list option \<Rightarrow> string \<Rightarrow> pyval list" where
  "operation_budget_records operations profile =
     (let names = (case operations of Some (n # ns) \<Rightarrow> n # ns
                   | _ \<Rightarrow> sort (map fst DEFAULT_OPERATION_BUDGETS))
      in map (\<lambda>op. performance_budget_to_record (resolve_performance_budget op profile)) names)"

text \<open>Integer observations never raise.\<close>

lemma check_max_total:
  assumes "py_get obs label = PNone \<or> (\<exists>i. py_get obs label = PInt i)"
  shows "\<exists>rs'. check_max label limit obs rs = Inr rs'"
  using assms by (cases limit) (auto simp: check_max_def int_or_none_def Let_def simp del: rbind_eq_Inr)

lemma operation_budget_total:
  assumes "\<And>l. l \<in> {''selected_checks'', ''graph_nodes'', ''graph_edges'', ''duration_ms'', ''output_bytes''} \<Longrightarrow>
      py_get obs l = PNone \<or> (\<exists>i. py_get obs l = PInt i)"
  shows "\<exists>d. evaluate_operation_budget op obs prof = Inr d"
proof -
  have each: "\<exists>rs'. check_max l limit obs rs = Inr rs'"
    if "l \<in> {''selected_checks'', ''graph_nodes'', ''graph_edges'', ''duration_ms'', ''output_bytes''}" for l limit rs
    by (rule check_max_total) (rule assms [OF that])
  let ?b = "resolve_performance_budget op prof"
  obtain r1 where "check_max ''selected_checks'' (pb_max_selected_checks ?b) obs [] = Inr r1" using each by blast
  moreover obtain r2 where "check_max ''graph_nodes'' (pb_max_graph_nodes ?b) obs r1 = Inr r2" using each by blast
  moreover obtain r3 where "check_max ''graph_edges'' (pb_max_graph_edges ?b) obs r2 = Inr r3" using each by blast
  moreover obtain r4 where "check_max ''duration_ms'' (Some (pb_max_duration_ms ?b)) obs r3 = Inr r4" using each by blast
  moreover obtain r5 where "check_max ''output_bytes'' (pb_max_output_budget_bytes ?b) obs r4 = Inr r5" using each by blast
  ultimately show ?thesis
    by (simp add: evaluate_operation_budget_def Let_def case_prod_beta split del: if_split)
qed

section \<open>The table and its overrides\<close>

text \<open>\<open>budget_le b c\<close>: \<open>b\<close> is the same kind of budget as \<open>c\<close>, with no limit above its limit.\<close>

fun limit_le :: "int option \<Rightarrow> int option \<Rightarrow> bool" where
  "limit_le x None = True"
| "limit_le None (Some n) = False"
| "limit_le (Some m) (Some n) = (m \<le> n)"

definition budget_le :: "performance_budget \<Rightarrow> performance_budget \<Rightarrow> bool" where
  "budget_le b c =
     (pb_budget_id b = pb_budget_id c \<and> pb_operation b = pb_operation c \<and>
      pb_invocation_class b = pb_invocation_class c \<and> pb_failure_mode b = pb_failure_mode c \<and>
      pb_recommended_action b = pb_recommended_action c \<and>
      pb_max_duration_ms b \<le> pb_max_duration_ms c \<and>
      limit_le (pb_max_graph_edges b) (pb_max_graph_edges c) \<and>
      limit_le (pb_max_graph_nodes b) (pb_max_graph_nodes c) \<and>
      limit_le (pb_max_output_budget_bytes b) (pb_max_output_budget_bytes c) \<and>
      limit_le (pb_max_page_size b) (pb_max_page_size c) \<and>
      limit_le (pb_max_retry_count b) (pb_max_retry_count c) \<and>
      limit_le (pb_max_selected_checks b) (pb_max_selected_checks c) \<and>
      limit_le (pb_max_timeout_seconds b) (pb_max_timeout_seconds c) \<and>
      limit_le (pb_receipt_freshness_seconds b) (pb_receipt_freshness_seconds c))"

lemma limit_le_refl [simp]: "limit_le x x"
  by (cases x) auto

lemma budget_le_refl [simp]: "budget_le b b"
  by (simp add: budget_le_def)

definition at_least_one :: "int option \<Rightarrow> bool" where
  "at_least_one x = (case x of None \<Rightarrow> True | Some n \<Rightarrow> 1 \<le> n)"

definition limits_ok :: "performance_budget \<Rightarrow> bool" where
  "limits_ok b = (at_least_one (pb_max_page_size b) \<and> at_least_one (pb_max_timeout_seconds b) \<and>
     at_least_one (pb_max_retry_count b) \<and> at_least_one (pb_max_output_budget_bytes b))"

definition overrides_ok :: "string \<times> (budget_field \<times> int) list \<Rightarrow> bool" where
  "overrides_ok t = (case map_of DEFAULT_OPERATION_BUDGETS (fst t) of None \<Rightarrow> True
     | Some base \<Rightarrow> budget_le (fold override_field (snd t) base) base \<and>
                    limits_ok (fold override_field (snd t) base))"

lemma override_table_ok: "list_all (\<lambda>pt. list_all overrides_ok (snd pt)) PROFILE_OVERRIDES"
  by code_simp

lemma default_table_ok:
  "list_all (\<lambda>kb. limits_ok (snd kb) \<and> pb_operation (snd kb) = fst kb \<and> fst kb \<noteq> UNKNOWN_OPERATION \<and>
      pb_failure_mode (snd kb) \<noteq> ''classification_required'') DEFAULT_OPERATION_BUDGETS"
  by code_simp

lemma default_profile_plain: "map_of PROFILE_OVERRIDES (py_strip (str_or DEFAULT_PROFILE DEFAULT_PROFILE)) = None"
  by code_simp

definition operation_key :: "string \<Rightarrow> string" where
  "operation_key operation = str_or (py_strip operation) UNKNOWN_OPERATION"

lemma resolve_known:
  assumes "map_of DEFAULT_OPERATION_BUDGETS (operation_key op) = Some base"
  shows "limits_ok (resolve_performance_budget op prof)"
    and "budget_le (resolve_performance_budget op prof) base"
    and "resolve_performance_budget op DEFAULT_PROFILE = base"
proof -
  let ?k = "operation_key op"
  have base: "limits_ok base"
    using default_table_ok map_of_SomeD [OF assms] by (auto simp: list_all_iff)
  show "resolve_performance_budget op DEFAULT_PROFILE = base"
    using assms default_profile_plain
    by (simp add: resolve_performance_budget_def Let_def operation_key_def)
  have "limits_ok (resolve_performance_budget op prof) \<and> budget_le (resolve_performance_budget op prof) base"
  proof (cases "map_of PROFILE_OVERRIDES (py_strip (str_or prof DEFAULT_PROFILE))")
    case None
    with assms base show ?thesis
      by (simp add: resolve_performance_budget_def Let_def operation_key_def)
  next
    case (Some t)
    show ?thesis
    proof (cases "map_of t ?k")
      case None
      with assms base Some show ?thesis
        by (simp add: resolve_performance_budget_def Let_def operation_key_def)
    next
      case (Some ov)
      have "overrides_ok (?k, ov)"
        using override_table_ok map_of_SomeD [OF \<open>map_of PROFILE_OVERRIDES _ = Some t\<close>] map_of_SomeD [OF Some]
        by (fastforce simp: list_all_iff)
      with assms base Some \<open>map_of PROFILE_OVERRIDES _ = Some t\<close> show ?thesis
        by (auto simp: resolve_performance_budget_def Let_def operation_key_def overrides_ok_def)
    qed
  qed
  then show "limits_ok (resolve_performance_budget op prof)"
    and "budget_le (resolve_performance_budget op prof) base" by auto
qed

lemma resolve_unknown:
  assumes "map_of DEFAULT_OPERATION_BUDGETS (operation_key op) = None"
  shows "pb_failure_mode (resolve_performance_budget op prof) = ''classification_required''"
    and "limits_ok (resolve_performance_budget op prof)"
    and "resolve_performance_budget op prof = resolve_performance_budget op prof'"
  using assms
  by (simp_all add: resolve_performance_budget_def Let_def operation_key_def new_budget_def
      limits_ok_def at_least_one_def)

lemma resolve_limits_ok: "limits_ok (resolve_performance_budget op prof)"
  using resolve_known(1) resolve_unknown(2)
  by (cases "map_of DEFAULT_OPERATION_BUDGETS (operation_key op)") auto

section \<open>Pagination\<close>

text \<open>
  What a caller that follows \<open>next_offset\<close> relies on: a page is the next \<open>width\<close> items, and
  the next offset is given exactly while items are left. \<open>walk_pages\<close> is such a caller.
\<close>

fun walk_pages :: "('a list \<Rightarrow> nat \<Rightarrow> 'a list \<times> nat option) \<Rightarrow> nat \<Rightarrow> 'a list \<Rightarrow> nat \<Rightarrow> 'a list list" where
  "walk_pages page 0 xs k = []"
| "walk_pages page (Suc n) xs k = (case page xs k of (ys, nxt) \<Rightarrow>
     ys # (case nxt of None \<Rightarrow> [] | Some k' \<Rightarrow> walk_pages page n xs k'))"

locale pager =
  fixes page :: "'a list \<Rightarrow> nat \<Rightarrow> 'a list \<times> nat option"
    and width :: "'a list \<Rightarrow> nat"
  assumes width_pos: "0 < width xs"
    and page_eq: "page xs k = (take (width xs) (drop k xs),
      if k + width xs < length xs then Some (k + width xs) else None)"
begin

lemma page_bounded: "length (fst (page xs k)) \<le> width xs"
  by (simp add: page_eq)

lemma walk_from: "length xs - k < n \<Longrightarrow> concat (walk_pages page n xs k) = drop k xs"
proof (induction n arbitrary: k)
  case (Suc n)
  show ?case
  proof (cases "k + width xs < length xs")
    case True
    then have "concat (walk_pages page n xs (k + width xs)) = drop (k + width xs) xs"
      using Suc.prems width_pos [of xs] by (intro Suc.IH) linarith
    moreover have "take (width xs) (drop k xs) @ drop (k + width xs) xs = drop k xs"
      using append_take_drop_id [of "width xs" "drop k xs"] by (simp add: add.commute)
    ultimately show ?thesis using True by (simp add: page_eq [of xs k])
  next
    case False
    then show ?thesis by (simp add: page_eq [of xs k])
  qed
qed simp

lemma walk_all: "concat (walk_pages page (Suc (length xs)) xs 0) = xs"
  by (simp only: walk_from drop_0 diff_zero lessI)

end

text \<open>\<open>paginate_items\<close> as such a page function, for a limit argument \<open>int | None\<close>.\<close>

definition page_limit :: "'a list \<Rightarrow> string \<Rightarrow> string \<Rightarrow> int" where
  "page_limit xs op prof = (case pb_max_page_size (resolve_performance_budget op prof) of
     Some n \<Rightarrow> if n \<noteq> 0 then n else if xs = [] then 1 else int (length xs)
   | None \<Rightarrow> if xs = [] then 1 else int (length xs))"

definition page_width :: "int option \<Rightarrow> string \<Rightarrow> string \<Rightarrow> 'a list \<Rightarrow> nat" where
  "page_width limit op prof xs = nat (min (case limit of
       Some l \<Rightarrow> if 1 \<le> l then l else page_limit xs op prof | None \<Rightarrow> page_limit xs op prof)
     (page_limit xs op prof))"

definition operator_page :: "int option \<Rightarrow> string \<Rightarrow> string \<Rightarrow> 'a list \<Rightarrow> nat \<Rightarrow> 'a list \<times> nat option" where
  "operator_page limit op prof xs k =
     (case paginate_items xs (opt_int_val limit) (PInt (int k)) op prof of
        Inr (ys, p) \<Rightarrow> (ys, map_option nat (pg_next_offset p)) | Inl e \<Rightarrow> ([], None))"

lemma page_limit_pos: "1 \<le> page_limit xs op prof"
  using resolve_limits_ok [of op prof]
  by (auto simp: page_limit_def limits_ok_def at_least_one_def Suc_le_eq split: option.splits)

lemma optional_int_min: "optional_int v m = Inr (Some i) \<Longrightarrow> m \<le> i"
  by (auto simp: optional_int_def split: option.splits if_splits)

lemma int_or_default_min: "int_or_default v d m = Inr i \<Longrightarrow> m \<le> d \<Longrightarrow> m \<le> i"
  by (auto simp: int_or_default_def dest: optional_int_min split: option.splits)

lemma int_or_default_opt:
  "int_or_default (opt_int_val l) d m = Inr (case l of None \<Rightarrow> d | Some i \<Rightarrow> if m \<le> i then i else d)"
  by (cases l) (auto simp: int_or_default_def optional_int_def int_or_none_def)

lemma paginate_items_eq:
  "paginate_items xs (opt_int_val limit) (PInt (int k)) op prof =
     (let w = page_width limit op prof xs; ys = take w (drop k xs) in
      Inr (ys, \<lparr>pg_effective_limit = int w, pg_has_next_page = (k + w < length xs),
        pg_next_offset = (if k + w < length xs then Some (int (k + w)) else None),
        pg_offset = int k, pg_returned_count = int (length ys), pg_total_count = int (length xs)\<rparr>))"
proof -
  have off: "int_or_default (PInt (int k)) 0 0 = Inr (int k)"
    using int_or_default_opt [of "Some (int k)"] by simp
  have lim: "(case pb_max_page_size (resolve_performance_budget op prof) of
       Some n \<Rightarrow> if n \<noteq> 0 then n else if int (length xs) \<noteq> 0 then int (length xs) else 1
     | None \<Rightarrow> if int (length xs) \<noteq> 0 then int (length xs) else 1) = page_limit xs op prof"
    by (simp add: page_limit_def split: option.split)
  have "0 \<le> min (case limit of Some l \<Rightarrow> if 1 \<le> l then l else page_limit xs op prof
       | None \<Rightarrow> page_limit xs op prof) (page_limit xs op prof)"
    using page_limit_pos [of xs op prof] by (auto split: option.split)
  then have w: "min (case limit of Some l \<Rightarrow> if 1 \<le> l then l else page_limit xs op prof
       | None \<Rightarrow> page_limit xs op prof) (page_limit xs op prof) = int (page_width limit op prof xs)"
    by (simp add: page_width_def)
  show ?thesis
    unfolding paginate_items_def Let_def lim off int_or_default_opt rbind_simps w
    by (simp flip: of_nat_add)
qed

interpretation budget_pager: pager "operator_page limit op prof" "page_width limit op prof"
  for limit op prof
proof unfold_locales
  show "0 < page_width limit op prof xs" for xs :: "'b list"
    using page_limit_pos [of xs op prof] by (auto simp: page_width_def split: option.split)
  show "operator_page limit op prof xs k = (take (page_width limit op prof xs) (drop k xs),
      if k + page_width limit op prof xs < length xs then Some (k + page_width limit op prof xs) else None)"
    for xs :: "'b list" and k
    by (simp add: operator_page_def paginate_items_eq Let_def nat_add_distrib)
qed

section \<open>Properties\<close>

text \<open>
  C7. A caller that pages through any operator listing by \<open>next_offset\<close>, from offset 0 and with
  whatever limit and profile, sees every item exactly once and in order.
\<close>

theorem pagination_visits_all:
  "concat (walk_pages (operator_page limit op prof) (Suc (length xs)) xs 0) = xs"
  by (rule budget_pager.walk_all)

text \<open>
  A profile can only tighten a budget: for every operation and profile, the resolved budget
  is the default profile's budget of the operation with no limit raised and the same
  invocation class, action and failure mode.
\<close>

theorem profile_only_tightens:
  "budget_le (resolve_performance_budget op prof) (resolve_performance_budget op DEFAULT_PROFILE)"
proof (cases "map_of DEFAULT_OPERATION_BUDGETS (operation_key op)")
  case None
  then show ?thesis using resolve_unknown(3) by (metis budget_le_refl)
next
  case (Some base)
  then show ?thesis using resolve_known(2,3) by simp
qed

text \<open>The execution limits in terms of the three requested values.\<close>

definition cap :: "int option \<Rightarrow> int \<Rightarrow> int" where
  "cap limit v = (case limit of None \<Rightarrow> v | Some m \<Rightarrow> min v m)"

lemma no_capped_int [simp]: "\<not> str_contains ''capped'' (int_to_str m)"
proof
  assume "str_contains ''capped'' (int_to_str m)"
  then have "CHR ''c'' \<in> set (int_to_str m)" using str_contains_set by fastforce
  then show False using int_to_str_numeral by (auto simp: numeral_char_def)
qed

lemma capped_messages:
  "str_contains ''capped'' (''timeout_seconds capped from '' @ t)"
  "str_contains ''capped'' (''retry_count capped from '' @ t)"
  "str_contains ''capped'' (''output_budget_bytes capped from '' @ t)"
  "\<not> str_contains ''capped'' (''output_budget_bytes defaulted to '' @ int_to_str m)"
  "\<not> str_contains ''capped'' ''execution policy is within validation-run budget''"
  by (simp_all add: starts_with_def)

definition requested_limits :: "pydict \<Rightarrow> int \<Rightarrow> (int \<times> int \<times> int option) result" where
  "requested_limits policy dflt =
     rbind (int_or_default (py_get policy ''timeout_seconds'') dflt 1) (\<lambda>t.
     rbind (int_or_default (py_get policy ''retry_count'') 0 0) (\<lambda>r.
     rbind (optional_int (py_get policy ''output_budget_bytes'') 0) (\<lambda>n. Inr (t, r, n))))"

definition run_budget :: "string \<Rightarrow> performance_budget" where
  "run_budget prof = resolve_performance_budget ''validation.run'' prof"

lemma run_budget_caps:
  obtains t r n where "pb_max_timeout_seconds (run_budget prof) = Some t" "1 \<le> t" "t \<le> 120"
    and "pb_max_retry_count (run_budget prof) = Some r" "1 \<le> r" "r \<le> 3"
    and "pb_max_output_budget_bytes (run_budget prof) = Some n" "1 \<le> n" "n \<le> 500000"
proof -
  have "map_of DEFAULT_OPERATION_BUDGETS (operation_key ''validation.run'') =
      Some ((new_budget ''budget:validation-run-hard-gate-v1'' ''validation.run'' HARD_GATE
        ''run_bounded_checks_and_emit_receipt'' 120000 ''emit_failure_receipt'')
        \<lparr>pb_max_output_budget_bytes := Some 500000, pb_max_retry_count := Some 3, pb_max_timeout_seconds := Some 120\<rparr>)"
    by code_simp
  then have le: "budget_le (run_budget prof) ((new_budget ''budget:validation-run-hard-gate-v1'' ''validation.run'' HARD_GATE
        ''run_bounded_checks_and_emit_receipt'' 120000 ''emit_failure_receipt'')
        \<lparr>pb_max_output_budget_bytes := Some 500000, pb_max_retry_count := Some 3, pb_max_timeout_seconds := Some 120\<rparr>)"
    unfolding run_budget_def by (rule resolve_known(2))
  have some: "\<exists>m. x = Some m \<and> 1 \<le> m \<and> m \<le> k" if "limit_le x (Some k)" "at_least_one x" for x k
    using that by (cases x) (auto simp: at_least_one_def)
  show ?thesis
    using that some le resolve_limits_ok [of "''validation.run''" prof]
    by (simp add: budget_le_def run_budget_def limits_ok_def) metis
qed

lemma coerce_limits_effect:
  assumes "coerce_execution_limits policy dflt prof = Inr x"
  obtains t r n where "requested_limits policy dflt = Inr (t, r, n)"
    and "el_timeout_seconds x = cap (pb_max_timeout_seconds (run_budget prof)) t"
    and "el_retry_count x = cap (pb_max_retry_count (run_budget prof)) r"
    and "el_output_budget_bytes x = (case pb_max_output_budget_bytes (run_budget prof) of None \<Rightarrow> n
           | Some m \<Rightarrow> Some (case n of None \<Rightarrow> m | Some i \<Rightarrow> min i m))"
    and "bd_within_budget (el_decision x) =
           (el_timeout_seconds x = t \<and> el_retry_count x = r \<and> (n = None \<or> el_output_budget_bytes x = n))"
proof -
  from assms obtain t r n where req: "int_or_default (py_get policy ''timeout_seconds'') dflt 1 = Inr t"
      "int_or_default (py_get policy ''retry_count'') 0 0 = Inr r"
      "optional_int (py_get policy ''output_budget_bytes'') 0 = Inr n"
    by (auto simp: coerce_execution_limits_def Let_def)
  obtain mt mr mn where caps: "pb_max_timeout_seconds (run_budget prof) = Some mt"
      "pb_max_retry_count (run_budget prof) = Some mr" "pb_max_output_budget_bytes (run_budget prof) = Some mn"
    using run_budget_caps by metis
  have "el_timeout_seconds x = cap (pb_max_timeout_seconds (run_budget prof)) t \<and>
    el_retry_count x = cap (pb_max_retry_count (run_budget prof)) r \<and>
    el_output_budget_bytes x = (case pb_max_output_budget_bytes (run_budget prof) of None \<Rightarrow> n
           | Some m \<Rightarrow> Some (case n of None \<Rightarrow> m | Some i \<Rightarrow> min i m)) \<and>
    bd_within_budget (el_decision x) =
           (el_timeout_seconds x = t \<and> el_retry_count x = r \<and> (n = None \<or> el_output_budget_bytes x = n))"
    using assms caps unfolding coerce_execution_limits_def Let_def req run_budget_def cap_def rbind_simps
    by (cases "mt < t"; cases "mr < r"; cases n; cases "\<exists>i. n = Some i \<and> mn < i")
      (auto simp: capped_messages simp del: str_contains.simps append_Cons)
  then show ?thesis using that [of t r n] by (simp add: requested_limits_def req)
qed

lemma execution_limits_range:
  assumes "coerce_execution_limits policy dflt prof = Inr x" and "1 \<le> dflt"
  shows "1 \<le> el_timeout_seconds x \<and> el_timeout_seconds x \<le> 120 \<and>
         0 \<le> el_retry_count x \<and> el_retry_count x \<le> 3 \<and>
         (\<exists>n. el_output_budget_bytes x = Some n \<and> 0 \<le> n \<and> n \<le> 500000)"
proof -
  obtain t r n where eff: "requested_limits policy dflt = Inr (t, r, n)"
    "el_timeout_seconds x = cap (pb_max_timeout_seconds (run_budget prof)) t"
    "el_retry_count x = cap (pb_max_retry_count (run_budget prof)) r"
    "el_output_budget_bytes x = (case pb_max_output_budget_bytes (run_budget prof) of None \<Rightarrow> n
       | Some m \<Rightarrow> Some (case n of None \<Rightarrow> m | Some i \<Rightarrow> min i m))"
    by (rule coerce_limits_effect [OF assms(1)])
  obtain mt mr mn where caps: "pb_max_timeout_seconds (run_budget prof) = Some mt" "1 \<le> mt" "mt \<le> 120"
      "pb_max_retry_count (run_budget prof) = Some mr" "1 \<le> mr" "mr \<le> 3"
      "pb_max_output_budget_bytes (run_budget prof) = Some mn" "1 \<le> mn" "mn \<le> 500000"
    by (rule run_budget_caps)
  have "1 \<le> t" "0 \<le> r" "n = None \<or> (\<exists>i. n = Some i \<and> 0 \<le> i)"
    using eff(1) assms(2) int_or_default_min optional_int_min
    unfolding requested_limits_def rbind_eq_Inr by (blast, blast, cases n) auto
  with eff(2-4) caps show ?thesis by (auto simp: cap_def split: option.split)
qed

text \<open>
  C8. Whatever a manifest's execution policy asks for, the limits a validator runs under are
  bounded: one second to two minutes, at most three retries, and an output budget of at most
  500000 bytes (the default timeout being at least one second).
\<close>

theorem execution_limits_bounded:
  assumes "coerce_execution_limits policy dflt prof = Inr x" and "1 \<le> dflt"
  shows "1 \<le> el_timeout_seconds x \<and> el_timeout_seconds x \<le> 120 \<and>
         0 \<le> el_retry_count x \<and> el_retry_count x \<le> 3 \<and>
         (\<exists>n. el_output_budget_bytes x = Some n \<and> 0 \<le> n \<and> n \<le> 500000)"
  by (rule execution_limits_range [OF assms])

lemmas budget_eval = coerce_execution_limits_def Let_def int_or_default_def optional_int_def
  int_or_none_def py_get_or_def resolve_performance_budget_def DEFAULT_OPERATION_BUDGETS_def
  PROFILE_OVERRIDES_def DEFAULT_PROFILE_def str_or_def strip_by_def py_is_space_def new_budget_def

theorem execution_limits_bounded_witness:
  "\<exists>x. coerce_execution_limits [(''timeout_seconds'', PInt 900), (''retry_count'', PInt 9)] 60 ''developer'' = Inr x
     \<and> el_timeout_seconds x = 120 \<and> el_retry_count x \<le> 3"
proof -
  have "map_sum (\<lambda>_. ()) el_timeout_seconds
      (coerce_execution_limits [(''timeout_seconds'', PInt 900), (''retry_count'', PInt 9)] 60 ''developer'') = Inr 120"
    by (simp add: budget_eval)
  then obtain x where x: "coerce_execution_limits [(''timeout_seconds'', PInt 900), (''retry_count'', PInt 9)] 60 ''developer'' = Inr x"
    and t: "el_timeout_seconds x = 120" unfolding map_sum_Inr by blast
  from execution_limits_bounded [OF x] have "el_retry_count x \<le> 3" by simp
  with x t show ?thesis by blast
qed

text \<open>
  The decision says \<open>within_budget\<close> exactly when no requested limit was lowered: the timeout
  and the retry count are the requested ones, and so is the output budget if one was requested.
\<close>

theorem within_budget_iff_uncapped:
  assumes "coerce_execution_limits policy dflt prof = Inr x"
  shows "\<exists>t r n. requested_limits policy dflt = Inr (t, r, n) \<and>
    bd_within_budget (el_decision x) =
      (el_timeout_seconds x = t \<and> el_retry_count x = r \<and> (n = None \<or> el_output_budget_bytes x = n))"
  by (rule coerce_limits_effect [OF assms]) blast

theorem within_budget_iff_uncapped_witness:
  "\<exists>x t r n. coerce_execution_limits [] 60 ''ci'' = Inr x \<and> requested_limits [] 60 = Inr (t, r, n) \<and>
    bd_within_budget (el_decision x) =
      (el_timeout_seconds x = t \<and> el_retry_count x = r \<and> (n = None \<or> el_output_budget_bytes x = n))"
proof -
  have "map_sum (\<lambda>_. ()) (\<lambda>_. ()) (coerce_execution_limits [] 60 ''ci'') = Inr ()"
    by (simp add: budget_eval)
  then obtain x where x: "coerce_execution_limits [] 60 ''ci'' = Inr x"
    unfolding map_sum_Inr by blast
  from within_budget_iff_uncapped [OF x] x show ?thesis by blast
qed

text \<open>When an observation exceeds a limit: both are there, and the observation reads as an int above it.\<close>

definition exceeds :: "string \<Rightarrow> int option \<Rightarrow> pydict \<Rightarrow> bool" where
  "exceeds label limit obs = (\<exists>l i. limit = Some l \<and> py_get obs label \<noteq> PNone \<and>
     py_int (py_get obs label) = Inr i \<and> l < i)"

lemma int_or_none_Some: "(int_or_none v = Inr (Some i)) = (py_int v = Inr i)"
  by (auto simp: int_or_none_def split: sum.splits py_error.splits)

lemma check_max_Inr:
  assumes "check_max label limit obs rs = Inr rs'"
  shows "(rs' = []) = (rs = [] \<and> \<not> exceeds label limit obs)"
proof (cases "limit = None \<or> py_get obs label = PNone")
  case True
  with assms show ?thesis by (cases limit) (auto simp: check_max_def exceeds_def)
next
  case False
  then obtain l where l: "limit = Some l" by auto
  with assms False obtain r where r: "int_or_none (py_get obs label) = Inr r"
    by (auto simp: check_max_def)
  show ?thesis
  proof (cases r)
    case None
    with assms False l r show ?thesis
      by (auto simp: check_max_def exceeds_def simp flip: int_or_none_Some)
  next
    case (Some i)
    with assms False l r show ?thesis
      by (auto simp: check_max_def exceeds_def simp flip: int_or_none_Some split: if_splits)
  qed
qed

text \<open>
  An operation is reported within its budget exactly when the operation is in the budget
  table and none of the five observed dimensions exceeds the limit the budget sets for it: an
  unclassified operation is never within budget.
\<close>

theorem operation_within_budget_iff:
  assumes "evaluate_operation_budget op obs prof = Inr d"
  shows "bd_within_budget d =
    (map_of DEFAULT_OPERATION_BUDGETS (operation_key op) \<noteq> None \<and>
     \<not> exceeds ''selected_checks'' (pb_max_selected_checks (bd_budget d)) obs \<and>
     \<not> exceeds ''graph_nodes'' (pb_max_graph_nodes (bd_budget d)) obs \<and>
     \<not> exceeds ''graph_edges'' (pb_max_graph_edges (bd_budget d)) obs \<and>
     \<not> exceeds ''duration_ms'' (Some (pb_max_duration_ms (bd_budget d))) obs \<and>
     \<not> exceeds ''output_bytes'' (pb_max_output_budget_bytes (bd_budget d)) obs)"
proof -
  let ?B = "resolve_performance_budget op prof"
  from assms obtain r1 r2 r3 r4 r5 where
      c: "check_max ''selected_checks'' (pb_max_selected_checks ?B) obs [] = Inr r1"
         "check_max ''graph_nodes'' (pb_max_graph_nodes ?B) obs r1 = Inr r2"
         "check_max ''graph_edges'' (pb_max_graph_edges ?B) obs r2 = Inr r3"
         "check_max ''duration_ms'' (Some (pb_max_duration_ms ?B)) obs r3 = Inr r4"
         "check_max ''output_bytes'' (pb_max_output_budget_bytes ?B) obs r4 = Inr r5"
    unfolding evaluate_operation_budget_def Let_def rbind_eq_Inr by blast
  have d: "bd_budget d = ?B" "bd_within_budget d = (r5 = [] \<and>
      \<not> (pb_operation ?B = UNKNOWN_OPERATION \<or> pb_failure_mode ?B = ''classification_required''))"
    using assms by (auto simp: evaluate_operation_budget_def Let_def c split: if_splits)
  have known: "(pb_operation ?B = UNKNOWN_OPERATION \<or> pb_failure_mode ?B = ''classification_required'') =
      (map_of DEFAULT_OPERATION_BUDGETS (operation_key op) = None)"
  proof (cases "map_of DEFAULT_OPERATION_BUDGETS (operation_key op)")
    case None
    then show ?thesis using resolve_unknown(1) by simp
  next
    case (Some base)
    then show ?thesis
      using resolve_known(2) [OF Some, of prof] default_table_ok map_of_SomeD [OF Some]
      by (auto simp: budget_le_def list_all_iff)
  qed
  show ?thesis
    using check_max_Inr [OF c(1)] check_max_Inr [OF c(2)] check_max_Inr [OF c(3)]
      check_max_Inr [OF c(4)] check_max_Inr [OF c(5)] d known by auto
qed

theorem operation_within_budget_iff_witness:
  "\<exists>d. evaluate_operation_budget ''validation.plan'' [(''selected_checks'', PInt 6)] ''casual'' = Inr d \<and>
     \<not> bd_within_budget d"
proof -
  have "map_sum (\<lambda>_. ()) (\<lambda>d. pb_max_selected_checks (bd_budget d))
      (evaluate_operation_budget ''validation.plan'' [(''selected_checks'', PInt 6)] ''casual'') = Inr (Some 5)"
    by (simp add: budget_eval evaluate_operation_budget_def check_max_def UNKNOWN_OPERATION_def)
  then obtain d where d: "evaluate_operation_budget ''validation.plan'' [(''selected_checks'', PInt 6)] ''casual'' = Inr d"
    and "pb_max_selected_checks (bd_budget d) = Some 5" unfolding map_sum_Inr by blast
  then have "exceeds ''selected_checks'' (pb_max_selected_checks (bd_budget d)) [(''selected_checks'', PInt 6)]"
    by (simp add: exceeds_def py_get_or_def)
  with operation_within_budget_iff [OF d] d show ?thesis by blast
qed

end
