(* ===== verification/Graph_Queries.thy ===== *)
theory Graph_Queries
  imports Graph_Ingestion Performance_Budgets
begin

text \<open>
  \<open>graph_queries.py\<close>: the slice of a manifest's graph an operator scope selects, paged and
  checked against the query budget, and the graph summary. The queries
  take the decoded manifest; \<open>Manifest_Files\<close> reads it from a file.
\<close>

record graph_query_result =
  gq_budget_decision :: pyval
  gq_edge_pagination :: pagination_result
  gq_manifest_id :: pyval
  gq_nodes :: "graph_node list"
  gq_edges :: "graph_edge list"
  gq_node_pagination :: pagination_result
  gq_scope :: string

definition query_to_record :: "graph_query_result \<Rightarrow> pyval" where
  "query_to_record q = PDict
     [(''budget_decision'', gq_budget_decision q), (''edges'', PList (map edge_to_record (gq_edges q))),
      (''edge_pagination'', pagination_to_record (gq_edge_pagination q)),
      (''manifest_id'', gq_manifest_id q), (''nodes'', PList (map node_to_record (gq_nodes q))),
      (''node_pagination'', pagination_to_record (gq_node_pagination q)), (''scope'', PStr (gq_scope q)),
      (''summary'', PDict
         [(''edge_count'', PInt (int (length (gq_edges q)))),
          (''edge_total_count'', PInt (pg_total_count (gq_edge_pagination q))),
          (''node_count'', PInt (int (length (gq_nodes q)))),
          (''node_total_count'', PInt (pg_total_count (gq_node_pagination q)))])]"

section \<open>Selecting the slice\<close>

text \<open>The condition of the \<open>repo:\<close> scope, evaluated left to right.\<close>

definition matches_repo_scope :: "string \<Rightarrow> string \<Rightarrow> graph_node \<Rightarrow> bool result" where
  "matches_repo_scope scope repo_id n =
     (if gn_node_id n = scope \<or> gn_owner_repo n = PStr repo_id \<or> py_get (gn_properties n) ''repo_name'' = PStr repo_id
      then Inr True
      else rbind (need_dict (py_get_or (PDict []) (gn_properties n) ''output_ref'')) (\<lambda>out.
        Inr (py_get out ''repo'' = PStr repo_id)))"

text \<open>\<open>scope in node.properties.get("scopes", ())\<close>; a string is searched for the substring.\<close>

definition in_scopes :: "string \<Rightarrow> pyval \<Rightarrow> bool result" where
  "in_scopes scope v = (case v of
     PList xs \<Rightarrow> Inr (PStr scope \<in> set xs)
   | PStr t \<Rightarrow> Inr (str_contains scope t)
   | PDict d \<Rightarrow> Inr (py_has d scope)
   | _ \<Rightarrow> Inl (TypeError ''argument is not iterable''))"

definition filter_nodes :: "(graph_node \<Rightarrow> bool result) \<Rightarrow> graph_node list \<Rightarrow> string list result" where
  "filter_nodes P nodes = rbind (rmapM (\<lambda>n. rbind (P n) (\<lambda>b. Inr (b, gn_node_id n))) nodes) (\<lambda>bs.
     Inr (remdups (map snd (filter fst bs))))"

definition seed_node_ids :: "manifest_graph \<Rightarrow> string \<Rightarrow> string list result" where
  "seed_node_ids g scope =
     (if starts_with ''repo:'' scope
      then filter_nodes (matches_repo_scope scope (remove_prefix ''repo:'' scope)) (mg_nodes g)
      else if starts_with ''component:'' scope \<or> starts_with ''validator:'' scope \<or>
              starts_with ''projection:'' scope \<or> starts_with ''authority:'' scope
      then filter_nodes (\<lambda>n. Inr (gn_node_id n = scope)) (mg_nodes g)
      else if starts_with ''art:'' scope
      then filter_nodes (\<lambda>n. in_scopes scope (py_get_or (PList []) (gn_properties n) ''scopes'')) (mg_nodes g)
      else filter_nodes (\<lambda>n. Inr (gn_node_id n = scope)) (mg_nodes g))"

definition edge_selected :: "string list \<Rightarrow> string \<Rightarrow> graph_edge \<Rightarrow> bool" where
  "edge_selected seeds scope e =
     (ge_source e \<in> set seeds \<or> ge_target e \<in> set seeds \<or> py_get (ge_properties e) ''scope'' = PStr scope)"

definition resolve_result_node :: "string \<Rightarrow> (string \<times> graph_node) list \<Rightarrow> graph_node" where
  "resolve_result_node k by_id = (case map_of by_id k of
     Some n \<Rightarrow> n
   | None \<Rightarrow> \<lparr>gn_node_id = k, gn_node_type = ''scope'', gn_owner_repo = PNone,
        gn_external_ref = PStr (remove_prefix ''scope:'' k), gn_properties = [(''synthetic'', PBool True)]\<rparr>)"

definition query_slice :: "manifest_graph \<Rightarrow> string \<Rightarrow> (graph_node list \<times> graph_edge list) result" where
  "query_slice g scope =
     (let by_id = fold (\<lambda>n. assoc_set (gn_node_id n) n) (mg_nodes g) [] in
      rbind (seed_node_ids g scope) (\<lambda>seeds.
      let edge_ids = map ge_edge_id (filter (edge_selected seeds scope) (mg_edges g));
          edges = filter (\<lambda>e. ge_edge_id e \<in> set edge_ids) (mg_edges g);
          node_ids = seeds @ concat (map (\<lambda>e. [ge_source e, ge_target e]) edges);
          nodes = map (\<lambda>k. resolve_result_node k by_id)
            (filter (\<lambda>k. map_of by_id k \<noteq> None \<or> starts_with ''scope:'' k) (sorted_set node_ids))
      in Inr (nodes, edges)))"

definition query_manifest_graph ::
  "pyval \<Rightarrow> string \<Rightarrow> string \<Rightarrow> pyval \<Rightarrow> pyval \<Rightarrow> graph_query_result result" where
  "query_manifest_graph manifest scope budget_profile limit offset =
     rbind (build_manifest_graph manifest) (\<lambda>graph.
     let normalized_scope = py_strip scope in
     if normalized_scope = [] then Inl (ValueError ''graph query scope must not be empty'')
     else rbind (query_slice graph normalized_scope) (\<lambda>(nodes, edges).
       rbind (paginate_items nodes limit offset ''graph.query'' budget_profile) (\<lambda>(node_page, node_pagination).
       rbind (paginate_items (sort_key ge_edge_id edges) limit offset ''graph.query'' budget_profile) (\<lambda>(edge_page, edge_pagination).
       rbind (evaluate_operation_budget ''graph.query''
           [(''graph_edges'', PInt (int (length edges))), (''graph_nodes'', PInt (int (length nodes))),
            (''page_limit'', PInt (pg_effective_limit node_pagination))] budget_profile) (\<lambda>d.
       Inr \<lparr>gq_budget_decision = budget_decision_to_record d, gq_edge_pagination = edge_pagination,
            gq_manifest_id = mg_manifest_id graph, gq_nodes = node_page, gq_edges = edge_page,
            gq_node_pagination = node_pagination, gq_scope = normalized_scope\<rparr>)))))"

section \<open>The summary\<close>

definition type_counts :: "string list \<Rightarrow> (string \<times> int) list" where
  "type_counts types = sort_key fst (fold (\<lambda>t counts.
     assoc_set t ((case map_of counts t of None \<Rightarrow> 0 | Some c \<Rightarrow> c) + 1) counts) types [])"

definition graph_summary :: "manifest_graph \<Rightarrow> pyval" where
  "graph_summary g = PDict
     [(''edge_count'', PInt (int (length (mg_edges g)))),
      (''edge_type_counts'', PDict (map (\<lambda>(t, c). (t, PInt c)) (type_counts (map ge_edge_type (mg_edges g))))),
      (''manifest_id'', mg_manifest_id g),
      (''node_count'', PInt (int (length (mg_nodes g)))),
      (''node_type_counts'', PDict (map (\<lambda>(t, c). (t, PInt c)) (type_counts (map gn_node_type (mg_nodes g)))))]"

section \<open>Counting\<close>

lemma type_counts_fold:
  "map_of (fold (\<lambda>t counts. assoc_set t ((case map_of counts t of None \<Rightarrow> 0 | Some c \<Rightarrow> c) + 1) counts) types acc) t =
     (if t \<in> set types then Some ((case map_of acc t of None \<Rightarrow> 0 | Some c \<Rightarrow> c) + int (count_list types t))
      else map_of acc t)"
  by (induction types arbitrary: acc) (auto simp: count_list_0_iff split: option.splits)

lemma type_counts_keys:
  "distinct (map fst acc) \<Longrightarrow> distinct (map fst (fold (\<lambda>t counts.
     assoc_set t ((case map_of counts t of None \<Rightarrow> 0 | Some c \<Rightarrow> c) + 1) counts) types acc))"
  by (induction types arbitrary: acc) (auto intro: distinct_assoc_set)

lemma map_of_sort_key:
  assumes "distinct (map fst kvs)"
  shows "map_of (sort_key fst kvs) = map_of kvs"
proof -
  have "distinct (map fst (sort_key fst kvs))"
    using assms by (simp add: distinct_map inj_on_def)
  then show ?thesis using assms by (intro map_of_inject_set [THEN iffD2]) auto
qed

lemma type_counts_map:
  "map_of (type_counts types) t = (if t \<in> set types then Some (int (count_list types t)) else None)"
  unfolding type_counts_def by (simp add: map_of_sort_key type_counts_keys type_counts_fold)

lemma type_counts_sorted: "sorted (map fst (type_counts types)) \<and> distinct (map fst (type_counts types))"
  unfolding type_counts_def using type_counts_keys [of "[]" types]
  by (simp add: distinct_map inj_on_def)

section \<open>The slice\<close>

lemma by_id_fold:
  "map_of (fold (\<lambda>n. assoc_set (gn_node_id n) n) nodes acc) k = Some n \<Longrightarrow>
     (gn_node_id n = k \<and> n \<in> set nodes) \<or> map_of acc k = Some n"
  by (induction nodes arbitrary: acc) (fastforce split: if_splits)+

lemma by_id_present:
  "(map_of (fold (\<lambda>n. assoc_set (gn_node_id n) n) nodes acc) k = None) =
     (k \<notin> gn_node_id ` set nodes \<and> map_of acc k = None)"
  by (induction nodes arbitrary: acc) auto

lemma resolve_result_node_id:
  "gn_node_id (resolve_result_node k (fold (\<lambda>n. assoc_set (gn_node_id n) n) nodes [])) = k"
proof (cases "map_of (fold (\<lambda>n. assoc_set (gn_node_id n) n) nodes []) k")
  case (Some n)
  with by_id_fold [OF this] show ?thesis by (simp add: resolve_result_node_def)
qed (simp add: resolve_result_node_def)

lemma filter_nodes_subset:
  assumes "filter_nodes P nodes = Inr ids"
  shows "set ids \<subseteq> gn_node_id ` set nodes"
proof -
  from assms obtain bs where bs: "rmapM (\<lambda>n. rbind (P n) (\<lambda>b. Inr (b, gn_node_id n))) nodes = Inr bs"
    and ids: "ids = remdups (map snd (filter fst bs))"
    by (auto simp: filter_nodes_def)
  have "snd p \<in> gn_node_id ` set nodes" if "p \<in> set bs" for p
    using rmapM_set [OF bs that] by auto
  then show ?thesis unfolding ids by auto
qed

lemma seed_node_ids_subset:
  "seed_node_ids g scope = Inr seeds \<Longrightarrow> set seeds \<subseteq> gn_node_id ` set (mg_nodes g)"
  unfolding seed_node_ids_def using filter_nodes_subset by (simp split: if_splits)

lemma distinct_keys_filter:
  assumes "distinct (map key xs)"
  shows "filter (\<lambda>x. key x \<in> set (map key (filter P xs))) xs = filter P xs"
  by (rule filter_cong [OF refl]) (use assms in \<open>auto simp: distinct_map dest: inj_onD\<close>)

lemma query_slice_facts:
  assumes build: "build_manifest_graph x = Inr g" and slice: "query_slice g scope = Inr (nodes, edges)"
  obtains seeds where "seed_node_ids g scope = Inr seeds" "edges = filter (edge_selected seeds scope) (mg_edges g)"
    "map gn_node_id nodes = sorted_set (seeds @ concat (map (\<lambda>e. [ge_source e, ge_target e]) edges))"
proof -
  obtain m where x: "x = PDict m" using build_graph_inv [OF build] by metis
  note facts = build_graph_facts [OF build [unfolded x]]
  obtain seeds where seeds: "seed_node_ids g scope = Inr seeds" using slice by (auto simp: query_slice_def Let_def)
  let ?by_id = "fold (\<lambda>n. assoc_set (gn_node_id n) n) (mg_nodes g) []"
  have "distinct (map ge_edge_id (mg_edges g))" using facts(3) by (simp add: strict_sorted_iff)
  note keys = distinct_keys_filter [OF this, of "edge_selected seeds scope"]
  let ?edges = "filter (edge_selected seeds scope) (mg_edges g)"
  let ?ids = "sorted_set (seeds @ concat (map (\<lambda>e. [ge_source e, ge_target e]) ?edges))"
  have "query_slice g scope = Inr (map (\<lambda>k. resolve_result_node k ?by_id)
      (filter (\<lambda>k. map_of ?by_id k \<noteq> None \<or> starts_with ''scope:'' k) ?ids), ?edges)"
    unfolding query_slice_def Let_def seeds rbind_simps keys ..
  then have nodes: "nodes = map (\<lambda>k. resolve_result_node k ?by_id)
      (filter (\<lambda>k. map_of ?by_id k \<noteq> None \<or> starts_with ''scope:'' k) ?ids)" and edges: "edges = ?edges"
    unfolding slice by simp_all
  have "map_of ?by_id k \<noteq> None \<or> starts_with ''scope:'' k" if "k \<in> set ?ids" for k
  proof -
    have ends: "k \<in> declared_keys m \<or> starts_with ''scope:'' k" if "e \<in> set (mg_edges g)" "k = ge_source e \<or> k = ge_target e" for e
      using facts(4) [OF that(1)] that(2) by (auto simp: edge_sound_def dangling_scope_def)
    have "k \<in> declared_keys m \<or> starts_with ''scope:'' k"
      using that seed_node_ids_subset [OF seeds] facts(2) ends by auto
    then show ?thesis using facts(2) by (simp add: by_id_present)
  qed
  then have "nodes = map (\<lambda>k. resolve_result_node k ?by_id) ?ids" unfolding nodes by (simp cong: filter_cong)
  then have "map gn_node_id nodes = ?ids" by (simp add: o_def resolve_result_node_id)
  then show thesis using that [OF seeds edges] edges by simp
qed

lemma paginate_facts:
  assumes "paginate_items xs limit offset op prof = Inr (page, pg)"
  shows "set page \<subseteq> set xs \<and> pg_total_count pg = int (length xs)"
proof -
  have "set (take n (drop k xs)) \<subseteq> set xs" for n k
    by (meson set_drop_subset set_take_subset subset_trans)
  with assms show ?thesis by (auto simp: paginate_items_def Let_def)
qed

lemma graph_budget_total:
  "\<exists>d. evaluate_operation_budget op [(''graph_edges'', PInt a), (''graph_nodes'', PInt b), (''page_limit'', PInt c)] prof = Inr d"
  by (rule operation_budget_total) (auto simp: py_get_or_def)

lemma component_query_total:
  assumes "build_manifest_graph x = Inr g" and "py_strip scope = scope" and "starts_with ''component:'' scope"
  shows "\<exists>q. query_manifest_graph x scope prof PNone PNone = Inr q"
proof -
  have "rmapM (\<lambda>n. rbind (Inr (gn_node_id n = scope)) (\<lambda>b. Inr (b, gn_node_id n))) nodes =
      Inr (map (\<lambda>n. (gn_node_id n = scope, gn_node_id n)) nodes)" for nodes :: "graph_node list"
    by (induction nodes) auto
  moreover have "\<not> starts_with ''repo:'' scope" "scope \<noteq> []"
    using assms(3) by (auto simp: starts_with_iff)
  ultimately have "\<exists>seeds. seed_node_ids g scope = Inr seeds"
    using assms(3) by (simp add: seed_node_ids_def filter_nodes_def)
  then have "\<exists>p. query_slice g scope = Inr p" by (auto simp: query_slice_def Let_def)
  then obtain nodes edges where "query_slice g scope = Inr (nodes, edges)" by auto
  then show ?thesis
    using assms graph_budget_total \<open>scope \<noteq> []\<close>
    by (simp add: query_manifest_graph_def paginate_items_def int_or_default_def optional_int_def int_or_none_def Let_def)
qed



end
