(* ===== verification/Manifest_Files.thy ===== *)
theory Manifest_Files
  imports Graph_Queries Json_Files
begin

text \<open>
  The file functions of \<open>graph_queries.py\<close>, which read and decode a manifest before the functions of
  \<open>Graph_Queries\<close> see it, and the JSON schema \<open>manifests.py\<close> publishes. What a query says about a
  manifest written canonically to disk is what it says about the manifest itself.
\<close>

section \<open>The published schema\<close>

text \<open>\<open>governance_manifest_schema\<close>: the JSON schema of a manifest, in the order of the code.\<close>

definition non_empty_string_schema :: pyval where
  "non_empty_string_schema = PDict [(''minLength'', PInt 1), (''type'', PStr ''string'')]"

definition authority_ref_schema :: pyval where
  "authority_ref_schema = PDict
    [(''additionalProperties'', PBool True),
     (''properties'', PDict
      [(''authority_id'', non_empty_string_schema),
       (''digest'', non_empty_string_schema),
       (''freshness_status'', non_empty_string_schema),
       (''path'', non_empty_string_schema),
       (''ref'', non_empty_string_schema),
       (''repo'', non_empty_string_schema)]),
     (''required'', PList (map PStr AUTHORITY_REF_REQUIRED_FIELDS)),
     (''type'', PStr ''object'')]"

definition authority_ref_ids_schema :: pyval where
  "authority_ref_ids_schema = PDict
    [(''items'', non_empty_string_schema),
     (''minItems'', PInt 1),
     (''type'', PStr ''array''),
     (''uniqueItems'', PBool True)]"

definition output_ref_schema :: pyval where
  "output_ref_schema = PDict
    [(''additionalProperties'', PBool True),
     (''properties'', PDict [(''path'', non_empty_string_schema), (''repo'', non_empty_string_schema)]),
     (''required'', PList [PStr ''repo'', PStr ''path'']),
     (''type'', PStr ''object'')]"

definition impact_scopes_schema :: pyval where
  "impact_scopes_schema = PDict
    [(''items'', non_empty_string_schema),
     (''type'', PStr ''array''),
     (''uniqueItems'', PBool True)]"

definition reuse_policy_schema :: pyval where
  "reuse_policy_schema = PDict
    [(''additionalProperties'', PBool True),
     (''properties'', PDict
      [(''freshness_seconds'', PDict [(''minimum'', PInt 0), (''type'', PStr ''integer'')]),
       (''invalidate_on_authority_change'', PDict [(''type'', PStr ''boolean'')]),
       (''safe_to_reuse'', PDict [(''type'', PStr ''boolean'')])]),
     (''type'', PStr ''object'')]"

definition execution_policy_schema :: pyval where
  "execution_policy_schema = PDict
    [(''additionalProperties'', PBool True),
     (''properties'', PDict
      [(''allowed_env_vars'', PDict
        [(''items'', non_empty_string_schema),
         (''type'', PStr ''array''),
         (''uniqueItems'', PBool True)]),
       (''allowed_executables'', PDict
        [(''items'', non_empty_string_schema),
         (''type'', PStr ''array''),
         (''uniqueItems'', PBool True)]),
       (''allowed_roots'', PDict
        [(''items'', non_empty_string_schema),
         (''type'', PStr ''array''),
         (''uniqueItems'', PBool True)]),
       (''blocked_env_vars'', PDict
        [(''items'', non_empty_string_schema),
         (''type'', PStr ''array''),
         (''uniqueItems'', PBool True)]),
       (''fail_on_output_budget_exceeded'', PDict [(''type'', PStr ''boolean'')]),
       (''invocation_class'', PDict
        [(''enum'', PList [PStr ''inline-fast'', PStr ''receipt-check'', PStr ''hard-gate'', PStr ''checkpoint-batch'', PStr ''offline-advisory'']),
         (''type'', PStr ''string'')]),
       (''max_duration_ms'', PDict [(''minimum'', PInt 1), (''type'', PStr ''integer'')]),
       (''operator_approved'', PDict [(''type'', PStr ''boolean'')]),
       (''output_budget_bytes'', PDict [(''minimum'', PInt 0), (''type'', PStr ''integer'')]),
       (''profile'', non_empty_string_schema),
       (''retry_count'', PDict [(''minimum'', PInt 0), (''type'', PStr ''integer'')]),
       (''safety_class'', non_empty_string_schema),
       (''self_validation_role'', non_empty_string_schema),
       (''timeout_seconds'', PDict [(''minimum'', PInt 1), (''type'', PStr ''integer'')]),
       (''working_directory'', non_empty_string_schema)]),
     (''type'', PStr ''object'')]"

definition governance_manifest_schema :: pyval where
  "governance_manifest_schema = PDict
    [(''$schema'', PStr ''https://json-schema.org/draft/2020-12/schema''),
     (''$id'', PStr ''https://workspace-governance.local/schemas/governance-manifest.schema.json''),
     (''additionalProperties'', PBool True),
     (''description'', PStr ''Runtime ingestion manifest for the Workspace Governance Control Fabric. Policy truth stays in upstream authority refs.''),
     (''properties'', PDict
      [(''authority_refs'', PDict
        [(''items'', authority_ref_schema),
         (''minItems'', PInt 1),
         (''type'', PStr ''array'')]),
       (''components'', PDict
        [(''items'', PDict
          [(''additionalProperties'', PBool True),
           (''properties'', PDict
            [(''authority_ref_ids'', authority_ref_ids_schema),
             (''component_id'', non_empty_string_schema),
             (''component_type'', non_empty_string_schema),
             (''impact_scopes'', impact_scopes_schema),
             (''owner_repo'', non_empty_string_schema),
             (''source_paths'', PDict
              [(''items'', non_empty_string_schema),
               (''type'', PStr ''array''),
               (''uniqueItems'', PBool True)])]),
           (''required'', PList (map PStr (section_required_fields Components))),
           (''type'', PStr ''object'')]),
         (''type'', PStr ''array'')]),
       (''manifest_id'', non_empty_string_schema),
       (''metadata'', PDict [(''additionalProperties'', PBool True), (''type'', PStr ''object'')]),
       (''owner_repo'', non_empty_string_schema),
       (''projections'', PDict
        [(''items'', PDict
          [(''additionalProperties'', PBool True),
           (''properties'', PDict
            [(''output_ref'', output_ref_schema),
             (''owner_repo'', non_empty_string_schema),
             (''projection_id'', non_empty_string_schema),
             (''source_ref_ids'', authority_ref_ids_schema)]),
           (''required'', PList (map PStr (section_required_fields Projections))),
           (''type'', PStr ''object'')]),
         (''type'', PStr ''array'')]),
       (''repos'', PDict
        [(''items'', PDict
          [(''additionalProperties'', PBool True),
           (''properties'', PDict
            [(''authority_ref_ids'', authority_ref_ids_schema),
             (''owner_repo'', non_empty_string_schema),
             (''repo_id'', non_empty_string_schema),
             (''repo_name'', non_empty_string_schema),
             (''source_paths'', PDict
              [(''items'', non_empty_string_schema),
               (''type'', PStr ''array''),
               (''uniqueItems'', PBool True)]),
             (''impact_scopes'', impact_scopes_schema)]),
           (''required'', PList (map PStr (section_required_fields Repos))),
           (''type'', PStr ''object'')]),
         (''type'', PStr ''array'')]),
       (''schema_version'', PDict [(''const'', PInt MANIFEST_SCHEMA_VERSION)]),
       (''validators'', PDict
        [(''items'', PDict
          [(''additionalProperties'', PBool True),
           (''properties'', PDict
            [(''authority_ref_ids'', authority_ref_ids_schema),
             (''command'', non_empty_string_schema),
             (''execution_policy'', execution_policy_schema),
             (''owner_repo'', non_empty_string_schema),
             (''reuse_policy'', reuse_policy_schema),
             (''scopes'', authority_ref_ids_schema),
             (''validator_id'', non_empty_string_schema)]),
           (''required'', PList (map PStr (section_required_fields Validators))),
           (''type'', PStr ''object'')]),
         (''type'', PStr ''array'')])]),
     (''required'', PList (map PStr ([''schema_version'', ''manifest_id'', ''owner_repo'', ''authority_refs''] @ map section_name MANIFEST_SECTIONS))),
     (''title'', PStr ''Workspace Governance Control Fabric Manifest''),
     (''type'', PStr ''object'')]"

section \<open>Queries of a file\<close>

definition load_governance_manifest_file :: "fs \<Rightarrow> string \<Rightarrow> pyval result" where
  "load_governance_manifest_file fs manifest_path =
     rbind (os_target fs manifest_path) (\<lambda>p. rbind (read_text fs p) (\<lambda>content. case content of
       None \<Rightarrow> Inl (OSError manifest_path) | Some t \<Rightarrow> json_loads plain_hooks t))"

definition build_graph_from_manifest_file :: "fs \<Rightarrow> string \<Rightarrow> manifest_graph result" where
  "build_graph_from_manifest_file fs manifest_path =
     rbind (load_governance_manifest_file fs manifest_path) build_manifest_graph"

definition query_manifest_file ::
  "fs \<Rightarrow> string \<Rightarrow> string \<Rightarrow> string \<Rightarrow> pyval \<Rightarrow> pyval \<Rightarrow> graph_query_result result" where
  "query_manifest_file fs manifest_path scope budget_profile limit offset =
     rbind (load_governance_manifest_file fs manifest_path) (\<lambda>manifest.
       query_manifest_graph manifest scope budget_profile limit offset)"

lemma load_written:
  assumes "canonical_json_bytes v = Inr b" and "distinct_keys v"
    and "os_target fs path = Inr p" and "node_at fs p = Some (FileNode b mtime)"
  shows "load_governance_manifest_file fs path = Inr (canon v)"
proof -
  have v: "canonical_value (canon v)" and b: "b = utf8 (json_text (canon v))"
    using assms(1) by (simp_all add: canonical_bytes_Inr_iff canonical_value_canon flat_utf8)
  have "link_free fs p"
    using assms(3) resolve_from_link_free [of fs "fs_cwd fs" path p] by (simp add: os_target_def split: if_splits)
  then have "read_text fs p = Inr (Some (json_text (canon v)))"
    using assms(4) b by (intro read_text_written) simp_all
  then show ?thesis
    using plain.json_loads_text [OF v distinct_keys_canon(1) [OF assms(2)]]
    by (simp add: load_governance_manifest_file_def assms(3))
qed

text \<open>
  C13. Reading, decoding and querying agree: a query of a file that holds the canonical bytes of a
  manifest answers exactly as the query of the manifest (its items in key order), errors included, and so does
  building the graph.
\<close>

theorem query_of_written_manifest:
  assumes "canonical_json_bytes v = Inr b" and "distinct_keys v"
    and "os_target fs path = Inr p" and "node_at fs p = Some (FileNode b mtime)"
  shows "query_manifest_file fs path scope profile limit offset = query_manifest_graph (canon v) scope profile limit offset \<and>
    build_graph_from_manifest_file fs path = build_manifest_graph (canon v)"
  by (simp add: query_manifest_file_def build_graph_from_manifest_file_def load_written [OF assms])

definition written_manifest :: "string \<Rightarrow> fs" where
  "written_manifest b = \<lparr>fs_nodes = [([''m.json''], FileNode b 0)], fs_protected = [], fs_clock = 0, fs_cwd = []\<rparr>"

lemma query_of_written_manifest_witness:
  "\<exists>b. canonical_json_bytes (PDict [(''owner_repo'', PStr ''r''), (''manifest_id'', PStr ''m'')]) = Inr b \<and>
    build_graph_from_manifest_file (written_manifest b) ''m.json'' =
    build_manifest_graph (PDict [(''manifest_id'', PStr ''m''), (''owner_repo'', PStr ''r'')])"
proof -
  let ?v = "PDict [(''owner_repo'', PStr ''r''), (''manifest_id'', PStr ''m'')]"
  have "canonical_value ?v" "distinct_keys ?v" by simp_all
  moreover have "canon ?v = PDict [(''manifest_id'', PStr ''m''), (''owner_repo'', PStr ''r'')]" by code_simp
  moreover have "os_target (written_manifest b) ''m.json'' = Inr [''m.json'']" for b by code_simp
  moreover have "node_at (written_manifest b) [''m.json''] = Some (FileNode b 0)" for b
    by (simp add: written_manifest_def node_at_def)
  ultimately show ?thesis
    using query_of_written_manifest [of ?v "flat (canon ?v)" "written_manifest (flat (canon ?v))" "''m.json''" "[''m.json'']" 0]
      canonical_bytes_flat(1) [of ?v] by metis
qed

end
