(* ===== verification/Policy_Admission.thy ===== *)
theory Policy_Admission
  imports Ledger_Records
begin

text \<open>
  \<open>policy_admission.py\<close>: the admission decision for a repo or component from its authority
  refs, its validation receipts and an optional waiver. The outcome is the worst severity of
  the reasons found, an instance of \<open>worst_verdict\<close>.
\<close>

section \<open>Records and tables\<close>

definition POLICY_DECISION_SCHEMA_VERSION :: int where "POLICY_DECISION_SCHEMA_VERSION = 1"

definition SUPPORTED_SUBJECT_TYPES :: "string list" where
  "SUPPORTED_SUBJECT_TYPES = [''component'', ''repo'']"

definition SUCCESSFUL_RECEIPT_OUTCOMES :: "string list" where
  "SUCCESSFUL_RECEIPT_OUTCOMES = [''success'', ''passed'', ''valid'', ''allow'', ''allowed'']"

definition FAILED_RECEIPT_OUTCOMES :: "string list" where
  "FAILED_RECEIPT_OUTCOMES = [''blocked'', ''denied'', ''deny'', ''failure'', ''failed'']"

record policy_reason =
  pr_code :: string
  pr_detail :: string
  pr_severity :: string

definition policy_reason_to_record :: "policy_reason \<Rightarrow> pyval" where
  "policy_reason_to_record r = PDict
     [(''code'', PStr (pr_code r)), (''detail'', PStr (pr_detail r)), (''severity'', PStr (pr_severity r))]"

record policy_decision =
  pd_authority_refs :: "pydict list"
  pd_decision_id :: string
  pd_decision_time :: string
  pd_outcome :: string
  pd_profile_id :: string
  pd_reasons :: "policy_reason list"
  pd_receipt_refs :: "pydict list"
  pd_required_actions :: "string list"
  pd_schema_version :: int
  pd_subject_id :: string
  pd_subject_type :: string
  pd_target :: string
  pd_waiver :: "pydict option"

fun opt_dict_val :: "pydict option \<Rightarrow> pyval" where
  "opt_dict_val None = PNone"
| "opt_dict_val (Some d) = PDict d"

definition policy_decision_to_record :: "policy_decision \<Rightarrow> pyval" where
  "policy_decision_to_record d = PDict
     [(''authority_refs'', PList (map PDict (pd_authority_refs d))),
      (''decision_id'', PStr (pd_decision_id d)), (''decision_time'', PStr (pd_decision_time d)),
      (''outcome'', PStr (pd_outcome d)), (''profile_id'', PStr (pd_profile_id d)),
      (''reasons'', PList (map policy_reason_to_record (pd_reasons d))),
      (''receipt_refs'', PList (map PDict (pd_receipt_refs d))),
      (''required_actions'', PList (map PStr (pd_required_actions d))),
      (''schema_version'', PInt (pd_schema_version d)), (''subject_id'', PStr (pd_subject_id d)),
      (''subject_type'', PStr (pd_subject_type d)), (''target'', PStr (pd_target d)),
      (''waiver'', opt_dict_val (pd_waiver d))]"

section \<open>Reading the subject\<close>

text \<open>The loop keeps the dicts of a list for which the body yields a record.\<close>

definition collect_refs :: "(pydict \<Rightarrow> pydict option) \<Rightarrow> pyval \<Rightarrow> pydict list" where
  "collect_refs f v = (case v of PList xs \<Rightarrow>
     List.map_filter (\<lambda>x. case x of PDict d \<Rightarrow> f d | _ \<Rightarrow> None) xs | _ \<Rightarrow> [])"

definition authority_ref_record :: "pydict \<Rightarrow> pydict option" where
  "authority_ref_record item = (case optional_str (py_get item ''authority_id'') of
     None \<Rightarrow> None
   | Some authority_id \<Rightarrow> Some
       [(''authority_id'', PStr authority_id),
        (''digest'', opt_val (optional_str (py_get item ''digest''))),
        (''freshness_status'', PStr (case optional_str (py_get item ''freshness_status'') of
            None \<Rightarrow> ''unknown'' | Some s \<Rightarrow> s))])"

definition authority_refs :: "pyval \<Rightarrow> pydict list" where
  "authority_refs v = collect_refs authority_ref_record v"

definition receipt_ref_record :: "pydict \<Rightarrow> pydict option" where
  "receipt_ref_record item =
     (case (optional_str (py_get item ''receipt_id''),
            optional_str (py_or (py_get item ''digest'') (py_get item ''receipt_digest''))) of
        (Some receipt_id, Some digest) \<Rightarrow>
          Some ([(''digest'', PStr digest), (''receipt_id'', PStr receipt_id)] @
            (case optional_str (py_or (py_get item ''outcome'') (py_get item ''status'')) of
               None \<Rightarrow> [] | Some outcome \<Rightarrow> [(''outcome'', PStr outcome)]))
      | _ \<Rightarrow> None)"

definition receipt_refs :: "pyval \<Rightarrow> pydict list" where
  "receipt_refs v = collect_refs receipt_ref_record v"

definition subject_target :: "string option \<Rightarrow> string option \<Rightarrow> string" where
  "subject_target subject_type subject_id = (case (subject_type, subject_id) of
     (Some t, Some i) \<Rightarrow> t @ '':'' @ i | _ \<Rightarrow> ''unknown'')"

definition valid_waiver :: "pyval \<Rightarrow> pydt \<Rightarrow> pydict option" where
  "valid_waiver value now = (case value of
     PDict v \<Rightarrow>
       (case (optional_str (py_get v ''waiver_id''), optional_str (py_get v ''authority_ref_id''),
              optional_str (py_get v ''reason''), timestamp_of (py_get v ''expires_at'')) of
          (Some waiver_id, Some authority_ref_id, Some reason, Some expires_at) \<Rightarrow>
            if dt_less expires_at now then None
            else Some [(''authority_ref_id'', PStr authority_ref_id),
                       (''expires_at'', PStr (isoformat_z expires_at)),
                       (''reason'', PStr reason), (''waiver_id'', PStr waiver_id)]
        | _ \<Rightarrow> None)
   | _ \<Rightarrow> None)"

section \<open>The decision\<close>

definition policy_outcome :: "policy_reason list \<Rightarrow> string" where
  "policy_outcome reasons = (let severities = map pr_severity reasons in
     if ''deny'' \<in> set severities then ''deny''
     else if ''block'' \<in> set severities then ''blocked''
     else if ''review'' \<in> set severities then ''review_required''
     else if ''waive'' \<in> set severities then ''waived''
     else ''allow'')"

fun receipts_reason :: "pydict list \<Rightarrow> policy_reason option result" where
  "receipts_reason [] = Inr None"
| "receipts_reason (r # rs) =
     (case optional_str (py_or (py_get r ''outcome'') (py_get r ''status'')) of
        None \<Rightarrow> receipts_reason rs
      | Some outcome \<Rightarrow>
          if py_lower outcome \<in> set FAILED_RECEIPT_OUTCOMES
          then rbind (py_index r ''receipt_id'') (\<lambda>i. Inr (Some
            \<lparr>pr_code = ''validation-receipt-not-successful'',
             pr_detail = ''receipt '' @ py_str i @ '' outcome is '' @ outcome, pr_severity = ''block''\<rparr>))
          else if py_lower outcome \<notin> set SUCCESSFUL_RECEIPT_OUTCOMES
          then rbind (py_index r ''receipt_id'') (\<lambda>i. Inr (Some
            \<lparr>pr_code = ''validation-receipt-unknown-outcome'',
             pr_detail = ''receipt '' @ py_str i @ '' outcome is '' @ outcome, pr_severity = ''review''\<rparr>))
          else receipts_reason rs)"

definition validation_reason :: "pydict list \<Rightarrow> policy_reason option result" where
  "validation_reason refs =
     (if refs = [] then Inr (Some \<lparr>pr_code = ''missing-validation-receipt'',
         pr_detail = ''validation is required but no receipt ref was supplied'', pr_severity = ''review''\<rparr>)
      else receipts_reason refs)"

text \<open>The reasons and the required actions grow together.\<close>

type_synonym findings = "policy_reason list \<times> string list"

definition add_finding :: "string \<Rightarrow> string \<Rightarrow> string \<Rightarrow> string \<Rightarrow> findings \<Rightarrow> findings" where
  "add_finding code detail severity action fs =
     (fst fs @ [\<lparr>pr_code = code, pr_detail = detail, pr_severity = severity\<rparr>], snd fs @ [action])"

definition subject_findings :: "string option \<Rightarrow> string option \<Rightarrow> string option \<Rightarrow> findings" where
  "subject_findings subject_type subject_id owner_repo =
     (let fs = ([], []);
          fs = (if subject_type = None \<or> the subject_type \<notin> set SUPPORTED_SUBJECT_TYPES
                then add_finding ''unsupported-subject-type''
                  ''policy admission currently supports repo and component subjects'' ''deny''
                  ''route subject through an approved intake contract'' fs else fs);
          fs = (if subject_id = None
                then add_finding ''missing-subject-id'' ''subject_id is required for admission decisions'' ''deny''
                  ''provide a stable subject id'' fs else fs)
      in if owner_repo = None
         then add_finding ''missing-owner-repo'' ''owner_repo is required before admission'' ''deny''
           ''declare an owner repo in upstream authority'' fs else fs)"

definition ref_freshness :: "pydict \<Rightarrow> string" where
  "ref_freshness r = (case optional_str (py_get r ''freshness_status'') of None \<Rightarrow> ''unknown'' | Some s \<Rightarrow> s)"

definition authority_finding :: "pydict \<Rightarrow> findings \<Rightarrow> findings result" where
  "authority_finding r fs =
     (let freshness = ref_freshness r in
      if py_lower freshness \<noteq> ''current''
      then rbind (py_index r ''authority_id'') (\<lambda>i. Inr (add_finding ''stale-authority-ref''
        (''authority ref '' @ py_str i @ '' is '' @ freshness) ''block''
        ''refresh authority refs before admission'' fs))
      else Inr fs)"

definition authority_findings :: "pydict list \<Rightarrow> findings \<Rightarrow> findings result" where
  "authority_findings refs fs =
     (if refs = [] then Inr (add_finding ''missing-authority-ref'' ''at least one upstream authority ref is required''
         ''review'' ''link the subject to workspace-governance authority refs'' fs)
      else rfold authority_finding refs fs)"

definition validation_findings :: "bool \<Rightarrow> pydict list \<Rightarrow> pydict option \<Rightarrow> findings \<Rightarrow> findings result" where
  "validation_findings required refs waiver fs =
     (if \<not> required then Inr fs
      else rbind (validation_reason refs) (\<lambda>reason. case reason of
        None \<Rightarrow> Inr fs
      | Some r \<Rightarrow> (case waiver of
          Some w \<Rightarrow> rbind (py_index w ''waiver_id'') (\<lambda>i. Inr
            (fst fs @ [\<lparr>pr_code = ''validation-waived'',
               pr_detail = ''validation issue '' @ pr_code r @ '' is covered by waiver '' @ py_str i,
               pr_severity = ''waive''\<rparr>], snd fs))
        | None \<Rightarrow> Inr (fst fs @ [r], snd fs @ [''provide a successful receipt or explicit approved waiver'']))))"

definition admission_findings :: "pydict \<Rightarrow> pydt \<Rightarrow> findings result" where
  "admission_findings subject decision_time =
     (let subject_type = optional_str (py_or (py_get subject ''subject_type'') (py_get subject ''type''));
          subject_id = optional_str (py_or (py_get subject ''subject_id'') (py_get subject ''id''));
          fs = subject_findings subject_type subject_id (optional_str (py_get subject ''owner_repo''))
      in rbind (authority_findings (authority_refs (py_get subject ''authority_refs'')) fs)
        (validation_findings (py_truthy (py_get_or (PBool True) subject ''validation_required''))
          (receipt_refs (py_get subject ''receipt_refs'')) (valid_waiver (py_get subject ''waiver'') decision_time)))"

definition evaluate_admission_policy ::
  "pydict \<Rightarrow> string \<Rightarrow> pydt \<Rightarrow> now_arg \<Rightarrow> policy_decision result" where
  "evaluate_admission_policy subject profile_id clock now =
     rbind (coerce_timestamp ''invalid policy decision timestamp '' clock now) (\<lambda>decision_time.
     let decision_time_text = isoformat_z decision_time;
         subject_type = optional_str (py_or (py_get subject ''subject_type'') (py_get subject ''type''));
         subject_id = optional_str (py_or (py_get subject ''subject_id'') (py_get subject ''id''));
         target = subject_target subject_type subject_id;
         refs = authority_refs (py_get subject ''authority_refs'');
         receipts = receipt_refs (py_get subject ''receipt_refs'');
         waiver = valid_waiver (py_get subject ''waiver'') decision_time
     in rbind (admission_findings subject decision_time) (\<lambda>(reasons, required_actions).
        let outcome = policy_outcome reasons;
            type_text = (case subject_type of None \<Rightarrow> ''unknown'' | Some t \<Rightarrow> t);
            id_text = (case subject_id of None \<Rightarrow> ''unknown'' | Some t \<Rightarrow> t);
            actions = sorted_set required_actions;
            digest = digest_json (PDict
              [(''authority_refs'', PList (map PDict refs)), (''decision_time'', PStr decision_time_text),
               (''outcome'', PStr outcome), (''profile_id'', PStr profile_id),
               (''reasons'', PList (map policy_reason_to_record reasons)),
               (''receipt_refs'', PList (map PDict receipts)),
               (''required_actions'', PList (map PStr actions)), (''subject_id'', PStr id_text),
               (''subject_type'', PStr type_text), (''target'', PStr target), (''waiver'', opt_dict_val waiver)])
        in Inr \<lparr>pd_authority_refs = refs, pd_decision_id = digest_id ''policy-decision:'' digest,
             pd_decision_time = decision_time_text, pd_outcome = outcome, pd_profile_id = profile_id,
             pd_reasons = reasons, pd_receipt_refs = receipts, pd_required_actions = actions,
             pd_schema_version = POLICY_DECISION_SCHEMA_VERSION, pd_subject_id = id_text,
             pd_subject_type = type_text, pd_target = target, pd_waiver = waiver\<rparr>))"

definition build_policy_ledger_event :: "string \<Rightarrow> policy_decision \<Rightarrow> ledger_event" where
  "build_policy_ledger_event actor d =
     (let digest = digest_json (PDict
        [(''action'', PStr ''policy.decision.recorded''), (''actor'', PStr actor),
         (''decision_id'', PStr (pd_decision_id d)), (''event_time'', PStr (pd_decision_time d)),
         (''outcome'', PStr (pd_outcome d)), (''receipt_refs'', PList (map PDict (pd_receipt_refs d))),
         (''target'', PStr (pd_target d))])
      in \<lparr>le_action = ''policy.decision.recorded'', le_actor = actor, le_artifact_refs = [],
          le_event_id = digest_id ''ledger-event:'' digest, le_event_time = pd_decision_time d,
          le_outcome = pd_outcome d, le_receipt_refs = pd_receipt_refs d,
          le_schema_version = LEDGER_SCHEMA_VERSION, le_target = pd_target d\<rparr>)"

section \<open>The outcome is the worst severity\<close>

definition outcome_rank :: "string \<Rightarrow> nat" where
  "outcome_rank t = (if t = ''deny'' then 4 else if t = ''blocked'' then 3
     else if t = ''review_required'' then 2 else if t = ''waived'' then 1 else 0)"

definition reason_weight :: "policy_reason \<Rightarrow> nat" where
  "reason_weight r = (if pr_severity r = ''deny'' then 4 else if pr_severity r = ''block'' then 3
     else if pr_severity r = ''review'' then 2 else if pr_severity r = ''waive'' then 1 else 0)"

lemma policy_outcome_rank: "outcome_rank (policy_outcome rs) = fold max (map reason_weight rs) 0"
proof -
  let ?W = "set (0 # map reason_weight rs)"
  have le: "k \<le> outcome_rank (policy_outcome rs)" if "k \<in> ?W" for k
  proof (cases "k = 0")
    case False
    with that obtain r where "r \<in> set rs" "k = reason_weight r" by auto
    then show ?thesis
      by (auto simp: policy_outcome_def outcome_rank_def reason_weight_def Let_def image_iff)
  qed simp
  have weigh: "n \<in> ?W" if "t \<in> pr_severity ` set rs"
    "n = (if t = ''deny'' then 4 else if t = ''block'' then 3 else if t = ''review'' then 2 else if t = ''waive'' then 1 else 0)" for t n
    using that by (auto simp: reason_weight_def)
  have "outcome_rank (policy_outcome rs) \<in> ?W"
    using weigh [of "''deny''" 4] weigh [of "''block''" 3] weigh [of "''review''" 2] weigh [of "''waive''" 1]
    by (simp add: policy_outcome_def outcome_rank_def Let_def)
  then have "Max ?W = outcome_rank (policy_outcome rs)"
    by (intro Max_eqI) (use le in auto)
  then show ?thesis using Max.set_eq_fold [of 0 "map reason_weight rs"] by simp
qed

interpretation admission: worst_verdict outcome_rank reason_weight policy_outcome
proof
  show "outcome_rank (policy_outcome rs) = fold max (map reason_weight rs) 0" for rs
    by (rule policy_outcome_rank)
  have "policy_outcome rs = (case outcome_rank (policy_outcome rs) of 0 \<Rightarrow> ''allow'' | Suc 0 \<Rightarrow> ''waived''
      | Suc (Suc 0) \<Rightarrow> ''review_required'' | Suc (Suc (Suc 0)) \<Rightarrow> ''blocked'' | _ \<Rightarrow> ''deny'')" for rs
    unfolding policy_outcome_def Let_def outcome_rank_def by (simp add: numeral_eq_Suc)
  then show "policy_outcome rs = policy_outcome qs"
    if "outcome_rank (policy_outcome rs) = outcome_rank (policy_outcome qs)" for rs qs
    using that by metis
qed

section \<open>The reasons found\<close>

definition receipt_outcome :: "pydict \<Rightarrow> string option" where
  "receipt_outcome r = optional_str (py_or (py_get r ''outcome'') (py_get r ''status''))"

definition receipt_failed :: "pydict \<Rightarrow> bool" where
  "receipt_failed r = (case receipt_outcome r of None \<Rightarrow> False
     | Some t \<Rightarrow> py_lower t \<in> set FAILED_RECEIPT_OUTCOMES)"

definition receipt_unknown :: "pydict \<Rightarrow> bool" where
  "receipt_unknown r = (case receipt_outcome r of None \<Rightarrow> False
     | Some t \<Rightarrow> py_lower t \<notin> set FAILED_RECEIPT_OUTCOMES \<and> py_lower t \<notin> set SUCCESSFUL_RECEIPT_OUTCOMES)"

text \<open>The severity the receipts give: that of the first one that is failed or unknown.\<close>

definition first_issue :: "pydict list \<Rightarrow> string option" where
  "first_issue refs = (if refs = [] then Some ''review''
     else map_option (\<lambda>r. if receipt_failed r then ''block'' else ''review'')
       (List.find (\<lambda>r. receipt_failed r \<or> receipt_unknown r) refs))"

lemma collect_refs_member:
  "r \<in> set (collect_refs f v) \<Longrightarrow> \<exists>d. f d = Some r"
  by (auto simp: collect_refs_def List.map_filter_def split: pyval.splits)

lemma authority_refs_index: "r \<in> set (authority_refs v) \<Longrightarrow> \<exists>t. py_index r ''authority_id'' = Inr (PStr t)"
proof -
  assume "r \<in> set (authority_refs v)"
  then obtain d where "authority_ref_record d = Some r" unfolding authority_refs_def using collect_refs_member by blast
  then show ?thesis
    by (cases "optional_str (py_get d ''authority_id'')") (auto simp: authority_ref_record_def py_index_def)
qed

lemma receipt_refs_index: "r \<in> set (receipt_refs v) \<Longrightarrow> \<exists>t. py_index r ''receipt_id'' = Inr (PStr t)"
proof -
  assume "r \<in> set (receipt_refs v)"
  then obtain d where "receipt_ref_record d = Some r" unfolding receipt_refs_def using collect_refs_member by blast
  then show ?thesis
    by (cases "optional_str (py_get d ''receipt_id'')";
        cases "optional_str (py_or (py_get d ''digest'') (py_get d ''receipt_digest''))")
      (auto simp: receipt_ref_record_def py_index_def)
qed

lemma valid_waiver_index: "valid_waiver v now = Some w \<Longrightarrow> \<exists>t. py_index w ''waiver_id'' = Inr (PStr t)"
  by (auto simp: valid_waiver_def py_index_def split: pyval.splits option.splits if_splits)

lemma receipts_reason_spec:
  assumes "\<forall>r \<in> set refs. \<exists>t. py_index r ''receipt_id'' = Inr (PStr t)"
  shows "\<exists>v. receipts_reason refs = Inr v \<and> map_option pr_severity v =
    map_option (\<lambda>r. if receipt_failed r then ''block'' else ''review'')
       (List.find (\<lambda>r. receipt_failed r \<or> receipt_unknown r) refs)"
  using assms
proof (induction refs)
  case (Cons r rs)
  then obtain t where "py_index r ''receipt_id'' = Inr (PStr t)" by auto
  then show ?case
    using Cons by (auto simp: receipt_failed_def receipt_unknown_def receipt_outcome_def split: option.split)
qed simp

lemma validation_reason_spec:
  "\<exists>x. validation_reason (receipt_refs v) = Inr x \<and> map_option pr_severity x = first_issue (receipt_refs v)"
  using receipts_reason_spec [of "receipt_refs v"] receipt_refs_index [of _ v]
  by (simp add: validation_reason_def first_issue_def)

abbreviation severities :: "findings \<Rightarrow> string set" where
  "severities fs \<equiv> pr_severity ` set (fst fs)"

definition stale_ref :: "pydict \<Rightarrow> bool" where
  "stale_ref r = (py_lower (ref_freshness r) \<noteq> ''current'')"

lemma authority_findings_spec:
  "\<exists>fs'. authority_findings (authority_refs v) fs = Inr fs' \<and>
     severities fs' = severities fs \<union> (if authority_refs v = [] then {''review''} else {}) \<union>
       (if \<exists>r \<in> set (authority_refs v). stale_ref r then {''block''} else {})"
proof -
  have "\<forall>r \<in> set refs. \<exists>t. py_index r ''authority_id'' = Inr (PStr t) \<Longrightarrow>
      \<exists>fs'. rfold authority_finding refs fs = Inr fs' \<and>
        severities fs' = severities fs \<union> (if \<exists>r \<in> set refs. stale_ref r then {''block''} else {})" for refs fs
  proof (induction refs arbitrary: fs)
    case (Cons r rs)
    then obtain t where "py_index r ''authority_id'' = Inr (PStr t)" by auto
    then have "\<exists>fs1. authority_finding r fs = Inr fs1 \<and>
        severities fs1 = severities fs \<union> (if stale_ref r then {''block''} else {})"
      by (cases "stale_ref r") (simp_all add: authority_finding_def stale_ref_def add_finding_def Let_def)
    then obtain fs1 where fs1: "authority_finding r fs = Inr fs1"
      "severities fs1 = severities fs \<union> (if stale_ref r then {''block''} else {})" by blast
    obtain fs' where "rfold authority_finding rs fs1 = Inr fs'"
      "severities fs' = severities fs1 \<union> (if \<exists>r \<in> set rs. stale_ref r then {''block''} else {})"
      using Cons.IH [of fs1] Cons.prems by auto
    with fs1 show ?case by auto
  qed simp
  from this [of "authority_refs v" fs] authority_refs_index [of _ v] show ?thesis
    by (auto simp: authority_findings_def add_finding_def)
qed

definition subject_identified :: "pydict \<Rightarrow> bool" where
  "subject_identified s =
     (list_ex (\<lambda>t. optional_str (py_or (py_get s ''subject_type'') (py_get s ''type'')) = Some t) SUPPORTED_SUBJECT_TYPES \<and>
      optional_str (py_or (py_get s ''subject_id'') (py_get s ''id'')) \<noteq> None \<and>
      optional_str (py_get s ''owner_repo'') \<noteq> None)"

definition validation_issue :: "pydict \<Rightarrow> string option" where
  "validation_issue s = (if py_truthy (py_get_or (PBool True) s ''validation_required'')
     then first_issue (receipt_refs (py_get s ''receipt_refs'')) else None)"

definition has_stale_ref :: "pydict \<Rightarrow> bool" where
  "has_stale_ref s = (\<exists>r \<in> set (authority_refs (py_get s ''authority_refs'')). stale_ref r)"

lemma subject_findings_severities:
  "severities (subject_findings (optional_str (py_or (py_get s ''subject_type'') (py_get s ''type'')))
       (optional_str (py_or (py_get s ''subject_id'') (py_get s ''id''))) (optional_str (py_get s ''owner_repo''))) =
     (if subject_identified s then {} else {''deny''})"
  by (cases "optional_str (py_or (py_get s ''subject_type'') (py_get s ''type''))")
    (auto simp: subject_findings_def subject_identified_def add_finding_def Let_def list_ex_iff)

lemma first_issue_values: "first_issue refs = Some t \<Longrightarrow> t = ''block'' \<or> t = ''review''"
  by (auto simp: first_issue_def split: if_splits)

lemma validation_findings_spec:
  fixes s :: pydict and w :: "pydict option"
  assumes "w = None \<or> (\<exists>t. py_index (the w) ''waiver_id'' = Inr (PStr t))"
  shows "\<exists>fs'. validation_findings (py_truthy (py_get_or (PBool True) s ''validation_required''))
       (receipt_refs (py_get s ''receipt_refs'')) w fs = Inr fs' \<and>
     severities fs' = severities fs \<union> (case validation_issue s of None \<Rightarrow> {}
       | Some t \<Rightarrow> if w = None then {t} else {''waive''})"
proof -
  obtain x where x: "validation_reason (receipt_refs (py_get s ''receipt_refs'')) = Inr x"
    "map_option pr_severity x = first_issue (receipt_refs (py_get s ''receipt_refs''))"
    using validation_reason_spec by blast
  show ?thesis
  proof (cases "py_truthy (py_get_or (PBool True) s ''validation_required'')")
    case True
    then show ?thesis
      using x(1) assms by (cases x; cases w) (auto simp: validation_findings_def validation_issue_def x(2) [symmetric])
  qed (simp add: validation_findings_def validation_issue_def)
qed

lemma admission_findings_spec:
  fixes s :: pydict
  shows "\<exists>fs. admission_findings s now = Inr fs \<and>
     severities fs = (if subject_identified s then {} else {''deny''}) \<union>
       (if authority_refs (py_get s ''authority_refs'') = [] then {''review''} else {}) \<union>
       (if has_stale_ref s then {''block''} else {}) \<union>
       (case validation_issue s of None \<Rightarrow> {}
        | Some t \<Rightarrow> if valid_waiver (py_get s ''waiver'') now = None then {t} else {''waive''})"
proof -
  let ?fs = "subject_findings (optional_str (py_or (py_get s ''subject_type'') (py_get s ''type'')))
       (optional_str (py_or (py_get s ''subject_id'') (py_get s ''id''))) (optional_str (py_get s ''owner_repo''))"
  obtain fs1 where fs1: "authority_findings (authority_refs (py_get s ''authority_refs'')) ?fs = Inr fs1"
    "severities fs1 = severities ?fs \<union> (if authority_refs (py_get s ''authority_refs'') = [] then {''review''} else {}) \<union>
       (if has_stale_ref s then {''block''} else {})"
    using authority_findings_spec [of "py_get s ''authority_refs''" ?fs] by (auto simp: has_stale_ref_def)
  let ?w = "valid_waiver (py_get s ''waiver'') now"
  have "?w = None \<or> (\<exists>t. py_index (the ?w) ''waiver_id'' = Inr (PStr t))"
    using valid_waiver_index by (cases ?w) auto
  from validation_findings_spec [OF this, of s fs1] obtain fs2 where
    "validation_findings (py_truthy (py_get_or (PBool True) s ''validation_required''))
       (receipt_refs (py_get s ''receipt_refs'')) ?w fs1 = Inr fs2"
    "severities fs2 = severities fs1 \<union> (case validation_issue s of None \<Rightarrow> {}
       | Some t \<Rightarrow> if ?w = None then {t} else {''waive''})" by blast
  with fs1 show ?thesis
    by (simp add: admission_findings_def Let_def subject_findings_severities del: set_map)
qed

section \<open>What is decided\<close>

definition admission_outcome :: "pydict \<Rightarrow> pydt \<Rightarrow> string" where
  "admission_outcome s now =
     (let waived = valid_waiver (py_get s ''waiver'') now \<noteq> None; issue = validation_issue s in
      if \<not> subject_identified s then ''deny''
      else if has_stale_ref s \<or> (issue = Some ''block'' \<and> \<not> waived) then ''blocked''
      else if authority_refs (py_get s ''authority_refs'') = [] \<or> (issue = Some ''review'' \<and> \<not> waived)
      then ''review_required''
      else if issue \<noteq> None then ''waived'' else ''allow'')"

lemma admission_findings_outcome:
  fixes s :: pydict
  shows "\<exists>fs. admission_findings s now = Inr fs \<and> policy_outcome (fst fs) = admission_outcome s now"
proof -
  obtain fs where fs: "admission_findings s now = Inr fs"
    and sev: "severities fs = (if subject_identified s then {} else {''deny''}) \<union>
       (if authority_refs (py_get s ''authority_refs'') = [] then {''review''} else {}) \<union>
       (if has_stale_ref s then {''block''} else {}) \<union>
       (case validation_issue s of None \<Rightarrow> {}
        | Some t \<Rightarrow> if valid_waiver (py_get s ''waiver'') now = None then {t} else {''waive''})"
    using admission_findings_spec by blast
  have vals: "validation_issue s = Some t \<Longrightarrow> t = ''block'' \<or> t = ''review''" for t
    using first_issue_values by (auto simp: validation_issue_def split: if_splits)
  have issue: P if "validation_issue s = None \<Longrightarrow> P" "validation_issue s = Some ''block'' \<Longrightarrow> P"
      "validation_issue s = Some ''review'' \<Longrightarrow> P" for P
    using vals that by (cases "validation_issue s") auto
  let ?V = "case validation_issue s of None \<Rightarrow> {}
        | Some t \<Rightarrow> if valid_waiver (py_get s ''waiver'') now = None then {t} else {''waive''}"
  have V: "(''deny'' \<in> ?V) = False" "(''block'' \<in> ?V) = (validation_issue s = Some ''block'' \<and> valid_waiver (py_get s ''waiver'') now = None)"
    "(''review'' \<in> ?V) = (validation_issue s = Some ''review'' \<and> valid_waiver (py_get s ''waiver'') now = None)"
    "(''waive'' \<in> ?V) = (validation_issue s \<noteq> None \<and> valid_waiver (py_get s ''waiver'') now \<noteq> None)"
    by (rule issue; simp)+
  have "(''deny'' \<in> severities fs) = (\<not> subject_identified s)"
    "(''block'' \<in> severities fs) = (has_stale_ref s \<or> (validation_issue s = Some ''block'' \<and> valid_waiver (py_get s ''waiver'') now = None))"
    "(''review'' \<in> severities fs) = (authority_refs (py_get s ''authority_refs'') = [] \<or>
       (validation_issue s = Some ''review'' \<and> valid_waiver (py_get s ''waiver'') now = None))"
    "(''waive'' \<in> severities fs) = (validation_issue s \<noteq> None \<and> valid_waiver (py_get s ''waiver'') now \<noteq> None)"
    unfolding sev Un_iff V by simp_all
  then have "policy_outcome (fst fs) = admission_outcome s now"
    unfolding policy_outcome_def Let_def set_map admission_outcome_def
    by - (rule issue; simp)
  with fs show ?thesis by blast
qed

lemma evaluate_admission_outcome:
  assumes "coerce_timestamp ''invalid policy decision timestamp '' clock now = Inr t"
  shows "\<exists>d. evaluate_admission_policy s profile clock now = Inr d \<and> pd_outcome d = admission_outcome s t \<and>
    pd_authority_refs d = authority_refs (py_get s ''authority_refs'') \<and>
    pd_receipt_refs d = receipt_refs (py_get s ''receipt_refs'') \<and>
    pd_waiver d = valid_waiver (py_get s ''waiver'') t"
proof -
  obtain reasons actions where "admission_findings s t = Inr (reasons, actions)"
    "policy_outcome reasons = admission_outcome s t"
    using admission_findings_outcome [of s t] by auto
  with assms show ?thesis by (simp add: evaluate_admission_policy_def Let_def)
qed

lemma evaluate_admission_Inr:
  assumes "evaluate_admission_policy s profile clock now = Inr d"
  obtains t where "coerce_timestamp ''invalid policy decision timestamp '' clock now = Inr t"
    "pd_outcome d = admission_outcome s t" "pd_authority_refs d = authority_refs (py_get s ''authority_refs'')"
    "pd_receipt_refs d = receipt_refs (py_get s ''receipt_refs'')"
    "pd_waiver d = valid_waiver (py_get s ''waiver'') t"
proof (cases "coerce_timestamp ''invalid policy decision timestamp '' clock now")
  case (Inl e)
  with assms show thesis by (simp add: evaluate_admission_policy_def)
next
  case (Inr t)
  from evaluate_admission_outcome [OF Inr, of s profile] assms
  show thesis by (intro that [OF Inr]) auto
qed

lemma coerce_timestamp_iff:
  "(\<exists>t. coerce_timestamp what clock now = Inr t) =
     (case now of NowText t \<Rightarrow> timestamp_of (PStr t) \<noteq> None | _ \<Rightarrow> True)"
  by (auto simp: coerce_timestamp_def split: now_arg.splits option.splits)

lemma waiver_irrelevant:
  "subject_identified (assoc_set ''waiver'' w s) = subject_identified s"
  "has_stale_ref (assoc_set ''waiver'' w s) = has_stale_ref s"
  "validation_issue (assoc_set ''waiver'' w s) = validation_issue s"
  "py_get (assoc_set ''waiver'' w s) ''authority_refs'' = py_get s ''authority_refs''"
  by (simp_all add: subject_identified_def has_stale_ref_def validation_issue_def py_get_or_def)

lemma waiver_outcomes:
  "(admission_outcome s t = ''allow'') = (admission_outcome (assoc_set ''waiver'' PNone s) t = ''allow'') \<and>
   (admission_outcome s t = ''deny'') = (admission_outcome (assoc_set ''waiver'' PNone s) t = ''deny'') \<and>
   outcome_rank (admission_outcome s t) \<le> outcome_rank (admission_outcome (assoc_set ''waiver'' PNone s) t) \<and>
   (has_stale_ref s \<longrightarrow> admission_outcome s t \<in> {''deny'', ''blocked''}) \<and>
   (valid_waiver (py_get s ''waiver'') t = None \<longrightarrow>
      admission_outcome s t = admission_outcome (assoc_set ''waiver'' PNone s) t)"
proof -
  have none: "valid_waiver (py_get (assoc_set ''waiver'' PNone s) ''waiver'') t = None"
    by (simp add: py_get_or_def valid_waiver_def)
  show ?thesis
    by (cases "valid_waiver (py_get s ''waiver'') t"; cases "validation_issue s")
      (simp_all add: admission_outcome_def waiver_irrelevant none Let_def outcome_rank_def)
qed

lemma valid_waiver_unexpired:
  assumes "valid_waiver x t \<noteq> None"
  shows "\<exists>v e. x = PDict v \<and> timestamp_of (py_get v ''expires_at'') = Some e \<and> \<not> dt_less e t"
proof -
  from assms obtain v where v: "x = PDict v" by (cases x) (simp_all add: valid_waiver_def)
  with assms show ?thesis
    by (cases "timestamp_of (py_get v ''expires_at'')")
      (auto simp: valid_waiver_def split: option.splits if_splits)
qed

section \<open>Properties\<close>

text \<open>
  An admission decision is reached for every subject, unless the decision time is a text
  that is no timestamp: no malformed authority ref, receipt or waiver makes the evaluation fail.
\<close>

theorem admission_always_decides:
  "(\<exists>d. evaluate_admission_policy s profile clock now = Inr d) =
     (case now of NowText t \<Rightarrow> timestamp_of (PStr t) \<noteq> None | _ \<Rightarrow> True)"
proof -
  have "(\<exists>d. evaluate_admission_policy s profile clock now = Inr d) =
      (\<exists>t. coerce_timestamp ''invalid policy decision timestamp '' clock now = Inr t)"
  proof
    assume "\<exists>d. evaluate_admission_policy s profile clock now = Inr d"
    then show "\<exists>t. coerce_timestamp ''invalid policy decision timestamp '' clock now = Inr t"
      by (auto elim: evaluate_admission_Inr)
  qed (use evaluate_admission_outcome in blast)
  then show ?thesis unfolding coerce_timestamp_iff .
qed





text \<open>
  C16. What a waiver can change, against the same subject without one: it never turns a decision
  into or out of \<open>allow\<close> or \<open>deny\<close>, never worsens it, a stale authority ref stays
  blocking under every waiver, a waiver not taken up leaves the outcome unchanged, and one that is
  taken up has not expired at the decision time.
\<close>

theorem waiver_effect_bounded:
  assumes "evaluate_admission_policy s profile clock now = Inr d"
    and "evaluate_admission_policy (assoc_set ''waiver'' PNone s) profile clock now = Inr d0"
  shows "(pd_outcome d = ''allow'') = (pd_outcome d0 = ''allow'') \<and>
    (pd_outcome d = ''deny'') = (pd_outcome d0 = ''deny'') \<and>
    outcome_rank (pd_outcome d) \<le> outcome_rank (pd_outcome d0) \<and>
    (has_stale_ref s \<longrightarrow> pd_outcome d \<in> {''deny'', ''blocked''}) \<and>
    (pd_waiver d = None \<longrightarrow> pd_outcome d = pd_outcome d0) \<and>
    (pd_waiver d \<noteq> None \<longrightarrow> (\<exists>v e t. py_get s ''waiver'' = PDict v \<and> timestamp_of (py_get v ''expires_at'') = Some e \<and>
       coerce_timestamp ''invalid policy decision timestamp '' clock now = Inr t \<and> \<not> dt_less e t))"
proof -
  obtain t where t: "coerce_timestamp ''invalid policy decision timestamp '' clock now = Inr t"
    and d: "pd_outcome d = admission_outcome s t" "pd_waiver d = valid_waiver (py_get s ''waiver'') t"
    using evaluate_admission_Inr [OF assms(1)] by metis
  have d0: "pd_outcome d0 = admission_outcome (assoc_set ''waiver'' PNone s) t"
    using evaluate_admission_Inr [OF assms(2)] t by (metis sum.inject(2))
  show ?thesis
    using waiver_outcomes [of s t] t valid_waiver_unexpired [of "py_get s ''waiver''" t]
    unfolding d d0 by blast
qed

theorem waiver_effect_bounded_witness:
  "\<exists>(d :: policy_decision) (d0 :: policy_decision). pd_outcome d = ''waived'' \<and> pd_outcome d0 = ''review_required'' \<and>
     outcome_rank (pd_outcome d) \<le> outcome_rank (pd_outcome d0)"
proof -
  let ?t = "\<lparr>dt_local = 0, dt_off = Some 0\<rparr>"
  let ?s = "[(''type'', PStr ''repo''), (''id'', PStr ''r''), (''owner_repo'', PStr ''wg''),
      (''authority_refs'', PList [PDict [(''authority_id'', PStr ''a''), (''freshness_status'', PStr ''current'')]]),
      (''waiver'', PDict [(''waiver_id'', PStr ''w''), (''authority_ref_id'', PStr ''a''), (''reason'', PStr ''x''),
         (''expires_at'', PStr ''2026-01-01'')])]"
  have t: "coerce_timestamp ''invalid policy decision timestamp '' ?t NowNone = Inr ?t" by (simp add: coerce_timestamp_def)
  obtain d where d: "evaluate_admission_policy ?s ''p'' ?t NowNone = Inr d" "pd_outcome d = admission_outcome ?s ?t"
    using evaluate_admission_outcome [OF t] by blast
  obtain d0 where d0: "evaluate_admission_policy (assoc_set ''waiver'' PNone ?s) ''p'' ?t NowNone = Inr d0"
    "pd_outcome d0 = admission_outcome (assoc_set ''waiver'' PNone ?s) ?t"
    using evaluate_admission_outcome [OF t] by blast
  have "admission_outcome ?s ?t = ''waived'' \<and> admission_outcome (assoc_set ''waiver'' PNone ?s) ?t = ''review_required''"
    by code_simp
  then have out: "pd_outcome d = ''waived''" "pd_outcome d0 = ''review_required''" using d(2) d0(2) by (simp_all only:)
  from waiver_effect_bounded [OF d(1) d0(1)] have "outcome_rank (pd_outcome d) \<le> outcome_rank (pd_outcome d0)" by blast
  with out show ?thesis by blast
qed

end
