(* ===== verification/Plan_Targets.thy ===== *)
theory Plan_Targets
  imports Py_Paths Record_Helpers "HOL-Library.Product_Lexorder"
begin

text \<open>
  The first part of \<open>validation_planning.py\<close>: tiers, targets and their normalisation, the
  scopes a target stands for, scope matching, and the command templates.
\<close>

section \<open>Tiers and targets\<close>

datatype validation_tier = SMOKE | SCOPED | FULL | RELEASE

datatype validation_check_type = COMMAND | CONTRACT | PROJECTION

datatype validation_execution_mode = RUN | SKIP_FRESH_RECEIPT

fun tier_value :: "validation_tier \<Rightarrow> string" where
  "tier_value SMOKE = ''smoke''"
| "tier_value SCOPED = ''scoped''"
| "tier_value FULL = ''full''"
| "tier_value RELEASE = ''release''"

fun check_type_value :: "validation_check_type \<Rightarrow> string" where
  "check_type_value COMMAND = ''command''"
| "check_type_value CONTRACT = ''contract''"
| "check_type_value PROJECTION = ''projection''"

fun mode_value :: "validation_execution_mode \<Rightarrow> string" where
  "mode_value RUN = ''run''"
| "mode_value SKIP_FRESH_RECEIPT = ''skip_fresh_receipt''"

definition tiers :: "validation_tier list" where "tiers = [SMOKE, SCOPED, FULL, RELEASE]"

fun VALIDATION_TIER_ORDER :: "validation_tier \<Rightarrow> int" where
  "VALIDATION_TIER_ORDER SMOKE = 10"
| "VALIDATION_TIER_ORDER SCOPED = 20"
| "VALIDATION_TIER_ORDER FULL = 30"
| "VALIDATION_TIER_ORDER RELEASE = 40"

text \<open>The order table makes the tiers a linear order.\<close>

instantiation validation_tier :: linorder
begin

definition less_eq_validation_tier :: "validation_tier \<Rightarrow> validation_tier \<Rightarrow> bool" where
  "less_eq_validation_tier a b = (VALIDATION_TIER_ORDER a \<le> VALIDATION_TIER_ORDER b)"

definition less_validation_tier :: "validation_tier \<Rightarrow> validation_tier \<Rightarrow> bool" where
  "less_validation_tier a b = (VALIDATION_TIER_ORDER a < VALIDATION_TIER_ORDER b)"

instance
proof
  fix a b :: validation_tier
  show "a \<le> b \<Longrightarrow> b \<le> a \<Longrightarrow> a = b"
    by (cases a; cases b) (simp_all add: less_eq_validation_tier_def)
qed (auto simp: less_eq_validation_tier_def less_validation_tier_def)

end

definition DEFAULT_VALIDATION_TIER :: validation_tier where "DEFAULT_VALIDATION_TIER = SCOPED"

definition DEFAULT_CHECK_TYPE :: validation_check_type where "DEFAULT_CHECK_TYPE = COMMAND"

definition ALLOWED_COMMAND_TEMPLATE_FIELDS :: "string list" where
  "ALLOWED_COMMAND_TEMPLATE_FIELDS = [''art_delivery_id'', ''target_id'', ''target_scope'', ''target_type'']"

definition KNOWN_TARGET_PREFIXES :: "string list" where
  "KNOWN_TARGET_PREFIXES = [''authority:'', ''component:'', ''projection:'', ''profile:'', ''repo:'',
     ''validator:'', ''art:'', ''release:'', ''changed-file:'']"

record validation_target =
  vt_scope :: string
  vt_target_type :: string
  vt_target_id :: string

definition target_to_record :: "validation_target \<Rightarrow> pyval" where
  "target_to_record t = PDict [(''scope'', PStr (vt_scope t)), (''target_type'', PStr (vt_target_type t)),
     (''target_id'', PStr (vt_target_id t))]"

definition parse_tier :: "string \<Rightarrow> validation_tier option" where
  "parse_tier t = List.find (\<lambda>x. tier_value x = py_lower (py_strip t)) tiers"

definition coerce_tier :: "string \<Rightarrow> validation_tier result" where
  "coerce_tier t = (case parse_tier t of
     Some x \<Rightarrow> Inr x
   | None \<Rightarrow> Inl (ValueError (''unknown validation tier '' @ repr_str t @ ''; expected one of: '' @
        py_join '', '' (map tier_value tiers))))"

definition validator_tier :: "pydict \<Rightarrow> validation_tier result" where
  "validator_tier v = coerce_tier (py_str (py_or (py_get v ''validation_tier'')
     (py_or (py_get v ''tier'') (PStr (tier_value DEFAULT_VALIDATION_TIER)))))"

definition validator_check_type :: "pydict \<Rightarrow> validation_check_type result" where
  "validator_check_type v =
     (let value = py_lower (py_strip (py_str (py_or (py_get v ''check_type'') (PStr (check_type_value DEFAULT_CHECK_TYPE)))))
      in case List.find (\<lambda>x. check_type_value x = value) [COMMAND, CONTRACT, PROJECTION] of
        Some x \<Rightarrow> Inr x
      | None \<Rightarrow> rbind (py_index v ''validator_id'') (\<lambda>i. Inl (ValueError (''unknown validation check_type '' @
          repr_str value @ '' for '' @ py_str i @ ''; expected one of: '' @
          py_join '', '' (map check_type_value [COMMAND, CONTRACT, PROJECTION])))))"

definition tier_included :: "validation_tier \<Rightarrow> validation_tier \<Rightarrow> bool" where
  "tier_included tier requested_tier = (tier \<le> requested_tier)"

section \<open>Normalising a target\<close>

definition changed_file_error :: "'a result" where
  "changed_file_error = Inl (ValueError ''validation target changed-file: must include a relative repo path'')"

definition backslash_to_slash :: "string \<Rightarrow> string" where
  "backslash_to_slash s = map (\<lambda>c. if c = CHR 0x5C then CHR ''/'' else c) s"

definition normalize_changed_file_target :: "string \<Rightarrow> validation_target result" where
  "normalize_changed_file_target scope =
     (let raw_path = backslash_to_slash (py_strip (remove_prefix ''changed-file:'' scope));
          path = posix_path_of raw_path
      in if path_is_absolute path \<or> raw_path = [] \<or> ''..'' \<in> set (path_parts path) then changed_file_error
         else let normalized_path = path_str path in
           if normalized_path = [] \<or> normalized_path = ''.'' then changed_file_error
           else Inr \<lparr>vt_scope = ''changed-file:'' @ normalized_path, vt_target_type = ''changed-file'',
                     vt_target_id = normalized_path\<rparr>)"

definition normalize_validation_target :: "string \<Rightarrow> validation_target result" where
  "normalize_validation_target target_scope =
     (let scope = py_strip target_scope in
      if scope = [] then Inl (ValueError ''validation target scope must not be empty'')
      else if scope = ''workspace''
      then Inr \<lparr>vt_scope = scope, vt_target_type = ''workspace'', vt_target_id = ''workspace''\<rparr>
      else if starts_with ''changed-file:'' scope then normalize_changed_file_target scope
      else case List.find (\<lambda>p. starts_with p scope) KNOWN_TARGET_PREFIXES of
        Some prefix \<Rightarrow>
          let target_id = py_strip (remove_prefix prefix scope) in
          if target_id = [] then Inl (ValueError (''validation target '' @ prefix @ '' must include an id''))
          else Inr \<lparr>vt_scope = scope, vt_target_type = remove_suffix '':'' prefix, vt_target_id = target_id\<rparr>
      | None \<Rightarrow> Inl (ValueError (''validation target scope must be workspace or start with one of: '' @
          py_join '', '' KNOWN_TARGET_PREFIXES)))"

section \<open>Scopes\<close>

definition scope_matches :: "string \<Rightarrow> string \<Rightarrow> bool" where
  "scope_matches declared_scope target_scope =
     (if declared_scope = target_scope then True
      else if ends_with ''*'' declared_scope
      then let prefix = take (length declared_scope - 1) declared_scope in
        prefix \<noteq> [] \<and> starts_with prefix target_scope \<and> target_scope \<noteq> prefix
      else False)"

definition scope_sets_match :: "string list \<Rightarrow> string list \<Rightarrow> bool" where
  "scope_sets_match declared_scopes target_scopes =
     list_ex (\<lambda>d. list_ex (scope_matches d) target_scopes) declared_scopes"

definition is_supported_scope :: "string \<Rightarrow> bool" where
  "is_supported_scope scope = (scope = ''workspace'' \<or>
     list_ex (\<lambda>p. starts_with p scope \<and> py_strip (remove_prefix p scope) \<noteq> []) KNOWN_TARGET_PREFIXES)"

text \<open>\<open>x or y or []\<close> with a single string made a list; iterating what is left.\<close>

definition string_or_items :: "pyval \<Rightarrow> pyval \<Rightarrow> pyval list result" where
  "string_or_items a b = (case py_or a (py_or b (PList [])) of PStr t \<Rightarrow> Inr [PStr t] | v \<Rightarrow> py_iter v)"

definition source_paths :: "pydict \<Rightarrow> string list result" where
  "source_paths item = rbind (string_or_items (py_get item ''source_paths'') (py_get item ''paths'')) (\<lambda>paths.
     Inr (map (\<lambda>p. path_str (posix_path_of (backslash_to_slash (py_strip (py_str p)))))
       (filter (\<lambda>p. py_strip (py_str p) \<noteq> []) paths)))"

definition impact_scopes :: "pydict \<Rightarrow> string list result" where
  "impact_scopes item = rbind (string_or_items (py_get item ''impact_scopes'') (py_get item ''validation_scopes'')) (\<lambda>scopes.
     Inr (filter is_supported_scope (map (\<lambda>s. py_strip (py_str s)) scopes)))"

fun path_matches_source_paths :: "string \<Rightarrow> string list \<Rightarrow> bool" where
  "path_matches_source_paths changed [] = False"
| "path_matches_source_paths changed (p # ps) =
     (p = [] \<or> p = ''.'' \<or> changed = p \<or>
      starts_with (rstrip_by (\<lambda>c. c = CHR ''/'') p @ ''/'') changed \<or> path_matches_source_paths changed ps)"

fun profile_scope_of_parts :: "string list \<Rightarrow> string option" where
  "profile_scope_of_parts (a # b # c # rest) =
     (if a = ''dev-integration'' \<and> b = ''profiles'' \<and> py_strip c \<noteq> []
      then Some (''profile:'' @ py_strip c) else profile_scope_of_parts (b # c # rest))"
| "profile_scope_of_parts _ = None"

definition profile_scope_for_path :: "string \<Rightarrow> string option" where
  "profile_scope_for_path changed = profile_scope_of_parts (path_parts (posix_path_of changed))"

definition dict_items :: "pydict \<Rightarrow> string \<Rightarrow> pydict list result" where
  "dict_items m k = rbind (py_iter (py_get_or (PList []) m k)) (rmapM need_dict)"

definition repo_scopes :: "string \<Rightarrow> bool \<Rightarrow> pydict \<Rightarrow> string list result" where
  "repo_scopes changed single repo =
     rbind (source_paths repo) (\<lambda>paths.
     if single \<or> path_matches_source_paths changed paths
     then rbind (py_index repo ''repo_id'') (\<lambda>i. rbind (need_str i) (\<lambda>i.
       rbind (impact_scopes repo) (\<lambda>scopes. Inr ((''repo:'' @ py_strip i) # scopes))))
     else Inr [])"

definition component_scopes :: "string \<Rightarrow> pydict \<Rightarrow> string list result" where
  "component_scopes changed c =
     (let component_id = text_of (py_get c ''component_id'') in
      if component_id = [] then Inr []
      else rbind (source_paths c) (\<lambda>paths.
        if path_matches_source_paths changed paths
        then rbind (impact_scopes c) (\<lambda>scopes. Inr ((''component:'' @ component_id) # scopes))
        else Inr []))"

text \<open>The set of scopes, as a list whose order the callers never look at.\<close>

definition target_scope_candidates :: "pydict \<Rightarrow> validation_target \<Rightarrow> string list result" where
  "target_scope_candidates m target =
     (if vt_target_type target \<noteq> ''changed-file'' then Inr [vt_scope target]
      else let changed = vt_target_id target in
        rbind (dict_items m ''repos'') (\<lambda>all_repos.
        let repos = filter (\<lambda>r. text_of (py_get r ''repo_id'') \<noteq> []) all_repos in
        rbind (rmapM (repo_scopes changed (length repos = 1)) repos) (\<lambda>rs.
        rbind (dict_items m ''components'') (\<lambda>components.
        rbind (rmapM (component_scopes changed) components) (\<lambda>cs.
        Inr (vt_scope target # concat rs @ concat cs @
          (case profile_scope_for_path changed of None \<Rightarrow> [] | Some s \<Rightarrow> [s])))))))"

section \<open>Command templates\<close>

definition no_brace :: "char \<Rightarrow> bool" where
  "no_brace c = (c \<noteq> CHR ''{'' \<and> c \<noteq> CHR ''}'')"

text \<open>\<open>re.findall(r"{([^{}]+)}", command)\<close>\<close>

function template_fields :: "string \<Rightarrow> string list" where
  "template_fields s = (case s of [] \<Rightarrow> []
     | c # cs \<Rightarrow>
         if c = CHR ''{'' \<and> takeWhile no_brace cs \<noteq> [] \<and> dropWhile no_brace cs \<noteq> [] \<and>
            hd (dropWhile no_brace cs) = CHR ''}''
         then takeWhile no_brace cs # template_fields (tl (dropWhile no_brace cs))
         else template_fields cs)"
  by pat_completeness auto
termination
proof (relation "measure length")
  fix s :: string and c cs assume "s = c # cs"
  then show "(tl (dropWhile no_brace cs), s) \<in> measure length"
    using length_dropWhile_le [of no_brace cs] by simp
qed simp_all

declare template_fields.simps [simp del]

lemma template_fields_Nil [simp]: "template_fields [] = []"
  by (simp add: template_fields.simps)

lemma template_fields_Cons:
  "template_fields (c # cs) =
     (if c = CHR ''{'' \<and> takeWhile no_brace cs \<noteq> [] \<and> dropWhile no_brace cs \<noteq> [] \<and>
         hd (dropWhile no_brace cs) = CHR ''}''
      then takeWhile no_brace cs # template_fields (tl (dropWhile no_brace cs))
      else template_fields cs)"
  by (simp add: template_fields.simps [of "c # cs"])

definition all_digits :: "string \<Rightarrow> bool" where
  "all_digits s = (s \<noteq> [] \<and> list_all py_is_digit s)"

definition art_delivery_id :: "validation_target \<Rightarrow> string option" where
  "art_delivery_id target = (let s = vt_scope target in
     if starts_with ''art:delivery-'' s \<and> all_digits (remove_prefix ''art:delivery-'' s)
     then Some (remove_prefix ''art:delivery-'' s) else None)"

definition command_template_target_error :: "string \<Rightarrow> validation_target \<Rightarrow> string option" where
  "command_template_target_error command target =
     (if count_list command (CHR ''{'') \<noteq> count_list command (CHR ''}'')
      then Some ''validator command template has unbalanced braces''
      else let invalid_fields = sorted_set (filter (\<lambda>f. f \<notin> set ALLOWED_COMMAND_TEMPLATE_FIELDS) (template_fields command)) in
        if invalid_fields \<noteq> []
        then Some (''validator command template contains unsupported fields: '' @ py_join '', '' invalid_fields)
        else if \<not> str_contains ''{art_delivery_id}'' command then None
        else if art_delivery_id target = None
        then Some ''validator command template requires a concrete art:delivery-<id> target scope''
        else None)"

text \<open>\<open>command.format(**values)\<close> for text fields without conversions, format
  specifications, attribute or index access and nested fields.\<close>

definition format_field :: "(string \<times> string) list \<Rightarrow> string \<Rightarrow> string result" where
  "format_field kvs f =
     (case map_of kvs f of
        Some v \<Rightarrow> Inr v
      | None \<Rightarrow> if f = [] \<or> list_all py_is_digit f
          then Inl (IndexError ''Replacement index out of range for positional args tuple'')
          else if list_ex (\<lambda>c. c \<in> set ''.[:!'') f then Inl (Unmodelled ''format field'')
          else Inl (KeyError f))"

function str_format :: "(string \<times> string) list \<Rightarrow> string \<Rightarrow> string result" where
  "str_format kvs s = (case s of [] \<Rightarrow> Inr []
     | c # cs \<Rightarrow>
         if no_brace c then rbind (str_format kvs cs) (\<lambda>t. Inr (c # t))
         else if cs \<noteq> [] \<and> hd cs = c then rbind (str_format kvs (tl cs)) (\<lambda>t. Inr (c # t))
         else if c = CHR ''}'' then Inl (ValueError (''Single '' @ repr_str ''}'' @ '' encountered in format string''))
         else if cs = [] then Inl (ValueError (''Single '' @ repr_str ''{'' @ '' encountered in format string''))
         else if dropWhile no_brace cs = [] then Inl (ValueError (''expected '' @ repr_str ''}'' @ '' before end of string''))
         else if hd (dropWhile no_brace cs) = CHR ''}''
         then rbind (format_field kvs (takeWhile no_brace cs)) (\<lambda>v.
           rbind (str_format kvs (tl (dropWhile no_brace cs))) (\<lambda>t. Inr (v @ t)))
         else Inl (Unmodelled ''nested format field''))"
  by pat_completeness auto
termination
proof (relation "measure (\<lambda>(kvs, s). length s)")
  fix kvs :: "(string \<times> string) list" and s :: string and c cs and v :: string assume "s = c # cs"
  then show "((kvs, tl (dropWhile no_brace cs)), kvs, s) \<in> measure (\<lambda>(kvs, s). length s)"
    using length_dropWhile_le [of no_brace cs] by simp
qed auto

declare str_format.simps [simp del]

definition template_values :: "validation_target \<Rightarrow> (string \<times> string) list" where
  "template_values target =
     [(''art_delivery_id'', case art_delivery_id target of None \<Rightarrow> [] | Some i \<Rightarrow> i),
      (''target_id'', vt_target_id target), (''target_scope'', vt_scope target),
      (''target_type'', vt_target_type target)]"

definition render_validator_command :: "string \<Rightarrow> validation_target \<Rightarrow> string result" where
  "render_validator_command command target = str_format (template_values target) command"

section \<open>Facts about targets and templates\<close>

lemma changed_file_target:
  assumes "normalize_changed_file_target scope = Inr t"
  shows "vt_scope t = ''changed-file:'' @ vt_target_id t \<and> vt_target_type t = ''changed-file'' \<and>
    \<not> path_is_absolute (posix_path_of (vt_target_id t)) \<and>
    pp_tail (posix_path_of (vt_target_id t)) \<noteq> [] \<and>
    list_all (\<lambda>x. x \<notin> {[], ''.'', ''..''} \<and> CHR ''/'' \<notin> set x) (pp_tail (posix_path_of (vt_target_id t)))"
proof -
  let ?p = "posix_path_of (backslash_to_slash (py_strip (remove_prefix ''changed-file:'' scope)))"
  from assms have rel: "pp_root ?p = []" and up: "''..'' \<notin> set (pp_tail ?p)" and dot: "path_str ?p \<noteq> ''.''"
    and t: "t = \<lparr>vt_scope = ''changed-file:'' @ path_str ?p, vt_target_type = ''changed-file'', vt_target_id = path_str ?p\<rparr>"
    by (auto simp: normalize_changed_file_target_def changed_file_error_def path_is_absolute_def path_parts_def Let_def
        split: if_splits)
  have again: "posix_path_of (path_str ?p) = ?p" by (rule posix_path_roundtrip [OF rel])
  have "pp_tail ?p \<noteq> []" using dot rel by (auto simp: path_str_def)
  moreover have "list_all (\<lambda>x. x \<notin> {[], ''.'', ''..''} \<and> CHR ''/'' \<notin> set x) (pp_tail ?p)"
    unfolding list_all_iff using up tail_components [of _ "backslash_to_slash (py_strip (remove_prefix ''changed-file:'' scope))"]
    by (auto simp: path_component_def)
  ultimately show ?thesis using rel by (simp add: t again path_is_absolute_def)
qed

lemma normalize_changed_file:
  assumes "normalize_validation_target s = Inr t" and "vt_target_type t = ''changed-file''"
  shows "normalize_changed_file_target (py_strip s) = Inr t"
proof -
  have "list_all (\<lambda>p. remove_suffix '':'' p \<noteq> ''changed-file'' \<or> p = ''changed-file:'') KNOWN_TARGET_PREFIXES"
    by code_simp
  then have "remove_suffix '':'' p \<noteq> ''changed-file'' \<or> p = ''changed-file:''"
    if "List.find (\<lambda>p. starts_with p (py_strip s)) KNOWN_TARGET_PREFIXES = Some p" for p
    using that by (auto simp: find_Some_iff list_all_iff)
  moreover have "starts_with p (py_strip s)"
    if "List.find (\<lambda>p. starts_with p (py_strip s)) KNOWN_TARGET_PREFIXES = Some p" for p
    using that by (auto simp: find_Some_iff)
  ultimately show ?thesis
    using assms by (auto simp: normalize_validation_target_def Let_def split: if_splits option.splits)
qed

text \<open>A template whose braces are exactly its fields.\<close>

function simple_template :: "string \<Rightarrow> bool" where
  "simple_template s = (case s of [] \<Rightarrow> True
     | c # cs \<Rightarrow> if no_brace c then simple_template cs
         else c = CHR ''{'' \<and> takeWhile no_brace cs \<noteq> [] \<and> dropWhile no_brace cs \<noteq> [] \<and>
           hd (dropWhile no_brace cs) = CHR ''}'' \<and> simple_template (tl (dropWhile no_brace cs)))"
  by pat_completeness auto
termination
proof (relation "measure length")
  fix s :: string and c cs assume "s = c # cs"
  then show "(tl (dropWhile no_brace cs), s) \<in> measure length"
    using length_dropWhile_le [of no_brace cs] by simp
qed simp_all

declare simple_template.simps [simp del]

lemma simple_template_Cons:
  "simple_template (c # cs) = (if no_brace c then simple_template cs
     else c = CHR ''{'' \<and> takeWhile no_brace cs \<noteq> [] \<and> dropWhile no_brace cs \<noteq> [] \<and>
       hd (dropWhile no_brace cs) = CHR ''}'' \<and> simple_template (tl (dropWhile no_brace cs)))"
  by (simp add: simple_template.simps [of "c # cs"])

lemma simple_template_renders:
  "simple_template s \<Longrightarrow> set (template_fields s) \<subseteq> fst ` set kvs \<Longrightarrow> \<exists>out. str_format kvs s = Inr out"
proof (induction s rule: simple_template.induct)
  case (1 s)
  show ?case
  proof (cases s)
    case Nil
    then show ?thesis by (simp add: str_format.simps)
  next
    case (Cons c cs)
    show ?thesis
    proof (cases "no_brace c")
      case True
      then have "simple_template cs" "template_fields s = template_fields cs"
        using 1(3) Cons by (simp_all add: simple_template_Cons template_fields_Cons) (simp add: no_brace_def)
      then obtain out where "str_format kvs cs = Inr out" using 1(1) [OF Cons True] 1(4) by auto
      then show ?thesis using Cons True by (simp add: str_format.simps [of _ "c # cs"])
    next
      case False
      let ?run = "takeWhile no_brace cs" and ?rest = "dropWhile no_brace cs"
      from 1(3) Cons False have c: "c = CHR ''{''" "?run \<noteq> []" "?rest \<noteq> []" "hd ?rest = CHR ''}''"
        "simple_template (tl ?rest)" by (simp_all add: simple_template_Cons)
      have fields: "template_fields s = ?run # template_fields (tl ?rest)"
        using Cons c by (simp add: template_fields_Cons)
      obtain out where out: "str_format kvs (tl ?rest) = Inr out"
        using 1(2) [OF Cons False] c(5) 1(4) fields by auto
      obtain v where v: "map_of kvs ?run = Some v"
        using 1(4) fields by (metis insert_subset list.simps(15) map_of_eq_None_iff not_None_eq)
      have "cs \<noteq> []" "hd cs \<noteq> CHR ''{''"
        using c(2) by (cases cs; auto simp: no_brace_def split: if_splits)+
      then show ?thesis
        using Cons False c out v by (simp add: str_format.simps [of _ "CHR 0x7B # cs"] format_field_def)
    qed
  qed
qed

section \<open>Properties\<close>

text \<open>
  C17. A changed-file target never leaves the repository: its id is a relative path with at least
  one component, no component is empty, \<open>.\<close> or \<open>..\<close>, and its scope is that path
  behind the prefix. Leading slashes, backslashes and parent references in the request cannot
  get through.
\<close>

theorem changed_file_target_contained:
  assumes "normalize_validation_target s = Inr t" and "vt_target_type t = ''changed-file''"
  shows "vt_scope t = ''changed-file:'' @ vt_target_id t \<and>
    \<not> path_is_absolute (posix_path_of (vt_target_id t)) \<and>
    pp_tail (posix_path_of (vt_target_id t)) \<noteq> [] \<and>
    list_all (\<lambda>x. x \<notin> {[], ''.'', ''..''} \<and> CHR ''/'' \<notin> set x) (pp_tail (posix_path_of (vt_target_id t)))"
  using changed_file_target [OF normalize_changed_file [OF assms]] by blast

theorem changed_file_target_contained_witness:
  "\<exists>t :: validation_target. vt_target_id t = ''a/b'' \<and> pp_tail (posix_path_of (vt_target_id t)) \<noteq> []"
proof -
  let ?t = "\<lparr>vt_scope = ''changed-file:a/b'', vt_target_type = ''changed-file'', vt_target_id = ''a/b''\<rparr>"
  have "normalize_validation_target '' changed-file: ./a//b/ '' = Inr ?t" by code_simp
  from changed_file_target_contained [OF this] show ?thesis by (intro exI [of _ ?t]) simp
qed

text \<open>
  C18. Rendering a command template that the planner accepted cannot fail when its braces are
  exactly its fields: every field then has a value.
\<close>

theorem accepted_template_renders:
  assumes "command_template_target_error command target = None" and "simple_template command"
  shows "\<exists>out. render_validator_command command target = Inr out"
proof -
  have "sorted_set (filter (\<lambda>f. f \<notin> set ALLOWED_COMMAND_TEMPLATE_FIELDS) (template_fields command)) = []"
    using assms(1) by (simp add: command_template_target_error_def Let_def split: if_splits)
  then have "set (filter (\<lambda>f. f \<notin> set ALLOWED_COMMAND_TEMPLATE_FIELDS) (template_fields command)) = {}"
    by (metis set_sorted_set empty_set)
  then have "set (template_fields command) \<subseteq> set ALLOWED_COMMAND_TEMPLATE_FIELDS"
    by auto
  then have "set (template_fields command) \<subseteq> fst ` set (template_values target)"
    by (simp add: template_values_def ALLOWED_COMMAND_TEMPLATE_FIELDS_def)
  then show ?thesis unfolding render_validator_command_def by (rule simple_template_renders [OF assms(2)])
qed

theorem accepted_template_renders_witness:
  "\<exists>out. render_validator_command ''run {target_id}''
     \<lparr>vt_scope = ''repo:r'', vt_target_type = ''repo'', vt_target_id = ''r''\<rparr> = Inr out"
proof (rule accepted_template_renders)
  show "command_template_target_error ''run {target_id}''
     \<lparr>vt_scope = ''repo:r'', vt_target_type = ''repo'', vt_target_id = ''r''\<rparr> = None" by code_simp
  show "simple_template ''run {target_id}''" by code_simp
qed


end
