(* ===== verification/Plan_Receipts.thy ===== *)
theory Plan_Receipts
  imports Plan_Targets
begin

text \<open>
  The part of \<open>validation_planning.py\<close> that decides whether a fresh successful receipt can
  stand for running a validator, and the waivers of validators.
\<close>

section \<open>The reuse policy of a validator\<close>

definition validator_allows_receipt_reuse :: "pydict \<Rightarrow> bool" where
  "validator_allows_receipt_reuse v = (case py_get v ''reuse_policy'' of
     PDict p \<Rightarrow> py_truthy (py_get_or (PBool False) p ''safe_to_reuse'') | _ \<Rightarrow> False)"

definition invalidate_on_authority_change :: "pydict \<Rightarrow> bool" where
  "invalidate_on_authority_change v = (case py_get v ''reuse_policy'' of
     PDict p \<Rightarrow> py_truthy (py_get_or (PBool True) p ''invalidate_on_authority_change'') | _ \<Rightarrow> True)"

definition reuse_freshness_seconds :: "pydict \<Rightarrow> pydict \<Rightarrow> int result" where
  "reuse_freshness_seconds v receipt =
     (let raw = (case py_get v ''reuse_policy'' of PDict p \<Rightarrow> py_get p ''freshness_seconds'' | _ \<Rightarrow> PNone);
          raw = (if raw \<noteq> PNone then raw else py_get receipt ''freshness_seconds'')
      in rbind (int_or_none raw) (\<lambda>r. Inr (case r of None \<Rightarrow> 0 | Some i \<Rightarrow> max i 0)))"

definition receipt_is_fresh :: "pydict \<Rightarrow> pydict \<Rightarrow> pydt \<Rightarrow> bool result" where
  "receipt_is_fresh receipt v now =
     (case timestamp_of (py_get receipt ''expires_at'') of
        Some expires_at \<Rightarrow> Inr (\<not> dt_less expires_at now)
      | None \<Rightarrow> (case timestamp_of (py_get receipt ''captured_at'') of
          None \<Rightarrow> Inr False
        | Some captured_at \<Rightarrow> rbind (reuse_freshness_seconds v receipt) (\<lambda>n.
            rbind (dt_add_seconds captured_at n) (\<lambda>until. Inr (\<not> dt_less until now)))))"

section \<open>Authority digests\<close>

definition authority_digest_step :: "string list \<Rightarrow> pydict \<Rightarrow> (string \<times> string) list \<Rightarrow> (string \<times> string) list" where
  "authority_digest_step ids r digests =
     (let authority_id = text_of (py_get r ''authority_id'') in
      case optional_str (py_get r ''digest'') of
        Some digest \<Rightarrow> if authority_id \<in> set ids then assoc_set authority_id digest digests else digests
      | None \<Rightarrow> digests)"

definition validator_authority_digests :: "pydict \<Rightarrow> pydict \<Rightarrow> (string \<times> string) list result" where
  "validator_authority_digests v m =
     rbind (py_iter (py_get_or (PList []) v ''authority_ref_ids'')) (\<lambda>ids.
     let authority_ids = filter (\<lambda>i. i \<noteq> []) (map (\<lambda>i. py_strip (py_str i)) ids) in
     rbind (dict_items m ''authority_refs'') (\<lambda>refs.
     Inr (fold (authority_digest_step authority_ids) refs [])))"

definition receipt_authority_refs_current :: "pydict \<Rightarrow> pydict \<Rightarrow> pydict \<Rightarrow> bool result" where
  "receipt_authority_refs_current receipt v m =
     (if \<not> invalidate_on_authority_change v then Inr True
      else rbind (validator_authority_digests v m) (\<lambda>expected.
        if expected = [] then Inr True
        else Inr (case py_get receipt ''authority_ref_digests'' of
            PDict supplied \<Rightarrow> list_all (\<lambda>(i, digest). text_of (py_get supplied i) = digest) expected
          | _ \<Rightarrow> False)))"

section \<open>Matching a receipt\<close>

datatype receipt_match = Matches | Rejected pydict

definition receipt_rejection :: "string \<Rightarrow> string \<Rightarrow> string \<Rightarrow> pydict" where
  "receipt_rejection receipt_id code reason =
     [(''code'', PStr code), (''reason'', PStr (receipt_id @ '': '' @ reason)), (''receipt_id'', PStr receipt_id)]"

definition SUCCESSFUL_RECEIPT_STATUSES :: "string list" where
  "SUCCESSFUL_RECEIPT_STATUSES = [''success'', ''passed'', ''valid'']"

definition receipt_scopes :: "pydict \<Rightarrow> string list result" where
  "receipt_scopes receipt = rbind (py_iter (py_or (py_get receipt ''scopes'') (PList []))) (\<lambda>xs.
     Inr (map (\<lambda>s. py_strip (py_str s)) xs))"

definition receipt_covers :: "pydict \<Rightarrow> string list \<Rightarrow> validation_target \<Rightarrow> string list \<Rightarrow> bool" where
  "receipt_covers receipt scopes target candidates =
     (vt_scope target = text_of (py_get receipt ''target_scope'') \<or>
      text_of (py_get receipt ''target_scope'') \<in> set candidates \<or>
      vt_scope target \<in> set scopes \<or> scope_sets_match scopes candidates)"

definition receipt_match_decision ::
  "pydict \<Rightarrow> string \<Rightarrow> validation_target \<Rightarrow> validation_tier \<Rightarrow> pydict \<Rightarrow> pydt \<Rightarrow> pydict \<Rightarrow> receipt_match result" where
  "receipt_match_decision receipt validator_id target requested_tier v now m =
     (let receipt_id = py_strip (py_str (py_or (py_get receipt ''receipt_id'') (PStr ''<unknown>'')));
          reject = (\<lambda>code reason. Inr (Rejected (receipt_rejection receipt_id code reason)))
      in if text_of (py_get receipt ''validator_id'') \<noteq> validator_id
      then reject ''validator-mismatch'' ''validator mismatch''
      else if py_lower (text_of (py_get receipt ''status'')) \<notin> set SUCCESSFUL_RECEIPT_STATUSES
      then reject ''receipt-failed'' ''receipt is not successful''
      else rbind (receipt_scopes receipt) (\<lambda>scopes. rbind (target_scope_candidates m target) (\<lambda>candidates.
        if \<not> receipt_covers receipt scopes target candidates
        then reject ''scope-mismatch'' ''scope mismatch''
        else case parse_tier (py_str (py_or (py_get receipt ''tier'') (PStr (tier_value DEFAULT_VALIDATION_TIER)))) of
          None \<Rightarrow> reject ''invalid-receipt-tier'' ''invalid receipt tier''
        | Some receipt_tier \<Rightarrow>
          if receipt_tier < requested_tier
          then reject ''tier-mismatch'' (''receipt tier '' @ tier_value receipt_tier @ '' is below requested tier '' @
                 tier_value requested_tier)
          else rbind (receipt_authority_refs_current receipt v m) (\<lambda>current.
            if \<not> current then reject ''authority-digest-mismatch'' ''authority digest changed or missing''
            else rbind (receipt_is_fresh receipt v now) (\<lambda>fresh.
              if \<not> fresh then reject ''receipt-stale'' ''receipt is stale'' else Inr Matches)))))"

definition receipt_sort_key :: "pydict \<Rightarrow> int \<times> string" where
  "receipt_sort_key r = (dt_utc (case timestamp_of (py_get r ''captured_at'') of None \<Rightarrow> dt_min_utc | Some d \<Rightarrow> d),
     py_str (py_or (py_get r ''receipt_id'') (PStr [])))"

definition newest_receipts_first :: "pydict list \<Rightarrow> pydict list" where
  "newest_receipts_first receipts = sort_key_rev receipt_sort_key receipts"

section \<open>The reuse decision\<close>

record reuse_decision =
  rd_mode :: validation_execution_mode
  rd_receipt_id :: "string option"
  rd_receipt_digest :: "string option"
  rd_reason :: "string option"
  rd_cache_decision :: pydict

definition run_decision :: "pydict \<Rightarrow> reuse_decision" where
  "run_decision cache = \<lparr>rd_mode = RUN, rd_receipt_id = None, rd_receipt_digest = None, rd_reason = None,
     rd_cache_decision = cache\<rparr>"

definition reuse_of :: "pydict \<Rightarrow> validation_target \<Rightarrow> pydict \<Rightarrow> reuse_decision result" where
  "reuse_of receipt target v =
     (let receipt_id = text_of (py_get receipt ''receipt_id'');
          receipt_digest = optional_str (py_or (py_get receipt ''digest'') (py_get receipt ''receipt_digest''));
          reason = ''fresh successful receipt '' @ receipt_id @ '' covers '' @ vt_scope target
      in rbind (reuse_freshness_seconds v receipt) (\<lambda>n.
         Inr \<lparr>rd_mode = SKIP_FRESH_RECEIPT, rd_receipt_id = Some receipt_id, rd_receipt_digest = receipt_digest,
              rd_reason = Some reason,
              rd_cache_decision =
                [(''action'', PStr ''reuse''), (''freshness_seconds'', PInt n),
                 (''invalidate_on_authority_change'', PBool (invalidate_on_authority_change v)),
                 (''reason'', PStr reason), (''reason_code'', PStr ''fresh-receipt-reused''),
                 (''receipt_id'', PStr receipt_id)]\<rparr>))"

definition no_reuse :: "pydict \<Rightarrow> pydict list \<Rightarrow> reuse_decision" where
  "no_reuse v rejected =
     (let primary = (case List.find (\<lambda>r. py_get r ''code'' \<noteq> PStr ''validator-mismatch'') rejected of
            Some r \<Rightarrow> r | None \<Rightarrow> (case rejected of r # rs \<Rightarrow> r | [] \<Rightarrow> []))
      in run_decision
        [(''action'', PStr ''run''),
         (''invalidate_on_authority_change'', PBool (invalidate_on_authority_change v)),
         (''reason'', PStr (py_str (py_or (py_get primary ''reason'') (PStr ''no reusable receipt supplied'')))),
         (''reason_code'', PStr (py_str (py_or (py_get primary ''code'') (PStr ''no-reusable-receipt'')))),
         (''rejected_receipt_count'', PInt (int (length rejected))),
         (''rejected_receipts'', PList (map PDict (take 5 rejected)))])"

fun reuse_loop ::
  "pydict list \<Rightarrow> pydict list \<Rightarrow> string \<Rightarrow> validation_target \<Rightarrow> validation_tier \<Rightarrow> pydict \<Rightarrow> pydt \<Rightarrow> pydict \<Rightarrow> reuse_decision result" where
  "reuse_loop [] rejected validator_id target requested_tier v now m = Inr (no_reuse v rejected)"
| "reuse_loop (r # rs) rejected validator_id target requested_tier v now m =
     rbind (receipt_match_decision r validator_id target requested_tier v now m) (\<lambda>d. case d of
       Rejected rejection \<Rightarrow> reuse_loop rs (rejected @ [rejection]) validator_id target requested_tier v now m
     | Matches \<Rightarrow> reuse_of r target v)"

definition receipt_reuse_decision ::
  "pydict \<Rightarrow> validation_target \<Rightarrow> validation_tier \<Rightarrow> pydict list \<Rightarrow> pydt \<Rightarrow> pydict \<Rightarrow> reuse_decision result" where
  "receipt_reuse_decision v target requested_tier receipts now m =
     (if \<not> validator_allows_receipt_reuse v
      then Inr (run_decision [(''action'', PStr ''run''),
        (''reason'', PStr ''validator reuse_policy.safe_to_reuse is not true'')])
      else rbind (py_index v ''validator_id'') (\<lambda>i. rbind (need_str i) (\<lambda>i.
        reuse_loop (newest_receipts_first receipts) [] (py_strip i) target requested_tier v now m)))"

section \<open>Validator waivers\<close>

definition waiver_applies :: "string \<Rightarrow> pydt \<Rightarrow> pydict \<Rightarrow> bool" where
  "waiver_applies validator_id now w =
     (text_of (py_get w ''validator_id'') = validator_id \<and> optional_str (py_get w ''waiver_id'') \<noteq> None \<and>
      py_lower (py_strip (py_str (py_or (py_get w ''status'') (PStr ''approved'')))) \<in> set [''active'', ''approved'', ''current''] \<and>
      (case timestamp_of (py_get w ''expires_at'') of None \<Rightarrow> True | Some e \<Rightarrow> \<not> dt_less e now))"

definition valid_validator_waiver :: "pydict \<Rightarrow> pydict list \<Rightarrow> pydt \<Rightarrow> pydict option" where
  "valid_validator_waiver v waivers now =
     map_option (\<lambda>w.
       [(''expires_at'', case timestamp_of (py_get w ''expires_at'') of None \<Rightarrow> PNone | Some e \<Rightarrow> PStr (isoformat_z e)),
        (''waiver_id'', opt_val (optional_str (py_get w ''waiver_id'')))])
     (List.find (waiver_applies (text_of (py_get v ''validator_id'')) now)
       (sort_key (\<lambda>w. py_str (py_or (py_get w ''waiver_id'') (PStr []))) waivers))"

section \<open>A reused receipt is a good one\<close>

text \<open>What a receipt must be for a validator to be skipped on its account.\<close>

definition reusable_receipt ::
  "string \<Rightarrow> validation_target \<Rightarrow> validation_tier \<Rightarrow> pydict \<Rightarrow> pydt \<Rightarrow> pydict \<Rightarrow> pydict \<Rightarrow> bool" where
  "reusable_receipt validator_id target requested_tier v now m r =
     (text_of (py_get r ''validator_id'') = validator_id \<and>
      py_lower (text_of (py_get r ''status'')) \<in> set SUCCESSFUL_RECEIPT_STATUSES \<and>
      (\<exists>scopes candidates. receipt_scopes r = Inr scopes \<and> target_scope_candidates m target = Inr candidates \<and>
         receipt_covers r scopes target candidates) \<and>
      (\<exists>t. parse_tier (py_str (py_or (py_get r ''tier'') (PStr (tier_value DEFAULT_VALIDATION_TIER)))) = Some t \<and>
         requested_tier \<le> t) \<and>
      receipt_authority_refs_current r v m = Inr True \<and> receipt_is_fresh r v now = Inr True)"

lemma receipt_match_iff:
  "(receipt_match_decision r validator_id target requested_tier v now m = Inr Matches) =
     reusable_receipt validator_id target requested_tier v now m r"
  unfolding receipt_match_decision_def reusable_receipt_def Let_def
  by (auto split: option.splits if_splits simp: not_less)

lemma reuse_loop_skip:
  assumes "reuse_loop rs rejected validator_id target requested_tier v now m = Inr d"
    and "rd_mode d = SKIP_FRESH_RECEIPT"
  shows "\<exists>r \<in> set rs. reusable_receipt validator_id target requested_tier v now m r \<and> reuse_of r target v = Inr d"
  using assms
proof (induction rs arbitrary: rejected)
  case Nil
  then show ?case by (auto simp: no_reuse_def run_decision_def Let_def)
next
  case (Cons r rs)
  from Cons.prems(1) obtain x where x: "receipt_match_decision r validator_id target requested_tier v now m = Inr x"
    and rest: "(case x of Rejected rejection \<Rightarrow> reuse_loop rs (rejected @ [rejection]) validator_id target requested_tier v now m
      | Matches \<Rightarrow> reuse_of r target v) = Inr d" by auto
  show ?case
  proof (cases x)
    case Matches
    then show ?thesis using x rest receipt_match_iff by auto
  next
    case (Rejected q)
    with rest Cons.prems(2) show ?thesis using Cons.IH by auto
  qed
qed

lemma reuse_loop_run:
  assumes "reuse_loop rs rejected validator_id target requested_tier v now m = Inr d" and "rd_mode d = RUN"
  shows "\<forall>r \<in> set rs. \<not> reusable_receipt validator_id target requested_tier v now m r"
  using assms
proof (induction rs arbitrary: rejected)
  case (Cons r rs)
  from Cons.prems(1) obtain x where x: "receipt_match_decision r validator_id target requested_tier v now m = Inr x"
    and rest: "(case x of Rejected rejection \<Rightarrow> reuse_loop rs (rejected @ [rejection]) validator_id target requested_tier v now m
      | Matches \<Rightarrow> reuse_of r target v) = Inr d" by auto
  show ?case
  proof (cases x)
    case Matches
    then show ?thesis using rest Cons.prems(2) by (auto simp: reuse_of_def Let_def)
  next
    case (Rejected q)
    then have "\<not> reusable_receipt validator_id target requested_tier v now m r"
      using x receipt_match_iff [of r validator_id target requested_tier v now m] by auto
    with Rejected rest Cons.prems(2) show ?thesis using Cons.IH by auto
  qed
qed simp

end
