(* ===== verification/Validation_Planning.thy ===== *)
theory Validation_Planning
  imports Plan_Receipts Graph_Ingestion Performance_Budgets "HOL-Library.Multiset"
begin

text \<open>
  \<open>build_validation_plan\<close> of \<open>validation_planning.py\<close>: the plan for a manifest, a target
  and a tier. Every validator of the manifest is visited once, in the order of its id, and is
  suppressed, waived or selected; a release plan is blocked while an authority ref is stale.
\<close>

section \<open>Records\<close>

record validation_check =
  vc_cache_decision :: pydict
  vc_check_id :: string
  vc_check_type :: string
  vc_command :: string
  vc_execution_mode :: string
  vc_execution_policy :: pydict
  vc_owner_repo :: string
  vc_receipt_digest :: "string option"
  vc_receipt_id :: "string option"
  vc_required :: bool
  vc_reuse_reason :: "string option"
  vc_scopes :: "string list"
  vc_tier :: string
  vc_validator_id :: string
  vc_reason :: string

definition check_to_record :: "validation_check \<Rightarrow> pyval" where
  "check_to_record c = PDict
     [(''cache_decision'', PDict (vc_cache_decision c)), (''check_id'', PStr (vc_check_id c)),
      (''check_type'', PStr (vc_check_type c)), (''command'', PStr (vc_command c)),
      (''execution_mode'', PStr (vc_execution_mode c)), (''execution_policy'', PDict (vc_execution_policy c)),
      (''owner_repo'', PStr (vc_owner_repo c)), (''receipt_digest'', opt_val (vc_receipt_digest c)),
      (''receipt_id'', opt_val (vc_receipt_id c)), (''required'', PBool (vc_required c)),
      (''reuse_reason'', opt_val (vc_reuse_reason c)), (''scopes'', PList (map PStr (vc_scopes c))),
      (''tier'', PStr (vc_tier c)), (''validator_id'', PStr (vc_validator_id c)), (''reason'', PStr (vc_reason c))]"

record suppressed_validator =
  sv_validator_id :: pyval
  sv_reason :: string

definition suppressed_to_record :: "suppressed_validator \<Rightarrow> pyval" where
  "suppressed_to_record s = PDict [(''validator_id'', sv_validator_id s), (''reason'', PStr (sv_reason s))]"

record check_status =
  cs_owner_repo :: string
  cs_reason :: string
  cs_required :: bool
  cs_status :: string
  cs_validator_id :: string

definition status_to_record :: "check_status \<Rightarrow> pyval" where
  "status_to_record s = PDict
     [(''owner_repo'', PStr (cs_owner_repo s)), (''reason'', PStr (cs_reason s)), (''required'', PBool (cs_required s)),
      (''status'', PStr (cs_status s)), (''validator_id'', PStr (cs_validator_id s))]"

record planner_decision =
  pl_blocked_reasons :: "string list"
  pl_outcome :: string
  pl_reasons :: "string list"
  pl_requires_operator_review :: bool
  pl_suppressed_validators :: "suppressed_validator list"

definition planner_decision_to_record :: "planner_decision \<Rightarrow> pyval" where
  "planner_decision_to_record d = PDict
     [(''blocked_reasons'', PList (map PStr (pl_blocked_reasons d))), (''outcome'', PStr (pl_outcome d)),
      (''reasons'', PList (map PStr (pl_reasons d))), (''requires_operator_review'', PBool (pl_requires_operator_review d)),
      (''suppressed_validators'', PList (map suppressed_to_record (pl_suppressed_validators d)))]"

record validation_plan =
  vp_check_statuses :: "check_status list"
  vp_checks :: "validation_check list"
  vp_decision :: planner_decision
  vp_manifest_id :: pyval
  vp_performance_budget :: pyval
  vp_plan_id :: string
  vp_target :: validation_target
  vp_tier :: string

definition plan_to_record :: "validation_plan \<Rightarrow> pyval" where
  "plan_to_record p = PDict
     [(''check_statuses'', PList (map status_to_record (vp_check_statuses p))),
      (''checks'', PList (map check_to_record (vp_checks p))),
      (''decision'', planner_decision_to_record (vp_decision p)), (''manifest_id'', vp_manifest_id p),
      (''performance_budget'', vp_performance_budget p), (''plan_id'', PStr (vp_plan_id p)),
      (''target'', target_to_record (vp_target p)), (''tier'', PStr (vp_tier p))]"

section \<open>Selecting a validator\<close>

definition stripped_items :: "pyval \<Rightarrow> string list result" where
  "stripped_items v = rbind (py_iter v) (\<lambda>xs. Inr (map (\<lambda>x. py_strip (py_str x)) xs))"

definition scope_included :: "pyval \<Rightarrow> validation_target \<Rightarrow> validation_tier \<Rightarrow> pydict \<Rightarrow> bool result" where
  "scope_included validator_scopes target requested_tier m =
     (if requested_tier = FULL \<or> requested_tier = RELEASE then Inr True
      else rbind (stripped_items validator_scopes) (\<lambda>declared. rbind (target_scope_candidates m target) (\<lambda>candidates.
        Inr (scope_sets_match declared candidates \<or> ''workspace'' \<in> set declared))))"

definition selection_reason ::
  "pydict \<Rightarrow> validation_target \<Rightarrow> validation_tier \<Rightarrow> validation_tier \<Rightarrow> pydict \<Rightarrow> string result" where
  "selection_reason v target tier requested_tier m =
     rbind (py_index v ''scopes'') (\<lambda>raw. rbind (stripped_items raw) (\<lambda>declared.
     rbind (target_scope_candidates m target) (\<lambda>candidates.
     let matching = sorted_set (filter (\<lambda>d. list_ex (scope_matches d) candidates) declared) in
     Inr (if matching \<noteq> [] \<or> ''workspace'' \<in> set declared
          then if vt_target_type target = ''changed-file'' \<and> matching \<noteq> []
               then ''validator declares scope '' @ hd matching @ '' matching '' @ vt_scope target @ '' at '' @
                    tier_value tier @ '' tier''
               else ''validator declares scope for '' @ vt_scope target @ '' at '' @ tier_value tier @ '' tier''
          else if requested_tier = FULL \<or> requested_tier = RELEASE
          then tier_value requested_tier @ '' tier includes every manifest-declared validator''
          else ''validator selected for '' @ vt_scope target))))"

definition check_status_of :: "pydict \<Rightarrow> string \<Rightarrow> string \<Rightarrow> check_status" where
  "check_status_of v status reason =
     \<lparr>cs_owner_repo = text_of (py_get v ''owner_repo''), cs_reason = reason,
      cs_required = py_truthy (py_get_or (PBool True) v ''required''), cs_status = status,
      cs_validator_id = text_of (py_get v ''validator_id'')\<rparr>"

definition replace_status :: "check_status \<Rightarrow> string \<Rightarrow> string \<Rightarrow> check_status" where
  "replace_status s new_status reason = s\<lparr>cs_status := new_status, cs_reason := reason\<rparr>"

definition selected_check_status :: "validation_check \<Rightarrow> pydict \<Rightarrow> check_status" where
  "selected_check_status c m =
     (let reason_code = py_str (py_or (py_get (vc_cache_decision c) ''reason_code'') (PStr []));
          status = (if reason_code \<in> {''authority-digest-mismatch'', ''receipt-stale''} then ''stale''
                    else if reason_code = ''receipt-failed'' then ''failed''
                    else if vc_owner_repo c \<noteq> text_of (py_get m ''owner_repo'') then ''external-owner-required''
                    else ''selected'')
      in \<lparr>cs_owner_repo = vc_owner_repo c,
          cs_reason = py_str (py_or (py_get (vc_cache_decision c) ''reason'') (PStr (vc_reason c))),
          cs_required = vc_required c, cs_status = status, cs_validator_id = vc_validator_id c\<rparr>)"

definition bounded_int :: "pyval \<Rightarrow> int \<Rightarrow> int option result" where
  "bounded_int value minimum =
     (if value = PNone then Inr None
      else rbind (int_or_none value) (\<lambda>r. Inr (case r of None \<Rightarrow> None
        | Some parsed \<Rightarrow> if parsed \<ge> minimum then Some parsed else None)))"

definition string_list :: "pyval \<Rightarrow> string list" where
  "string_list value = (case (case value of PStr t \<Rightarrow> PList [PStr t] | _ \<Rightarrow> value) of
     PList xs \<Rightarrow> sorted_set (filter (\<lambda>t. t \<noteq> []) (map (\<lambda>x. py_strip (py_str x)) xs))
   | _ \<Rightarrow> [])"

text \<open>The four kinds of field the execution policy keeps, each in its own step.\<close>

definition policy_int :: "pydict \<Rightarrow> string \<times> int \<Rightarrow> pydict \<Rightarrow> pydict result" where
  "policy_int raw = (\<lambda>(f, minimum) policy. rbind (bounded_int (py_get raw f) minimum) (\<lambda>r.
     Inr (case r of None \<Rightarrow> policy | Some i \<Rightarrow> assoc_set f (PInt i) policy)))"

definition policy_bool :: "pydict \<Rightarrow> string \<Rightarrow> pydict \<Rightarrow> pydict" where
  "policy_bool raw f policy = (case map_of raw f of None \<Rightarrow> policy | Some v \<Rightarrow> assoc_set f (PBool (py_truthy v)) policy)"

definition policy_text :: "pydict \<Rightarrow> string \<Rightarrow> pydict \<Rightarrow> pydict" where
  "policy_text raw f policy = (case optional_str (py_get raw f) of None \<Rightarrow> policy | Some t \<Rightarrow> assoc_set f (PStr t) policy)"

definition policy_strings :: "pydict \<Rightarrow> string \<Rightarrow> pydict \<Rightarrow> pydict" where
  "policy_strings raw f policy = (let xs = string_list (py_get raw f) in
     if xs = [] then policy else assoc_set f (PList (map PStr xs)) policy)"

definition validator_execution_policy :: "pydict \<Rightarrow> pydict result" where
  "validator_execution_policy v = (case py_get v ''execution_policy'' of
     PDict raw \<Rightarrow>
       rbind (rfold (policy_int raw) [(''timeout_seconds'', 1), (''retry_count'', 0), (''output_budget_bytes'', 0),
         (''max_duration_ms'', 1)] []) (\<lambda>policy.
       let policy = fold (policy_bool raw) [''fail_on_output_budget_exceeded'', ''operator_approved''] policy;
           policy = fold (policy_text raw) [''invocation_class'', ''profile'', ''safety_class'',
             ''self_validation_role'', ''working_directory''] policy;
           policy = policy_bool raw ''prefer_current_python'' policy
       in Inr (fold (policy_strings raw) [''allowed_env_vars'', ''allowed_executables'', ''allowed_roots'',
         ''blocked_env_vars''] policy))
   | _ \<Rightarrow> Inr [])"

definition check_id :: "string \<Rightarrow> string \<Rightarrow> validation_tier \<Rightarrow> string" where
  "check_id validator_id target_scope tier =
     ''check:'' @ take 16 (sha256_hex (utf8 (validator_id @ ''|'' @ target_scope @ ''|'' @ tier_value tier)))"

definition stripped_field :: "pydict \<Rightarrow> string \<Rightarrow> string result" where
  "stripped_field v f = rbind (py_index v f) (\<lambda>x. rbind (need_str x) (\<lambda>t. Inr (py_strip t)))"

definition validation_check_of ::
  "pydict \<Rightarrow> validation_target \<Rightarrow> validation_tier \<Rightarrow> validation_tier \<Rightarrow> pydict \<Rightarrow> pydict list \<Rightarrow> pydt \<Rightarrow> validation_check result" where
  "validation_check_of v target tier requested_tier m receipts now =
     rbind (stripped_field v ''validator_id'') (\<lambda>validator_id.
     rbind (receipt_reuse_decision v target requested_tier receipts now m) (\<lambda>d.
     rbind (validator_check_type v) (\<lambda>check_type.
     rbind (stripped_field v ''command'') (\<lambda>template.
     rbind (render_validator_command template target) (\<lambda>command.
     rbind (validator_execution_policy v) (\<lambda>policy.
     rbind (stripped_field v ''owner_repo'') (\<lambda>owner_repo.
     rbind (selection_reason v target tier requested_tier m) (\<lambda>reason.
     rbind (py_index v ''scopes'') (\<lambda>raw. rbind (stripped_items raw) (\<lambda>scopes.
     Inr \<lparr>vc_cache_decision = rd_cache_decision d, vc_check_id = check_id validator_id (vt_scope target) requested_tier,
          vc_check_type = check_type_value check_type, vc_command = command,
          vc_execution_mode = mode_value (rd_mode d), vc_execution_policy = policy, vc_owner_repo = owner_repo,
          vc_receipt_digest = rd_receipt_digest d, vc_receipt_id = rd_receipt_id d,
          vc_required = py_truthy (py_get_or (PBool True) v ''required''), vc_reuse_reason = rd_reason d,
          vc_scopes = sort scopes, vc_tier = tier_value tier, vc_validator_id = validator_id,
          vc_reason = reason\<rparr>))))))))))"

section \<open>The loop over the validators\<close>

record plan_state =
  ps_selected :: "validation_check list"
  ps_suppressed :: "suppressed_validator list"
  ps_statuses :: "check_status list"

definition suppress :: "pydict \<Rightarrow> string \<Rightarrow> plan_state \<Rightarrow> plan_state result" where
  "suppress v reason s = rbind (py_index v ''validator_id'') (\<lambda>i.
     Inr (s\<lparr>ps_suppressed := ps_suppressed s @ [\<lparr>sv_validator_id = i, sv_reason = reason\<rparr>],
            ps_statuses := ps_statuses s @ [check_status_of v ''suppressed'' reason]\<rparr>))"

definition plan_validator ::
  "pydict \<Rightarrow> validation_target \<Rightarrow> validation_tier \<Rightarrow> pydict list \<Rightarrow> pydict list \<Rightarrow> pydt \<Rightarrow> pydict \<Rightarrow> plan_state \<Rightarrow> plan_state result" where
  "plan_validator m target requested_tier receipts waivers now v s =
     rbind (validator_tier v) (\<lambda>tier.
     if \<not> tier_included tier requested_tier
     then suppress v (''validator tier '' @ tier_value tier @ '' is above requested tier '' @ tier_value requested_tier) s
     else rbind (py_index v ''scopes'') (\<lambda>scopes. rbind (scope_included scopes target requested_tier m) (\<lambda>included.
     if \<not> included then suppress v (''validator does not declare a scope matching '' @ vt_scope target) s
     else rbind (py_index v ''command'') (\<lambda>command.
     case command_template_target_error (py_str command) target of
       Some template_error \<Rightarrow> suppress v template_error s
     | None \<Rightarrow> (case valid_validator_waiver v waivers now of
         Some w \<Rightarrow> rbind (py_index w ''waiver_id'') (\<lambda>i. Inr (s\<lparr>ps_statuses := ps_statuses s @
           [check_status_of v ''waived'' (''validator is covered by waiver '' @ py_str i)]\<rparr>))
       | None \<Rightarrow> rbind (validation_check_of v target tier requested_tier m receipts now) (\<lambda>c.
           Inr (s\<lparr>ps_selected := ps_selected s @ [c],
                  ps_statuses := ps_statuses s @ [selected_check_status c m]\<rparr>)))))))"

definition validator_sort_key :: "pydict \<Rightarrow> string" where
  "validator_sort_key v = (case py_get v ''validator_id'' of PStr t \<Rightarrow> t | _ \<Rightarrow> [])"

definition sorted_validators :: "pydict \<Rightarrow> pydict list result" where
  "sorted_validators m = rbind (sub_list (PDict m) ''validators'') (\<lambda>xs. rbind (rmapM need_dict xs) (\<lambda>vs.
     rbind (rmapM (\<lambda>v. rbind (py_index v ''validator_id'') need_str) vs) (\<lambda>ids. Inr (sort_key validator_sort_key vs))))"

section \<open>The decision\<close>

definition decision_reasons ::
  "pydict \<Rightarrow> validation_target \<Rightarrow> validation_tier \<Rightarrow> validation_check list \<Rightarrow> bool \<Rightarrow> string list result" where
  "decision_reasons m target requested_tier checks target_declared =
     (let reused = int (length (filter (\<lambda>c. vc_execution_mode c = mode_value SKIP_FRESH_RECEIPT) checks));
          base = [''target='' @ vt_scope target, ''tier='' @ tier_value requested_tier,
                  ''selected_checks='' @ int_to_str (int (length checks))] @
                 (if reused \<noteq> 0 then [''fresh_receipts_applied='' @ int_to_str reused] else [])
      in rbind (if vt_target_type target = ''changed-file''
                then rbind (target_scope_candidates m target) (\<lambda>candidates.
                  let expanded = sorted_set (filter (\<lambda>s. s \<noteq> vt_scope target) candidates) in
                  Inr (if expanded \<noteq> [] then [''changed-file target expands to '' @ py_join '', '' expanded] else []))
                else Inr []) (\<lambda>expansion.
         Inr (base @ expansion @
           (if \<not> target_declared then [''target scope is not declared by the manifest graph''] else []) @
           (if requested_tier = FULL \<or> requested_tier = RELEASE
            then [''full-surface tier includes every manifest-declared validator''] else []))))"

definition stale_authority :: "pydict \<Rightarrow> bool" where
  "stale_authority r =
     (py_lower (py_strip (py_str (py_or (py_get r ''freshness_status'') (PStr ''unknown'')))) \<noteq> ''current'')"

definition blocked_reasons :: "pydict \<Rightarrow> validation_tier \<Rightarrow> string list result" where
  "blocked_reasons m requested_tier =
     (if requested_tier \<noteq> RELEASE then Inr []
      else rbind (sub_list (PDict m) ''authority_refs'') (\<lambda>xs. rbind (rmapM need_dict xs) (\<lambda>refs.
        rbind (rmapM (\<lambda>r. rbind (py_index r ''authority_id'') need_str) (filter stale_authority refs)) (\<lambda>stale.
        Inr (if stale = [] then []
             else [''release tier requires current authority refs: '' @ py_join '', '' (sort stale)])))))"

definition manifest_scopes :: "pydict \<Rightarrow> string list result" where
  "manifest_scopes m =
     rbind (dict_items m ''repos'') (\<lambda>repos. rbind (rmapM impact_scopes repos) (\<lambda>rs.
     rbind (dict_items m ''components'') (\<lambda>components. rbind (rmapM impact_scopes components) (\<lambda>cs.
     rbind (dict_items m ''validators'') (\<lambda>validators.
     rbind (rmapM (\<lambda>v. rbind (py_index v ''scopes'') stripped_items) validators) (\<lambda>vs.
     Inr (concat rs @ concat cs @ concat vs)))))))"

definition declared_scope_ids :: "pydict \<Rightarrow> manifest_graph \<Rightarrow> string list result" where
  "declared_scope_ids m g = rbind (manifest_scopes m) (\<lambda>scopes. Inr (map gn_node_id (mg_nodes g) @ scopes))"

definition plan_id :: "pyval \<Rightarrow> string \<Rightarrow> validation_tier \<Rightarrow> validation_check list \<Rightarrow> planner_decision \<Rightarrow>
  check_status list \<Rightarrow> pyval \<Rightarrow> string" where
  "plan_id manifest_id target_scope tier checks d statuses performance_budget =
     ''validation-plan:'' @ take 24 (sha256_hex (json_default (PDict
       [(''blocked_reasons'', PList (map PStr (pl_blocked_reasons d))),
        (''check_statuses'', PList (map (\<lambda>s. PDict [(''status'', PStr (cs_status s)),
           (''validator_id'', PStr (cs_validator_id s))]) statuses)),
        (''checks'', PList (map (\<lambda>c. PDict [(''check_id'', PStr (vc_check_id c)),
           (''cache_decision'', PDict (vc_cache_decision c)), (''execution_mode'', PStr (vc_execution_mode c)),
           (''execution_policy'', PDict (vc_execution_policy c)), (''receipt_id'', opt_val (vc_receipt_id c))]) checks)),
        (''manifest_id'', manifest_id), (''performance_budget'', performance_budget),
        (''target_scope'', PStr target_scope), (''tier'', PStr (tier_value tier))])))"

definition BLOCKABLE_STATUSES :: "string list" where
  "BLOCKABLE_STATUSES = [''selected'', ''stale'', ''failed'', ''external-owner-required'']"

definition plan_outcome :: "string list \<Rightarrow> plan_state \<Rightarrow> string \<times> bool \<times> check_status list" where
  "plan_outcome blocked s =
     (if blocked \<noteq> []
      then (''blocked'', True, map (\<lambda>st. if cs_status st \<in> set BLOCKABLE_STATUSES
              then replace_status st ''blocked'' (py_join ''; '' blocked) else st) (ps_statuses s))
      else if ps_selected s \<noteq> [] \<or> list_ex (\<lambda>st. cs_status st = ''waived'') (ps_statuses s)
      then (''planned'', False, ps_statuses s)
      else (''no_matching_validators'', True, ps_statuses s))"

definition plan_from_manifest ::
  "pydict \<Rightarrow> manifest_graph \<Rightarrow> validation_target \<Rightarrow> validation_tier \<Rightarrow> pydict list \<Rightarrow> pydict list \<Rightarrow> pydt \<Rightarrow> validation_plan result" where
  "plan_from_manifest m graph target requested_tier receipts waivers now =
     rbind (declared_scope_ids m graph) (\<lambda>declared. rbind (target_scope_candidates m target) (\<lambda>candidates.
     let target_declared = (scope_sets_match declared candidates \<or> vt_target_type target = ''workspace'') in
     rbind (sorted_validators m) (\<lambda>validators.
     rbind (rfold (plan_validator m target requested_tier receipts waivers now) validators
       \<lparr>ps_selected = [], ps_suppressed = [], ps_statuses = []\<rparr>) (\<lambda>s.
     rbind (decision_reasons m target requested_tier (ps_selected s) target_declared) (\<lambda>reasons.
     rbind (blocked_reasons m requested_tier) (\<lambda>blocked.
     case plan_outcome blocked s of (outcome, requires_review, statuses) \<Rightarrow>
     let decision = \<lparr>pl_blocked_reasons = blocked, pl_outcome = outcome, pl_reasons = reasons,
           pl_requires_operator_review = requires_review, pl_suppressed_validators = ps_suppressed s\<rparr> in
     rbind (evaluate_validation_plan_budget DEFAULT_PROFILE (int (length (ps_selected s))) (tier_value requested_tier)) (\<lambda>b.
     let performance_budget = budget_decision_to_record b in
     rbind (py_index m ''manifest_id'') (\<lambda>manifest_id.
     Inr \<lparr>vp_check_statuses = statuses, vp_checks = ps_selected s, vp_decision = decision,
          vp_manifest_id = manifest_id, vp_performance_budget = performance_budget,
          vp_plan_id = plan_id manifest_id (vt_scope target) requested_tier (ps_selected s) decision statuses performance_budget,
          vp_target = target, vp_tier = tier_value requested_tier\<rparr>))))))))"

definition build_validation_plan ::
  "pyval \<Rightarrow> string \<Rightarrow> string \<Rightarrow> pydict list \<Rightarrow> pydict list \<Rightarrow> pydt \<Rightarrow> now_arg \<Rightarrow> validation_plan result" where
  "build_validation_plan manifest target_scope tier receipts waivers clock now =
     (let errors = validate_governance_manifest manifest in
      if errors \<noteq> [] then Inl (ValueError (''manifest is invalid: '' @ py_join ''; '' errors))
      else rbind (coerce_tier tier) (\<lambda>requested_tier.
        rbind (coerce_timestamp ''invalid planning timestamp '' clock now) (\<lambda>planning_time.
        rbind (normalize_validation_target target_scope) (\<lambda>target.
        rbind (build_manifest_graph manifest) (\<lambda>graph. rbind (need_dict manifest) (\<lambda>m.
        plan_from_manifest m graph target requested_tier receipts waivers planning_time))))))"

definition validation_target_scope_candidates :: "pyval \<Rightarrow> string \<Rightarrow> string list result" where
  "validation_target_scope_candidates manifest target_scope =
     (let errors = validate_governance_manifest manifest in
      if errors \<noteq> [] then Inl (ValueError (''manifest is invalid: '' @ py_join ''; '' errors))
      else rbind (normalize_validation_target target_scope) (\<lambda>target. rbind (need_dict manifest) (\<lambda>m.
        rbind (target_scope_candidates m target) (\<lambda>candidates. Inr (sorted_set candidates)))))"

section \<open>The verdict on one validator\<close>

text \<open>The loop body without its state: what is decided of one validator, from the manifest, the
  request and the validator alone.\<close>

datatype verdict = Suppressed pyval string | Waived string | Selected validation_check

definition suppressed_verdict :: "pydict \<Rightarrow> string \<Rightarrow> verdict result" where
  "suppressed_verdict v reason = rbind (py_index v ''validator_id'') (\<lambda>i. Inr (Suppressed i reason))"

definition validator_verdict ::
  "pydict \<Rightarrow> validation_target \<Rightarrow> validation_tier \<Rightarrow> pydict list \<Rightarrow> pydict list \<Rightarrow> pydt \<Rightarrow> pydict \<Rightarrow> verdict result" where
  "validator_verdict m target requested_tier receipts waivers now v =
     rbind (validator_tier v) (\<lambda>tier.
     if \<not> tier_included tier requested_tier
     then suppressed_verdict v (''validator tier '' @ tier_value tier @ '' is above requested tier '' @ tier_value requested_tier)
     else rbind (py_index v ''scopes'') (\<lambda>scopes. rbind (scope_included scopes target requested_tier m) (\<lambda>included.
     if \<not> included then suppressed_verdict v (''validator does not declare a scope matching '' @ vt_scope target)
     else rbind (py_index v ''command'') (\<lambda>command.
     case command_template_target_error (py_str command) target of
       Some template_error \<Rightarrow> suppressed_verdict v template_error
     | None \<Rightarrow> (case valid_validator_waiver v waivers now of
         Some w \<Rightarrow> rbind (py_index w ''waiver_id'') (\<lambda>i. Inr (Waived (py_str i)))
       | None \<Rightarrow> rbind (validation_check_of v target tier requested_tier m receipts now) (\<lambda>c. Inr (Selected c)))))))"

fun verdict_status :: "pydict \<Rightarrow> pydict \<Rightarrow> verdict \<Rightarrow> check_status" where
  "verdict_status m v (Suppressed i reason) = check_status_of v ''suppressed'' reason"
| "verdict_status m v (Waived i) = check_status_of v ''waived'' (''validator is covered by waiver '' @ i)"
| "verdict_status m v (Selected c) = selected_check_status c m"

fun verdict_checks :: "verdict \<Rightarrow> validation_check list" where
  "verdict_checks (Selected c) = [c]"
| "verdict_checks _ = []"

fun verdict_suppressed :: "verdict \<Rightarrow> suppressed_validator list" where
  "verdict_suppressed (Suppressed i reason) = [\<lparr>sv_validator_id = i, sv_reason = reason\<rparr>]"
| "verdict_suppressed _ = []"

definition apply_verdict :: "pydict \<Rightarrow> pydict \<Rightarrow> verdict \<Rightarrow> plan_state \<Rightarrow> plan_state" where
  "apply_verdict m v d s =
     \<lparr>ps_selected = ps_selected s @ verdict_checks d, ps_suppressed = ps_suppressed s @ verdict_suppressed d,
      ps_statuses = ps_statuses s @ [verdict_status m v d]\<rparr>"

lemma suppress_verdict:
  "suppress v reason s = rbind (suppressed_verdict v reason) (\<lambda>d. Inr (apply_verdict m v d s))"
  by (cases "py_index v ''validator_id''") (simp_all add: suppress_def suppressed_verdict_def apply_verdict_def)

lemma rbind_assoc: "rbind (rbind x f) g = rbind x (\<lambda>y. rbind (f y) g)"
  by (cases x) auto

lemma plan_validator_verdict:
  "plan_validator m target requested_tier receipts waivers now v s =
     rbind (validator_verdict m target requested_tier receipts waivers now v) (\<lambda>d. Inr (apply_verdict m v d s))"
proof -
  have "apply_verdict m v (Waived i) s = s\<lparr>ps_statuses := ps_statuses s @ [verdict_status m v (Waived i)]\<rparr>" for i
    by (simp add: apply_verdict_def)
  moreover have "apply_verdict m v (Selected c) s =
      s\<lparr>ps_selected := ps_selected s @ [c], ps_statuses := ps_statuses s @ [selected_check_status c m]\<rparr>" for c
    by (simp add: apply_verdict_def)
  ultimately show ?thesis
    unfolding plan_validator_def validator_verdict_def rbind_assoc if_distrib [of "\<lambda>x. rbind x _"]
      suppress_verdict [of v _ s m] option.case_distrib [of "\<lambda>x. rbind x _"]
    by (simp only: rbind_assoc rbind_simps verdict_status.simps)
qed

lemma plan_loop_verdicts:
  "rfold (plan_validator m target requested_tier receipts waivers now) vs s =
     rbind (rmapM (validator_verdict m target requested_tier receipts waivers now) vs) (\<lambda>ds.
       Inr \<lparr>ps_selected = ps_selected s @ concat (map verdict_checks ds),
            ps_suppressed = ps_suppressed s @ concat (map verdict_suppressed ds),
            ps_statuses = ps_statuses s @ map2 (verdict_status m) vs ds\<rparr>)"
proof (induction vs arbitrary: s)
  case (Cons v vs)
  show ?case
  proof (cases "validator_verdict m target requested_tier receipts waivers now v")
    case (Inr d)
    then show ?thesis
      by (cases "rmapM (validator_verdict m target requested_tier receipts waivers now) vs")
        (simp_all add: plan_validator_verdict [where v = v and s = s] Cons apply_verdict_def)
  qed (simp add: plan_validator_verdict [where v = v and s = s])
qed simp

section \<open>What a plan is made of\<close>

definition planned_verdicts ::
  "pydict \<Rightarrow> validation_target \<Rightarrow> validation_tier \<Rightarrow> pydict list \<Rightarrow> pydict list \<Rightarrow> pydt \<Rightarrow> (pydict list \<times> verdict list) result" where
  "planned_verdicts m target requested_tier receipts waivers now =
     rbind (sorted_validators m) (\<lambda>vs.
     rbind (rmapM (validator_verdict m target requested_tier receipts waivers now) vs) (\<lambda>ds. Inr (vs, ds)))"

lemma plan_from_manifest_facts:
  assumes "plan_from_manifest m graph target rt receipts waivers now = Inr p"
  obtains vs ds blocked where "planned_verdicts m target rt receipts waivers now = Inr (vs, ds)"
    "blocked_reasons m rt = Inr blocked" "vp_checks p = concat (map verdict_checks ds)"
    "pl_suppressed_validators (vp_decision p) = concat (map verdict_suppressed ds)"
    "pl_blocked_reasons (vp_decision p) = blocked"
    "(pl_outcome (vp_decision p), pl_requires_operator_review (vp_decision p), vp_check_statuses p) =
       plan_outcome blocked \<lparr>ps_selected = concat (map verdict_checks ds),
         ps_suppressed = concat (map verdict_suppressed ds), ps_statuses = map2 (verdict_status m) vs ds\<rparr>"
    "vp_tier p = tier_value rt" "vp_target p = target"
proof -
  obtain vs where vs: "sorted_validators m = Inr vs"
    using assms by (auto simp: plan_from_manifest_def Let_def)
  obtain ds where ds: "rmapM (validator_verdict m target rt receipts waivers now) vs = Inr ds"
    using assms vs by (auto simp: plan_from_manifest_def Let_def plan_loop_verdicts)
  obtain blocked where blocked: "blocked_reasons m rt = Inr blocked"
    using assms by (auto simp: plan_from_manifest_def Let_def)
  let ?s = "\<lparr>ps_selected = concat (map verdict_checks ds),
         ps_suppressed = concat (map verdict_suppressed ds), ps_statuses = map2 (verdict_status m) vs ds\<rparr>"
  obtain out review statuses where out: "plan_outcome blocked ?s = (out, review, statuses)" by (cases "plan_outcome blocked ?s") auto
  have "vp_checks p = concat (map verdict_checks ds) \<and>
      pl_suppressed_validators (vp_decision p) = concat (map verdict_suppressed ds) \<and>
      pl_blocked_reasons (vp_decision p) = blocked \<and>
      (pl_outcome (vp_decision p), pl_requires_operator_review (vp_decision p), vp_check_statuses p) = plan_outcome blocked ?s \<and>
      vp_tier p = tier_value rt \<and> vp_target p = target"
    using assms by (auto simp: plan_from_manifest_def Let_def plan_loop_verdicts vs ds blocked out)
  then show thesis using vs ds blocked by (intro that [of vs ds blocked]) (simp_all add: planned_verdicts_def)
qed

lemma build_plan_facts:
  assumes "build_validation_plan x scope tier receipts waivers clock now = Inr p"
  obtains m rt t target graph where "x = PDict m" "manifest_valid x" "coerce_tier tier = Inr rt"
    "coerce_timestamp ''invalid planning timestamp '' clock now = Inr t"
    "normalize_validation_target scope = Inr target" "build_manifest_graph x = Inr graph"
    "plan_from_manifest m graph target rt receipts waivers t = Inr p"
proof -
  from assms have valid: "manifest_valid x"
    by (auto simp: build_validation_plan_def Let_def manifest_valid_def split: if_splits)
  then obtain m where x: "x = PDict m" using manifest_valid_dict by blast
  from assms valid x obtain rt t target graph where "coerce_tier tier = Inr rt"
    "coerce_timestamp ''invalid planning timestamp '' clock now = Inr t"
    "normalize_validation_target scope = Inr target" "build_manifest_graph x = Inr graph"
    "plan_from_manifest m graph target rt receipts waivers t = Inr p"
    by (auto simp: build_validation_plan_def Let_def manifest_valid_def)
  then show thesis using that x valid by blast
qed

lemma text_of_PStr [simp]: "text_of (PStr t) = py_strip t"
  by (simp add: text_of_def py_or_def)

lemma verdict_Inr_length: "planned_verdicts m target rt receipts waivers now = Inr (vs, ds) \<Longrightarrow> length ds = length vs"
  by (auto simp: planned_verdicts_def dest: rmapM_length)

lemma verdict_status_id:
  assumes "validator_verdict m target rt receipts waivers now v = Inr d"
  shows "cs_validator_id (verdict_status m v d) = text_of (py_get v ''validator_id'')"
proof (cases d)
  case (Selected c)
  with assms obtain tier where "validation_check_of v target tier rt m receipts now = Inr c"
    by (auto simp: validator_verdict_def suppressed_verdict_def split: if_splits option.splits)
  then have "stripped_field v ''validator_id'' = Inr (vc_validator_id c)"
    by (auto simp: validation_check_of_def)
  then show ?thesis using Selected
    by (auto simp: selected_check_status_def Let_def stripped_field_def dest: py_index_get_Inr)
qed (simp_all add: check_status_of_def)

lemma planned_status_ids:
  assumes "planned_verdicts m target rt receipts waivers now = Inr (vs, ds)"
  shows "map cs_validator_id (map2 (verdict_status m) vs ds) = map (\<lambda>v. text_of (py_get v ''validator_id'')) vs"
proof -
  have "rmapM (validator_verdict m target rt receipts waivers now) vs = Inr ds"
    using assms by (auto simp: planned_verdicts_def)
  then have "list_all2 (\<lambda>v d. validator_verdict m target rt receipts waivers now v = Inr d) vs ds"
    by (simp add: rmapM_Inr_iff)
  then show ?thesis by (induction vs ds rule: list_all2_induct) (simp_all add: verdict_status_id)
qed

lemma plan_outcome_ids:
  assumes "plan_outcome blocked s = (out, review, statuses)"
  shows "map cs_validator_id statuses = map cs_validator_id (ps_statuses s)"
  using assms by (auto simp: plan_outcome_def replace_status_def split: if_splits)

lemma rmapM_need_dict: "(rmapM need_dict xs = Inr ds) = (xs = map PDict ds)"
  by (induction xs arbitrary: ds) (auto simp: Cons_eq_map_conv)

lemma sorted_validators_facts:
  assumes "manifest_valid (PDict m)" and "sorted_validators m = Inr vs"
  shows "mset (map PDict vs) = mset (section_items m Validators)" "sorted (map validator_sort_key vs)"
proof -
  obtain ws where "section_items m Validators = map PDict ws" "vs = sort_key validator_sort_key ws"
    using assms by (auto simp: sorted_validators_def sub_lists rmapM_need_dict)
  then show "mset (map PDict vs) = mset (section_items m Validators)" "sorted (map validator_sort_key vs)"
    by simp_all
qed

lemma planned_vs: "planned_verdicts m target rt receipts waivers now = Inr (vs, ds) \<Longrightarrow> sorted_validators m = Inr vs"
  by (auto simp: planned_verdicts_def)

lemma planned_verdict:
  assumes "planned_verdicts m target rt receipts waivers now = Inr (vs, ds)" and "(v, d) \<in> set (zip vs ds)"
  shows "validator_verdict m target rt receipts waivers now v = Inr d"
proof -
  have "list_all2 (\<lambda>v d. validator_verdict m target rt receipts waivers now v = Inr d) vs ds"
    using assms(1) by (auto simp: planned_verdicts_def rmapM_Inr_iff)
  with assms(2) show ?thesis by (auto simp: list_all2_iff)
qed

lemma item_id_text:
  "manifest_valid (PDict m) \<Longrightarrow> PDict v \<in> set (section_items m Validators) \<Longrightarrow>
     item_id ''validator_id'' (PDict v) = text_of (py_get v ''validator_id'')"
proof -
  assume "manifest_valid (PDict m)" "PDict v \<in> set (section_items m Validators)"
  then have "item_ok Validators (declared_ids m) (PDict v)"
    using valid_section [of m Validators] by (simp add: list_all_iff)
  then obtain t where "py_index v ''validator_id'' = Inr (PStr t)"
    using item_ok_text [of Validators _ "PDict v" "''validator_id''"] by auto
  then show ?thesis by (auto simp: item_id_def dest: py_index_get_Inr)
qed

lemma plan_status_ids:
  assumes valid: "manifest_valid (PDict m)" and "plan_from_manifest m graph target rt receipts waivers now = Inr p"
  shows "mset (map cs_validator_id (vp_check_statuses p)) = mset (section_ids m Validators)"
proof -
  from assms(2) obtain vs ds blocked where pv: "planned_verdicts m target rt receipts waivers now = Inr (vs, ds)"
    and out: "(pl_outcome (vp_decision p), pl_requires_operator_review (vp_decision p), vp_check_statuses p) =
       plan_outcome blocked \<lparr>ps_selected = concat (map verdict_checks ds),
         ps_suppressed = concat (map verdict_suppressed ds), ps_statuses = map2 (verdict_status m) vs ds\<rparr>"
    by (rule plan_from_manifest_facts)
  have ids: "map cs_validator_id (vp_check_statuses p) = map (\<lambda>v. text_of (py_get v ''validator_id'')) vs"
    using plan_outcome_ids [OF out [symmetric]] planned_status_ids [OF pv] by simp
  note perm = sorted_validators_facts(1) [OF valid planned_vs [OF pv]]
  have "PDict v \<in> set (section_items m Validators)" if "v \<in> set vs" for v
    using that mset_eq_setD [OF perm] by auto
  then have "map (\<lambda>v. text_of (py_get v ''validator_id'')) vs = map (item_id ''validator_id'') (map PDict vs)"
    using item_id_text [OF valid] by simp
  then have "mset (map cs_validator_id (vp_check_statuses p)) = image_mset (item_id ''validator_id'') (mset (map PDict vs))"
    unfolding ids by (simp only: mset_map)
  then show ?thesis unfolding perm by (simp add: section_ids_def)
qed

text \<open>The status of a verdict says whether it selects a check.\<close>

definition left_out :: "check_status \<Rightarrow> bool" where
  "left_out st = (cs_status st \<in> {''suppressed'', ''waived''})"

lemma selected_status_values: "cs_status (selected_check_status c m) \<in> set BLOCKABLE_STATUSES"
  by (simp add: selected_check_status_def BLOCKABLE_STATUSES_def Let_def)

lemma blockable_not_left_out: "cs_status st \<in> set BLOCKABLE_STATUSES \<Longrightarrow> \<not> left_out st"
  by (auto simp: BLOCKABLE_STATUSES_def left_out_def)

lemma verdict_left_out: "left_out (verdict_status m v d) = (verdict_checks d = [])"
proof (cases d)
  case (Selected c)
  then show ?thesis using blockable_not_left_out [OF selected_status_values [of c m]] by simp
qed (simp_all add: check_status_of_def left_out_def)

lemma verdict_check_id:
  "verdict_checks d = [c] \<Longrightarrow> cs_validator_id (verdict_status m v d) = vc_validator_id c"
  by (cases d) (auto simp: selected_check_status_def Let_def)

lemma checks_of_statuses:
  "length vs = length ds \<Longrightarrow>
     map vc_validator_id (concat (map verdict_checks ds)) =
     map cs_validator_id (filter (\<lambda>st. \<not> left_out st) (map2 (verdict_status m) vs ds))"
proof (induction vs ds rule: list_induct2)
  case (Cons v vs d ds)
  show ?case
  proof (cases "verdict_checks d")
    case Nil
    then show ?thesis using Cons.IH by (simp add: verdict_left_out)
  next
    case (Cons c cs)
    then have "verdict_checks d = [c]" by (cases d) simp_all
    then show ?thesis using Cons.IH by (simp add: verdict_left_out verdict_check_id)
  qed
qed simp

lemma plan_outcome_left_out:
  assumes "plan_outcome blocked s = (out, review, statuses)"
  shows "map cs_validator_id (filter (\<lambda>st. \<not> left_out st) statuses) =
    map cs_validator_id (filter (\<lambda>st. \<not> left_out st) (ps_statuses s))"
proof -
  have "map cs_validator_id (filter (\<lambda>st. \<not> left_out st)
      (map (\<lambda>st. if cs_status st \<in> set BLOCKABLE_STATUSES then replace_status st ''blocked'' r else st) sts)) =
      map cs_validator_id (filter (\<lambda>st. \<not> left_out st) sts)" for sts r
    by (induction sts) (auto simp: replace_status_def left_out_def BLOCKABLE_STATUSES_def)
  then show ?thesis using assms by (auto simp: plan_outcome_def split: if_splits)
qed

lemma blocked_reasons_iff:
  assumes valid: "manifest_valid (PDict m)" and "blocked_reasons m rt = Inr blocked"
  shows "(blocked \<noteq> []) = (rt = RELEASE \<and> (\<exists>refs. py_get m ''authority_refs'' = PList refs \<and>
     (\<exists>r. PDict r \<in> set refs \<and> stale_authority r)))"
proof (cases "rt = RELEASE")
  case True
  obtain refs where refs: "py_index m ''authority_refs'' = Inr (PList refs)" using valid_authority_refs [OF valid] by metis
  then obtain rs stale where "refs = map PDict rs"
    "rmapM (\<lambda>r. rbind (py_index r ''authority_id'') need_str) (filter stale_authority rs) = Inr stale"
    "blocked = (if stale = [] then [] else [''release tier requires current authority refs: '' @ py_join '', '' (sort stale)])"
    using assms(2) True by (auto simp: blocked_reasons_def sub_list_def rmapM_need_dict)
  moreover from this(2) have "(stale = []) = (filter stale_authority rs = [])"
    using rmapM_length by fastforce
  ultimately show ?thesis using True py_index_get_Inr [OF refs] by (auto simp: filter_empty_conv)
qed (use assms in \<open>simp add: blocked_reasons_def\<close>)

section \<open>A plan is reached\<close>

lemma validation_check_total:
  assumes "stripped_field v ''validator_id'' = Inr i" "receipt_reuse_decision v target rt receipts now m = Inr d"
    "validator_check_type v = Inr ct" "stripped_field v ''command'' = Inr template"
    "render_validator_command template target = Inr command" "validator_execution_policy v = Inr policy"
    "stripped_field v ''owner_repo'' = Inr owner" "selection_reason v target tier rt m = Inr reason"
    "py_index v ''scopes'' = Inr raw" "stripped_items raw = Inr scopes"
  shows "\<exists>c. validation_check_of v target tier rt m receipts now = Inr c \<and> vc_execution_mode c = mode_value (rd_mode d) \<and>
    vc_validator_id c = i"
  using assms by (simp add: validation_check_of_def)

lemma plan_budget_total: "\<exists>d. evaluate_validation_plan_budget prof n tier = Inr d"
  unfolding evaluate_validation_plan_budget_def by (rule operation_budget_total) (auto simp: py_get_or_def)

lemma blocked_reasons_total:
  assumes "manifest_valid (PDict m)"
  shows "\<exists>b. blocked_reasons m rt = Inr b"
proof (cases "rt = RELEASE")
  case True
  obtain refs where refs: "py_index m ''authority_refs'' = Inr (PList refs)" "list_all authority_ref_ok refs"
    using valid_authority_refs [OF assms] by metis
  have "\<exists>ds. rmapM need_dict refs = Inr ds"
  proof (rule rmapM_total)
    fix r assume "r \<in> set refs"
    then have "authority_ref_ok r" using refs(2) by (simp add: list_all_iff)
    then show "\<exists>d. need_dict r = Inr d" by (cases r) (simp_all add: authority_ref_ok_def)
  qed
  then obtain ds where ds: "refs = map PDict ds" by (auto simp: rmapM_need_dict)
  have "\<exists>xs. rmapM (\<lambda>r. rbind (py_index r ''authority_id'') need_str) (filter stale_authority ds) = Inr xs"
    by (rule rmapM_total) (use refs(2) ds in \<open>auto simp: list_all_iff authority_ref_ok_def
      AUTHORITY_REF_REQUIRED_FIELDS_def text_field_index\<close>)
  moreover have "rmapM need_dict (map PDict ds) = Inr ds" by (simp add: rmapM_need_dict)
  ultimately show ?thesis
    using True refs(1) ds by (auto simp: blocked_reasons_def sub_list_def simp del: rbind_eq_Inr)
qed (simp add: blocked_reasons_def)

lemma decision_reasons_total:
  assumes "target_scope_candidates m target = Inr candidates"
  shows "\<exists>reasons. decision_reasons m target rt checks declared = Inr reasons"
  using assms by (cases "vt_target_type target = ''changed-file''") (simp_all add: decision_reasons_def Let_def del: rbind_eq_Inr)

lemma plan_total:
  assumes valid: "manifest_valid (PDict m)"
    and pv: "planned_verdicts m target rt receipts waivers now = Inr (vs, ds)"
    and scopes: "manifest_scopes m = Inr scopes" and candidates: "target_scope_candidates m target = Inr candidates"
  shows "\<exists>p. plan_from_manifest m g target rt receipts waivers now = Inr p"
proof -
  obtain mid where mid: "py_index m ''manifest_id'' = Inr (PStr mid)" using valid_manifest_id [OF valid] by blast
  obtain b where b: "blocked_reasons m rt = Inr b" using blocked_reasons_total [OF valid] by blast
  obtain d where d: "evaluate_validation_plan_budget DEFAULT_PROFILE (int (length (concat (map verdict_checks ds)))) (tier_value rt) = Inr d"
    using plan_budget_total by blast
  obtain reasons where reasons: "decision_reasons m target rt (concat (map verdict_checks ds))
      (scope_sets_match (map gn_node_id (mg_nodes g) @ scopes) candidates \<or> vt_target_type target = ''workspace'') = Inr reasons"
    using decision_reasons_total [OF candidates] by blast
  obtain o1 o2 o3 where out: "plan_outcome b \<lparr>ps_selected = concat (map verdict_checks ds),
         ps_suppressed = concat (map verdict_suppressed ds), ps_statuses = map2 (verdict_status m) vs ds\<rparr> = (o1, o2, o3)"
    by (metis surj_pair)
  have "sorted_validators m = Inr vs" "rmapM (validator_verdict m target rt receipts waivers now) vs = Inr ds"
    using pv by (auto simp: planned_verdicts_def)
  then show ?thesis unfolding plan_from_manifest_def declared_scope_ids_def
    by (simp add: plan_loop_verdicts scopes candidates Let_def reasons b out d mid del: rbind_eq_Inr)
qed

text \<open>A manifest and a receipt for the witnesses: one validator that allows reuse, an authority
  of unknown freshness.\<close>

definition planning_manifest :: pydict where
  "planning_manifest =
     [(''schema_version'', PInt 1), (''manifest_id'', PStr ''m''), (''owner_repo'', PStr ''wg''),
      (''authority_refs'', PList [PDict [(''authority_id'', PStr ''a''), (''repo'', PStr ''wg''),
         (''path'', PStr ''p''), (''ref'', PStr ''main'')]]),
      (''repos'', PList []), (''components'', PList []),
      (''validators'', PList [PDict [(''validator_id'', PStr ''v''), (''owner_repo'', PStr ''wg''),
         (''command'', PStr ''x {target_id}''), (''scopes'', PList [PStr ''workspace'']),
         (''authority_ref_ids'', PList [PStr ''a'']), (''reuse_policy'', PDict [(''safe_to_reuse'', PBool True)])]]),
      (''projections'', PList [])]"

definition planning_receipt :: pydict where
  "planning_receipt = [(''receipt_id'', PStr ''q''), (''validator_id'', PStr ''v''), (''status'', PStr ''passed''),
     (''target_scope'', PStr ''workspace''), (''tier'', PStr ''release''), (''expires_at'', PStr ''2030-01-01'')]"

definition workspace_target :: validation_target where
  "workspace_target = \<lparr>vt_scope = ''workspace'', vt_target_type = ''workspace'', vt_target_id = ''workspace''\<rparr>"

definition planning_validator :: pydict where
  "planning_validator = [(''validator_id'', PStr ''v''), (''owner_repo'', PStr ''wg''),
         (''command'', PStr ''x {target_id}''), (''scopes'', PList [PStr ''workspace'']),
         (''authority_ref_ids'', PList [PStr ''a'']), (''reuse_policy'', PDict [(''safe_to_reuse'', PBool True)])]"

definition epoch :: pydt where "epoch = \<lparr>dt_local = 0, dt_off = Some 0\<rparr>"

lemma planning_manifest_valid: "manifest_valid (PDict planning_manifest)"
  unfolding manifest_valid_iff by code_simp

lemma planning_graph: "\<exists>g. build_manifest_graph (PDict planning_manifest) = Inr g"
proof -
  have "list_all source_paths_ok (section_items planning_manifest Components)" by code_simp
  then show ?thesis using build_graph_iff [of "PDict planning_manifest"] planning_manifest_valid by simp
qed

lemma planning_verdict:
  assumes r: "receipt_reuse_decision planning_validator workspace_target RELEASE receipts epoch planning_manifest = Inr r"
  shows "\<exists>c. validator_verdict planning_manifest workspace_target RELEASE receipts [] epoch planning_validator = Inr (Selected c) \<and>
     vc_execution_mode c = mode_value (rd_mode r)"
proof -
  let ?v = planning_validator and ?m = planning_manifest and ?t = workspace_target
  have parts: "stripped_field ?v ''validator_id'' = Inr ''v''" "validator_check_type ?v = Inr COMMAND"
    "stripped_field ?v ''command'' = Inr ''x {target_id}''" "render_validator_command ''x {target_id}'' ?t = Inr ''x workspace''"
    "validator_execution_policy ?v = Inr []" "stripped_field ?v ''owner_repo'' = Inr ''wg''"
    "py_index ?v ''scopes'' = Inr (PList [PStr ''workspace''])" "stripped_items (PList [PStr ''workspace'']) = Inr [''workspace'']"
    "selection_reason ?v ?t SCOPED RELEASE ?m = Inr ''validator declares scope for workspace at scoped tier''"
    by code_simp+
  from validation_check_total [OF parts(1) r parts(2,3,4,5,6,9,7,8)]
  obtain c where c: "validation_check_of ?v ?t SCOPED RELEASE ?m receipts epoch = Inr c"
    "vc_execution_mode c = mode_value (rd_mode r)" by auto
  have "validator_tier ?v = Inr SCOPED" "tier_included SCOPED RELEASE" "scope_included (PList [PStr ''workspace'']) ?t RELEASE ?m = Inr True"
    "py_index ?v ''command'' = Inr (PStr ''x {target_id}'')" "command_template_target_error ''x {target_id}'' ?t = None"
    "valid_validator_waiver ?v [] epoch = None"
    by code_simp+
  then have "validator_verdict ?m ?t RELEASE receipts [] epoch ?v = Inr (Selected c)"
    using parts(7) c(1) by (simp add: validator_verdict_def)
  with c(2) show ?thesis by blast
qed

lemma planning_plan_of:
  assumes r: "receipt_reuse_decision planning_validator workspace_target RELEASE receipts epoch planning_manifest = Inr r"
  shows "\<exists>p c. build_validation_plan (PDict planning_manifest) ''workspace'' ''release'' receipts [] epoch NowNone = Inr p \<and>
     vp_checks p = [c] \<and> vc_execution_mode c = mode_value (rd_mode r)"
proof -
  obtain g where g: "build_manifest_graph (PDict planning_manifest) = Inr g" using planning_graph by blast
  obtain c where c: "validator_verdict planning_manifest workspace_target RELEASE receipts [] epoch planning_validator = Inr (Selected c)"
    "vc_execution_mode c = mode_value (rd_mode r)" using planning_verdict [OF r] by blast
  have "sorted_validators planning_manifest = Inr [planning_validator]" by code_simp
  then have pv: "planned_verdicts planning_manifest workspace_target RELEASE receipts [] epoch = Inr ([planning_validator], [Selected c])"
    using c(1) by (simp add: planned_verdicts_def)
  have "\<not> isl (manifest_scopes planning_manifest)" by code_simp
  then obtain scopes where scopes: "manifest_scopes planning_manifest = Inr scopes" by (cases "manifest_scopes planning_manifest") auto
  have "target_scope_candidates planning_manifest workspace_target = Inr [''workspace'']" by code_simp
  from plan_total [OF planning_manifest_valid pv scopes this]
  obtain p where p: "plan_from_manifest planning_manifest g workspace_target RELEASE receipts [] epoch = Inr p" by blast
  have "coerce_tier ''release'' = Inr RELEASE" "normalize_validation_target ''workspace'' = Inr workspace_target" by code_simp+
  then have "build_validation_plan (PDict planning_manifest) ''workspace'' ''release'' receipts [] epoch NowNone = Inr p"
    using planning_manifest_valid g p by (simp add: build_validation_plan_def manifest_valid_def coerce_timestamp_def)
  moreover have "vp_checks p = [c]"
    by (rule plan_from_manifest_facts [OF p]) (use pv in simp)
  ultimately show ?thesis using c(2) by blast
qed

lemma planning_plan:
  "\<exists>p c. build_validation_plan (PDict planning_manifest) ''workspace'' ''release'' [planning_receipt] [] epoch NowNone = Inr p \<and>
     vp_checks p = [c] \<and> vc_execution_mode c = ''skip_fresh_receipt''"
proof -
  have "map_sum id rd_mode (receipt_reuse_decision planning_validator workspace_target RELEASE [planning_receipt] epoch planning_manifest) =
      Inr SKIP_FRESH_RECEIPT"
    by code_simp
  then obtain r where "receipt_reuse_decision planning_validator workspace_target RELEASE [planning_receipt] epoch planning_manifest = Inr r"
    and "rd_mode r = SKIP_FRESH_RECEIPT" by (auto simp: map_sum_Inr)
  then show ?thesis using planning_plan_of by fastforce
qed

lemma release_suppression:
  assumes "validator_verdict m target RELEASE receipts waivers now v = Inr (Suppressed i reason)"
  shows "\<exists>command. py_index v ''command'' = Inr command \<and> command_template_target_error (py_str command) target = Some reason"
proof -
  have "tier_included t RELEASE" for t by (cases t) (simp_all add: tier_included_def less_eq_validation_tier_def)
  then show ?thesis
    using assms by (auto simp: validator_verdict_def suppressed_verdict_def scope_included_def split: option.splits)
qed

lemma check_reuse:
  assumes "validator_verdict m target rt receipts waivers now v = Inr d" and "c \<in> set (verdict_checks d)"
    and "vc_execution_mode c = mode_value SKIP_FRESH_RECEIPT"
  shows "validator_allows_receipt_reuse v \<and> (\<exists>r \<in> set receipts.
    reusable_receipt (vc_validator_id c) target rt v now m r \<and> vc_receipt_id c = Some (text_of (py_get r ''receipt_id'')))"
proof -
  have "d = Selected c" using assms(2) by (cases d) auto
  with assms(1) obtain tier where "validation_check_of v target tier rt m receipts now = Inr c"
    by (auto simp: validator_verdict_def suppressed_verdict_def split: if_splits option.splits)
  then obtain x where x: "receipt_reuse_decision v target rt receipts now m = Inr x" "stripped_field v ''validator_id'' = Inr (vc_validator_id c)"
    "vc_execution_mode c = mode_value (rd_mode x)" "vc_receipt_id c = rd_receipt_id x"
    by (auto simp: validation_check_of_def)
  have skip: "rd_mode x = SKIP_FRESH_RECEIPT" using x(3) assms(3) by (cases "rd_mode x") simp_all
  then have allows: "validator_allows_receipt_reuse v"
    using x(1) by (auto simp: receipt_reuse_decision_def run_decision_def split: if_splits)
  then have "reuse_loop (newest_receipts_first receipts) [] (vc_validator_id c) target rt v now m = Inr x"
    using x(1,2) by (auto simp: receipt_reuse_decision_def stripped_field_def)
  from reuse_loop_skip [OF this skip] obtain r where r: "r \<in> set receipts"
    "reusable_receipt (vc_validator_id c) target rt v now m r" "reuse_of r target v = Inr x"
    by (auto simp: newest_receipts_first_def)
  then have "rd_receipt_id x = Some (text_of (py_get r ''receipt_id''))" by (auto simp: reuse_of_def Let_def)
  with allows r x(4) show ?thesis by auto
qed

lemma plan_outcome_blocked:
  "plan_outcome blocked s = (out, review, statuses) \<Longrightarrow> (out = ''blocked'') = (blocked \<noteq> []) \<and>
     (blocked \<noteq> [] \<longrightarrow> review \<and> (\<forall>st \<in> set statuses. cs_status st \<notin> set BLOCKABLE_STATUSES))"
  by (auto simp: plan_outcome_def replace_status_def BLOCKABLE_STATUSES_def split: if_splits)

section \<open>Properties\<close>


text \<open>
  C21. A plan accounts for every validator of the manifest exactly once: the ids of its statuses
  are, with multiplicity, the declared validator ids, and its checks are, in order, exactly the
  validators whose status is neither suppressed nor waived.
\<close>

theorem plan_accounts_for_validators:
  assumes "build_validation_plan (PDict m) scope tier receipts waivers clock now = Inr p"
  shows "mset (map cs_validator_id (vp_check_statuses p)) = mset (section_ids m Validators) \<and>
    map vc_validator_id (vp_checks p) = map cs_validator_id (filter (\<lambda>st. \<not> left_out st) (vp_check_statuses p))"
proof (rule build_plan_facts [OF assms])
  fix m' rt t target graph
  assume x: "PDict m = PDict m'" "manifest_valid (PDict m)" and p: "plan_from_manifest m' graph target rt receipts waivers t = Inr p"
  from p obtain vs ds blocked where pv: "planned_verdicts m' target rt receipts waivers t = Inr (vs, ds)"
    and checks: "vp_checks p = concat (map verdict_checks ds)"
    and out: "(pl_outcome (vp_decision p), pl_requires_operator_review (vp_decision p), vp_check_statuses p) =
       plan_outcome blocked \<lparr>ps_selected = concat (map verdict_checks ds),
         ps_suppressed = concat (map verdict_suppressed ds), ps_statuses = map2 (verdict_status m') vs ds\<rparr>"
    by (rule plan_from_manifest_facts)
  have "map vc_validator_id (vp_checks p) = map cs_validator_id (filter (\<lambda>st. \<not> left_out st) (vp_check_statuses p))"
    using plan_outcome_left_out [OF out [symmetric]] checks_of_statuses [of vs ds m'] verdict_Inr_length [OF pv] checks by simp
  then show ?thesis using plan_status_ids [OF _ p] x by simp
qed

theorem plan_accounts_for_validators_witness:
  "\<exists>p :: validation_plan. map vc_validator_id (vp_checks p) = map cs_validator_id (filter (\<lambda>st. \<not> left_out st) (vp_check_statuses p)) \<and>
     length (vp_checks p) = 1"
proof -
  obtain p c where p: "build_validation_plan (PDict planning_manifest) ''workspace'' ''release'' [planning_receipt] [] epoch NowNone = Inr p"
    "vp_checks p = [c]" using planning_plan by blast
  from plan_accounts_for_validators [OF p(1)] p(2) show ?thesis by (intro exI [of _ p]) simp
qed

text \<open>
  A plan is blocked exactly when the release tier was requested and some authority ref of the
  manifest is not current; a blocked plan asks for operator review and leaves no validator
  selected, stale, failed or waiting for its owner.
\<close>

theorem plan_blocked_iff:
  assumes "build_validation_plan (PDict m) scope tier receipts waivers clock now = Inr p"
  shows "(pl_outcome (vp_decision p) = ''blocked'') =
      (vp_tier p = ''release'' \<and> (\<exists>refs r. py_get m ''authority_refs'' = PList refs \<and> PDict r \<in> set refs \<and> stale_authority r)) \<and>
    (pl_outcome (vp_decision p) = ''blocked'' \<longrightarrow> pl_requires_operator_review (vp_decision p) \<and>
      (\<forall>st \<in> set (vp_check_statuses p). cs_status st \<notin> set BLOCKABLE_STATUSES))"
proof (rule build_plan_facts [OF assms])
  fix m' rt t target graph
  assume x: "PDict m = PDict m'" "manifest_valid (PDict m)" and p: "plan_from_manifest m' graph target rt receipts waivers t = Inr p"
  from p obtain vs ds blocked where b: "blocked_reasons m' rt = Inr blocked" and tier: "vp_tier p = tier_value rt"
    and out: "(pl_outcome (vp_decision p), pl_requires_operator_review (vp_decision p), vp_check_statuses p) =
       plan_outcome blocked \<lparr>ps_selected = concat (map verdict_checks ds),
         ps_suppressed = concat (map verdict_suppressed ds), ps_statuses = map2 (verdict_status m') vs ds\<rparr>"
    by (rule plan_from_manifest_facts)
  have "(vp_tier p = ''release'') = (rt = RELEASE)" unfolding tier by (cases rt) simp_all
  then show ?thesis
    using plan_outcome_blocked [OF out [symmetric]] blocked_reasons_iff [OF _ b] x by auto
qed

theorem plan_blocked_iff_witness:
  "\<exists>p :: validation_plan. vp_tier p = ''release'' \<and> pl_outcome (vp_decision p) = ''blocked''"
proof -
  obtain p c where p: "build_validation_plan (PDict planning_manifest) ''workspace'' ''release'' [planning_receipt] [] epoch NowNone = Inr p"
    using planning_plan by blast
  have tier: "vp_tier p = ''release''"
  proof (rule build_plan_facts [OF p])
    fix m rt t target graph
    assume "coerce_tier ''release'' = Inr rt" "plan_from_manifest m graph target rt [planning_receipt] [] t = Inr p"
    moreover have "coerce_tier ''release'' = Inr RELEASE" by code_simp
    ultimately show ?thesis by (auto elim: plan_from_manifest_facts)
  qed
  have "py_get planning_manifest ''authority_refs'' = PList [PDict [(''authority_id'', PStr ''a''), (''repo'', PStr ''wg''),
         (''path'', PStr ''p''), (''ref'', PStr ''main'')]]"
    "stale_authority [(''authority_id'', PStr ''a''), (''repo'', PStr ''wg''), (''path'', PStr ''p''), (''ref'', PStr ''main'')]"
    by code_simp+
  then have "pl_outcome (vp_decision p) = ''blocked''"
    using plan_blocked_iff [OF p] tier by simp
  with tier show ?thesis by blast
qed

lemma skipped_check_receipt:
  assumes "build_validation_plan (PDict m) scope tier receipts waivers clock now = Inr p"
    and "c \<in> set (vp_checks p)" and "vc_execution_mode c = ''skip_fresh_receipt''"
  shows "\<exists>rt t v r. coerce_tier tier = Inr rt \<and> coerce_timestamp ''invalid planning timestamp '' clock now = Inr t \<and>
    PDict v \<in> set (section_items m Validators) \<and> validator_allows_receipt_reuse v \<and> r \<in> set receipts \<and>
    reusable_receipt (vc_validator_id c) (vp_target p) rt v t m r \<and> vc_receipt_id c = Some (text_of (py_get r ''receipt_id''))"
proof (rule build_plan_facts [OF assms(1)])
  fix m' rt t target graph
  assume x: "PDict m = PDict m'" "manifest_valid (PDict m)" and rt: "coerce_tier tier = Inr rt"
    "coerce_timestamp ''invalid planning timestamp '' clock now = Inr t"
    and p: "plan_from_manifest m' graph target rt receipts waivers t = Inr p"
  have m: "m' = m" using x by simp
  from p obtain vs ds blocked where pv: "planned_verdicts m target rt receipts waivers t = Inr (vs, ds)"
    and checks: "vp_checks p = concat (map verdict_checks ds)" and target: "vp_target p = target"
    unfolding m by (rule plan_from_manifest_facts)
  from assms(2) checks obtain d where d: "d \<in> set ds" "c \<in> set (verdict_checks d)" by auto
  then obtain v where vd: "(v, d) \<in> set (zip vs ds)"
    using verdict_Inr_length [OF pv] by (metis in_set_impl_in_set_zip2)
  have "PDict v \<in> set (section_items m Validators)"
    using mset_eq_setD [OF sorted_validators_facts(1) [OF x(2) planned_vs [OF pv]]] set_zip_leftD [OF vd] by auto
  then show ?thesis
    using check_reuse [OF planned_verdict [OF pv vd] d(2)] assms(3) rt target by auto
qed



text \<open>
  The release tier leaves nothing out for its tier or its scope: the only reason a release
  plan suppresses a validator is an error of its command template for the target.
\<close>

theorem release_suppresses_only_templates:
  assumes "planned_verdicts m target RELEASE receipts waivers now = Inr (vs, ds)"
    and "(v, d) \<in> set (zip vs ds)" and "sv \<in> set (verdict_suppressed d)"
  shows "\<exists>command. py_index v ''command'' = Inr command \<and>
    command_template_target_error (py_str command) target = Some (sv_reason sv)"
proof -
  obtain i reason where "d = Suppressed i reason" "sv_reason sv = reason" using assms(3) by (cases d) auto
  then show ?thesis using release_suppression planned_verdict [OF assms(1,2)] by auto
qed

theorem release_suppresses_only_templates_witness:
  "\<exists>reason. command_template_target_error ''run {x}'' workspace_target = Some reason"
proof -
  let ?v = "[(''validator_id'', PStr ''v''), (''command'', PStr ''run {x}''), (''scopes'', PList [])]"
  let ?m = "[(''validators'', PList [PDict ?v])]"
  have "planned_verdicts ?m workspace_target RELEASE [] [] epoch = Inr ([?v],
      [Suppressed (PStr ''v'') ''validator command template contains unsupported fields: x''])" by code_simp
  from release_suppresses_only_templates [OF this, of ?v] show ?thesis by (auto simp: py_index_def)
qed

end
