(* ===== verification/Lifecycle_Plans.thy ===== *)
theory Lifecycle_Plans
  imports Ledger_Records "HOL-Library.Product_Lexorder"
begin

text \<open>
  Dry-run retention planning of \<open>lifecycle.py\<close>: the profiles' thresholds, the choice of
  artifact and receipt files to delete by age and by count, and the ledger compaction plan.
  Planning only reads the file system. \<open>local_offset\<close> is the UTC offset (in microseconds)
  of the system's time zone at a wall-clock time, which \<open>astimezone\<close> applies to a naive
  datetime.
\<close>

section \<open>Records\<close>

record retention_thresholds =
  rt_artifact_max_age_days :: "int option"
  rt_artifact_max_count :: int
  rt_ledger_max_events :: int
  rt_profile :: string
  rt_receipt_max_age_days :: "int option"
  rt_receipt_max_count :: int
  rt_require_ledger_export_before_compaction :: bool

definition thresholds_to_record :: "retention_thresholds \<Rightarrow> pyval" where
  "thresholds_to_record t = PDict
     [(''artifact_max_age_days'', opt_int_val (rt_artifact_max_age_days t)),
      (''artifact_max_count'', PInt (rt_artifact_max_count t)),
      (''ledger_max_events'', PInt (rt_ledger_max_events t)),
      (''profile'', PStr (rt_profile t)),
      (''receipt_max_age_days'', opt_int_val (rt_receipt_max_age_days t)),
      (''receipt_max_count'', PInt (rt_receipt_max_count t)),
      (''require_ledger_export_before_compaction'',
        PBool (rt_require_ledger_export_before_compaction t))]"

record retention_candidate =
  rc_action :: string
  rc_byte_count :: int
  rc_category :: string
  rc_digest :: string
  rc_modified_at :: string
  rc_path :: string
  rc_reason :: string
  rc_relative_path :: string
  rc_safe_to_apply :: bool

definition candidate_to_record :: "retention_candidate \<Rightarrow> pyval" where
  "candidate_to_record c = PDict
     [(''action'', PStr (rc_action c)), (''byte_count'', PInt (rc_byte_count c)),
      (''category'', PStr (rc_category c)), (''digest'', PStr (rc_digest c)),
      (''modified_at'', PStr (rc_modified_at c)), (''path'', PStr (rc_path c)),
      (''reason'', PStr (rc_reason c)), (''relative_path'', PStr (rc_relative_path c)),
      (''safe_to_apply'', PBool (rc_safe_to_apply c))]"

record ledger_compaction_plan =
  lc_action_required :: bool
  lc_compacted_line_count :: nat
  lc_export_path :: "string option"
  lc_export_required :: bool
  lc_ledger_path :: string
  lc_reason :: "string option"
  lc_retained_line_count :: nat
  lc_source_digest :: "string option"
  lc_source_line_count :: nat

definition compaction_to_record :: "ledger_compaction_plan \<Rightarrow> pyval" where
  "compaction_to_record c = PDict
     [(''action_required'', PBool (lc_action_required c)),
      (''compacted_line_count'', PInt (int (lc_compacted_line_count c))),
      (''export_path'', opt_val (lc_export_path c)),
      (''export_required'', PBool (lc_export_required c)),
      (''ledger_path'', PStr (lc_ledger_path c)), (''reason'', opt_val (lc_reason c)),
      (''retained_line_count'', PInt (int (lc_retained_line_count c))),
      (''source_digest'', opt_val (lc_source_digest c)),
      (''source_line_count'', PInt (int (lc_source_line_count c)))]"

record retention_plan =
  rp_artifact_candidates :: "retention_candidate list"
  rp_artifact_root :: string
  rp_generated_at :: string
  rp_ledger_compaction :: ledger_compaction_plan
  rp_ledger_path :: string
  rp_plan_digest :: string
  rp_plan_id :: string
  rp_profile :: string
  rp_receipt_candidates :: "retention_candidate list"
  rp_receipt_dir :: string
  rp_repo_root :: string
  rp_requires_confirmation :: bool
  rp_schema_version :: int
  rp_summary :: pydict
  rp_thresholds :: retention_thresholds

definition retention_plan_to_record :: "retention_plan \<Rightarrow> pyval" where
  "retention_plan_to_record p = PDict
     [(''artifact_candidates'', PList (map candidate_to_record (rp_artifact_candidates p))),
      (''artifact_root'', PStr (rp_artifact_root p)),
      (''generated_at'', PStr (rp_generated_at p)),
      (''ledger_compaction'', compaction_to_record (rp_ledger_compaction p)),
      (''ledger_path'', PStr (rp_ledger_path p)), (''plan_digest'', PStr (rp_plan_digest p)),
      (''plan_id'', PStr (rp_plan_id p)), (''profile'', PStr (rp_profile p)),
      (''receipt_candidates'', PList (map candidate_to_record (rp_receipt_candidates p))),
      (''receipt_dir'', PStr (rp_receipt_dir p)), (''repo_root'', PStr (rp_repo_root p)),
      (''requires_confirmation'', PBool (rp_requires_confirmation p)),
      (''schema_version'', PInt (rp_schema_version p)), (''summary'', PDict (rp_summary p)),
      (''thresholds'', thresholds_to_record (rp_thresholds p))]"

section \<open>Profiles\<close>

definition DEFAULT_LEDGER_EXPORT_DIR :: string where
  "DEFAULT_LEDGER_EXPORT_DIR = ''.wgcf/ledger-exports''"

definition DEFAULT_RETENTION_PROFILE :: string where "DEFAULT_RETENTION_PROFILE = ''developer''"

definition RETENTION_SCHEMA_VERSION :: int where "RETENTION_SCHEMA_VERSION = 1"

definition profile_thresholds :: "string \<Rightarrow> int \<Rightarrow> int \<Rightarrow> int \<Rightarrow> int \<Rightarrow> int \<Rightarrow> retention_thresholds" where
  "profile_thresholds name aage acount events rage rcount =
     \<lparr>rt_artifact_max_age_days = Some aage, rt_artifact_max_count = acount,
      rt_ledger_max_events = events, rt_profile = name, rt_receipt_max_age_days = Some rage,
      rt_receipt_max_count = rcount, rt_require_ledger_export_before_compaction = True\<rparr>"

definition RETENTION_PROFILES :: "(string \<times> retention_thresholds) list" where
  "RETENTION_PROFILES =
     [(''developer'', profile_thresholds ''developer'' 14 500 5000 30 500),
      (''ci'', profile_thresholds ''ci'' 7 200 1000 14 200),
      (''enterprise'', profile_thresholds ''enterprise'' 90 10000 50000 365 10000)]"

definition retention_thresholds_for :: "string \<Rightarrow> retention_thresholds result" where
  "retention_thresholds_for profile =
     (let normalized = py_lower (py_strip (if profile = [] then DEFAULT_RETENTION_PROFILE else profile))
      in case map_of RETENTION_PROFILES normalized of
          Some t \<Rightarrow> Inr t
        | None \<Rightarrow> Inl (ValueError (''unknown retention profile '' @ repr_str profile @
            ''; expected one of: '' @ py_join '', '' (sort (map fst RETENTION_PROFILES)))))"

section \<open>Timestamps and paths\<close>

definition lifecycle_timestamp :: "(int \<Rightarrow> int) \<Rightarrow> pydt \<Rightarrow> now_arg \<Rightarrow> pydt result" where
  "lifecycle_timestamp local_offset clock now = (case now of
     NowNone \<Rightarrow> Inr clock
   | NowDatetime d \<Rightarrow> if dt_aware d then dt_to_utc d else Inr (d\<lparr>dt_off := Some 0\<rparr>)
   | NowText t \<Rightarrow>
      (let text = py_strip t;
           text = (if ends_with ''Z'' text then take (length text - 1) text @ ''+00:00'' else text)
       in case fromisoformat text of
          None \<Rightarrow> Inl (ValueError ''Invalid isoformat string'')
        | Some d \<Rightarrow> dt_to_utc (if dt_aware d then d
                             else d\<lparr>dt_off := Some (local_offset (dt_local d))\<rparr>)))"

definition resolve_local_path :: "fs \<Rightarrow> fpath \<Rightarrow> string \<Rightarrow> string \<Rightarrow> fpath result" where
  "resolve_local_path fs root value_text label =
     rbind (resolve_from fs root value_text) (\<lambda>resolved.
     rbind (fs_is_relative_to fs resolved root) (\<lambda>inside.
       if \<not> inside then Inl (ValueError (label @ '' must stay inside the repository root''))
       else Inr resolved))"

section \<open>Candidates\<close>

text \<open>\<open>d.setdefault(path, set()).add(reason)\<close> on the dict of reasons.\<close>

definition add_path_reason ::
  "string \<Rightarrow> fpath \<Rightarrow> (fpath \<times> string list) list \<Rightarrow> (fpath \<times> string list) list" where
  "add_path_reason reason p d = (case map_of d p of
     None \<Rightarrow> assoc_set p [reason] d
   | Some rs \<Rightarrow> assoc_set p (List.insert reason rs) d)"

definition dt_minus_days :: "pydt \<Rightarrow> int \<Rightarrow> pydt result" where
  "dt_minus_days d n = (let l = dt_local d - n * us_per_day in
     if \<bar>n\<bar> > 999999999 \<or> l < 0 \<or> max_local \<le> l then Inl (OverflowError ''date value out of range'')
     else Inr (d\<lparr>dt_local := l\<rparr>))"

text \<open>The files under the scanned directory, oldest first, ties broken by path.\<close>

definition scanned_files :: "fs \<Rightarrow> fpath \<Rightarrow> fpath \<Rightarrow> string \<Rightarrow> fpath list result" where
  "scanned_files fs root scan_root pattern =
     rbind (rmapM (\<lambda>p. rbind (resolve_walk fs max_links [] p) (\<lambda>q.
              rbind (fs_is_relative_to fs q root) (\<lambda>ok. Inr (ok, p))))
            (filter (fs_is_file fs) (fs_rglob fs scan_root pattern))) (\<lambda>found.
     rbind (rmapM (\<lambda>p. rbind (fs_stat fs p) (\<lambda>st. Inr ((snd st, fpath_str p), p)))
            (map snd (filter fst found))) (\<lambda>keyed.
     Inr (map snd (sort_key fst keyed))))"

definition add_age_reason :: "fs \<Rightarrow> pydt \<Rightarrow> int \<Rightarrow> fpath \<Rightarrow>
    (fpath \<times> string list) list \<Rightarrow> (fpath \<times> string list) list result" where
  "add_age_reason fs cutoff days p d =
     rbind (fs_stat fs p) (\<lambda>st.
     rbind (mtime_datetime (snd st)) (\<lambda>modified_at.
       Inr (if dt_less modified_at cutoff
            then add_path_reason (''older-than-'' @ int_to_str days @ ''-days'') p d else d)))"

definition candidate_from_path :: "fs \<Rightarrow> fpath \<Rightarrow> string \<Rightarrow> string \<Rightarrow> fpath \<Rightarrow> string \<Rightarrow>
    retention_candidate result" where
  "candidate_from_path fs root action category p reason =
     rbind (fs_stat fs p) (\<lambda>st.
     rbind (mtime_datetime (snd st)) (\<lambda>modified.
     rbind (resolve_walk fs max_links [] p) (\<lambda>q.
     rbind (fs_is_relative_to fs q root) (\<lambda>safe.
       if \<not> prefix root q then Inl (ValueError ''path is not in the subpath of the root'')
       else Inr \<lparr>rc_action = action, rc_byte_count = int (length (fst st)), rc_category = category,
             rc_digest = sha256_prefixed (fst st), rc_modified_at = isoformat_z modified,
             rc_path = fpath_str q, rc_reason = reason,
             rc_relative_path = (if q = root then ''.'' else py_join ''/'' (drop (length root) q)),
             rc_safe_to_apply = safe\<rparr>))))"

text \<open>Which files are marked for deletion, with the reasons: \<open>reasons_by_path\<close>.\<close>

definition retention_reasons :: "fs \<Rightarrow> int option \<Rightarrow> int \<Rightarrow> pydt \<Rightarrow> fpath list \<Rightarrow>
    (fpath \<times> string list) list result" where
  "retention_reasons fs max_age_days max_count now files =
     rbind (case max_age_days of
         None \<Rightarrow> Inr []
       | Some days \<Rightarrow> rbind (dt_minus_days now days) (\<lambda>cutoff.
           rfold (add_age_reason fs cutoff days) files [])) (\<lambda>by_age.
     Inr (if max_count < int (length files)
          then fold (add_path_reason (''exceeds-'' @ int_to_str max_count @ ''-file-retention-count''))
                 (take (length files - nat max_count) files) by_age
          else by_age))"

definition retention_candidates :: "fs \<Rightarrow> fpath \<Rightarrow> string \<Rightarrow> string \<Rightarrow> int option \<Rightarrow> int \<Rightarrow> pydt \<Rightarrow>
    fpath \<Rightarrow> string \<Rightarrow> retention_candidate list result" where
  "retention_candidates fs root category action max_age_days max_count now scan_root pattern =
     (if max_count < 0 then Inl (ValueError ''retention max_count must be zero or greater'')
      else if \<not> fs_exists fs scan_root then Inr []
      else if \<not> fs_is_dir fs scan_root
        then Inl (ValueError (category @ '' retention path is not a directory: '' @ fpath_str scan_root))
      else rbind (scanned_files fs root scan_root pattern) (\<lambda>files.
        rbind (retention_reasons fs max_age_days max_count now files) (\<lambda>reasons.
        rbind (rmapM (\<lambda>(p, rs). candidate_from_path fs root action category p
                 (py_join '', '' (sorted_set rs))) reasons) (\<lambda>candidates.
        Inr (sort_key (\<lambda>c. (rc_modified_at c, rc_relative_path c)) candidates)))))"

section \<open>Ledger compaction\<close>

definition ledger_export_name :: "string \<Rightarrow> string \<Rightarrow> string" where
  "ledger_export_name generated_at digest =
     ''ledger-export-'' @ py_replace ''-'' [] (py_replace '':'' [] generated_at) @ ''-'' @
     take 16 (remove_prefix ''sha256:'' digest) @ ''.jsonl''"

definition build_ledger_compaction_plan :: "fs \<Rightarrow> string \<Rightarrow> fpath \<Rightarrow> fpath \<Rightarrow> int \<Rightarrow>
    ledger_compaction_plan result" where
  "build_ledger_compaction_plan fs generated_at ledger export_dir max_events =
     (if max_events < 1 then Inl (ValueError ''ledger_max_events must be at least one'')
      else if \<not> fs_exists fs ledger then
        Inr \<lparr>lc_action_required = False, lc_compacted_line_count = 0, lc_export_path = None,
             lc_export_required = False, lc_ledger_path = fpath_str ledger, lc_reason = None,
             lc_retained_line_count = 0, lc_source_digest = None, lc_source_line_count = 0\<rparr>
      else if \<not> fs_is_file fs ledger
        then Inl (ValueError (''ledger path is not a file: '' @ fpath_str ledger))
      else rbind (fs_stat fs ledger) (\<lambda>st.
        let source = fst st; count = length (bytes_lines source); digest = sha256_prefixed source
        in if int count \<le> max_events then
             Inr \<lparr>lc_action_required = False, lc_compacted_line_count = 0, lc_export_path = None,
                  lc_export_required = False, lc_ledger_path = fpath_str ledger, lc_reason = None,
                  lc_retained_line_count = count, lc_source_digest = Some digest,
                  lc_source_line_count = count\<rparr>
           else let retained = nat (max_events - 1) in
             Inr \<lparr>lc_action_required = True, lc_compacted_line_count = count - retained,
                  lc_export_path = Some (fpath_str (export_dir @ [ledger_export_name generated_at digest])),
                  lc_export_required = True, lc_ledger_path = fpath_str ledger,
                  lc_reason = Some (''ledger exceeds '' @ int_to_str max_events @ '' event retention budget''),
                  lc_retained_line_count = retained, lc_source_digest = Some digest,
                  lc_source_line_count = count\<rparr>))"

section \<open>The plan\<close>

definition retention_summary :: "retention_candidate list \<Rightarrow> retention_candidate list \<Rightarrow>
    ledger_compaction_plan \<Rightarrow> pydict" where
  "retention_summary artifacts receipts compaction =
     [(''apply_appends_ledger_event'', PBool True),
      (''artifact_delete_count'', PInt (int (length artifacts))),
      (''artifact_delete_bytes'', PInt (sum_list (map rc_byte_count artifacts))),
      (''ledger_compaction_required'', PBool (lc_action_required compaction)),
      (''ledger_compacted_line_count'', PInt (int (lc_compacted_line_count compaction))),
      (''mutation_count'', PInt (int (length artifacts) + int (length receipts) +
         (if lc_action_required compaction then 1 else 0))),
      (''receipt_delete_count'', PInt (int (length receipts))),
      (''receipt_delete_bytes'', PInt (sum_list (map rc_byte_count receipts)))]"

definition retention_plan_of :: "fpath \<Rightarrow> fpath \<Rightarrow> fpath \<Rightarrow> fpath \<Rightarrow> string \<Rightarrow> retention_thresholds \<Rightarrow>
    retention_candidate list \<Rightarrow> retention_candidate list \<Rightarrow> ledger_compaction_plan \<Rightarrow> retention_plan" where
  "retention_plan_of root artifact_path receipt_path ledger_file generated_at thresholds artifacts
     receipts compaction =
     (let summary = retention_summary artifacts receipts compaction;
          digest = digest_json (PDict
            [(''artifact_candidates'', PList (map candidate_to_record artifacts)),
             (''artifact_root'', PStr (fpath_str artifact_path)),
             (''generated_at'', PStr generated_at),
             (''ledger_compaction'', compaction_to_record compaction),
             (''ledger_path'', PStr (fpath_str ledger_file)),
             (''profile'', PStr (rt_profile thresholds)),
             (''receipt_candidates'', PList (map candidate_to_record receipts)),
             (''receipt_dir'', PStr (fpath_str receipt_path)), (''summary'', PDict summary),
             (''thresholds'', thresholds_to_record thresholds)])
      in \<lparr>rp_artifact_candidates = artifacts, rp_artifact_root = fpath_str artifact_path,
          rp_generated_at = generated_at, rp_ledger_compaction = compaction,
          rp_ledger_path = fpath_str ledger_file, rp_plan_digest = digest,
          rp_plan_id = digest_id ''retention-plan:'' digest, rp_profile = rt_profile thresholds,
          rp_receipt_candidates = receipts, rp_receipt_dir = fpath_str receipt_path,
          rp_repo_root = fpath_str root, rp_requires_confirmation = True,
          rp_schema_version = RETENTION_SCHEMA_VERSION, rp_summary = summary,
          rp_thresholds = thresholds\<rparr>)"

record retention_args =
  ra_repo_root :: string
  ra_artifact_root :: string
  ra_receipt_dir :: string
  ra_ledger_path :: string
  ra_export_dir :: string
  ra_profile :: string
  ra_now :: now_arg

definition build_retention_plan ::
  "(int \<Rightarrow> int) \<Rightarrow> pydt \<Rightarrow> retention_args \<Rightarrow> fs \<Rightarrow> retention_plan result" where
  "build_retention_plan local_offset clock a fs =
     rbind (path_resolve fs (ra_repo_root a)) (\<lambda>root.
     if \<not> fs_is_dir fs root
     then Inl (ValueError (''repo_root does not exist or is not a directory: '' @ fpath_str root))
     else
     rbind (lifecycle_timestamp local_offset clock (ra_now a)) (\<lambda>now.
     rbind (retention_thresholds_for (ra_profile a)) (\<lambda>thresholds.
     rbind (resolve_local_path fs root (ra_artifact_root a) ''artifact_root'') (\<lambda>artifact_path.
     rbind (resolve_local_path fs root (ra_receipt_dir a) ''receipt_dir'') (\<lambda>receipt_path.
     rbind (resolve_local_path fs root (ra_ledger_path a) ''ledger_path'') (\<lambda>ledger_file.
     rbind (resolve_local_path fs root (ra_export_dir a) ''export_dir'') (\<lambda>export_path.
     rbind (retention_candidates fs root ''artifact'' ''delete''
              (rt_artifact_max_age_days thresholds) (rt_artifact_max_count thresholds)
              now artifact_path ''*'') (\<lambda>artifacts.
     rbind (retention_candidates fs root ''receipt'' ''delete''
              (rt_receipt_max_age_days thresholds) (rt_receipt_max_count thresholds)
              now receipt_path ''*.json'') (\<lambda>receipts.
     rbind (build_ledger_compaction_plan fs (isoformat_z now) ledger_file export_path
              (rt_ledger_max_events thresholds)) (\<lambda>compaction.
       Inr (retention_plan_of root artifact_path receipt_path ledger_file (isoformat_z now) thresholds
              artifacts receipts compaction)))))))))))"

section \<open>Where a plan's paths lead\<close>

lemma pad_int_no_slash: "CHR ''/'' \<notin> set (pad_int n i)"
  using int_to_str_numeral [of "CHR ''/''" i] by (auto simp: pad_int_def pad_zero_def numeral_char_def)

lemma isoformat_no_slash: "CHR ''/'' \<notin> set (isoformat d)"
  by (simp add: isoformat_def iso_clock_def iso_offset_def Let_def pad_int_no_slash
      split: prod.splits option.splits)

lemma set_py_replace: "set (py_replace old new s) \<subseteq> set new \<union> set s"
proof (induction old new s rule: py_replace.induct)
  case (1 old new s)
  have "set (drop (length old) s) \<subseteq> set s" "set (tl s) \<subseteq> set s"
    by (auto dest: in_set_dropD list.set_sel(2) [rotated] split: list.splits) (cases s; simp)
  then show ?case using 1 by (subst py_replace.simps) (auto dest: hd_in_set split: if_splits)
qed

lemma isoformat_z_no_slash: "CHR ''/'' \<notin> set (isoformat_z d)"
  using isoformat_no_slash [of d] set_py_replace [of "''+00:00''" "''Z''" "isoformat d"]
  by (auto simp: isoformat_z_def)

lemma ledger_export_name_proper:
  assumes "CHR ''/'' \<notin> set t"
  shows "proper_component (ledger_export_name t (sha256_prefixed b))"
proof -
  have "CHR ''/'' \<notin> set (py_replace ''-'' [] (py_replace '':'' [] t))"
    using assms set_py_replace [of "''-''" "[]" "py_replace '':'' [] t"] set_py_replace [of "'':''" "[]" t] by auto
  moreover have "CHR ''/'' \<notin> set (sha256_hex b)" using sha256_hex_alphabet [of b] by auto
  then have "CHR ''/'' \<notin> set (take 16 (sha256_hex b))" by (meson in_set_takeD)
  ultimately show ?thesis
    using remove_prefix_append [of "''sha256:''" "sha256_hex b"]
    by (simp add: ledger_export_name_def proper_component_def sha256_prefixed_def)
qed

lemma resolve_walk_real:
  assumes "resolve_walk fs n [] p = Inr q" and "list_all proper_component p"
  shows "real_path fs q"
proof -
  have "slash_free p" using assms(2) by (auto simp: list_all_iff proper_component_def)
  then have "slash_free q" using resolve_walk_slash_free [OF assms(1)] by simp
  moreover have "link_free fs q" using resolve_walk_link_free [OF assms(1)] by simp
  ultimately show ?thesis by (auto simp: real_path_def link_free_def list_all_iff proper_component_def)
qed

definition candidate_in :: "fs \<Rightarrow> fpath \<Rightarrow> retention_candidate \<Rightarrow> bool" where
  "candidate_in fs root c = (\<exists>q. rc_path c = fpath_str q \<and> real_path fs q \<and> prefix root q)"

lemma candidate_from_path_in:
  assumes "candidate_from_path fs root act cat p r = Inr c" and "list_all proper_component p"
  shows "candidate_in fs root c"
proof -
  obtain q where q: "resolve_walk fs max_links [] p = Inr q" "prefix root q" "rc_path c = fpath_str q"
    using assms(1) by (auto simp: candidate_from_path_def split: if_splits)
  then have "real_path fs q" using resolve_walk_real assms(2) by blast
  with q show ?thesis by (auto simp: candidate_in_def)
qed

definition scan_hit :: "fs \<Rightarrow> fpath \<Rightarrow> fpath \<Rightarrow> bool" where
  "scan_hit fs root p = (fs_is_file fs p \<and>
     (case resolve_walk fs max_links [] p of Inl e \<Rightarrow> False | Inr q \<Rightarrow> fs_is_relative_to fs q root = Inr True))"

definition scan_key :: "fs \<Rightarrow> fpath \<Rightarrow> int \<times> string" where
  "scan_key fs p = ((case fs_stat fs p of Inl e \<Rightarrow> 0 | Inr st \<Rightarrow> snd st), fpath_str p)"

lemma map_snd_filter_fst: "map snd (filter fst (map (\<lambda>p. (P p, p)) xs)) = filter P xs"
  by (induction xs) auto

lemma scanned_files_eq:
  assumes "scanned_files fs root sr pat = Inr files"
  shows "files = map snd (sort_key fst (map (\<lambda>p. (scan_key fs p, p))
    (filter (scan_hit fs root) (fs_rglob fs sr pat))))"
proof -
  let ?xs = "filter (fs_is_file fs) (fs_rglob fs sr pat)"
  obtain found keyed where
    found: "rmapM (\<lambda>p. rbind (resolve_walk fs max_links [] p) (\<lambda>q.
              rbind (fs_is_relative_to fs q root) (\<lambda>ok. Inr (ok, p)))) ?xs = Inr found" and
    keyed: "rmapM (\<lambda>p. rbind (fs_stat fs p) (\<lambda>st. Inr ((snd st, fpath_str p), p)))
              (map snd (filter fst found)) = Inr keyed" and
    files: "files = map snd (sort_key fst keyed)"
    using assms by (auto simp: scanned_files_def)
  have "found = map (\<lambda>p. (scan_hit fs root p, p)) ?xs"
    by (rule rmapM_map [OF found]) (auto simp: scan_hit_def)
  then have "map snd (filter fst found) = filter (scan_hit fs root) (fs_rglob fs sr pat)"
    by (simp add: map_snd_filter_fst filter_filter) (rule filter_cong; auto simp: scan_hit_def)
  moreover have "keyed = map (\<lambda>p. (scan_key fs p, p)) (map snd (filter fst found))"
    by (rule rmapM_map [OF keyed]) (auto simp: scan_key_def)
  ultimately show ?thesis using files by simp
qed

lemma scanned_files_set:
  "scanned_files fs root sr pat = Inr files \<Longrightarrow> set files = {p \<in> set (fs_rglob fs sr pat). scan_hit fs root p}"
  by (drule scanned_files_eq) (simp add: image_image)

lemma add_path_reason_keys: "fst ` set (add_path_reason r p d) = insert p (fst ` set d)"
  by (simp add: add_path_reason_def split: option.splits)

lemma fold_add_path_reason_keys:
  "fst ` set (fold (add_path_reason r) ps d) = set ps \<union> fst ` set d"
  by (induction ps arbitrary: d) (auto simp: add_path_reason_keys)

definition file_expired :: "fs \<Rightarrow> pydt \<Rightarrow> fpath \<Rightarrow> bool" where
  "file_expired fs cutoff p = (case fs_stat fs p of Inl e \<Rightarrow> False | Inr st \<Rightarrow>
     (case mtime_datetime (snd st) of Inl e \<Rightarrow> False | Inr modified \<Rightarrow> dt_less modified cutoff))"

definition expired_at :: "fs \<Rightarrow> pydt \<Rightarrow> int option \<Rightarrow> fpath \<Rightarrow> bool" where
  "expired_at fs now age p = (case age of None \<Rightarrow> False | Some days \<Rightarrow>
     (case dt_minus_days now days of Inl e \<Rightarrow> False | Inr cutoff \<Rightarrow> file_expired fs cutoff p))"

lemma add_age_reason_Inr:
  "add_age_reason fs cutoff days p d = Inr d' \<Longrightarrow>
   d' = (if file_expired fs cutoff p then add_path_reason (''older-than-'' @ int_to_str days @ ''-days'') p d else d)"
  by (cases "fs_stat fs p") (auto simp: add_age_reason_def file_expired_def)

lemma age_reasons_keys:
  assumes "rfold (add_age_reason fs cutoff days) files d = Inr d'"
  shows "fst ` set d' = fst ` set d \<union> {p \<in> set files. file_expired fs cutoff p}"
  using assms
proof (induction files arbitrary: d)
  case (Cons p ps)
  then obtain e where e: "add_age_reason fs cutoff days p d = Inr e"
    "rfold (add_age_reason fs cutoff days) ps e = Inr d'" by auto
  have "fst ` set e = (if file_expired fs cutoff p then insert p (fst ` set d) else fst ` set d)"
    using add_age_reason_Inr [OF e(1)] by (simp add: add_path_reason_keys)
  then show ?case using Cons.IH [OF e(2)] by auto
qed simp

lemma count_reasons_keys:
  "fst ` set (if n < int (length files) then fold (add_path_reason r) (take (length files - nat n) files) e else e) =
   fst ` set e \<union> set (take (length files - nat n) files)"
proof (cases "n < int (length files)")
  case False
  then have "length files - nat n = 0" by simp
  with False show ?thesis by simp
qed (simp add: fold_add_path_reason_keys Un_commute)

lemma retention_reasons_keys:
  assumes "retention_reasons fs age n now files = Inr d"
  shows "fst ` set d = {p \<in> set files. expired_at fs now age p} \<union> set (take (length files - nat n) files)"
proof (cases age)
  case None
  then show ?thesis
    using assms count_reasons_keys [of n files _ "[]"] by (simp add: retention_reasons_def expired_at_def) force
next
  case (Some days)
  then obtain cutoff e where e: "dt_minus_days now days = Inr cutoff"
    "rfold (add_age_reason fs cutoff days) files [] = Inr e" and
    d: "d = (if n < int (length files) then fold (add_path_reason (''exceeds-'' @ int_to_str n @ ''-file-retention-count''))
              (take (length files - nat n) files) e else e)"
    using assms by (auto simp: retention_reasons_def)
  show ?thesis
    unfolding d count_reasons_keys age_reasons_keys [OF e(2)] using Some e(1) by (simp add: expired_at_def)
qed

lemma retention_candidates_in:
  assumes "retention_candidates fs root cat act age n now sr pat = Inr cs" and "wf_fs fs" and "c \<in> set cs"
  shows "candidate_in fs root c"
proof (cases "fs_exists fs sr")
  case True
  then obtain files d cs' where f: "scanned_files fs root sr pat = Inr files"
    and d: "retention_reasons fs age n now files = Inr d"
    and cs': "rmapM (\<lambda>(p, rs). candidate_from_path fs root act cat p (py_join '', '' (sorted_set rs))) d = Inr cs'"
    and cs: "c \<in> set cs'"
    using assms(1,3) by (auto simp: retention_candidates_def split: if_splits)
  from rmapM_set [OF cs' cs] obtain p rs where p: "(p, rs) \<in> set d"
    "candidate_from_path fs root act cat p (py_join '', '' (sorted_set rs)) = Inr c" by auto
  have "p \<in> fst ` set d" using p(1) by force
  then have "p \<in> set files" unfolding retention_reasons_keys [OF d] using in_set_takeD by fastforce
  then have "p \<in> set (fs_rglob fs sr pat)" unfolding scanned_files_set [OF f] by simp
  then have "list_all proper_component p"
    using assms(2) by (auto simp: fs_rglob_def wf_fs_def list_all_iff)
  then show ?thesis using candidate_from_path_in p(2) by blast
qed (use assms in \<open>auto simp: retention_candidates_def split: if_splits\<close>)

end
