(* ===== verification/Lifecycle_Apply.thy ===== *)
theory Lifecycle_Apply
  imports Lifecycle_Plans
begin

text \<open>
  Applying a retention plan, \<open>apply_retention_plan\<close> of \<open>lifecycle.py\<close>: compacting the
  ledger into an export file, deleting the planned files, and appending the ledger event that
  records it. Every definition threads the file system; exceptions keep what was already done.
\<close>

section \<open>Records\<close>

record retention_apply_result =
  ap_applied_at :: string
  ap_deleted_artifacts :: "retention_candidate list"
  ap_deleted_receipts :: "retention_candidate list"
  ap_errors :: "string list"
  ap_ledger_event :: "pyval option"
  ap_ledger_event_path :: "string option"
  ap_ledger_export_ref :: "artifact_ref option"
  ap_outcome :: string
  ap_plan :: retention_plan

definition apply_result_to_record :: "retention_apply_result \<Rightarrow> pyval" where
  "apply_result_to_record r = PDict
     [(''applied_at'', PStr (ap_applied_at r)),
      (''deleted_artifacts'', PList (map candidate_to_record (ap_deleted_artifacts r))),
      (''deleted_receipts'', PList (map candidate_to_record (ap_deleted_receipts r))),
      (''errors'', PList (map PStr (ap_errors r))),
      (''ledger_event'', (case ap_ledger_event r of None \<Rightarrow> PNone | Some e \<Rightarrow> e)),
      (''ledger_event_path'', opt_val (ap_ledger_event_path r)),
      (''ledger_export_ref'',
        (case ap_ledger_export_ref r of None \<Rightarrow> PNone | Some a \<Rightarrow> artifact_ref_to_record a)),
      (''outcome'', PStr (ap_outcome r)),
      (''plan'', retention_plan_to_record (ap_plan r))]"

section \<open>Operations\<close>

definition compact_ledger :: "ledger_compaction_plan \<Rightarrow> artifact_ref io" where
  "compact_ledger plan =
     (case lc_export_path plan of
        None \<Rightarrow> io_result (Inl (ValueError ''ledger compaction was not planned''))
      | Some export_path \<Rightarrow>
        if \<not> lc_action_required plan \<or> export_path = []
        then io_result (Inl (ValueError ''ledger compaction was not planned''))
        else io_bind (os_read_bytes (lc_ledger_path plan)) (\<lambda>source.
          let source_lines = bytes_lines source;
              export_bytes = concat (take (lc_compacted_line_count plan) source_lines);
              retained_bytes = concat (drop (lc_compacted_line_count plan) source_lines)
          in io_bind (os_mkdir_parents (path_parent_str export_path)) (\<lambda>_.
             io_bind (os_write_bytes export_path export_bytes) (\<lambda>_.
             io_bind (os_write_bytes (lc_ledger_path plan) retained_bytes) (\<lambda>_.
             io_return \<lparr>ar_artifact_id = digest_id ''artifact:'' (sha256_prefixed export_bytes),
               ar_byte_count = int (length export_bytes), ar_digest = sha256_prefixed export_bytes,
               ar_media_type = ''application/x-ndjson'', ar_path = path_str (posix_path_of export_path),
               ar_purpose = ''ledger-compaction-export''\<rparr>)))))"

fun delete_candidates :: "retention_candidate list \<Rightarrow> string list \<Rightarrow>
    (retention_candidate list \<times> string list) io" where
  "delete_candidates [] errors fs = (fs, Inr ([], errors))"
| "delete_candidates (c # cs) errors fs =
     (if \<not> rc_safe_to_apply c
      then delete_candidates cs (errors @ [''unsafe retention candidate skipped: '' @ rc_path c]) fs
      else case os_unlink (rc_path c) fs of
          (fs', Inl (OSError t)) \<Rightarrow>
            delete_candidates cs (errors @ [''failed to delete '' @ rc_relative_path c @ '': '' @ t]) fs'
        | (fs', Inl e) \<Rightarrow> (fs', Inl e)
        | (fs', Inr _) \<Rightarrow> io_bind (delete_candidates cs errors) (\<lambda>(ds, es). io_return (c # ds, es)) fs')"

definition lifecycle_ledger_event :: "string \<Rightarrow> artifact_ref list \<Rightarrow> string \<Rightarrow> string \<Rightarrow>
    retention_plan \<Rightarrow> string \<Rightarrow> pyval" where
  "lifecycle_ledger_event actor artifact_refs event_time outcome plan target =
     (let digest = digest_json (PDict
        [(''action'', PStr ''lifecycle.retention.applied''), (''actor'', PStr actor),
         (''event_time'', PStr event_time), (''outcome'', PStr outcome),
         (''plan_digest'', PStr (rp_plan_digest plan)), (''plan_id'', PStr (rp_plan_id plan)),
         (''target'', PStr target)])
      in PDict
        [(''action'', PStr ''lifecycle.retention.applied''), (''actor'', PStr actor),
         (''artifact_refs'', PList (map artifact_ref_to_record artifact_refs)),
         (''event_id'', PStr (digest_id ''ledger-event:'' digest)),
         (''event_time'', PStr event_time), (''outcome'', PStr outcome),
         (''record_refs'', PList [PDict
            [(''digest'', PStr (rp_plan_digest plan)), (''outcome'', PStr outcome),
             (''record_id'', PStr (rp_plan_id plan)), (''record_type'', PStr ''retention-plan'')]]),
         (''receipt_refs'', PList []), (''schema_version'', PInt LEDGER_SCHEMA_VERSION),
         (''target'', PStr target)])"

text \<open>The compaction with its \<open>except OSError\<close>: the export reference and the errors.\<close>

definition try_compaction :: "ledger_compaction_plan \<Rightarrow> (artifact_ref option \<times> string list) io" where
  "try_compaction compaction =
     (if lc_action_required compaction
      then io_catch_os (io_bind (compact_ledger compaction) (\<lambda>r. io_return (Some r, [])))
             (\<lambda>t. io_return (None, [''ledger compaction failed: '' @ t]))
      else io_return (None, []))"

definition delete_planned :: "retention_plan \<Rightarrow> string list \<Rightarrow>
    (retention_candidate list \<times> retention_candidate list \<times> string list) io" where
  "delete_planned plan errors =
     (if errors \<noteq> [] then io_return ([], [], errors)
      else io_bind (delete_candidates (rp_artifact_candidates plan) errors) (\<lambda>(artifacts, errors).
           io_bind (delete_candidates (rp_receipt_candidates plan) errors) (\<lambda>(receipts, errors).
           io_return (artifacts, receipts, errors))))"

definition run_retention_plan :: "string \<Rightarrow> string \<Rightarrow> retention_plan \<Rightarrow> retention_apply_result io" where
  "run_retention_plan actor applied_at plan =
     io_bind (try_compaction (rp_ledger_compaction plan)) (\<lambda>(export_ref, errors).
     io_bind (delete_planned plan errors) (\<lambda>(artifacts, receipts, errors).
     let outcome = (if errors = [] then ''success'' else ''failure'');
         event = lifecycle_ledger_event actor
           (case export_ref of None \<Rightarrow> [] | Some r \<Rightarrow> [r]) applied_at outcome plan
           ''repo:workspace-governance-control-fabric''
     in io_bind (append_ledger_event (rp_ledger_path plan) event) (\<lambda>event_path.
        io_return \<lparr>ap_applied_at = applied_at, ap_deleted_artifacts = artifacts,
          ap_deleted_receipts = receipts, ap_errors = errors, ap_ledger_event = Some event,
          ap_ledger_event_path = Some event_path, ap_ledger_export_ref = export_ref,
          ap_outcome = outcome, ap_plan = plan\<rparr>)))"

text \<open>
  With no \<open>now\<close> the clock is read twice: \<open>clock\<close> when the apply starts, \<open>clock'\<close>
  when the plan is built.
\<close>

definition apply_retention_plan :: "(int \<Rightarrow> int) \<Rightarrow> pydt \<Rightarrow> pydt \<Rightarrow> retention_args \<Rightarrow> string \<Rightarrow>
    bool \<Rightarrow> retention_apply_result io" where
  "apply_retention_plan local_offset clock clock' a actor confirm =
     io_bind (io_result (lifecycle_timestamp local_offset clock (ra_now a))) (\<lambda>applied.
     io_bind (\<lambda>fs. (fs, build_retention_plan local_offset clock' a fs)) (\<lambda>plan.
     if \<not> confirm then
       io_return \<lparr>ap_applied_at = isoformat_z applied, ap_deleted_artifacts = [],
         ap_deleted_receipts = [],
         ap_errors = [''explicit confirmation is required before applying retention cleanup''],
         ap_ledger_event = None, ap_ledger_event_path = None, ap_ledger_export_ref = None,
         ap_outcome = ''blocked'', ap_plan = plan\<rparr>
     else run_retention_plan actor (isoformat_z applied) plan))"

section \<open>Applying stays inside the repository root\<close>

text \<open>The paths of a plan, and that the export file is not reached through a symbolic link.\<close>

definition export_unlinked :: "fs \<Rightarrow> retention_plan \<Rightarrow> bool" where
  "export_unlinked fs plan = (case lc_export_path (rp_ledger_compaction plan) of None \<Rightarrow> True
     | Some e \<Rightarrow> path_resolve fs e = Inr (pp_tail (posix_path_of e)))"

lemma resolve_local_path_real:
  assumes "resolve_local_path fs root v l = Inr p" and "real_path fs root"
  shows "real_path fs p \<and> prefix root p"
proof -
  have r: "resolve_from fs root v = Inr p" and rel: "fs_is_relative_to fs p root = Inr True"
    using assms(1) by (auto simp: resolve_local_path_def split: if_splits)
  have "real_path fs p" by (rule resolve_from_real [OF r]) (use assms(2) in \<open>simp add: real_path_def\<close>)
  then show ?thesis using rel fs_is_relative_to_resolved [of fs p root] assms(2)
    by (simp add: real_path_def)
qed

lemma compaction_plan_ledger:
  "build_ledger_compaction_plan fs g ledger ed n = Inr c \<Longrightarrow> lc_ledger_path c = fpath_str ledger"
  by (auto simp: build_ledger_compaction_plan_def Let_def split: if_splits)

lemma compaction_plan_export:
  assumes "build_ledger_compaction_plan fs (isoformat_z now) ledger export_dir n = Inr c"
    and "lc_export_path c = Some e" "list_all proper_component export_dir"
  shows "\<exists>name. e = fpath_str (export_dir @ [name]) \<and> list_all proper_component (export_dir @ [name])"
proof -
  obtain b where "e = fpath_str (export_dir @ [ledger_export_name (isoformat_z now) (sha256_prefixed b)])"
    using assms by (auto simp: build_ledger_compaction_plan_def Let_def split: if_splits)
  then show ?thesis using ledger_export_name_proper [OF isoformat_z_no_slash] assms(3) by auto
qed

lemma build_retention_plan_paths:
  assumes plan: "build_retention_plan lo clock a fs = Inr plan" and wf: "wf_fs fs"
    and root: "path_resolve fs (ra_repo_root a) = Inr root"
  shows "real_path fs root" and "node_at fs root = Some DirNode"
    and "\<exists>L. rp_ledger_path plan = fpath_str L \<and> lc_ledger_path (rp_ledger_compaction plan) = fpath_str L \<and>
      real_path fs L \<and> prefix root L"
    and "lc_export_path (rp_ledger_compaction plan) = Some e \<Longrightarrow> export_unlinked fs plan \<Longrightarrow>
      \<exists>E. e = fpath_str E \<and> real_path fs E \<and> prefix root E"
    and "c \<in> set (rp_artifact_candidates plan) \<union> set (rp_receipt_candidates plan) \<Longrightarrow> candidate_in fs root c"
proof -
  have real: "real_path fs root"
    by (rule resolve_from_real [OF root]) (use wf in \<open>simp add: wf_fs_def\<close>)
  then show "real_path fs root" .
  obtain now th A R L E arts recs comp where
    dir: "fs_is_dir fs root" and
    L: "resolve_local_path fs root (ra_ledger_path a) ''ledger_path'' = Inr L" and
    E: "resolve_local_path fs root (ra_export_dir a) ''export_dir'' = Inr E" and
    arts: "retention_candidates fs root ''artifact'' ''delete'' (rt_artifact_max_age_days th)
       (rt_artifact_max_count th) now A ''*'' = Inr arts" and
    recs: "retention_candidates fs root ''receipt'' ''delete'' (rt_receipt_max_age_days th)
       (rt_receipt_max_count th) now R ''*.json'' = Inr recs" and
    comp: "build_ledger_compaction_plan fs (isoformat_z now) L E (rt_ledger_max_events th) = Inr comp" and
    p: "plan = retention_plan_of root A R L (isoformat_z now) th arts recs comp"
    using plan root by (auto simp: build_retention_plan_def split: if_splits)
  show "node_at fs root = Some DirNode"
    using dir real by (simp add: fs_is_dir_def followed_link_free real_path_def)
  note L' = resolve_local_path_real [OF L real] and E' = resolve_local_path_real [OF E real]
  show "\<exists>L. rp_ledger_path plan = fpath_str L \<and> lc_ledger_path (rp_ledger_compaction plan) = fpath_str L \<and>
      real_path fs L \<and> prefix root L"
    using L' compaction_plan_ledger [OF comp] by (auto simp: p retention_plan_of_def Let_def)
  show "c \<in> set (rp_artifact_candidates plan) \<union> set (rp_receipt_candidates plan) \<Longrightarrow> candidate_in fs root c"
    using retention_candidates_in [OF arts wf] retention_candidates_in [OF recs wf]
    by (auto simp: p retention_plan_of_def Let_def)
  assume e: "lc_export_path (rp_ledger_compaction plan) = Some e" and un: "export_unlinked fs plan"
  then obtain name where name: "e = fpath_str (E @ [name])" "list_all proper_component (E @ [name])"
    using compaction_plan_export [OF comp] E' by (auto simp: p retention_plan_of_def Let_def real_path_def)
  have "path_resolve fs e = Inr (E @ [name])"
    using un e name by (simp add: export_unlinked_def posix_path_of_fpath_str)
  then have "real_path fs (E @ [name])"
    by (rule resolve_from_real) (use wf in \<open>simp add: wf_fs_def\<close>)
  with name E' show "\<exists>E. e = fpath_str E \<and> real_path fs E \<and> prefix root E" by auto
qed

lemma io_keeps_delete_candidates:
  assumes "\<And>c. c \<in> set cs \<Longrightarrow> \<exists>q \<in> T. rc_path c = fpath_str q \<and> A q"
  shows "io_keeps T A (delete_candidates cs errors)"
  using assms
proof (induction cs arbitrary: errors)
  case Nil
  then show ?case by (simp add: io_keeps_def)
next
  case (Cons c cs)
  obtain q where q: "q \<in> T" "rc_path c = fpath_str q" "A q" using Cons.prems by auto
  have un: "io_keeps T A (os_unlink (rc_path c))" unfolding q(2) by (rule io_keeps_unlink [where A = A, OF q(1,3)])
  have rest: "io_keeps T A (delete_candidates cs es)" for es using Cons by simp
  have rest': "io_keeps T A (io_bind (delete_candidates cs es) (\<lambda>(ds, es). io_return (c # ds, es)))" for es
    by (rule io_keeps_bind [OF rest]) (auto intro: io_keepsI split: prod.splits)
  show ?case
    unfolding io_keeps_def
  proof (intro allI impI)
    fix fs assume T: "\<forall>t \<in> T. real_path fs t"
    have k: "fs_keeps A fs (fst (os_unlink (rc_path c) fs))" using un T by (simp add: io_keeps_def)
    note then_rest = io_keeps_then [OF un rest T] and then_rest' = io_keeps_then [OF un rest' T]
    have skip: "fs_keeps A fs (fst (delete_candidates cs es fs))" for es
      using rest T by (simp add: io_keeps_def)
    show "fs_keeps A fs (fst (delete_candidates (c # cs) errors fs))"
      using k then_rest then_rest' skip
      by (cases "os_unlink (rc_path c) fs") (auto split: sum.splits py_error.splits)
  qed
qed

lemma fs_keeps_outside: "fs_keeps A fs fs' \<Longrightarrow> \<not> A p \<Longrightarrow> node_at fs' p = node_at fs p"
  unfolding fs_keeps_def by blast

lemma fs_keeps_dir: "fs_keeps A fs fs' \<Longrightarrow> node_at fs p = Some DirNode \<Longrightarrow> node_at fs' p = Some DirNode"
  unfolding fs_keeps_def by blast

lemma io_keeps_append_ledger_event:
  assumes "L \<in> T" and "\<And>p. prefix p L \<Longrightarrow> A p" and "list_all proper_component L"
  shows "io_keeps T A (append_ledger_event (fpath_str L) ev)"
  unfolding append_ledger_event_def
  by (intro io_keeps_bind io_keepsI io_keeps_call [OF assms(1,2)] io_keeps_mkdir_parent [OF assms])

lemma io_keeps_compact_ledger:
  assumes "L \<in> T" "E \<in> T" and "\<And>p. prefix p L \<or> prefix p E \<Longrightarrow> A p"
    and "list_all proper_component E"
    and "lc_ledger_path c = fpath_str L" and "\<And>e. lc_export_path c = Some e \<Longrightarrow> e = fpath_str E"
  shows "io_keeps T A (compact_ledger c)"
proof (cases "lc_export_path c")
  case None
  then show ?thesis by (simp add: compact_ledger_def io_keepsI)
next
  case (Some e)
  have e: "e = fpath_str E" using assms(6) Some by simp
  have "io_keeps T A (os_write_bytes (fpath_str E) b)" "io_keeps T A (os_write_bytes (fpath_str L) b)" for b
    by (rule io_keeps_call; use assms(1-3) in auto)+
  moreover have "io_keeps T A (os_mkdir_parents (path_parent_str (fpath_str E)))"
    by (rule io_keeps_mkdir_parent) (use assms(2-4) in auto)
  ultimately show ?thesis
    unfolding compact_ledger_def Some e assms(5)
    by (simp add: Let_def io_keepsI io_keeps_bind)
qed

lemma io_keeps_run_retention_plan:
  assumes "L \<in> T" "list_all proper_component L" and "\<And>p. prefix p L \<Longrightarrow> A p"
    and "rp_ledger_path plan = fpath_str L" and "io_keeps T A (compact_ledger (rp_ledger_compaction plan))"
    and "\<And>c. c \<in> set (rp_artifact_candidates plan) \<union> set (rp_receipt_candidates plan) \<Longrightarrow>
      \<exists>q \<in> T. rc_path c = fpath_str q \<and> A q"
  shows "io_keeps T A (run_retention_plan actor at plan)"
proof -
  have "io_keeps T A (append_ledger_event (rp_ledger_path plan) ev)" for ev
    unfolding assms(4) by (rule io_keeps_append_ledger_event) (use assms in auto)
  moreover have "io_keeps T A (try_compaction (rp_ledger_compaction plan))"
    unfolding try_compaction_def by (simp add: io_keepsI io_keeps_bind io_keeps_catch assms(5))
  moreover have "io_keeps T A (delete_candidates (rp_artifact_candidates plan) es)"
    "io_keeps T A (delete_candidates (rp_receipt_candidates plan) es)" for es
    by (rule io_keeps_delete_candidates; use assms(6) in auto)+
  then have "io_keeps T A (delete_planned plan es)" for es
    unfolding delete_planned_def by (auto simp: io_keepsI intro!: io_keeps_bind split: prod.splits)
  ultimately show ?thesis
    unfolding run_retention_plan_def
    by (auto simp: Let_def io_keepsI intro!: io_keeps_bind split: prod.splits)
qed

lemma plan_compaction_keeps:
  assumes plan: "build_retention_plan lo clock' a fs = Inr plan" and wf: "wf_fs fs"
    and root: "path_resolve fs (ra_repo_root a) = Inr root" and un: "export_unlinked fs plan"
  shows "io_keeps {t. real_path fs t \<and> prefix root t} (\<lambda>p. prefix root p \<or> prefix p root)
    (compact_ledger (rp_ledger_compaction plan))"
proof (cases "lc_export_path (rp_ledger_compaction plan)")
  case None
  then show ?thesis by (simp add: compact_ledger_def io_keepsI)
next
  case (Some e)
  note paths = build_retention_plan_paths [OF plan wf root]
  obtain L where L: "lc_ledger_path (rp_ledger_compaction plan) = fpath_str L" "real_path fs L" "prefix root L"
    using paths(3) by auto
  obtain E where E: "e = fpath_str E" "real_path fs E" "prefix root E" using paths(4) Some un by blast
  have below: "prefix root t \<Longrightarrow> prefix p t \<Longrightarrow> prefix root p \<or> prefix p root" for p t
    by (meson prefix_same_cases)
  show ?thesis
    by (rule io_keeps_compact_ledger [where L = L and E = E])
      (use L E Some below in \<open>auto simp: real_path_def\<close>)
qed

lemma io_keeps_try_compaction: "io_keeps T A (compact_ledger c) \<Longrightarrow> io_keeps T A (try_compaction c)"
  unfolding try_compaction_def by (simp add: io_keepsI io_keeps_bind io_keeps_catch)

lemma retention_contained:
  assumes plan: "build_retention_plan lo clock' a fs = Inr plan" and wf: "wf_fs fs"
    and root: "path_resolve fs (ra_repo_root a) = Inr root" and un: "export_unlinked fs plan"
  shows "fs_keeps (\<lambda>p. prefix root p \<or> prefix p root) fs
    (fst (apply_retention_plan lo clock clock' a actor confirm fs))"
proof -
  let ?A = "\<lambda>p. prefix root p \<or> prefix p root"
  let ?T = "{t. real_path fs t \<and> prefix root t}"
  note paths = build_retention_plan_paths [OF plan wf root]
  note compact = plan_compaction_keeps [OF plan wf root un]
  have below: "prefix root t \<Longrightarrow> prefix p t \<Longrightarrow> ?A p" for p t by (meson prefix_same_cases)
  obtain L where L: "rp_ledger_path plan = fpath_str L" "real_path fs L" "prefix root L"
    using paths(3) by auto
  have cand: "\<exists>q \<in> ?T. rc_path c = fpath_str q \<and> ?A q"
    if "c \<in> set (rp_artifact_candidates plan) \<union> set (rp_receipt_candidates plan)" for c
    using paths(5) [OF that] unfolding candidate_in_def by blast
  have "io_keeps ?T ?A (run_retention_plan actor at plan)" for at
    by (rule io_keeps_run_retention_plan [where L = L, OF _ _ _ L(1) compact cand])
      (use L below in \<open>auto simp: real_path_def\<close>)
  then have "fs_keeps ?A fs (fst (run_retention_plan actor at plan fs))" for at
    by (simp add: io_keeps_def)
  then show ?thesis
    by (cases "lifecycle_timestamp lo clock (ra_now a)")
      (simp_all add: apply_retention_plan_def io_bind_def io_result_def io_return_def plan)
qed



text \<open>An example: an expired artifact, a fresh one, and a symbolic link to a file outside.\<close>

definition sample_fs :: fs where
  "sample_fs = \<lparr>fs_nodes =
     [([''r''], DirNode), ([''etc''], DirNode), ([''etc'', ''passwd''], FileNode ''root'' 0),
      ([''r'', ''l''], FileNode [CHR 0x7B, CHR 0x7D, CHR 0x0A] 0),
      ([''r'', ''a''], DirNode), ([''r'', ''a'', ''old.log''], FileNode ''x'' 0),
      ([''r'', ''a'', ''new.log''], FileNode ''y'' (1767225600 * 2 ^ 30)),
      ([''r'', ''a'', ''link''], LinkNode ''/etc/passwd'')],
     fs_protected = [], fs_clock = 0, fs_cwd = []\<rparr>"

definition sample_args :: retention_args where
  "sample_args = \<lparr>ra_repo_root = ''/r'', ra_artifact_root = ''a'', ra_receipt_dir = ''b'',
     ra_ledger_path = ''l'', ra_export_dir = ''e'', ra_profile = ''ci'',
     ra_now = NowText ''2026-01-02T00:00:00Z''\<rparr>"

definition utc_clock :: pydt where
  "utc_clock = \<lparr>dt_local = epoch_local, dt_off = Some 0\<rparr>"

lemma candidate_from_path_eq:
  "fs_stat fs p = Inr st \<Longrightarrow> mtime_datetime (snd st) = Inr m \<Longrightarrow> resolve_walk fs max_links [] p = Inr q \<Longrightarrow>
   fs_is_relative_to fs q root = Inr safe \<Longrightarrow> prefix root q \<Longrightarrow>
   \<exists>c. candidate_from_path fs root act cat p r = Inr c \<and> rc_path c = fpath_str q \<and> rc_safe_to_apply c = safe"
  by (simp add: candidate_from_path_def)

lemma sample_candidates:
  "\<exists>c. retention_candidates sample_fs [''r''] cat act (Some 7) 200
     \<lparr>dt_local = epoch_local + 20455 * us_per_day, dt_off = Some 0\<rparr> [''r'', ''a''] ''*'' = Inr [c] \<and>
     rc_path c = ''/r/a/old.log'' \<and> rc_safe_to_apply c"
proof -
  let ?now = "\<lparr>dt_local = epoch_local + 20455 * us_per_day, dt_off = Some 0\<rparr> :: pydt"
  have 1: "scanned_files sample_fs [''r''] [''r'', ''a''] ''*'' =
      Inr [[''r'', ''a'', ''old.log''], [''r'', ''a'', ''new.log'']]" by code_simp
  have 2: "retention_reasons sample_fs (Some 7) 200 ?now [[''r'', ''a'', ''old.log''], [''r'', ''a'', ''new.log'']]
      = Inr [([''r'', ''a'', ''old.log''], [''older-than-7-days''])]" by code_simp
  have 3: "fs_stat sample_fs [''r'', ''a'', ''old.log''] = Inr (''x'', 0)"
    "mtime_datetime (snd (''x'', 0)) = Inr utc_clock"
    "resolve_walk sample_fs max_links [] [''r'', ''a'', ''old.log''] = Inr [''r'', ''a'', ''old.log'']"
    "fs_is_relative_to sample_fs [''r'', ''a'', ''old.log''] [''r''] = Inr True"
    "prefix [''r''] [''r'', ''a'', ''old.log'']" by code_simp+
  have 4: "fs_exists sample_fs [''r'', ''a'']" "fs_is_dir sample_fs [''r'', ''a'']" by code_simp+
  have 5: "fpath_str [''r'', ''a'', ''old.log''] = ''/r/a/old.log''" by code_simp
  obtain c where c: "candidate_from_path sample_fs [''r''] act cat [''r'', ''a'', ''old.log'']
      (py_join '', '' (sorted_set [''older-than-7-days''])) = Inr c" "rc_path c = ''/r/a/old.log''" "rc_safe_to_apply c"
    using candidate_from_path_eq [OF 3] unfolding 5 by blast
  show ?thesis using c by (simp add: retention_candidates_def 1 2 4)
qed

lemma sample_plan:
  "\<exists>plan c. build_retention_plan (\<lambda>t. 0) clock sample_args sample_fs = Inr plan \<and>
     rp_artifact_candidates plan = [c] \<and> rc_path c = ''/r/a/old.log'' \<and> rc_safe_to_apply c \<and>
     rp_receipt_candidates plan = [] \<and> lc_action_required (rp_ledger_compaction plan) = False \<and>
     lc_export_path (rp_ledger_compaction plan) = None \<and> rp_ledger_path plan = ''/r/l''"
proof -
  let ?now = "\<lparr>dt_local = epoch_local + 20455 * us_per_day, dt_off = Some 0\<rparr> :: pydt"
  have 1: "path_resolve sample_fs ''/r'' = Inr [''r'']" "fs_is_dir sample_fs [''r'']"
    "resolve_local_path sample_fs [''r''] ''a'' ''artifact_root'' = Inr [''r'', ''a'']"
    "resolve_local_path sample_fs [''r''] ''b'' ''receipt_dir'' = Inr [''r'', ''b'']"
    "resolve_local_path sample_fs [''r''] ''l'' ''ledger_path'' = Inr [''r'', ''l'']"
    "resolve_local_path sample_fs [''r''] ''e'' ''export_dir'' = Inr [''r'', ''e'']" by code_simp+
  have 2: "lifecycle_timestamp (\<lambda>t. 0) clock (NowText ''2026-01-02T00:00:00Z'') = Inr ?now" by code_simp
  have 3: "retention_thresholds_for ''ci'' = Inr (profile_thresholds ''ci'' 7 200 1000 14 200)" by code_simp
  have 4: "retention_candidates sample_fs [''r''] ''receipt'' ''delete'' (Some 14) 200 ?now [''r'', ''b''] ''*.json'' = Inr []"
    by code_simp
  have 5: "fs_exists sample_fs [''r'', ''l'']" "fs_is_file sample_fs [''r'', ''l'']"
    "fs_stat sample_fs [''r'', ''l''] = Inr ([CHR 0x7B, CHR 0x7D, CHR 0x0A], 0)"
    "length (bytes_lines [CHR 0x7B, CHR 0x7D, CHR 0x0A]) = 1"
    "fpath_str [''r'', ''l''] = ''/r/l''" by code_simp+
  obtain c where c: "retention_candidates sample_fs [''r''] ''artifact'' ''delete'' (Some 7) 200 ?now
      [''r'', ''a''] ''*'' = Inr [c]" "rc_path c = ''/r/a/old.log''" "rc_safe_to_apply c"
    using sample_candidates by blast
  show ?thesis
    using c by (simp add: build_retention_plan_def sample_args_def 1 2 3 4 5 profile_thresholds_def
        build_ledger_compaction_plan_def retention_plan_of_def Let_def)
qed


section \<open>What an apply reports\<close>

lemma fst_io_bind_return: "fst (io_bind m (\<lambda>(x, y). io_return (g x y)) fs) = fst (m fs)"
  by (auto simp: io_bind_def io_return_def split: prod.splits sum.splits)

lemma os_unlink_gone:
  assumes "real_path fs q" and "os_unlink (fpath_str q) fs = (fs', Inr u)"
  shows "node_at fs' q = None"
proof -
  have comps: "list_all proper_component q" using assms(1) by (simp add: real_path_def)
  have "q \<noteq> []"
    using assms(2) by (auto simp: os_unlink_def posix_path_of_fpath_str [OF comps] Let_def node_at_def
        split: if_splits sum.splits)
  then show ?thesis
    using assms(2) real_path_resolve [OF real_path_butlast [OF assms(1)]]
    by (auto simp: os_unlink_def posix_path_of_fpath_str [OF comps] Let_def node_at_remove
        split: if_splits option.splits fs_node.splits)
qed

lemma os_unlink_creates_nothing:
  "node_at fs p = None \<Longrightarrow> node_at (fst (os_unlink s fs)) p = None"
proof -
  assume "node_at fs p = None"
  then have "node_at (fs\<lparr>fs_nodes := filter (\<lambda>e. fst e \<noteq> t) (fs_nodes fs)\<rparr>) p = None" for t
    by (auto simp: node_at_def map_of_filter_key split: if_splits)
  with \<open>node_at fs p = None\<close> show ?thesis
    by (auto simp: os_unlink_def Let_def split: sum.splits option.splits fs_node.splits)
qed

lemma delete_candidates_creates_nothing:
  "node_at fs p = None \<Longrightarrow> node_at (fst (delete_candidates cs es fs)) p = None"
proof (induction cs es fs rule: delete_candidates.induct)
  case (2 c cs es fs)
  note gone = os_unlink_creates_nothing [OF "2.prems", of "rc_path c"]
  show ?case
  proof (cases "rc_safe_to_apply c")
    case True
    then show ?thesis using "2.IH"(2,3) gone
      by (cases "os_unlink (rc_path c) fs")
        (auto simp: fst_io_bind_return split: sum.splits py_error.splits)
  qed (use "2.IH"(1) "2.prems" in simp)
qed simp

lemma delete_candidates_report:
  "delete_candidates cs es fs = (fs', Inr (ds, es')) \<Longrightarrow>
   set ds \<subseteq> {c \<in> set cs. rc_safe_to_apply c} \<and> (\<exists>new. es' = es @ new \<and> length ds + length new = length cs)"
proof (induction cs es fs arbitrary: ds es' fs' rule: delete_candidates.induct)
  case (2 c cs es fs)
  show ?case
  proof (cases "rc_safe_to_apply c")
    case False
    then show ?thesis using "2.IH"(1) [OF _ ] "2.prems" by fastforce
  next
    case True
    obtain fs1 r where r: "os_unlink (rc_path c) fs = (fs1, r)" by fastforce
    consider t where "r = Inl (OSError t)" | "\<exists>u. r = Inr u"
      using "2.prems" True r by (cases r) (auto split: py_error.splits)
    then show ?thesis
    proof cases
      case 1
      then show ?thesis using "2.IH"(2) True r "2.prems" by fastforce
    next
      case 2
      then obtain ds' where "delete_candidates cs es fs1 = (fs', Inr (ds', es'))" "ds = c # ds'"
        using "2.prems" True r by (auto simp: io_bind_Inr)
      then show ?thesis using "2.IH"(3) True r 2 by fastforce
    qed
  qed
qed simp

lemma delete_candidates_gone:
  assumes "delete_candidates cs es fs = (fs', Inr (ds, es'))" and "c \<in> set ds"
    and "\<And>c. c \<in> set cs \<Longrightarrow> candidate_in fs root c" and "rc_path c = fpath_str q" "list_all proper_component q"
  shows "node_at fs' q = None"
  using assms
proof (induction cs es fs arbitrary: ds es' fs' rule: delete_candidates.induct)
  case (2 a cs es fs)
  obtain fs1 r where r: "os_unlink (rc_path a) fs = (fs1, r)" by fastforce
  have "candidate_in fs root a" using "2.prems"(3) by simp
  then obtain qa where qa: "rc_path a = fpath_str qa" "real_path fs qa" by (auto simp: candidate_in_def)
  have "fs_keeps (\<lambda>p. p = qa) fs fs1" using os_unlink_keeps [OF qa(2)] r qa(1) by (metis fst_conv)
  then have keep: "candidate_in fs1 root x" if "x \<in> set cs" for x
    using "2.prems"(3) [of x] that fs_keeps_real_path unfolding candidate_in_def by (metis list.set_intros(2))
  show ?case
  proof (cases "rc_safe_to_apply a")
    case False
    then show ?thesis using "2.IH"(1) "2.prems" by simp
  next
    case True
    consider t where "r = Inl (OSError t)" | u where "r = Inr u"
      using "2.prems"(1) True r by (cases r) (auto split: py_error.splits)
    then show ?thesis
    proof cases
      case 1
      then show ?thesis using "2.IH"(2) True r "2.prems"(1,2,4,5) keep by fastforce
    next
      case 2
      then obtain ds' where ds': "delete_candidates cs es fs1 = (fs', Inr (ds', es'))" "ds = a # ds'"
        using "2.prems"(1) True r by (auto simp: io_bind_Inr)
      show ?thesis
      proof (cases "c \<in> set ds'")
        case True
        then show ?thesis
          using "2.IH"(3) [OF _ _ _ ds'(1)] \<open>rc_safe_to_apply a\<close> r 2 keep "2.prems"(4,5) by fastforce
      next
        case False
        then have "fpath_str qa = fpath_str q" using "2.prems"(2,4) ds'(2) qa(1) by simp
        then have "qa = q"
          using posix_path_of_fpath_str "2.prems"(5) qa(2) by (metis posix_path.select_convs(2) real_path_def)
        then have "node_at fs1 q = None" using os_unlink_gone [OF qa(2)] r 2 qa(1) by simp
        then show ?thesis using delete_candidates_creates_nothing [of fs1 q cs es] ds'(1) by simp
      qed
    qed
  qed
qed simp

lemma apply_confirmed:
  assumes "apply_retention_plan lo clock clock' a actor True fs = (fs', Inr r)"
  obtains plan at where "build_retention_plan lo clock' a fs = Inr plan"
    and "run_retention_plan actor at plan fs = (fs', Inr r)"
  using assms by (auto simp: apply_retention_plan_def io_bind_Inr)

lemma run_retention_plan_Inr:
  assumes "run_retention_plan actor at plan fs = (fs', Inr r)"
  obtains fs1 fs2 ref es0 es ds rs ev where
    "try_compaction (rp_ledger_compaction plan) fs = (fs1, Inr (ref, es0))"
    "delete_planned plan es0 fs1 = (fs2, Inr (ds, rs, es))"
    "append_ledger_event (rp_ledger_path plan) ev fs2 = (fs', Inr (the (ap_ledger_event_path r)))"
    "ap_deleted_artifacts r = ds" "ap_deleted_receipts r = rs" "ap_errors r = es" "ap_plan r = plan"
    "ap_outcome r = (if es = [] then ''success'' else ''failure'')" "ap_ledger_export_ref r = ref"
    "ap_ledger_event r = Some ev"
  using assms by (auto simp: run_retention_plan_def io_bind_Inr Let_def)

lemma try_compaction_Inr:
  assumes "try_compaction c fs = (fs', Inr (ref, es))"
  shows "(if ref = None then lc_action_required c \<longrightarrow> length es = 1 else es = [])"
  using assms
  by (auto simp: try_compaction_def io_catch_os_def io_bind_def io_return_def
      split: if_splits prod.splits sum.splits py_error.splits)

lemma append_keeps_missing:
  assumes "append_ledger_event (fpath_str L) ev fs = (fs', r)" and "real_path fs L"
    and "\<not> prefix q L"
  shows "node_at fs' q = node_at fs q"
proof -
  have "io_keeps {L} (\<lambda>p. prefix p L) (append_ledger_event (fpath_str L) ev)"
    by (rule io_keeps_append_ledger_event) (use assms(2) in \<open>auto simp: real_path_def\<close>)
  then have "fs_keeps (\<lambda>p. prefix p L) fs fs'" using assms(1,2) unfolding io_keeps_def by (metis fst_conv singletonD)
  then show ?thesis using assms(3) fs_keeps_outside by blast
qed

lemma candidate_in_keeps: "fs_keeps A fs fs' \<Longrightarrow> candidate_in fs root c \<Longrightarrow> candidate_in fs' root c"
  unfolding candidate_in_def using fs_keeps_real_path by blast

definition path_tail :: "string \<Rightarrow> fpath" where
  "path_tail s = pp_tail (posix_path_of s)"

lemma path_tail_real: "list_all proper_component p \<Longrightarrow> path_tail (fpath_str p) = p"
  by (simp add: path_tail_def posix_path_of_fpath_str)

lemma delete_planned_report:
  assumes "delete_planned plan es0 fs1 = (fs2, Inr (ds, rs, es))"
  shows "set ds \<subseteq> {c \<in> set (rp_artifact_candidates plan). rc_safe_to_apply c}"
    and "set rs \<subseteq> {c \<in> set (rp_receipt_candidates plan). rc_safe_to_apply c}"
    and "es0 = [] \<Longrightarrow> length ds + length rs + length es =
      length (rp_artifact_candidates plan) + length (rp_receipt_candidates plan)"
  using assms
  by (fastforce simp: delete_planned_def io_bind_Inr split: if_splits prod.splits
      dest!: delete_candidates_report)+

lemma io_keeps_delete_planned:
  assumes "\<And>c. c \<in> set (rp_artifact_candidates plan) \<union> set (rp_receipt_candidates plan) \<Longrightarrow>
    \<exists>q \<in> T. rc_path c = fpath_str q \<and> A q"
  shows "io_keeps T A (delete_planned plan es)"
proof -
  have "io_keeps T A (delete_candidates (rp_artifact_candidates plan) es)"
    "io_keeps T A (delete_candidates (rp_receipt_candidates plan) es)" for es
    by (rule io_keeps_delete_candidates; use assms in blast)+
  then show ?thesis
    unfolding delete_planned_def by (auto simp: io_keepsI intro!: io_keeps_bind split: prod.splits)
qed

lemma delete_planned_gone:
  assumes "delete_planned plan es0 fs1 = (fs2, Inr (ds, rs, es))" and "c \<in> set ds \<union> set rs"
    and "\<And>c. c \<in> set (rp_artifact_candidates plan) \<union> set (rp_receipt_candidates plan) \<Longrightarrow> candidate_in fs1 root c"
  shows "node_at fs2 (path_tail (rc_path c)) = None"
proof -
  have ne: "es0 = []" using assms(1,2) by (auto simp: delete_planned_def split: if_splits)
  then obtain fs3 es3 where A: "delete_candidates (rp_artifact_candidates plan) [] fs1 = (fs3, Inr (ds, es3))"
    and R: "delete_candidates (rp_receipt_candidates plan) es3 fs3 = (fs2, Inr (rs, es))"
    using assms(1) by (auto simp: delete_planned_def io_bind_Inr)
  let ?T = "{t. real_path fs1 t}"
  have "io_keeps ?T (\<lambda>p. True) (delete_candidates (rp_artifact_candidates plan) [])"
    by (rule io_keeps_delete_candidates) (use assms(3) in \<open>auto simp: candidate_in_def\<close>)
  then have "fs_keeps (\<lambda>p. True) fs1 fs3" using A unfolding io_keeps_def by (metis fst_conv mem_Collect_eq)
  then have in3: "candidate_in fs3 root x" if "x \<in> set (rp_receipt_candidates plan)" for x
    using assms(3) that candidate_in_keeps by blast
  have cin: "candidate_in fs1 root c"
    using assms(2,3) delete_planned_report(1,2) [OF assms(1)] by blast
  then obtain q where q: "rc_path c = fpath_str q" "list_all proper_component q"
    by (auto simp: candidate_in_def real_path_def)
  have "node_at fs2 q = None"
  proof (cases "c \<in> set rs")
    case True
    then show ?thesis using delete_candidates_gone [OF R _ in3 q] by blast
  next
    case False
    then have "node_at fs3 q = None" using delete_candidates_gone [OF A _ _ q] assms(2,3) by blast
    then show ?thesis using delete_candidates_creates_nothing [of fs3 q _ es3] R by (metis fst_conv)
  qed
  then show ?thesis by (simp add: q path_tail_real)
qed

text \<open>
  C24. What a confirmed apply reports is what it did: the outcome is a success exactly when no error
  was recorded; every deleted file was planned and marked safe, and is gone afterwards (unless the
  ledger lives at or below its path); and when no compaction failed, each planned file is either
  deleted or accounted for by an error.
\<close>

theorem retention_report_true:
  assumes "wf_fs fs" and "path_resolve fs (ra_repo_root a) = Inr root"
    and "build_retention_plan lo clock' a fs = Inr plan" and "export_unlinked fs plan"
    and "apply_retention_plan lo clock clock' a actor True fs = (fs', Inr r)"
  shows "(ap_outcome r = ''success'') = (ap_errors r = []) \<and>
    set (ap_deleted_artifacts r) \<subseteq> {c \<in> set (rp_artifact_candidates plan). rc_safe_to_apply c} \<and>
    set (ap_deleted_receipts r) \<subseteq> {c \<in> set (rp_receipt_candidates plan). rc_safe_to_apply c} \<and>
    (\<forall>c \<in> set (ap_deleted_artifacts r) \<union> set (ap_deleted_receipts r).
       prefix (path_tail (rc_path c)) (path_tail (rp_ledger_path plan)) \<or>
       node_at fs' (path_tail (rc_path c)) = None) \<and>
    (lc_action_required (rp_ledger_compaction plan) \<and> ap_ledger_export_ref r = None \<or>
     length (ap_deleted_artifacts r) + length (ap_deleted_receipts r) + length (ap_errors r) =
     length (rp_artifact_candidates plan) + length (rp_receipt_candidates plan))"
proof -
  note paths = build_retention_plan_paths [OF assms(3,1,2)]
  obtain L where L: "rp_ledger_path plan = fpath_str L" "real_path fs L" using paths(3) by auto
  obtain at where run: "run_retention_plan actor at plan fs = (fs', Inr r)"
    using assms(5) by (rule apply_confirmed) (use assms(3) in auto)
  obtain fs1 fs2 ref es0 es ds rs ev where
    comp: "try_compaction (rp_ledger_compaction plan) fs = (fs1, Inr (ref, es0))" and
    del: "delete_planned plan es0 fs1 = (fs2, Inr (ds, rs, es))" and
    app: "append_ledger_event (rp_ledger_path plan) ev fs2 = (fs', Inr (the (ap_ledger_event_path r)))" and
    r: "ap_deleted_artifacts r = ds" "ap_deleted_receipts r = rs" "ap_errors r = es"
      "ap_outcome r = (if es = [] then ''success'' else ''failure'')" "ap_ledger_export_ref r = ref"
    by (rule run_retention_plan_Inr [OF run])
  note report = delete_planned_report [OF del] and noerr = try_compaction_Inr [OF comp]
  let ?T = "{t. real_path fs t \<and> prefix root t}"
  have k1: "fs_keeps (\<lambda>p. prefix root p \<or> prefix p root) fs fs1"
    using io_keeps_try_compaction [OF plan_compaction_keeps [OF assms(3,1,2,4)]] comp
    unfolding io_keeps_def by (metis (no_types, lifting) fst_conv mem_Collect_eq)
  then have in1: "candidate_in fs1 root c"
    if "c \<in> set (rp_artifact_candidates plan) \<union> set (rp_receipt_candidates plan)" for c
    using paths(5) [OF that] candidate_in_keeps by blast
  have k2: "fs_keeps (\<lambda>p. True) fs1 fs2"
  proof -
    have "io_keeps {t. real_path fs1 t} (\<lambda>p. True) (delete_planned plan es0)"
      by (rule io_keeps_delete_planned) (use in1 in \<open>auto simp: candidate_in_def\<close>)
    then show ?thesis using del unfolding io_keeps_def by (metis fst_conv mem_Collect_eq)
  qed
  have gone: "prefix (path_tail (rc_path c)) L \<or> node_at fs' (path_tail (rc_path c)) = None"
    if "c \<in> set ds \<union> set rs" for c
    using delete_planned_gone [OF del that in1] append_keeps_missing [OF app [unfolded L(1)]
      fs_keeps_real_path [OF k2 fs_keeps_real_path [OF k1 L(2)]]] by metis
  have tail: "path_tail (rp_ledger_path plan) = L" using L by (simp add: path_tail_real real_path_def)
  have "ref \<noteq> None \<or> \<not> lc_action_required (rp_ledger_compaction plan) \<Longrightarrow> es0 = []"
    using noerr comp by (auto simp: try_compaction_def split: if_splits)
  then have count: "lc_action_required (rp_ledger_compaction plan) \<and> ref = None \<or>
      length ds + length rs + length es = length (rp_artifact_candidates plan) + length (rp_receipt_candidates plan)"
    using report(3) by blast
  show ?thesis
    unfolding r tail
    by (intro conjI count report(1,2)) (use gone in \<open>simp_all\<close>)
qed

lemma sample_apply:
  assumes "build_retention_plan (\<lambda>t. 0) clock' sample_args sample_fs = Inr plan"
  shows "\<exists>fs' r. apply_retention_plan (\<lambda>t. 0) clock clock' sample_args ''me'' True sample_fs = (fs', Inr r) \<and>
    length (ap_deleted_artifacts r) = 1"
proof -
  let ?fs = "fst (os_unlink ''/r/a/old.log'' sample_fs)"
  obtain c where c: "rp_artifact_candidates plan = [c]" "rc_path c = ''/r/a/old.log''" "rc_safe_to_apply c"
    "rp_receipt_candidates plan = []" "lc_action_required (rp_ledger_compaction plan) = False"
    "rp_ledger_path plan = ''/r/l''"
    using sample_plan [of clock'] assms by auto
  have "os_unlink ''/r/a/old.log'' sample_fs = (?fs, Inr ())" by code_simp
  then obtain fs1 where un: "os_unlink ''/r/a/old.log'' sample_fs = (fs1, Inr ())" and fs1: "fs1 = ?fs" by simp
  have "os_mkdir_parents (path_parent_str ''/r/l'') ?fs = (?fs, Inr ())" by code_simp
  then have mk: "os_mkdir_parents (path_parent_str ''/r/l'') fs1 = (fs1, Inr ())" by (simp only: fs1)
  have "\<not> isl (snd (os_append_bytes ''/r/l'' b ?fs))" for b by code_simp
  then have ap: "\<not> isl (snd (os_append_bytes ''/r/l'' b fs1))" for b unfolding fs1 .
  have "\<exists>fs' x. append_ledger_event ''/r/l'' ev fs1 = (fs', Inr x)" for ev
    using ap [of "json_default ev @ [CHR 0x0A]"]
    by (auto simp: append_ledger_event_def io_bind_def io_return_def mk isl_def split: prod.splits sum.splits)
  then obtain fs' x where ev: "append_ledger_event ''/r/l'' ev fs1 = (fs' ev, Inr (x ev))" for ev by metis
  have ts: "\<not> isl (lifecycle_timestamp (\<lambda>t. 0) clock (ra_now sample_args))" by code_simp
  then obtain d where d: "lifecycle_timestamp (\<lambda>t. 0) clock (ra_now sample_args) = Inr d"
    by (cases "lifecycle_timestamp (\<lambda>t. 0) clock (ra_now sample_args)") auto
  show ?thesis
    by (simp add: apply_retention_plan_def run_retention_plan_def io_bind_def io_result_def io_return_def
        try_compaction_def delete_planned_def assms d c un ev Let_def)
qed

lemma retention_report_true_witness:
  "\<exists>fs' r. apply_retention_plan (\<lambda>t. 0) utc_clock utc_clock sample_args ''me'' True sample_fs = (fs', Inr r) \<and>
    ap_outcome r = ''success'' \<and> node_at fs' [''r'', ''a'', ''old.log''] = None"
proof -
  obtain plan c where plan: "build_retention_plan (\<lambda>t. 0) utc_clock sample_args sample_fs = Inr plan"
    "rp_artifact_candidates plan = [c]" "rc_path c = ''/r/a/old.log''" "rp_receipt_candidates plan = []"
    "lc_action_required (rp_ledger_compaction plan) = False"
    "lc_export_path (rp_ledger_compaction plan) = None" "rp_ledger_path plan = ''/r/l''"
    using sample_plan by blast
  have wf: "wf_fs sample_fs" and root: "path_resolve sample_fs (ra_repo_root sample_args) = Inr [''r'']"
    by code_simp+
  have un: "export_unlinked sample_fs plan" using plan(6) by (simp add: export_unlinked_def)
  obtain fs' r where r: "apply_retention_plan (\<lambda>t. 0) utc_clock utc_clock sample_args ''me'' True sample_fs = (fs', Inr r)"
    "length (ap_deleted_artifacts r) = 1" using sample_apply [OF plan(1)] by blast
  have tails: "path_tail ''/r/a/old.log'' = [''r'', ''a'', ''old.log'']" "path_tail ''/r/l'' = [''r'', ''l'']"
    "\<not> prefix [''r'', ''a'', ''old.log''] [''r'', ''l'']" by code_simp+
  note rep = retention_report_true [OF wf root plan(1) un r(1)]
  have del: "ap_deleted_artifacts r = [c]"
    using rep r(2) plan(2) by (cases "ap_deleted_artifacts r") auto
  have "node_at fs' [''r'', ''a'', ''old.log''] = None" using rep del tails plan(3,7) by simp
  moreover have "ap_errors r = []" using rep del plan by simp
  then have "ap_outcome r = ''success''" using rep by simp
  ultimately show ?thesis using r(1) by blast
qed

end
