(* ===== verification/Retention_Selection.thy ===== *)
theory Retention_Selection
  imports Lifecycle_Apply "HOL-Library.Multiset"
begin

text \<open>
  Which files a retention plan selects: \<open>_retention_candidates\<close> of \<open>lifecycle.py\<close> against a
  reference definition over the scanned files in order of age.
\<close>

text \<open>
  The reference definition: of the scanned files in order of age, the ones in excess of the count
  and the ones past the age limit.
\<close>

definition due_files :: "fs \<Rightarrow> int option \<Rightarrow> int \<Rightarrow> pydt \<Rightarrow> fpath list \<Rightarrow> fpath list" where
  "due_files fs age n now files =
     map snd (filter (\<lambda>(i, p). i < length files - nat n \<or> expired_at fs now age p) (enumerate 0 files))"

definition resolved_text :: "fs \<Rightarrow> fpath \<Rightarrow> string" where
  "resolved_text fs p = (case resolve_walk fs max_links [] p of Inl e \<Rightarrow> [] | Inr q \<Rightarrow> fpath_str q)"

lemma distinct_add_path_reason: "distinct (map fst d) \<Longrightarrow> distinct (map fst (add_path_reason r p d))"
  by (auto simp: add_path_reason_def split: option.splits)

lemma distinct_fold_add_path_reason:
  "distinct (map fst d) \<Longrightarrow> distinct (map fst (fold (add_path_reason r) ps d))"
  by (induction ps arbitrary: d) (auto simp: distinct_add_path_reason)

lemma retention_reasons_distinct:
  assumes "retention_reasons fs age n now files = Inr d"
  shows "distinct (map fst d)"
proof -
  have age: "distinct (map fst e)" if "rfold (add_age_reason fs cutoff days) files [] = Inr e" for cutoff days e
    by (rule rfold_invariant [OF _ _ that]) (auto dest!: add_age_reason_Inr simp: distinct_add_path_reason)
  show ?thesis
  proof (cases age)
    case None
    then show ?thesis using assms
      by (auto simp add: retention_reasons_def distinct_fold_add_path_reason simp del: append.simps)
  next
    case (Some days)
    then show ?thesis using assms age
      by (auto simp add: retention_reasons_def distinct_fold_add_path_reason simp del: append.simps)
  qed
qed

lemma set_due_files:
  assumes "distinct files"
  shows "set (due_files fs age n now files) =
    {p \<in> set files. expired_at fs now age p} \<union> set (take (length files - nat n) files)"
proof -
  let ?k = "length files - nat n"
  have "p \<in> set (due_files fs age n now files) \<longleftrightarrow>
      (\<exists>i < length files. files ! i = p \<and> (i < ?k \<or> expired_at fs now age p))" for p
    by (auto simp: due_files_def image_iff in_set_enumerate_eq)
  moreover have "p \<in> set (take ?k files) \<longleftrightarrow> (\<exists>i < ?k. i < length files \<and> files ! i = p)" for p
    by (auto simp: in_set_conv_nth)
  ultimately show ?thesis by (auto simp: in_set_conv_nth)
qed

lemma distinct_due_files: "distinct files \<Longrightarrow> distinct (due_files fs age n now files)"
proof -
  assume d: "distinct files"
  have "inj_on snd (set (enumerate 0 files))"
    using d by (auto simp: inj_on_def in_set_enumerate_eq nth_eq_iff_index_eq)
  then show ?thesis
    by (auto simp: due_files_def distinct_map intro: inj_on_subset distinct_enumerate)
qed

lemma length_due_files: "length files - length (due_files fs age n now files) \<le> nat n"
proof -
  let ?k = "length files - nat n"
  have "length (filter (\<lambda>(i, p). i < ?k) (enumerate 0 files)) \<le> length (due_files fs age n now files)"
  proof -
    have "filter (\<lambda>(i, p). i < ?k) (enumerate 0 files) =
        filter (\<lambda>(i, p). i < ?k) (filter (\<lambda>(i, p). i < ?k \<or> expired_at fs now age p) (enumerate 0 files))"
      by (auto simp: filter_filter intro!: filter_cong)
    then show ?thesis unfolding due_files_def length_map by (metis length_filter_le)
  qed
  moreover have "length (filter (\<lambda>(i, p). i < ?k) (enumerate 0 files)) = ?k"
  proof -
    have "map fst (filter (\<lambda>(i, p). i < ?k) (enumerate 0 files)) = filter (\<lambda>i. i < ?k) [0..<length files]"
      using filter_map [of "\<lambda>i. i < ?k" fst "enumerate 0 files"] by (simp add: comp_def case_prod_unfold)
    moreover have "length (filter (\<lambda>i. i < ?k) [0..<length files]) = ?k"
    proof -
      have "{i. i < length files \<and> [0..<length files] ! i < ?k} = {..<?k}" by auto
      then show ?thesis by (simp add: length_filter_conv_card)
    qed
    ultimately show ?thesis by (metis length_map)
  qed
  ultimately show ?thesis by linarith
qed

lemma scanned_files_sorted:
  assumes "scanned_files fs root sr pat = Inr files"
  shows "sorted_wrt (\<lambda>p q. scan_key fs p \<le> scan_key fs q) files" and "distinct files"
proof -
  let ?ps = "filter (scan_hit fs root) (fs_rglob fs sr pat)"
  let ?ks = "sort_key fst (map (\<lambda>p. (scan_key fs p, p)) ?ps)"
  have files: "files = map snd ?ks" by (rule scanned_files_eq [OF assms])
  have "sorted (map fst ?ks)" by simp
  then have by_fst: "sorted_wrt (\<lambda>a b. fst a \<le> fst b) ?ks" by (simp only: sorted_wrt_map)
  have key: "scan_key fs (snd a) = fst a" if "a \<in> set ?ks" for a using that by auto
  have "sorted_wrt (\<lambda>a b. scan_key fs (snd a) \<le> scan_key fs (snd b)) ?ks"
    by (rule sorted_wrt_mono_rel [OF _ by_fst]) (simp only: key)
  then show "sorted_wrt (\<lambda>p q. scan_key fs p \<le> scan_key fs q) files"
    unfolding files by (simp only: sorted_wrt_map)
  have "distinct ?ps" by (simp add: fs_rglob_def)
  moreover have "mset (map snd (sort_key fst xs)) = mset (map snd xs)" for xs :: "((int \<times> string) \<times> fpath) list"
    by simp
  then have "mset files = mset (map snd (map (\<lambda>p. (scan_key fs p, p)) ?ps))" unfolding files .
  then have "mset files = mset ?ps" by (simp only: map_map comp_def snd_conv map_ident)
  ultimately show "distinct files" using mset_eq_imp_distinct_iff by blast
qed

lemma candidate_path: "candidate_from_path fs root act cat p r = Inr c \<Longrightarrow> rc_path c = resolved_text fs p"
  by (auto simp: candidate_from_path_def resolved_text_def split: if_splits)

text \<open>
  C25. Retention deletes what its limits say and nothing else: the candidates of a directory are
  exactly the files in excess of the count limit, oldest first, and the ones past the age limit; no
  kept file is past the age limit, and at most the allowed number of files is kept.
\<close>

theorem retention_selection:
  assumes "retention_candidates fs root cat act age n now sr pat = Inr cs" and "fs_is_dir fs sr"
  shows "\<exists>files due. scanned_files fs root sr pat = Inr files \<and> due = due_files fs age n now files \<and>
    sorted_wrt (\<lambda>p q. scan_key fs p \<le> scan_key fs q) files \<and>
    mset (map rc_path cs) = mset (map (resolved_text fs) due) \<and>
    (\<forall>p \<in> set files - set due. \<not> expired_at fs now age p) \<and>
    card (set files - set due) \<le> nat n"
proof -
  have "fs_exists fs sr" using assms(2) by (simp add: fs_exists_def fs_is_dir_def)
  then obtain files d cs' where f: "scanned_files fs root sr pat = Inr files"
    and d: "retention_reasons fs age n now files = Inr d"
    and cs': "rmapM (\<lambda>(p, rs). candidate_from_path fs root act cat p (py_join '', '' (sorted_set rs))) d = Inr cs'"
    and cs: "cs = sort_key (\<lambda>c. (rc_modified_at c, rc_relative_path c)) cs'"
    using assms by (auto simp: retention_candidates_def split: if_splits)
  let ?due = "due_files fs age n now files"
  note files = scanned_files_sorted [OF f]
  have due: "set ?due = fst ` set d"
    unfolding set_due_files [OF files(2)] retention_reasons_keys [OF d] ..
  have "list_all2 (\<lambda>(p, rs) c. candidate_from_path fs root act cat p (py_join '', '' (sorted_set rs)) = Inr c) d cs'"
    using cs' by (simp add: rmapM_Inr_iff case_prod_unfold)
  then have "map rc_path cs' = map (resolved_text fs) (map fst d)"
    by (induction rule: list_all2_induct) (auto dest: candidate_path)
  moreover have "mset (map fst d) = mset ?due"
    using set_eq_iff_mset_eq_distinct [OF retention_reasons_distinct [OF d] distinct_due_files [OF files(2)]]
      due by (metis list.set_map)
  ultimately have "mset (map rc_path cs) = mset (map (resolved_text fs) ?due)"
    unfolding cs by (metis mset_map mset_sort)
  moreover have "\<forall>p \<in> set files - set ?due. \<not> expired_at fs now age p"
    using set_due_files [OF files(2)] by auto
  moreover have "set ?due \<subseteq> set files" using set_due_files [OF files(2)] in_set_takeD by fastforce
  then have "card (set files - set ?due) = length files - length ?due"
    using files(2) distinct_due_files [OF files(2)] by (simp add: card_Diff_subset distinct_card)
  then have "card (set files - set ?due) \<le> nat n" using length_due_files by metis
  ultimately show ?thesis using f files(1) by blast
qed


lemma retention_selection_witness:
  "\<exists>files due. scanned_files sample_fs [''r''] [''r'', ''a''] ''*'' = Inr files \<and>
     map (resolved_text sample_fs) due = [''/r/a/old.log''] \<and> card (set files - set due) \<le> 200"
proof -
  obtain c where c: "retention_candidates sample_fs [''r''] ''artifact'' ''delete'' (Some 7) 200
     \<lparr>dt_local = epoch_local + 20455 * us_per_day, dt_off = Some 0\<rparr> [''r'', ''a''] ''*'' = Inr [c]"
    "rc_path c = ''/r/a/old.log''" using sample_candidates by blast
  have "fs_is_dir sample_fs [''r'', ''a'']" by code_simp
  then obtain files due where f: "scanned_files sample_fs [''r''] [''r'', ''a''] ''*'' = Inr files"
    "mset (map rc_path [c]) = mset (map (resolved_text sample_fs) due)"
    "card (set files - set due) \<le> nat 200"
    using retention_selection [OF c(1)] by blast
  have "mset (map (resolved_text sample_fs) due) = {#''/r/a/old.log''#}"
    using f(2) by (simp only: list.map mset.simps c(2))
  then have "map (resolved_text sample_fs) due = [''/r/a/old.log'']" by (simp only: mset_single_iff)
  moreover have "card (set files - set due) \<le> 200" using f(3) by simp
  ultimately show ?thesis using f(1) by - (rule exI [of _ files], rule exI [of _ due], simp)
qed

text \<open>
  A candidate is the file a link in the scanned directory resolves to, anywhere in the repository:
  here an old link target outside the artifact directory is what the plan would delete.
\<close>

definition link_fs :: fs where
  "link_fs = sample_fs\<lparr>fs_nodes :=
     [([''r''], DirNode), ([''r'', ''main.py''], FileNode ''x'' 0), ([''r'', ''a''], DirNode),
      ([''r'', ''a'', ''link''], LinkNode ''/r/main.py'')]\<rparr>"

lemma retention_candidate_outside_scan_root:
  "\<exists>c. retention_candidates link_fs [''r''] ''artifact'' ''delete'' (Some 7) 200
     \<lparr>dt_local = epoch_local + 20455 * us_per_day, dt_off = Some 0\<rparr> [''r'', ''a''] ''*'' = Inr [c] \<and>
     rc_path c = ''/r/main.py'' \<and> rc_safe_to_apply c"
proof -
  let ?now = "\<lparr>dt_local = epoch_local + 20455 * us_per_day, dt_off = Some 0\<rparr> :: pydt"
  have 1: "scanned_files link_fs [''r''] [''r'', ''a''] ''*'' = Inr [[''r'', ''a'', ''link'']]" by code_simp
  have 2: "retention_reasons link_fs (Some 7) 200 ?now [[''r'', ''a'', ''link'']]
      = Inr [([''r'', ''a'', ''link''], [''older-than-7-days''])]" by code_simp
  have 3: "fs_stat link_fs [''r'', ''a'', ''link''] = Inr (''x'', 0)"
    "mtime_datetime (snd (''x'', 0)) = Inr utc_clock"
    "resolve_walk link_fs max_links [] [''r'', ''a'', ''link''] = Inr [''r'', ''main.py'']"
    "fs_is_relative_to link_fs [''r'', ''main.py''] [''r''] = Inr True"
    "prefix [''r''] [''r'', ''main.py'']" by code_simp+
  have 4: "fs_exists link_fs [''r'', ''a'']" "fs_is_dir link_fs [''r'', ''a'']" by code_simp+
  have 5: "fpath_str [''r'', ''main.py''] = ''/r/main.py''" by code_simp
  obtain c where c: "candidate_from_path link_fs [''r''] ''delete'' ''artifact'' [''r'', ''a'', ''link'']
      (py_join '', '' (sorted_set [''older-than-7-days''])) = Inr c" "rc_path c = ''/r/main.py''" "rc_safe_to_apply c"
    using candidate_from_path_eq [OF 3] unfolding 5 by blast
  show ?thesis using c by (simp add: retention_candidates_def 1 2 4)
qed

end
