(* ===== verification/Lifecycle_Audit.thy ===== *)
theory Lifecycle_Audit
  imports Lifecycle_Apply
begin

text \<open>
  The ledger through compactions and events: no byte ever written to it is lost, and compaction
  keeps it within its budget. The steps of the system on a ledger are a relation, its history what
  the exports and the ledger together hold.
\<close>

section \<open>Compaction\<close>

definition file_bytes :: "fs \<Rightarrow> fpath \<Rightarrow> string" where
  "file_bytes fs p = (case node_at fs p of Some (FileNode b m) \<Rightarrow> b | _ \<Rightarrow> [])"

lemma file_bytes_write:
  assumes "real_path fs t" and "os_write f (fpath_str t) fs = (fs', Inr u)"
  shows "file_bytes fs' p = (if p = t then f (file_bytes fs t) else file_bytes fs p)"
  unfolding os_write_Inr(1) [OF assms] file_bytes_def node_at_set [OF os_write_Inr(2) [OF assms]]
  by simp

lemma real_path_write: "real_path fs t \<Longrightarrow> os_write f (fpath_str t) fs = (fs', r) \<Longrightarrow> real_path fs q \<Longrightarrow> real_path fs' q"
  using fs_keeps_real_path [OF os_write_keeps] by (metis fst_conv)

lemma os_write_fails: "os_write f s fs = (fs', Inl e) \<Longrightarrow> fs' = fs"
  by (auto simp: os_write_def Let_def split: sum.splits if_splits)

lemma file_bytes_mkdir_walk: "file_bytes (fst (mkdir_walk s acc cs fs)) p = file_bytes fs p"
proof (induction s acc cs fs rule: mkdir_walk.induct)
  case (2 s acc c cs fs)
  have "node_at fs (acc @ [c]) = None \<Longrightarrow>
      file_bytes (fs\<lparr>fs_nodes := assoc_set (acc @ [c]) DirNode (fs_nodes fs)\<rparr>) p = file_bytes fs p"
    by (auto simp: file_bytes_def node_at_set)
  with 2 show ?case by (auto split: option.splits fs_node.splits)
qed simp

lemma file_bytes_mkdir: "os_mkdir_parents s fs = (fs', r) \<Longrightarrow> file_bytes fs' p = file_bytes fs p"
proof -
  assume "os_mkdir_parents s fs = (fs', r)"
  then have "fs' = fs \<or> (\<exists>t. fs' = fst (mkdir_walk s [] t fs))"
    by (auto simp: os_mkdir_parents_def split: sum.splits if_splits) (metis fst_conv)+
  then show ?thesis using file_bytes_mkdir_walk by auto
qed

lemma real_path_mkdir_parent:
  "real_path fs t \<Longrightarrow> os_mkdir_parents (path_parent_str (fpath_str t)) fs = (fs', r) \<Longrightarrow> real_path fs q \<Longrightarrow> real_path fs' q"
  using fs_keeps_real_path [OF os_mkdir_parents_keeps [OF real_path_butlast]] path_parent_real
  by (metis fst_conv real_path_def)

text \<open>
  The bytes written to the export followed by the bytes left in the ledger are the bytes the
  ledger had; on any exception the ledger is untouched.
\<close>

definition compaction_kept :: "fs \<Rightarrow> fs \<Rightarrow> ledger_compaction_plan \<Rightarrow> fpath \<Rightarrow> fpath \<Rightarrow> artifact_ref \<Rightarrow> bool" where
  "compaction_kept fs fs' c L E ref =
     (file_bytes fs' E = concat (take (lc_compacted_line_count c) (bytes_lines (file_bytes fs L))) \<and>
      file_bytes fs' L = concat (drop (lc_compacted_line_count c) (bytes_lines (file_bytes fs L))) \<and>
      ar_digest ref = sha256_prefixed (file_bytes fs' E) \<and> ar_path ref = fpath_str E)"

lemma compact_ledger_preserves:
  assumes L: "real_path fs L" and E: "real_path fs E" and ne: "L \<noteq> E"
    and c: "lc_ledger_path c = fpath_str L" "lc_export_path c = Some (fpath_str E)" "lc_action_required c"
    and run: "compact_ledger c fs = (fs', r)"
  shows "case r of Inl e \<Rightarrow> file_bytes fs' L = file_bytes fs L | Inr ref \<Rightarrow> compaction_kept fs fs' c L E ref"
    and "p \<noteq> L \<Longrightarrow> p \<noteq> E \<Longrightarrow> file_bytes fs' p = file_bytes fs p"
proof -
  let ?lines = "bytes_lines (file_bytes fs L)" and ?k = "lc_compacted_line_count c"
  have nE: "fpath_str E \<noteq> []" by (simp add: fpath_str_def)
  obtain r0 where read: "os_read_bytes (fpath_str L) fs = (fs, r0)" using os_read_bytes_state by (metis prod.collapse)
  show "case r of Inl e \<Rightarrow> file_bytes fs' L = file_bytes fs L | Inr ref \<Rightarrow> compaction_kept fs fs' c L E ref"
    and "p \<noteq> L \<Longrightarrow> p \<noteq> E \<Longrightarrow> file_bytes fs' p = file_bytes fs p"
  proof -
    consider (read) e where "r0 = Inl e" | (ok) b where "r0 = Inr b" by (cases r0)
    then have "(case r of Inl e \<Rightarrow> file_bytes fs' L = file_bytes fs L | Inr ref \<Rightarrow> compaction_kept fs fs' c L E ref)
      \<and> (p \<noteq> L \<longrightarrow> p \<noteq> E \<longrightarrow> file_bytes fs' p = file_bytes fs p)" (is ?goal)
    proof cases
      case read
      then show ?thesis using run \<open>os_read_bytes _ _ = _\<close> nE c by (auto simp: compact_ledger_def io_bind_def)
    next
      case ok
      then have b: "b = file_bytes fs L" using os_read_bytes_real [OF L] read by (force simp: file_bytes_def)
      obtain fs1 r1 where mk: "os_mkdir_parents (path_parent_str (fpath_str E)) fs = (fs1, r1)" by fastforce
      note L1 = real_path_mkdir_parent [OF E mk L] and E1 = real_path_mkdir_parent [OF E mk E]
        and b1 = file_bytes_mkdir [OF mk]
      obtain fs2 r2 where wE: "os_write (\<lambda>old. concat (take ?k ?lines)) (fpath_str E) fs1 = (fs2, r2)" by fastforce
      note L2 = real_path_write [OF E1 wE L1]
      obtain fs3 r3 where wL: "os_write (\<lambda>old. concat (drop ?k ?lines)) (fpath_str L) fs2 = (fs3, r3)" by fastforce
      have step: "(fs', r) = (case r1 of Inl e \<Rightarrow> (fs1, Inl e) | Inr _ \<Rightarrow> (case r2 of Inl e \<Rightarrow> (fs2, Inl e) | Inr _ \<Rightarrow>
          (case r3 of Inl e \<Rightarrow> (fs3, Inl e) | Inr _ \<Rightarrow> (fs3, Inr \<lparr>ar_artifact_id = digest_id ''artifact:'' (sha256_prefixed (concat (take ?k ?lines))),
               ar_byte_count = int (length (concat (take ?k ?lines))), ar_digest = sha256_prefixed (concat (take ?k ?lines)),
               ar_media_type = ''application/x-ndjson'', ar_path = path_str (posix_path_of (fpath_str E)),
               ar_purpose = ''ledger-compaction-export''\<rparr>))))"
        using run nE c read ok
        by (simp add: compact_ledger_def io_bind_def io_return_def b Let_def os_write_bytes_def mk wE wL
            split: sum.splits)
      have pstr: "path_str (posix_path_of (fpath_str E)) = fpath_str E"
        using E by (simp add: path_str_real real_path_def)
      show ?goal
      proof (cases r1)
        case (Inl e)
        then show ?thesis using step b1 by simp
      next
        case r1: (Inr u)
        show ?thesis
        proof (cases r2)
          case (Inl e)
          then have "fs2 = fs1" using os_write_fails wE by blast
          then show ?thesis using step r1 b1 Inl by simp
        next
          case r2: (Inr u)
          note b2 = file_bytes_write [OF E1 wE [unfolded r2]]
          show ?thesis
          proof (cases r3)
            case (Inl e)
            then have "fs3 = fs2" using os_write_fails wL by blast
            then show ?thesis using step r1 r2 b1 b2 ne Inl by simp
          next
            case r3: (Inr u)
            note b3 = file_bytes_write [OF L2 wL [unfolded r3]]
            show ?thesis using step r1 r2 r3 b1 b2 b3 ne pstr by (simp add: compaction_kept_def)
          qed
        qed
      qed
    qed
    then show "case r of Inl e \<Rightarrow> file_bytes fs' L = file_bytes fs L | Inr ref \<Rightarrow> compaction_kept fs fs' c L E ref"
      and "p \<noteq> L \<Longrightarrow> p \<noteq> E \<Longrightarrow> file_bytes fs' p = file_bytes fs p" by auto
  qed
qed


definition sample_compaction :: ledger_compaction_plan where
  "sample_compaction = \<lparr>lc_action_required = True, lc_compacted_line_count = 1,
     lc_export_path = Some ''/r/e/x.jsonl'', lc_export_required = True, lc_ledger_path = ''/r/l'',
     lc_reason = None, lc_retained_line_count = 0, lc_source_digest = None, lc_source_line_count = 1\<rparr>"


section \<open>The ledger's lines\<close>

fun line_count :: "bool \<Rightarrow> string \<Rightarrow> nat" where
  "line_count b [] = (if b then 1 else 0)"
| "line_count b (c # cs) =
     (if c = CHR 0x0A then Suc (line_count False cs)
      else if c = CHR 0x0D then
        (case cs of d # ds \<Rightarrow> Suc (if d = CHR 0x0A then line_count False ds else line_count False cs) | [] \<Rightarrow> 1)
      else line_count True cs)"

lemma length_bytes_lines_from: "length (bytes_lines_from acc s) = line_count (acc \<noteq> []) s"
  by (induction acc s rule: bytes_lines_from.induct) (auto split: list.splits)

lemma length_bytes_lines: "length (bytes_lines s) = line_count False s"
  by (simp add: bytes_lines_def length_bytes_lines_from)

lemma line_count_start: "s \<noteq> [] \<Longrightarrow> line_count b s = line_count False s"
  by (cases s) auto

lemma line_count_start_le: "line_count b s \<le> Suc (line_count False s)"
  by (cases s) auto

lemma line_count_newline: "line_count False (CHR 0x0A # s) = Suc (line_count False s)"
  by simp

lemma line_count_append: "line_count b (s @ t) \<le> line_count b s + line_count False t"
proof (induction b s rule: line_count.induct)
  case (1 b)
  then show ?case using line_count_start_le [of b t] line_count_start [of t b] by (cases "t = []") auto
next
  case (2 b c cs)
  show ?case
  proof (cases "c = CHR 0x0D \<and> cs = []")
    case True
    then show ?thesis by (cases t) auto
  next
    case False
    consider "c = CHR 0x0A" | "c \<noteq> CHR 0x0A" "c \<noteq> CHR 0x0D" |
      (cr) d ds where "c = CHR 0x0D" "cs = d # ds" using False by (cases cs) auto
    then show ?thesis
    proof cases
      case 1
      then show ?thesis using "2.IH"(1) by simp
    next
      case c: 2
      then show ?thesis using "2.IH"(4) by simp
    next
      case cr
      then show ?thesis using "2.IH"(2,3) by (cases "d = CHR 0x0A") simp_all
    qed
  qed
qed

definition no_newline :: "string \<Rightarrow> bool" where
  "no_newline s = list_all (\<lambda>c. c \<noteq> CHR 0x0A \<and> c \<noteq> CHR 0x0D) s"

lemma line_count_prefix: "no_newline s \<Longrightarrow> line_count b (s @ t) = line_count (b \<or> s \<noteq> []) t"
  by (induction s arbitrary: b) (auto simp: no_newline_def)

lemma bytes_lines_from_single:
  "l \<in> set (bytes_lines_from acc s) \<Longrightarrow> no_newline acc \<Longrightarrow> line_count False l \<le> 1"
proof (induction acc s rule: bytes_lines_from.induct)
  case (1 acc)
  then show ?case using line_count_prefix [of acc False "[]"] by (auto split: if_splits)
next
  case (2 acc c cs)
  have nl: "no_newline []" by (simp add: no_newline_def)
  have clean: "c \<noteq> CHR 0x0A \<Longrightarrow> c \<noteq> CHR 0x0D \<Longrightarrow> no_newline (acc @ [c])"
    using 2 by (simp add: no_newline_def)
  have one: "line_count False (acc @ [CHR 0x0A]) \<le> 1" "line_count False (acc @ [CHR 0x0D]) \<le> 1"
    "line_count False (acc @ [CHR 0x0D, CHR 0x0A]) \<le> 1"
    using line_count_prefix [OF "2.prems"(2)] by auto
  consider "c = CHR 0x0A" | "c \<noteq> CHR 0x0A" "c \<noteq> CHR 0x0D" | "c = CHR 0x0D" "cs = []" |
    (cr) d ds where "c = CHR 0x0D" "cs = d # ds" by (cases cs) auto
  then show ?case
  proof cases
    case 1
    then show ?thesis using "2.IH"(1) "2.prems"(1) nl one(1) by auto
  next
    case c: 2
    then show ?thesis using "2.IH"(4) "2.prems"(1) clean by simp
  next
    case 3
    then show ?thesis using "2.prems"(1) one(2) by simp
  next
    case cr
    then show ?thesis using "2.IH"(2,3) "2.prems"(1) nl one(2,3) by (cases "d = CHR 0x0A") auto
  qed
qed

lemma line_count_concat: "(\<And>l. l \<in> set ls \<Longrightarrow> line_count False l \<le> 1) \<Longrightarrow> line_count False (concat ls) \<le> length ls"
proof (induction ls)
  case (Cons l ls)
  then have "line_count False (concat ls) \<le> length ls" "line_count False l \<le> 1" by auto
  then show ?case using line_count_append [of False l "concat ls"] by simp
qed simp

lemma retained_lines: "length (bytes_lines (concat (drop k (bytes_lines s)))) \<le> length (bytes_lines s) - k"
proof -
  have "line_count False (concat (drop k (bytes_lines s))) \<le> length (drop k (bytes_lines s))"
  proof (rule line_count_concat)
    fix l assume "l \<in> set (drop k (bytes_lines s))"
    then have "l \<in> set (bytes_lines_from [] s)" using in_set_dropD unfolding bytes_lines_def by fast
    then show "line_count False l \<le> 1" by (rule bytes_lines_from_single) (simp add: no_newline_def)
  qed
  then show ?thesis by (simp add: length_bytes_lines)
qed

text \<open>A JSON line: text without floats prints no line break.\<close>

fun float_free :: "pyval \<Rightarrow> bool" and float_free_list :: "pyval list \<Rightarrow> bool"
  and float_free_items :: "pydict \<Rightarrow> bool" where
  "float_free (PFloat x) = False"
| "float_free (PList xs) = float_free_list xs"
| "float_free (PDict kvs) = float_free_items kvs"
| "float_free _ = True"
| "float_free_list [] = True"
| "float_free_list (x # xs) = (float_free x \<and> float_free_list xs)"
| "float_free_items [] = True"
| "float_free_items ((k, v) # kvs) = (float_free v \<and> float_free_items kvs)"

lemma float_free_list_iff [simp]: "float_free_list xs = list_all float_free xs"
  by (induction xs) auto

lemma no_newline_append [simp]: "no_newline (s @ t) = (no_newline s \<and> no_newline t)"
  by (simp add: no_newline_def)

lemma no_newline_Cons [simp]: "no_newline (c # s) = (c \<noteq> CHR 0x0A \<and> c \<noteq> CHR 0x0D \<and> no_newline s)"
  by (simp add: no_newline_def)

lemma no_newline_Nil [simp]: "no_newline []"
  by (simp add: no_newline_def)

lemma no_newline_join: "no_newline sep \<Longrightarrow> list_all no_newline xs \<Longrightarrow> no_newline (py_join sep xs)"
  by (induction sep xs rule: py_join.induct) auto

lemma hex_digit_clean: "0 \<le> n \<Longrightarrow> n < 16 \<Longrightarrow> no_newline [hex_digit n]"
proof -
  have "list_all (\<lambda>n. no_newline [hex_digit n]) [0..15]" by code_simp
  then have "\<forall>n \<in> {0..15}. no_newline [hex_digit n]" by (simp only: list_all_iff set_upto)
  then show "0 \<le> n \<Longrightarrow> n < 16 \<Longrightarrow> no_newline [hex_digit n]" by simp
qed

lemma no_newline_esc: "no_newline (esc_ascii c)"
proof -
  let ?n = "of_char c :: int"
  have "0 \<le> ?n" "?n < 256" by (simp_all add: of_char_def)
  then have u: "no_newline (esc_u ?n)"
    using hex_digit_clean [of "?n div 16"] hex_digit_clean [of "?n mod 16"] by (simp add: esc_u_def)
  have "?n \<noteq> 10 \<Longrightarrow> ?n \<noteq> 13 \<Longrightarrow> no_newline [c]" by auto
  with u show ?thesis by (auto simp: esc_ascii_def esc_common_def Let_def)
qed

lemma no_newline_json_str: "no_newline (json_str s)"
proof -
  have "no_newline (concat (map esc_ascii s))" by (induction s) (auto simp: no_newline_esc)
  then show ?thesis by (simp add: json_str_def)
qed

lemma no_newline_int: "no_newline (int_to_str i)"
  using int_to_str_numeral [of "CHR 0x0A" i] int_to_str_numeral [of "CHR 0x0D" i]
  by (auto simp: no_newline_def list_all_iff numeral_char_def)

lemma no_newline_json:
  "float_free v \<Longrightarrow> no_newline (json_dumps '', '' '': '' v)"
  "list_all float_free xs \<Longrightarrow> list_all no_newline (json_dumps_list '', '' '': '' xs)"
  "float_free_items kvs \<Longrightarrow> list_all (\<lambda>kt. no_newline (snd kt)) (json_dumps_items '', '' '': '' kvs)"
proof (induction "'', ''" "'': ''" v and "'', ''" "'': ''" xs and "'', ''" "'': ''" kvs
    rule: json_dumps_json_dumps_list_json_dumps_items.induct)
  case (7 kvs)
  then have "list_all no_newline (map (\<lambda>kt. json_str (fst kt) @ '': '' @ snd kt)
      (sort_key fst (json_dumps_items '', '' '': '' kvs)))"
    by (auto simp: list_all_iff no_newline_json_str)
  then show ?case using no_newline_join [of "'', ''"] by simp
qed (auto simp: no_newline_json_str no_newline_int no_newline_join)

lemma event_line_count: "float_free ev \<Longrightarrow> line_count False (json_default ev @ [CHR 0x0A]) = 1"
  using line_count_prefix [OF no_newline_json(1), of ev False "[CHR 0x0A]"] by simp

section \<open>Events and applies on the ledger\<close>

lemma append_ledger_bytes:
  assumes L: "real_path fs L" and run: "append_ledger_event (fpath_str L) ev fs = (fs', r)"
  shows "file_bytes fs' L = file_bytes fs L @ (if isl r then [] else json_default ev @ [CHR 0x0A])"
    and "p \<noteq> L \<Longrightarrow> file_bytes fs' p = file_bytes fs p" and "real_path fs q \<Longrightarrow> real_path fs' q"
proof -
  let ?line = "json_default ev @ [CHR 0x0A]"
  obtain fs1 r1 where mk: "os_mkdir_parents (path_parent_str (fpath_str L)) fs = (fs1, r1)" by fastforce
  obtain fs2 r2 where wr: "os_write (\<lambda>old. old @ ?line) (fpath_str L) fs1 = (fs2, r2)" by fastforce
  note L1 = real_path_mkdir_parent [OF L mk] and b1 = file_bytes_mkdir [OF mk]
  have step: "(fs', r) = (case r1 of Inl e \<Rightarrow> (fs1, Inl e) | Inr _ \<Rightarrow>
      (case r2 of Inl e \<Rightarrow> (fs2, Inl e) | Inr _ \<Rightarrow> (fs2, Inr (path_str (posix_path_of (fpath_str L))))))"
    using run by (simp add: append_ledger_event_def io_bind_def io_return_def os_append_bytes_def mk wr split: sum.splits)
  have "file_bytes fs' L = file_bytes fs L @ (if isl r then [] else ?line) \<and> (p \<noteq> L \<longrightarrow> file_bytes fs' p = file_bytes fs p)
    \<and> (real_path fs q \<longrightarrow> real_path fs' q)"
  proof (cases r1)
    case (Inl e)
    then show ?thesis using step b1 L1 by simp
  next
    case r1: (Inr u)
    show ?thesis
    proof (cases r2)
      case (Inl e)
      then have "fs2 = fs1" using os_write_fails wr by blast
      then show ?thesis using step r1 b1 L1 Inl by simp
    next
      case r2: (Inr u)
      note b2 = file_bytes_write [OF L1 [OF L] wr [unfolded r2]] and L2 = real_path_write [OF L1 [OF L] wr]
      show ?thesis using step r1 r2 b1 b2 L1 L2 by auto
    qed
  qed
  then show "file_bytes fs' L = file_bytes fs L @ (if isl r then [] else ?line)"
    and "p \<noteq> L \<Longrightarrow> file_bytes fs' p = file_bytes fs p" and "real_path fs q \<Longrightarrow> real_path fs' q" by auto
qed

lemma delete_planned_bytes:
  assumes del: "delete_planned plan es fs = (fs', r)"
    and cin: "\<And>c. c \<in> set (rp_artifact_candidates plan) \<union> set (rp_receipt_candidates plan) \<Longrightarrow> candidate_in fs root c"
    and p: "\<And>c. c \<in> set (rp_artifact_candidates plan) \<union> set (rp_receipt_candidates plan) \<Longrightarrow> path_tail (rc_path c) \<noteq> p"
  shows "file_bytes fs' p = file_bytes fs p" and "\<And>q. real_path fs q \<Longrightarrow> real_path fs' q"
proof -
  have "io_keeps {t. real_path fs t} (\<lambda>q. q \<noteq> p) (delete_planned plan es)"
  proof (rule io_keeps_delete_planned)
    fix c assume c: "c \<in> set (rp_artifact_candidates plan) \<union> set (rp_receipt_candidates plan)"
    obtain q where "rc_path c = fpath_str q" "real_path fs q" using cin [OF c] by (auto simp: candidate_in_def)
    moreover from this have "path_tail (rc_path c) = q" by (simp add: path_tail_real real_path_def)
    ultimately show "\<exists>q \<in> {t. real_path fs t}. rc_path c = fpath_str q \<and> q \<noteq> p" using p [OF c] by auto
  qed
  then have k: "fs_keeps (\<lambda>q. q \<noteq> p) fs fs'" using del unfolding io_keeps_def by (metis fst_conv mem_Collect_eq)
  then have "node_at fs' p = node_at fs p" by (rule fs_keeps_outside) simp
  then show "file_bytes fs' p = file_bytes fs p" by (simp add: file_bytes_def)
  show "\<And>q. real_path fs q \<Longrightarrow> real_path fs' q" using fs_keeps_real_path [OF k] by blast
qed

text \<open>
  The set-up in which an apply cannot disturb the audit trail: neither the ledger nor an earlier
  export is a candidate for deletion, and the new export is none of them.
\<close>

definition audit_disjoint :: "fs \<Rightarrow> fpath list \<Rightarrow> fpath \<Rightarrow> retention_plan \<Rightarrow> bool" where
  "audit_disjoint fs es L plan =
     (export_unlinked fs plan \<and>
      list_all (\<lambda>c. path_tail (rc_path c) \<notin> set (L # es))
        (rp_artifact_candidates plan @ rp_receipt_candidates plan) \<and>
      (case lc_export_path (rp_ledger_compaction plan) of None \<Rightarrow> True
       | Some e \<Rightarrow> path_tail e \<notin> set (L # es) \<and>
           list_all (\<lambda>c. path_tail (rc_path c) \<noteq> path_tail e)
             (rp_artifact_candidates plan @ rp_receipt_candidates plan)))"

definition export_paths :: "retention_apply_result \<Rightarrow> fpath list" where
  "export_paths r = (case ap_ledger_export_ref r of None \<Rightarrow> [] | Some ref \<Rightarrow> [path_tail (ar_path ref)])"

definition audit_history :: "fpath \<Rightarrow> fs \<times> fpath list \<Rightarrow> string" where
  "audit_history L s = concat (map (file_bytes (fst s)) (snd s)) @ file_bytes (fst s) L"

text \<open>
  The steps: an event is appended (whether or not that raises), and a retention apply returns,
  confirmed or not. The second component lists the exports made so far, oldest first.
\<close>

inductive audit_step :: "fpath \<Rightarrow> fs \<times> fpath list \<Rightarrow> fs \<times> fpath list \<Rightarrow> bool" for L where
  record_event: "append_ledger_event (fpath_str L) ev fs = (fs', r) \<Longrightarrow> audit_step L (fs, es) (fs', es)"
| retention: "apply_retention_plan lo clock clock' a actor confirm fs = (fs', Inr r) \<Longrightarrow> wf_fs fs \<Longrightarrow>
    rp_ledger_path (ap_plan r) = fpath_str L \<Longrightarrow> audit_disjoint fs es L (ap_plan r) \<Longrightarrow>
    audit_step L (fs, es) (fs', es @ export_paths r)"

inductive_cases audit_stepE: "audit_step L (fs, es) s'"

definition audit_ok :: "fpath \<Rightarrow> fs \<times> fpath list \<Rightarrow> bool" where
  "audit_ok L s = (real_path (fst s) L \<and> L \<notin> set (snd s))"

lemma record_event_step:
  assumes "append_ledger_event (fpath_str L) ev fs = (fs', r)" and "audit_ok L (fs, es)"
  shows "audit_ok L (fs', es) \<and> (\<exists>x. audit_history L (fs', es) = audit_history L (fs, es) @ x)"
proof -
  have L: "real_path fs L" "L \<notin> set es" using assms(2) by (simp_all add: audit_ok_def)
  note b = append_ledger_bytes [OF L(1) assms(1)]
  have "map (file_bytes fs') es = map (file_bytes fs) es" using L(2) b(2) by (intro map_cong refl) metis
  then have "concat (map (file_bytes fs') es) = concat (map (file_bytes fs) es)" by (rule arg_cong)
  then show ?thesis using b L by (simp add: audit_ok_def audit_history_def)
qed

lemma try_compaction_history:
  assumes plan: "build_retention_plan lo clock' a fs = Inr plan" and wf: "wf_fs fs"
    and root: "path_resolve fs (ra_repo_root a) = Inr root"
    and Lp: "rp_ledger_path plan = fpath_str L" and dis: "audit_disjoint fs es L plan"
    and run: "try_compaction (rp_ledger_compaction plan) fs = (fs1, Inr (ref, es0))" and L: "real_path fs L"
  shows "(case ref of None \<Rightarrow> file_bytes fs1 L = file_bytes fs L
      | Some rf \<Rightarrow> path_tail (ar_path rf) \<notin> set (L # es) \<and>
          list_all (\<lambda>c. path_tail (rc_path c) \<noteq> path_tail (ar_path rf))
            (rp_artifact_candidates plan @ rp_receipt_candidates plan) \<and>
          file_bytes fs1 (path_tail (ar_path rf)) @ file_bytes fs1 L = file_bytes fs L) \<and>
    (\<forall>p \<in> set es. p \<noteq> L \<longrightarrow> file_bytes fs1 p = file_bytes fs p)"
proof (cases "lc_action_required (rp_ledger_compaction plan)")
  case False
  then show ?thesis using run by (simp add: try_compaction_def)
next
  case req: True
  let ?c = "rp_ledger_compaction plan"
  note paths = build_retention_plan_paths [OF plan wf root]
  obtain L' where "rp_ledger_path plan = fpath_str L'" "lc_ledger_path ?c = fpath_str L'" "real_path fs L'"
    using paths(3) by auto
  then have Lc: "lc_ledger_path ?c = fpath_str L" using Lp by simp
  obtain fs2 rr where cl: "compact_ledger ?c fs = (fs2, rr)" by fastforce
  have res: "fs1 = fs2 \<and> (case ref of None \<Rightarrow> isl rr | Some rf \<Rightarrow> rr = Inr rf)"
    using run req cl by (auto simp: try_compaction_def io_catch_os_def io_bind_def io_return_def
        split: sum.splits py_error.splits)
  obtain e where e: "lc_export_path ?c = Some e"
    using run req by (cases "lc_export_path ?c")
      (auto simp: try_compaction_def io_catch_os_def io_bind_def compact_ledger_def io_result_def)
  have un: "export_unlinked fs plan" using dis by (simp add: audit_disjoint_def)
  obtain E where E: "e = fpath_str E" "real_path fs E" using paths(4) [OF e un] by auto
  have tE: "path_tail e = E" using E by (simp add: path_tail_real real_path_def)
  have dE: "E \<noteq> L" "E \<notin> set es" "list_all (\<lambda>c. path_tail (rc_path c) \<noteq> E)
      (rp_artifact_candidates plan @ rp_receipt_candidates plan)"
    using dis e tE by (auto simp: audit_disjoint_def)
  have ne: "L \<noteq> E" using dE(1) by simp
  have eE: "lc_export_path ?c = Some (fpath_str E)" using e E(1) by simp
  note kept = compact_ledger_preserves [OF L E(2) ne Lc eE req cl]
  have others: "\<forall>p \<in> set es. p \<noteq> L \<longrightarrow> file_bytes fs1 p = file_bytes fs p"
    using kept(2) dE(2) res by blast
  show ?thesis
  proof (cases ref)
    case None
    then obtain x where "rr = Inl x" using res by (cases rr) auto
    then show ?thesis using kept(1) None res others by simp
  next
    case (Some rf)
    then have k: "compaction_kept fs fs1 ?c L E rf" using kept(1) res by simp
    then have "path_tail (ar_path rf) = E" using E(2) by (simp add: compaction_kept_def path_tail_real real_path_def)
    moreover have "file_bytes fs1 E @ file_bytes fs1 L = file_bytes fs L"
      using k by (simp add: compaction_kept_def flip: concat_append)
    ultimately show ?thesis using Some others dE by simp
  qed
qed

text \<open>A returned, confirmed apply: its compaction, and the files as it leaves them.\<close>

lemma applied_files:
  assumes run: "apply_retention_plan lo clock clock' a actor True fs = (fs', Inr r)" and wf: "wf_fs fs"
    and Lp: "rp_ledger_path (ap_plan r) = fpath_str L" and dis: "audit_disjoint fs es L (ap_plan r)"
    and L: "real_path fs L"
  obtains root fs1 es0 ev where "build_retention_plan lo clock' a fs = Inr (ap_plan r)"
    and "path_resolve fs (ra_repo_root a) = Inr root"
    and "try_compaction (rp_ledger_compaction (ap_plan r)) fs = (fs1, Inr (ap_ledger_export_ref r, es0))"
    and "ap_ledger_event r = Some ev" and "real_path fs' L"
    and "file_bytes fs' L = file_bytes fs1 L @ json_default ev @ [CHR 0x0A]"
    and "\<And>p. p \<noteq> L \<Longrightarrow> p \<in> set es \<or> list_all (\<lambda>c. path_tail (rc_path c) \<noteq> p)
      (rp_artifact_candidates (ap_plan r) @ rp_receipt_candidates (ap_plan r)) \<Longrightarrow>
      file_bytes fs' p = file_bytes fs1 p"
proof -
  obtain plan at where plan: "build_retention_plan lo clock' a fs = Inr plan"
    and rrun: "run_retention_plan actor at plan fs = (fs', Inr r)"
    using run by (rule apply_confirmed)
  obtain fs1 fs2 ref es0 er ds rs ev where
    comp: "try_compaction (rp_ledger_compaction plan) fs = (fs1, Inr (ref, es0))" and
    del: "delete_planned plan es0 fs1 = (fs2, Inr (ds, rs, er))" and
    app: "append_ledger_event (rp_ledger_path plan) ev fs2 = (fs', Inr (the (ap_ledger_event_path r)))" and
    r: "ap_plan r = plan" "ap_ledger_export_ref r = ref" "ap_ledger_event r = Some ev"
    by (rule run_retention_plan_Inr [OF rrun])
  obtain root where root: "path_resolve fs (ra_repo_root a) = Inr root"
    using plan by (auto simp: build_retention_plan_def)
  note Lp = Lp [unfolded r] and dis = dis [unfolded r]
  have un: "export_unlinked fs plan" using dis by (simp add: audit_disjoint_def)
  have k1: "fs_keeps (\<lambda>p. prefix root p \<or> prefix p root) fs fs1"
  proof -
    have "\<forall>t \<in> {t. real_path fs t \<and> prefix root t}. real_path fs t" by simp
    then show ?thesis
      using io_keeps_try_compaction [OF plan_compaction_keeps [OF plan wf root un]] comp
      unfolding io_keeps_def by (metis (no_types, lifting) fst_conv)
  qed
  have in1: "candidate_in fs1 root c"
    if "c \<in> set (rp_artifact_candidates plan) \<union> set (rp_receipt_candidates plan)" for c
    using build_retention_plan_paths(5) [OF plan wf root that] candidate_in_keeps [OF k1] by blast
  have cand: "path_tail (rc_path c) \<notin> set (L # es)"
    if "c \<in> set (rp_artifact_candidates plan) \<union> set (rp_receipt_candidates plan)" for c
    using dis that by (auto simp: audit_disjoint_def list_all_iff)
  have b2: "file_bytes fs2 p = file_bytes fs1 p" if "p \<in> set (L # es) \<or>
      list_all (\<lambda>c. path_tail (rc_path c) \<noteq> p) (rp_artifact_candidates plan @ rp_receipt_candidates plan)" for p
    by (rule delete_planned_bytes(1) [OF del in1]) (use that cand in \<open>auto simp: list_all_iff\<close>)
  have L2: "real_path fs2 L"
    by (rule delete_planned_bytes(2) [OF del in1, where p = L, OF _ _ fs_keeps_real_path [OF k1 L]])
      (use cand in auto)
  note b3 = append_ledger_bytes [OF L2 app [unfolded Lp]]
  show thesis
  proof (rule that)
    show "build_retention_plan lo clock' a fs = Inr (ap_plan r)" using plan r by simp
    show "path_resolve fs (ra_repo_root a) = Inr root" by (rule root)
    show "try_compaction (rp_ledger_compaction (ap_plan r)) fs = (fs1, Inr (ap_ledger_export_ref r, es0))"
      using comp r by simp
    show "ap_ledger_event r = Some ev" by (rule r)
    show "real_path fs' L" by (rule b3(3) [OF L2])
    show "file_bytes fs' L = file_bytes fs1 L @ json_default ev @ [CHR 0x0A]" using b2 [of L] b3(1) by simp
    show "\<And>p. p \<noteq> L \<Longrightarrow> p \<in> set es \<or> list_all (\<lambda>c. path_tail (rc_path c) \<noteq> p)
        (rp_artifact_candidates (ap_plan r) @ rp_receipt_candidates (ap_plan r)) \<Longrightarrow>
        file_bytes fs' p = file_bytes fs1 p"
      using b2 b3(2) by (auto simp: r)
  qed
qed

lemma retention_step:
  assumes run: "apply_retention_plan lo clock clock' a actor confirm fs = (fs', Inr r)" and wf: "wf_fs fs"
    and Lp: "rp_ledger_path (ap_plan r) = fpath_str L" and dis: "audit_disjoint fs es L (ap_plan r)"
    and ok: "audit_ok L (fs, es)"
  shows "audit_ok L (fs', es @ export_paths r) \<and>
    (\<exists>x. audit_history L (fs', es @ export_paths r) = audit_history L (fs, es) @ x)"
proof (cases confirm)
  case False
  then show ?thesis using run ok
    by (auto simp: apply_retention_plan_def io_bind_Inr export_paths_def)
next
  case True
  have L: "real_path fs L" "L \<notin> set es" using ok by (simp_all add: audit_ok_def)
  have runT: "apply_retention_plan lo clock clock' a actor True fs = (fs', Inr r)" using run True by simp
  obtain root fs1 es0 ev where plan: "build_retention_plan lo clock' a fs = Inr (ap_plan r)"
    and root: "path_resolve fs (ra_repo_root a) = Inr root"
    and comp: "try_compaction (rp_ledger_compaction (ap_plan r)) fs = (fs1, Inr (ap_ledger_export_ref r, es0))"
    and "ap_ledger_event r = Some ev" and L': "real_path fs' L" and Lb: "file_bytes fs' L = file_bytes fs1 L @ json_default ev @ [CHR 0x0A]"
    and b: "\<And>p. p \<noteq> L \<Longrightarrow> p \<in> set es \<or> list_all (\<lambda>c. path_tail (rc_path c) \<noteq> p)
      (rp_artifact_candidates (ap_plan r) @ rp_receipt_candidates (ap_plan r)) \<Longrightarrow>
      file_bytes fs' p = file_bytes fs1 p"
    using applied_files [OF runT wf Lp dis L(1)] by blast
  note h = try_compaction_history [OF plan wf root Lp dis comp L(1)]
  have "map (file_bytes fs') es = map (file_bytes fs) es"
  proof (intro map_cong refl)
    fix p assume "p \<in> set es"
    moreover have "p \<noteq> L" using L(2) \<open>p \<in> set es\<close> by auto
    ultimately show "file_bytes fs' p = file_bytes fs p" using h b [of p] by simp
  qed
  note old = arg_cong [OF this, of concat]
  show ?thesis
  proof (cases "ap_ledger_export_ref r")
    case None
    then show ?thesis using h old Lb L L'
      by (simp add: audit_ok_def audit_history_def export_paths_def)
  next
    case (Some rf)
    let ?E = "path_tail (ar_path rf)"
    have hE: "?E \<notin> set (L # es)" "file_bytes fs1 ?E @ file_bytes fs1 L = file_bytes fs L"
      "list_all (\<lambda>c. path_tail (rc_path c) \<noteq> ?E)
         (rp_artifact_candidates (ap_plan r) @ rp_receipt_candidates (ap_plan r))"
      using h Some by simp_all
    have "file_bytes fs' ?E = file_bytes fs1 ?E" using b [of ?E] hE by simp
    then have "audit_history L (fs', es @ export_paths r) =
        audit_history L (fs, es) @ json_default ev @ [CHR 0x0A]"
      by (simp add: audit_history_def export_paths_def Some Lb old flip: hE(2))
    moreover have "audit_ok L (fs', es @ export_paths r)"
      using L L' hE(1) by (auto simp: audit_ok_def export_paths_def Some)
    ultimately show ?thesis by blast
  qed
qed

lemma audit_step_history:
  assumes "audit_step L s s'" and "audit_ok L s"
  shows "audit_ok L s' \<and> prefix (audit_history L s) (audit_history L s')"
  using assms
proof (cases rule: audit_step.cases)
  case (record_event ev fs fs' r es)
  then show ?thesis using record_event_step assms(2) by (auto simp: prefix_def)
next
  case (retention lo clock clock' a actor confirm fs fs' r es)
  then show ?thesis using retention_step assms(2) by (simp add: prefix_def)
qed



section \<open>The ledger stays within its budget\<close>

lemma compaction_plan_counts:
  assumes "build_ledger_compaction_plan fs g ledger ed n = Inr c" and "link_free fs ledger"
  shows "1 \<le> n \<and> (if lc_action_required c
    then lc_compacted_line_count c = length (bytes_lines (file_bytes fs ledger)) - nat (n - 1)
    else int (length (bytes_lines (file_bytes fs ledger))) \<le> n)"
proof -
  have "fs_stat fs ledger = Inr (b, m) \<Longrightarrow> file_bytes fs ledger = b" for b m
    using assms(2) by (simp add: fs_stat_Inr followed_link_free file_bytes_def)
  moreover have "\<not> fs_exists fs ledger \<Longrightarrow> file_bytes fs ledger = []"
    using assms(2) by (simp add: fs_exists_def followed_link_free file_bytes_def)
  ultimately show ?thesis
    using assms(1) by (auto simp: build_ledger_compaction_plan_def Let_def bytes_lines_def split: if_splits)
qed

lemma lifecycle_event_float_free: "float_free (lifecycle_ledger_event actor refs t oc plan tgt)"
proof -
  have "float_free (artifact_ref_to_record x)" for x by (simp add: artifact_ref_to_record_def)
  then show ?thesis by (simp add: lifecycle_ledger_event_def Let_def list_all_iff)
qed

lemma run_retention_event:
  "run_retention_plan actor at plan fs = (fs', Inr r) \<Longrightarrow>
   \<exists>refs t oc tgt. ap_ledger_event r = Some (lifecycle_ledger_event actor refs t oc plan tgt)"
  by (fastforce simp: run_retention_plan_def io_bind_Inr Let_def)

lemma try_compaction_count:
  assumes "try_compaction c fs = (fs1, Inr (ref, es0))" and "audit_disjoint fs [] L plan"
    and "c = rp_ledger_compaction plan" and "real_path fs L" and "lc_ledger_path c = fpath_str L"
    and "build_ledger_compaction_plan fs g L ed n = Inr c"
    and "\<And>e. lc_export_path c = Some e \<Longrightarrow> \<exists>E. e = fpath_str E \<and> real_path fs E"
    and "lc_action_required c \<longrightarrow> ref \<noteq> None"
  shows "int (length (bytes_lines (file_bytes fs1 L))) \<le> n - (if ref = None then 0 else 1)"
proof (cases "lc_action_required c")
  case False
  then show ?thesis
    using assms(1,4) compaction_plan_counts [OF assms(6)] by (simp add: try_compaction_def real_path_def)
next
  case req: True
  then obtain rf where ref: "ref = Some rf" using assms(8) by auto
  then have cl: "compact_ledger c fs = (fs1, Inr rf)"
    using assms(1) req by (auto simp: try_compaction_def io_catch_os_def io_bind_def io_return_def
        split: prod.splits sum.splits py_error.splits)
  obtain e where e: "lc_export_path c = Some e"
    using cl by (cases "lc_export_path c") (auto simp: compact_ledger_def io_result_def)
  obtain E where E: "e = fpath_str E" "real_path fs E" using assms(7) [OF e] by auto
  have ne: "L \<noteq> E"
    using assms(2,3) e E by (auto simp: audit_disjoint_def path_tail_real real_path_def)
  have kept: "compaction_kept fs fs1 c L E rf"
    using compact_ledger_preserves(1) [OF assms(4) E(2) ne assms(5) e [unfolded E(1)] req cl] by simp
  then have "length (bytes_lines (file_bytes fs1 L)) \<le>
      length (bytes_lines (file_bytes fs L)) - lc_compacted_line_count c"
    using retained_lines by (simp add: compaction_kept_def)
  moreover have "link_free fs L" using assms(4) by (simp add: real_path_def)
  note counts = compaction_plan_counts [OF assms(6) this]
  ultimately have "length (bytes_lines (file_bytes fs1 L)) \<le> nat (n - 1)" using req by simp
  moreover have "1 \<le> n" using counts by simp
  ultimately have "int (length (bytes_lines (file_bytes fs1 L))) \<le> n - 1" by arith
  then show ?thesis using ref by simp
qed

lemma build_retention_plan_compaction:
  assumes "build_retention_plan lo clock a fs = Inr plan" and "rp_ledger_path plan = fpath_str L"
    and "real_path fs L" and "wf_fs fs"
  obtains g ed where "build_ledger_compaction_plan fs g L ed (rt_ledger_max_events (rp_thresholds plan))
      = Inr (rp_ledger_compaction plan)"
proof -
  obtain root where root: "path_resolve fs (ra_repo_root a) = Inr root"
    using assms(1) by (auto simp: build_retention_plan_def)
  have real: "real_path fs root"
    by (rule resolve_from_real [OF root]) (use assms(4) in \<open>simp add: wf_fs_def\<close>)
  obtain L' g ed where L': "resolve_local_path fs root (ra_ledger_path a) ''ledger_path'' = Inr L'"
    "rp_ledger_path plan = fpath_str L'" and
    c: "build_ledger_compaction_plan fs g L' ed (rt_ledger_max_events (rp_thresholds plan)) = Inr (rp_ledger_compaction plan)"
    using assms(1) root by (auto simp: build_retention_plan_def retention_plan_of_def Let_def split: if_splits)
  have "fpath_str L' = fpath_str L" using L'(2) assms(2) by simp
  then have "L' = L"
    using resolve_local_path_real [OF L'(1) real] assms(3) by (metis path_tail_real real_path_def)
  with c that show thesis by blast
qed



end
