(* ===== verification/Execution_Safety.thy ===== *)
theory Execution_Safety
  imports Validation_Planning Ledger_Records
begin

text \<open>
  What \<open>validation_execution.py\<close> decides before it runs a command: splitting the command line
  as \<open>shlex.split\<close> does, the environment assignments in front of it, and the safety policy
  (safety class, operator approval, executables, directories, environment variables).
\<close>

section \<open>Constants\<close>

definition RECEIPT_SCHEMA_VERSION :: int where "RECEIPT_SCHEMA_VERSION = 1"

definition COMMAND_TIMEOUT_SECONDS :: int where "COMMAND_TIMEOUT_SECONDS = 120"

definition DEFAULT_SAFETY_CLASS :: string where "DEFAULT_SAFETY_CLASS = ''local-read-only''"

definition DEFAULT_EXECUTION_PROFILE :: string where "DEFAULT_EXECUTION_PROFILE = ''developer''"

definition OPERATOR_APPROVAL_REQUIRED_SAFETY_CLASSES :: "string list" where
  "OPERATOR_APPROVAL_REQUIRED_SAFETY_CLASSES =
     [''authority-mutation'', ''host-control'', ''live-runtime-read'', ''materialized-output-write'',
      ''network'', ''privileged'', ''remote-read'', ''structured-record-write'']"

definition SUPPORTED_SAFETY_CLASSES :: "string list" where
  "SUPPORTED_SAFETY_CLASSES =
     [''authority-mutation'', ''host-control'', ''live-runtime-read'', ''local-artifact-write'',
      ''local-read-only'', ''materialized-output-write'', ''network'', ''privileged'', ''remote-read'',
      ''structured-record-write'', ''workspace-cross-repo-read'']"

definition DEFAULT_COMMAND_ENV_NAMES :: "string list" where
  "DEFAULT_COMMAND_ENV_NAMES =
     [''HOME'', ''LANG'', ''LC_ALL'', ''PATH'', ''PYTHONPATH'', ''REQUESTS_CA_BUNDLE'', ''SSL_CERT_FILE'',
      ''TEMP'', ''TMP'', ''TMPDIR'', ''VIRTUAL_ENV'']"

text \<open>The alternatives of \<open>SECRET_LIKE_ENV_RE\<close>, searched for without regard to case.\<close>

definition secret_patterns :: "string list" where
  "secret_patterns =
     [''token'', ''secret'', ''password'', ''passwd'', ''credential'', ''privatekey'', ''private_key'',
      ''private-key'', ''apikey'', ''api_key'', ''api-key'']"

definition secret_like :: "string \<Rightarrow> bool" where
  "secret_like key = list_ex (\<lambda>p. str_contains p (py_lower key)) secret_patterns"

section \<open>Command lines\<close>

text \<open>
  \<open>shlex.split(s)\<close> with its default POSIX rules: the lexer's state between characters, the
  token so far and whether a quote was seen in it.
\<close>

datatype shlex_state = ShStart | ShWord | ShQuote char | ShEscape "char option"

definition sh_space :: "char \<Rightarrow> bool" where
  "sh_space c = (c = CHR '' '' \<or> c = CHR 0x09 \<or> c = CHR 0x0D \<or> c = CHR 0x0A)"

definition sh_quote :: "char \<Rightarrow> bool" where
  "sh_quote c = (c = CHR 0x27 \<or> c = CHR 0x22)"

definition sh_emit :: "string \<Rightarrow> bool \<Rightarrow> string list result \<Rightarrow> string list result" where
  "sh_emit token quoted rest = (if token \<noteq> [] \<or> quoted then rbind rest (\<lambda>ts. Inr (token # ts)) else rest)"

fun shlex_scan :: "shlex_state \<Rightarrow> string \<Rightarrow> bool \<Rightarrow> string \<Rightarrow> string list result" where
  "shlex_scan ShStart token quoted [] = Inr []"
| "shlex_scan ShStart token quoted (c # cs) =
     (if sh_space c then shlex_scan ShStart [] False cs
      else if c = CHR 0x5C then shlex_scan (ShEscape None) [] False cs
      else if sh_quote c then shlex_scan (ShQuote c) [] False cs
      else shlex_scan ShWord [c] False cs)"
| "shlex_scan ShWord token quoted [] = sh_emit token quoted (Inr [])"
| "shlex_scan ShWord token quoted (c # cs) =
     (if sh_space c then sh_emit token quoted (shlex_scan ShStart [] False cs)
      else if sh_quote c then shlex_scan (ShQuote c) token quoted cs
      else if c = CHR 0x5C then shlex_scan (ShEscape None) token quoted cs
      else shlex_scan ShWord (token @ [c]) quoted cs)"
| "shlex_scan (ShQuote q) token quoted [] = Inl (ValueError ''No closing quotation'')"
| "shlex_scan (ShQuote q) token quoted (c # cs) =
     (if c = q then shlex_scan ShWord token True cs
      else if c = CHR 0x5C \<and> q = CHR 0x22 then shlex_scan (ShEscape (Some q)) token True cs
      else shlex_scan (ShQuote q) (token @ [c]) True cs)"
| "shlex_scan (ShEscape e) token quoted [] = Inl (ValueError ''No escaped character'')"
| "shlex_scan (ShEscape None) token quoted (c # cs) = shlex_scan ShWord (token @ [c]) quoted cs"
| "shlex_scan (ShEscape (Some q)) token quoted (c # cs) =
     shlex_scan (ShQuote q) (token @ (if c \<noteq> CHR 0x5C \<and> c \<noteq> q then [CHR 0x5C, c] else [c])) quoted cs"

definition shlex_split :: "string \<Rightarrow> string list result" where
  "shlex_split s = shlex_scan ShStart [] False s"

definition name_start :: "char \<Rightarrow> bool" where
  "name_start c = (let n = (of_char c :: nat) in 65 \<le> n \<and> n \<le> 90 \<or> n = 95 \<or> 97 \<le> n \<and> n \<le> 122)"

definition is_env_name :: "string \<Rightarrow> bool" where
  "is_env_name key = (case key of [] \<Rightarrow> False
     | c # cs \<Rightarrow> name_start c \<and> list_all (\<lambda>c. name_start c \<or> py_is_digit c) cs)"

definition is_env_assignment :: "string \<Rightarrow> bool" where
  "is_env_assignment v =
     (CHR ''='' \<in> set v \<and> is_env_name (takeWhile (\<lambda>c. c \<noteq> CHR ''='') v))"

fun take_assignments :: "(string \<times> string) list \<Rightarrow> string list \<Rightarrow> (string \<times> string) list \<times> string list" where
  "take_assignments env [] = (env, [])"
| "take_assignments env (p # ps) =
     (if is_env_assignment p
      then take_assignments (assoc_set (takeWhile (\<lambda>c. c \<noteq> CHR ''='') p)
             (tl (dropWhile (\<lambda>c. c \<noteq> CHR ''='') p)) env) ps
      else (env, p # ps))"

definition parse_command :: "string \<Rightarrow> ((string \<times> string) list \<times> string list) result" where
  "parse_command command = rbind (shlex_split command) (\<lambda>parts.
     case take_assignments [] parts of (env, args) \<Rightarrow>
       if args = [] then Inl (ValueError ''validator command must include an executable'')
       else Inr (env, args))"

section \<open>Policy fields\<close>

text \<open>A set of strings, as a list whose order never shows.\<close>

definition string_set :: "pyval \<Rightarrow> string list" where
  "string_set v = (let items = (case v of PStr s \<Rightarrow> [v] | PList xs \<Rightarrow> xs | _ \<Rightarrow> [])
     in filter (\<lambda>t. t \<noteq> []) (map (\<lambda>x. py_strip (py_str x)) items))"

definition execution_policy :: "validation_check \<Rightarrow> pydict" where
  "execution_policy c = vc_execution_policy c"

definition safety_class :: "pydict \<Rightarrow> string" where
  "safety_class pol = py_strip (py_str (py_or (py_get pol ''safety_class'') (PStr DEFAULT_SAFETY_CLASS)))"

definition execution_profile :: "pydict \<Rightarrow> string" where
  "execution_profile pol = py_strip (py_str (py_or (py_get pol ''profile'') (PStr DEFAULT_EXECUTION_PROFILE)))"

definition sorted_strings :: "string list \<Rightarrow> pyval" where
  "sorted_strings xs = PList (map PStr (sorted_set xs))"

definition safety_summary :: "string list \<Rightarrow> pydict \<Rightarrow> pydict" where
  "safety_summary args pol =
     [(''allowed_env_vars'', sorted_strings (string_set (py_get pol ''allowed_env_vars''))),
      (''allowed_executables'', sorted_strings (string_set (py_get pol ''allowed_executables''))),
      (''allowed_roots'', sorted_strings (string_set (py_get pol ''allowed_roots''))),
      (''blocked_env_vars'', sorted_strings (string_set (py_get pol ''blocked_env_vars''))),
      (''decision'', PStr ''allowed''),
      (''executable'', if args = [] then PNone else PStr (hd args)),
      (''invocation_class'', PStr (py_str (py_or (py_get pol ''invocation_class'') (PStr ''hard-gate'')))),
      (''max_duration_ms'', py_get pol ''max_duration_ms''),
      (''profile'', PStr (execution_profile pol)), (''safety_class'', PStr (safety_class pol)),
      (''sanitized_base_env'', PBool True),
      (''working_directory'', PStr (py_str (py_or (py_get pol ''working_directory'') (PStr ''.''))))]"

text \<open>\<open>Path(text).name\<close>\<close>

definition path_name :: "string \<Rightarrow> string" where
  "path_name s = (let t = pp_tail (posix_path_of s) in if t = [] then [] else last t)"

definition executable_allowed :: "string \<Rightarrow> string list \<Rightarrow> bool" where
  "executable_allowed executable allowed = (executable \<in> set allowed \<or> path_name executable \<in> set allowed)"

section \<open>Directories\<close>

definition resolve_policy_root :: "fs \<Rightarrow> fpath \<Rightarrow> string \<Rightarrow> fpath result" where
  "resolve_policy_root fs repo_root root = resolve_from fs repo_root root"

definition allowed_root_decision :: "fs \<Rightarrow> fpath \<Rightarrow> fpath \<Rightarrow> pydict \<Rightarrow> string option result" where
  "allowed_root_decision fs repo_root working_directory pol =
     (let roots = string_set (py_get pol ''allowed_roots'') in
      if roots = [] then Inr None
      else rbind (rmapM (resolve_policy_root fs repo_root) roots) (\<lambda>resolved.
        rbind (rmapM (fs_is_relative_to fs working_directory) resolved) (\<lambda>inside.
          Inr (if True \<in> set inside then None
               else Some ''validator working directory is outside the allowed_roots policy''))))"

definition working_directory :: "fs \<Rightarrow> fpath \<Rightarrow> pydict \<Rightarrow> fpath result" where
  "working_directory fs repo_root pol =
     (case py_or (py_get pol ''working_directory'') (PStr ''.'') of
        PStr raw \<Rightarrow>
          if py_strip raw = [] then Inl (ValueError ''execution_policy.working_directory must be a non-empty string'')
          else rbind (resolve_from fs repo_root (py_strip raw)) (\<lambda>resolved.
            rbind (fs_is_relative_to fs resolved repo_root) (\<lambda>inside.
              if \<not> inside then Inl (ValueError ''execution_policy.working_directory must stay inside repo_root'')
              else if \<not> fs_is_dir fs resolved
                then Inl (ValueError (''execution_policy.working_directory does not exist: '' @ fpath_str resolved))
              else Inr resolved))
      | _ \<Rightarrow> Inl (ValueError ''execution_policy.working_directory must be a non-empty string''))"

section \<open>Environment\<close>

definition env_key_error :: "string list \<Rightarrow> string list \<Rightarrow> string \<Rightarrow> string option" where
  "env_key_error allowed blocked key =
     (if key \<in> set blocked then Some (''environment variable '' @ repr_str key @ '' is explicitly blocked'')
      else if allowed \<noteq> [] \<and> key \<notin> set allowed
        then Some (''environment variable '' @ repr_str key @ '' is not in the allowed_env_vars policy'')
      else if secret_like key \<and> key \<notin> set allowed
        then Some (''secret-like environment variable '' @ repr_str key @ '' requires explicit allowlist'')
      else None)"

fun first_some :: "('a \<Rightarrow> 'b option) \<Rightarrow> 'a list \<Rightarrow> 'b option" where
  "first_some f [] = None"
| "first_some f (x # xs) = (case f x of Some y \<Rightarrow> Some y | None \<Rightarrow> first_some f xs)"

definition env_decision :: "(string \<times> string) list \<Rightarrow> pydict \<Rightarrow> string option" where
  "env_decision env pol =
     first_some (env_key_error (string_set (py_get pol ''allowed_env_vars''))
       (string_set (py_get pol ''blocked_env_vars''))) (sort (map fst env))"

text \<open>\<open>{**a, **b}\<close>, also \<open>a.update(b)\<close>\<close>

definition dict_merge :: "(string \<times> 'v) list \<Rightarrow> (string \<times> 'v) list \<Rightarrow> (string \<times> 'v) list" where
  "dict_merge a b = fold (\<lambda>(k, v) d. assoc_set k v d) b a"

definition base_command_env :: "(string \<times> string) list \<Rightarrow> (string \<times> string) list" where
  "base_command_env environ = filter (\<lambda>(k, v). k \<in> set DEFAULT_COMMAND_ENV_NAMES \<and> v \<noteq> []) environ"

definition python_first_path :: "string \<Rightarrow> string option \<Rightarrow> string" where
  "python_first_path python_bin current =
     (case current of None \<Rightarrow> python_bin | Some p \<Rightarrow>
        if p = [] then python_bin
        else py_join '':'' (python_bin # remove1 python_bin (split_on (CHR '':'') p)))"

section \<open>The safety decision\<close>

definition blocked_by :: "pydict \<Rightarrow> string \<Rightarrow> pydict option result" where
  "blocked_by summary reason =
     Inr (Some (assoc_set ''reason'' (PStr reason) (assoc_set ''decision'' (PStr ''blocked'') summary)))"

definition safety_block_reason :: "fs \<Rightarrow> string list \<Rightarrow> (string \<times> string) list \<Rightarrow> pydict \<Rightarrow> fpath \<Rightarrow>
    (string \<times> string) list \<Rightarrow> fpath \<Rightarrow> pydict option result" where
  "safety_block_reason fs args env_overrides pol repo_root supplied_env wd =
     (let cls = safety_class pol; summary = safety_summary args pol;
          allowed = string_set (py_get pol ''allowed_executables'')
      in if cls \<notin> set SUPPORTED_SAFETY_CLASSES
           then blocked_by summary (''unsupported safety class '' @ repr_str cls)
         else if cls \<in> set OPERATOR_APPROVAL_REQUIRED_SAFETY_CLASSES \<and>
                 \<not> py_truthy (py_get_or (PBool False) pol ''operator_approved'')
           then blocked_by summary (''safety class '' @ repr_str cls @ '' requires explicit operator approval'')
         else if allowed \<noteq> [] \<and> \<not> executable_allowed (hd args) allowed
           then blocked_by summary (''executable '' @ repr_str (hd args) @
                  '' is not in the command allowlist for profile '' @ repr_str (execution_profile pol))
         else rbind (allowed_root_decision fs repo_root wd pol) (\<lambda>root_decision.
           case root_decision of Some reason \<Rightarrow> blocked_by summary reason
           | None \<Rightarrow> (case env_decision (dict_merge supplied_env env_overrides) pol of
               Some reason \<Rightarrow> blocked_by summary reason | None \<Rightarrow> Inr None)))"

text \<open>\<open>re.sub("[^A-Za-z0-9_.-]+", "_", value).strip("._") or "check"\<close>\<close>

definition path_id_char :: "char \<Rightarrow> bool" where
  "path_id_char c = (name_start c \<or> py_is_digit c \<or> c = CHR ''.'' \<or> c = CHR ''-'')"

fun collapse_runs :: "bool \<Rightarrow> string \<Rightarrow> string" where
  "collapse_runs in_run [] = []"
| "collapse_runs in_run (c # cs) =
     (if path_id_char c then c # collapse_runs False cs
      else if in_run then collapse_runs True cs else CHR ''_'' # collapse_runs True cs)"

definition safe_path_id :: "string \<Rightarrow> string" where
  "safe_path_id v = (let s = strip_by (\<lambda>c. c = CHR ''.'' \<or> c = CHR ''_'') (collapse_runs False v)
     in if s = [] then ''check'' else s)"

section \<open>What the safety decision permits\<close>

lemma first_some_None: "(first_some f xs = None) = (\<forall>x \<in> set xs. f x = None)"
  by (induction xs) (auto split: option.splits)

lemma dict_merge_keys: "fst ` set (dict_merge a b) = fst ` set a \<union> fst ` set b"
proof (induction b arbitrary: a)
  case Nil
  then show ?case by (simp add: dict_merge_def)
next
  case (Cons kv b)
  obtain k v where kv: "kv = (k, v)" by fastforce
  have "dict_merge a (kv # b) = dict_merge (assoc_set k v a) b" by (simp add: dict_merge_def kv)
  then show ?case using Cons.IH [of "assoc_set k v a"] kv by (simp only: set_keys_assoc_set) auto
qed

definition env_permitted :: "pydict \<Rightarrow> string \<Rightarrow> bool" where
  "env_permitted pol key =
     (let allowed = string_set (py_get pol ''allowed_env_vars'') in
      key \<notin> set (string_set (py_get pol ''blocked_env_vars'')) \<and>
      (allowed = [] \<or> key \<in> set allowed) \<and> (\<not> secret_like key \<or> key \<in> set allowed))"

lemma env_key_error_None:
  "(env_key_error (string_set (py_get pol ''allowed_env_vars'')) (string_set (py_get pol ''blocked_env_vars'')) key = None) =
   env_permitted pol key"
  by (auto simp: env_key_error_def env_permitted_def Let_def)

lemma env_decision_None: "(env_decision env pol = None) = (\<forall>key \<in> fst ` set env. env_permitted pol key)"
  by (simp add: env_decision_def first_some_None env_key_error_None)

text \<open>The directory lies below one of the roots the policy names.\<close>

definition root_permitted :: "fs \<Rightarrow> fpath \<Rightarrow> fpath \<Rightarrow> pydict \<Rightarrow> bool" where
  "root_permitted fs repo_root wd pol =
     (let roots = string_set (py_get pol ''allowed_roots'') in
      roots = [] \<or> list_ex (\<lambda>r. case resolve_policy_root fs repo_root r of
        Inl e \<Rightarrow> False | Inr q \<Rightarrow> prefix q wd) roots)"

definition command_permitted :: "fs \<Rightarrow> string list \<Rightarrow> string list \<Rightarrow> pydict \<Rightarrow> fpath \<Rightarrow> fpath \<Rightarrow> bool" where
  "command_permitted fs args env_keys pol repo_root wd =
     (safety_class pol \<in> set SUPPORTED_SAFETY_CLASSES \<and>
      (safety_class pol \<in> set OPERATOR_APPROVAL_REQUIRED_SAFETY_CLASSES \<longrightarrow> py_truthy (py_get pol ''operator_approved'')) \<and>
      (let allowed = string_set (py_get pol ''allowed_executables'') in
       allowed = [] \<or> hd args \<in> set allowed \<or> path_name (hd args) \<in> set allowed) \<and>
      root_permitted fs repo_root wd pol \<and> list_all (env_permitted pol) env_keys)"

definition roots_resolve :: "fs \<Rightarrow> fpath \<Rightarrow> pydict \<Rightarrow> bool" where
  "roots_resolve fs repo_root pol =
     list_all (\<lambda>r. \<not> isl (resolve_policy_root fs repo_root r)) (string_set (py_get pol ''allowed_roots''))"

lemma py_truthy_default: "py_truthy (py_get_or (PBool False) pol k) = py_truthy (py_get pol k)"
  by (simp add: py_get_or_def split: option.splits)

lemma root_case:
  "(case x of Inl e \<Rightarrow> False | Inr q \<Rightarrow> prefix q wd) = (\<exists>q. x = Inr q \<and> prefix q wd)"
  by (cases x) simp_all

lemma allowed_root_decision_spec:
  assumes "list_all proper_component repo_root" and "real_path fs wd"
  shows "allowed_root_decision fs repo_root wd pol = Inr d \<Longrightarrow> (d = None) = root_permitted fs repo_root wd pol"
    and "roots_resolve fs repo_root pol \<Longrightarrow> \<exists>d. allowed_root_decision fs repo_root wd pol = Inr d"
proof -
  let ?roots = "string_set (py_get pol ''allowed_roots'')"
  have rel: "resolve_policy_root fs repo_root r = Inr q \<Longrightarrow> fs_is_relative_to fs wd q = Inr (prefix q wd)" for r q
    using fs_is_relative_to_resolved resolve_from_real assms unfolding resolve_policy_root_def real_path_def by blast
  show "(d = None) = root_permitted fs repo_root wd pol" if run: "allowed_root_decision fs repo_root wd pol = Inr d"
  proof (cases "?roots = []")
    case True
    then show ?thesis using that by (auto simp: allowed_root_decision_def root_permitted_def)
  next
    case False
    then obtain qs bs where qs: "rmapM (resolve_policy_root fs repo_root) ?roots = Inr qs"
      and bs: "rmapM (fs_is_relative_to fs wd) qs = Inr bs"
      and d: "d = (if True \<in> set bs then None else Some ''validator working directory is outside the allowed_roots policy'')"
      using run by (auto simp: allowed_root_decision_def Let_def)
    have "q \<in> set qs \<Longrightarrow> fs_is_relative_to fs wd q = Inr (prefix q wd)" for q
      using rel rmapM_set [OF qs] by blast
    then have "bs = map (\<lambda>q. prefix q wd) qs"
      using rmapM_map [OF bs, of "\<lambda>q. prefix q wd"] by fastforce
    then have "(d = None) = (\<exists>q \<in> set qs. prefix q wd)" using d by (auto simp: image_iff)
    also have "\<dots> = (\<exists>r \<in> set ?roots. \<exists>q. resolve_policy_root fs repo_root r = Inr q \<and> prefix q wd)"
      by (rule rmapM_ex [OF qs])
    also have "\<dots> = root_permitted fs repo_root wd pol"
      using False by (simp add: root_permitted_def list_ex_iff Let_def root_case)
    finally show ?thesis .
  qed
  show "\<exists>d. allowed_root_decision fs repo_root wd pol = Inr d" if "roots_resolve fs repo_root pol"
  proof -
    have "\<exists>qs. rmapM (resolve_policy_root fs repo_root) ?roots = Inr qs"
      by (rule rmapM_total) (use that in \<open>simp add: roots_resolve_def list_all_iff not_isl_Inr\<close>)
    then obtain qs where qs: "rmapM (resolve_policy_root fs repo_root) ?roots = Inr qs" ..
    have "\<exists>bs. rmapM (fs_is_relative_to fs wd) qs = Inr bs"
      by (rule rmapM_total) (use rel rmapM_set [OF qs] in blast)
    then show ?thesis using qs by (auto simp: allowed_root_decision_def Let_def)
  qed
qed

lemma blocked_by_Inr [simp]: "blocked_by s r \<noteq> Inr None" "blocked_by s r = Inr d \<Longrightarrow> d \<noteq> None"
  by (auto simp: blocked_by_def)

text \<open>
  C29. The safety decision is the policy: it lets a command run exactly when the safety class is
  supported, an operator approved it where the class asks for that, the executable is on the
  allowlist if there is one, the working directory lies below an allowed root if there are any, and
  every variable of the merged environment is unblocked, on the allowlist if there is one, and on it
  anyway if its name looks like a secret.
\<close>

theorem safety_decision_correct:
  assumes "list_all proper_component repo_root" and "real_path fs wd" and "roots_resolve fs repo_root pol"
  shows "(safety_block_reason fs args over pol repo_root supplied wd = Inr None) =
    command_permitted fs args (map fst supplied @ map fst over) pol repo_root wd"
proof -
  obtain d where d: "allowed_root_decision fs repo_root wd pol = Inr d"
    using allowed_root_decision_spec(2) [OF assms] ..
  note root = allowed_root_decision_spec(1) [OF assms(1,2) d]
  have env: "(env_decision (dict_merge supplied over) pol = None) = list_all (env_permitted pol) (map fst supplied @ map fst over)"
    by (auto simp: env_decision_None dict_merge_keys list_all_iff)
  show ?thesis
    using root env d
    by (auto simp: safety_block_reason_def command_permitted_def Let_def py_truthy_default executable_allowed_def
        split: option.splits)
qed

text \<open>A release build: allowlisted compiler, directory below an allowed root, one variable set.\<close>

definition sample_policy :: pydict where
  "sample_policy = [(''allowed_executables'', PList [PStr ''make'']), (''allowed_roots'', PStr ''src''),
     (''safety_class'', PStr ''network''), (''operator_approved'', PBool True)]"

definition sample_tree :: fs where
  "sample_tree = \<lparr>fs_nodes = [([''repo''], DirNode), ([''repo'', ''src''], DirNode)], fs_protected = [], fs_clock = 0, fs_cwd = [''repo'']\<rparr>"

lemma safety_decision_correct_witness:
  "(safety_block_reason sample_tree [''/usr/bin/make'', ''all''] [(''CC'', ''gcc'')] sample_policy [''repo''] [] [''repo'', ''src''] = Inr None) =
     command_permitted sample_tree [''/usr/bin/make'', ''all''] [''CC''] sample_policy [''repo''] [''repo'', ''src''] \<and>
   command_permitted sample_tree [''/usr/bin/make'', ''all''] [''CC''] sample_policy [''repo''] [''repo'', ''src''] \<and>
   \<not> command_permitted sample_tree [''/usr/bin/make''] [''API_TOKEN''] sample_policy [''repo''] [''repo'', ''src'']"
proof -
  have "list_all proper_component [''repo'']" "real_path sample_tree [''repo'', ''src'']" "roots_resolve sample_tree [''repo''] sample_policy"
    by code_simp+
  from safety_decision_correct [OF this, of "[''/usr/bin/make'', ''all'']" "[(''CC'', ''gcc'')]" "[]"]
  have "(safety_block_reason sample_tree [''/usr/bin/make'', ''all''] [(''CC'', ''gcc'')] sample_policy [''repo''] [] [''repo'', ''src''] = Inr None) =
     command_permitted sample_tree [''/usr/bin/make'', ''all''] [''CC''] sample_policy [''repo''] [''repo'', ''src'']"
    by simp
  moreover have "command_permitted sample_tree [''/usr/bin/make'', ''all''] [''CC''] sample_policy [''repo''] [''repo'', ''src'']"
    by code_simp
  moreover have "\<not> command_permitted sample_tree [''/usr/bin/make''] [''API_TOKEN''] sample_policy [''repo''] [''repo'', ''src'']"
    by code_simp
  ultimately show ?thesis by simp
qed

end
