(* ===== verification/Observability.thy ===== *)
theory Observability
  imports Record_Helpers "HOL-Library.Multiset"
begin

text \<open>
  The compact metrics of \<open>observability.py\<close>. Its functions take objects with attributes or
  plain decoded values; \<open>Obj\<close> is the former, given by its attributes.
\<close>

datatype py_obj = Obj pydict | Val pyval

fun py_getattr :: "py_obj \<Rightarrow> string \<Rightarrow> pyval" where
  "py_getattr (Obj d) k = py_get d k"
| "py_getattr (Val v) k = PNone"

fun obj_dict_value :: "py_obj \<Rightarrow> string \<Rightarrow> pyval" where
  "obj_dict_value (Val (PDict d)) k = py_get d k"
| "obj_dict_value _ k = PNone"

text \<open>\<open>getattr(x, k, None)\<close>, or \<open>x.get(k)\<close> of a dict when that is \<open>None\<close>.\<close>

definition attr_or_item :: "py_obj \<Rightarrow> string \<Rightarrow> pyval" where
  "attr_or_item x k = (if py_getattr x k = PNone then obj_dict_value x k else py_getattr x k)"

definition int_value :: "py_obj \<Rightarrow> string \<Rightarrow> int result" where
  "int_value x k = rbind (int_or_none (py_or (attr_or_item x k) (PInt 0)))
     (\<lambda>i. Inr (case i of None \<Rightarrow> 0 | Some n \<Rightarrow> n))"

definition safe_namespace :: "string \<Rightarrow> string" where
  "safe_namespace v = (let t = py_lower (py_strip (if v = [] then ''wgcf'' else v));
       s = strip_by (\<lambda>c. c \<in> set ''.-_'')
         (map (\<lambda>c. if py_isalnum_char c \<or> c \<in> set ''._-'' then c else CHR ''-'') t)
     in if s = [] then ''wgcf'' else s)"

definition build_correlation_id :: "string \<Rightarrow> pydict \<Rightarrow> string" where
  "build_correlation_id namespace payload =
     ''correlation:'' @ safe_namespace namespace @ '':'' @ take 24 (sha256_hex (json_compact (PDict payload)))"

section \<open>Counting\<close>

text \<open>\<open>d[k] = d.get(k, 0) + 1\<close> over the keys, then \<open>dict(sorted(d.items()))\<close>.\<close>

definition count_keys :: "string list \<Rightarrow> (string \<times> int) list" where
  "count_keys ks = sort_key fst
     (fold (\<lambda>k d. assoc_set k ((case map_of d k of None \<Rightarrow> 0 | Some n \<Rightarrow> n) + 1) d) ks [])"

definition counts_val :: "(string \<times> int) list \<Rightarrow> pyval" where
  "counts_val d = PDict (map (\<lambda>(k, n). (k, PInt n)) d)"

definition label_or_unknown :: "py_obj \<Rightarrow> string \<Rightarrow> string" where
  "label_or_unknown x k = py_str (py_or (py_or (py_getattr x k) (obj_dict_value x k)) (PStr ''unknown''))"

fun as_int_instance :: "pyval \<Rightarrow> int option" where
  "as_int_instance (PInt i) = Some i"
| "as_int_instance (PBool b) = Some (if b then 1 else 0)"
| "as_int_instance _ = None"

definition budget_exceeded :: "py_obj \<Rightarrow> bool" where
  "budget_exceeded x = (case attr_or_item x ''output_summary'' of
     PDict s \<Rightarrow> (case py_get s ''output_budget'' of PDict b \<Rightarrow> py_get b ''exceeded'' = PBool True | _ \<Rightarrow> False)
   | _ \<Rightarrow> False)"

definition validation_execution_metrics :: "py_obj list \<Rightarrow> py_obj list \<Rightarrow> string \<Rightarrow> pydict result" where
  "validation_execution_metrics artifacts checks outcome =
     (let durations = List.map_filter (\<lambda>c. as_int_instance (attr_or_item c ''duration_ms'')) checks in
      rbind (rmapM (\<lambda>a. int_value a ''byte_count'') artifacts) (\<lambda>sizes. Inr
       [(''artifact_count'', PInt (int (length artifacts))),
        (''artifact_total_bytes'', PInt (sum_list sizes)),
        (''check_count'', PInt (int (length checks))),
        (''duration_ms'', if durations = [] then PNone else PInt (sum_list durations)),
        (''outcome'', PStr (if outcome = [] then ''unknown'' else outcome)),
        (''output_budget_exceeded_count'', PInt (int (length (filter budget_exceeded checks)))),
        (''raw_output_embedded'', PBool False),
        (''status_counts'', counts_val (count_keys (map (\<lambda>c. label_or_unknown c ''status'') checks)))]))"

definition operator_readiness_metrics :: "bool \<Rightarrow> string list \<Rightarrow> pydict list \<Rightarrow> pydict" where
  "operator_readiness_metrics ready reasons receipts =
     [(''blocked_reason_count'', PInt (int (length reasons))), (''ready'', PBool ready),
      (''receipt_ref_count'', PInt (int (length receipts))),
      (''successful_receipt_ref_count'',
        PInt (int (length (filter (\<lambda>r. py_get r ''outcome'' = PStr ''success'') receipts))))]"

definition art_readiness_metrics :: "py_obj list \<Rightarrow> pydict \<Rightarrow> bool \<Rightarrow> py_obj list \<Rightarrow> pydict result" where
  "art_readiness_metrics findings summary mutation_allowed recommendations =
     rbind (py_int (py_or (py_get summary ''edge_count'') (PInt 0))) (\<lambda>edges.
     rbind (py_int (py_or (py_get summary ''node_count'') (PInt 0))) (\<lambda>nodes. Inr
       [(''edge_count'', PInt edges), (''finding_count'', PInt (int (length findings))),
        (''mutation_allowed'', PBool mutation_allowed), (''node_count'', PInt nodes),
        (''projection_dirty'', PBool (py_truthy (py_get_or (PBool False) summary ''projection_dirty''))),
        (''recommendation_count'', PInt (int (length recommendations))),
        (''severity_counts'', counts_val (count_keys (map (\<lambda>f. label_or_unknown f ''severity'') findings)))]))"

fun py_len :: "pyval \<Rightarrow> int result" where
  "py_len (PStr s) = Inr (int (length s))"
| "py_len (PList xs) = Inr (int (length xs))"
| "py_len (PDict d) = Inr (int (length d))"
| "py_len _ = Inl (TypeError ''object has no len()'')"

text \<open>\<open>int(receipt.get(count_key) or len(receipt.get(list_key) or []))\<close>\<close>

definition declared_count :: "pydict \<Rightarrow> string \<Rightarrow> string \<Rightarrow> int result" where
  "declared_count r count_key list_key =
     (if py_truthy (py_get r count_key) then py_int (py_get r count_key)
      else py_len (py_or (py_get r list_key) (PList [])))"

definition receipt_metrics_snapshot :: "pyval list \<Rightarrow> pydict result" where
  "receipt_metrics_snapshot receipts =
     (let dicts = List.map_filter as_dict receipts in
      rbind (rmapM (\<lambda>r. rbind (declared_count r ''artifact_count'' ''artifact_refs'') (\<lambda>a.
               rbind (declared_count r ''check_count'' ''check_results'') (\<lambda>c. Inr (a, c)))) dicts) (\<lambda>counts. Inr
       [(''artifact_count'', PInt (sum_list (map fst counts))),
        (''check_count'', PInt (sum_list (map snd counts))),
        (''outcome_counts'', counts_val (count_keys
           (map (\<lambda>r. py_str (py_or (py_get r ''outcome'') (PStr ''unknown''))) dicts))),
        (''receipt_count'', PInt (int (length receipts)))]))"

section \<open>What the counts mean\<close>

lemma count_fold_map:
  "map_of (fold (\<lambda>k d. assoc_set k ((case map_of d k of None \<Rightarrow> 0 | Some n \<Rightarrow> n) + 1) d) ks d) k =
   (if k \<in> set ks then Some ((case map_of d k of None \<Rightarrow> 0 | Some n \<Rightarrow> n) + int (count_list ks k))
    else map_of d k)"
  by (induction ks arbitrary: d) (auto split: option.splits)

lemma count_fold_distinct:
  "distinct (map fst d) \<Longrightarrow>
   distinct (map fst (fold (\<lambda>k d. assoc_set k ((case map_of d k of None \<Rightarrow> 0 | Some n \<Rightarrow> n) + 1) d) ks d))"
  by (induction ks arbitrary: d) (auto simp: distinct_assoc_set)

lemma count_keys_map: "map_of (count_keys ks) k = (if k \<in> set ks then Some (int (count_list ks k)) else None)"
proof -
  let ?d = "fold (\<lambda>k d. assoc_set k ((case map_of d k of None \<Rightarrow> 0 :: int | Some n \<Rightarrow> n) + 1) d) ks []"
  have "distinct (map fst ?d)" by (rule count_fold_distinct) simp
  moreover from this have "distinct (map fst (sort_key fst ?d))" by (simp add: distinct_map)
  ultimately have "map_of (sort_key fst ?d) = map_of ?d" by (simp add: map_of_inject_set)
  then show ?thesis using count_fold_map [of ks "[]" k] by (simp add: count_keys_def)
qed

lemma count_step_sum:
  "sum_list (map snd (assoc_set k ((case map_of d k of None \<Rightarrow> 0 | Some n \<Rightarrow> n) + 1) d)) = sum_list (map snd d) + (1 :: int)"
  by (induction d) auto

lemma count_keys_sum: "sum_list (map snd (count_keys ks)) = int (length ks)"
proof -
  have fold: "sum_list (map snd (fold (\<lambda>k d. assoc_set k ((case map_of d k of None \<Rightarrow> 0 | Some n \<Rightarrow> n) + 1) d) ks d)) =
      sum_list (map snd d) + int (length ks)" for d
    by (induction ks arbitrary: d) (auto simp: count_step_sum)
  have "sum_list (map snd (sort_key fst xs)) = sum_list (map snd xs)" for xs :: "(string \<times> int) list"
    by (metis mset_map mset_sort sum_mset_sum_list)
  then show ?thesis using fold [of "[]"] by (simp add: count_keys_def)
qed

lemma count_keys_sorted: "sorted (map fst (count_keys ks))"
  by (simp add: count_keys_def)

end
