(* ===== verification/Validation_Execution.thy ===== *)
theory Validation_Execution
  imports Execution_Safety Observability
begin

text \<open>
  \<open>validation_execution.py\<close>: running the planned checks one after the other with their retries,
  writing the output artifacts, and building the control receipt and its ledger event. The
  processes themselves are a parameter: a \<open>runner\<close> says for each launch what the process does to
  the file system and how \<open>subprocess.run\<close> ends. Time is one too: \<open>elapsed\<close> gives the
  milliseconds between the two clock readings around a check.
\<close>

section \<open>Records\<close>

record check_result =
  cr_artifact_refs :: "artifact_ref list"
  cr_check_id :: string
  cr_command_digest :: "string option"
  cr_duration_ms :: "int option"
  cr_error :: "string option"
  cr_exit_code :: "int option"
  cr_output_summary :: pydict
  cr_required :: bool
  cr_reused_receipt_id :: "string option"
  cr_status :: string
  cr_validator_id :: string

definition check_result_to_record :: "check_result \<Rightarrow> pydict" where
  "check_result_to_record r =
     [(''artifact_refs'', PList (map artifact_ref_to_record (cr_artifact_refs r))),
      (''check_id'', PStr (cr_check_id r)), (''command_digest'', opt_val (cr_command_digest r)),
      (''duration_ms'', opt_int_val (cr_duration_ms r)), (''error'', opt_val (cr_error r)),
      (''exit_code'', opt_int_val (cr_exit_code r)), (''output_summary'', PDict (cr_output_summary r)),
      (''required'', PBool (cr_required r)), (''reused_receipt_id'', opt_val (cr_reused_receipt_id r)),
      (''status'', PStr (cr_status r)), (''validator_id'', PStr (cr_validator_id r))]"

record control_receipt =
  ct_artifact_refs :: "artifact_ref list"
  ct_captured_at :: string
  ct_check_results :: "check_result list"
  ct_correlation_id :: string
  ct_digest :: string
  ct_manifest_id :: pyval
  ct_metrics :: pydict
  ct_outcome :: string
  ct_plan_id :: string
  ct_planner_decision :: pyval
  ct_receipt_id :: string
  ct_schema_version :: int
  ct_suppressed_output_summary :: pydict
  ct_target_scope :: string
  ct_tier :: string

definition control_receipt_to_record :: "control_receipt \<Rightarrow> pyval" where
  "control_receipt_to_record r = PDict
     [(''artifact_refs'', PList (map artifact_ref_to_record (ct_artifact_refs r))),
      (''captured_at'', PStr (ct_captured_at r)),
      (''check_results'', PList (map (\<lambda>c. PDict (check_result_to_record c)) (ct_check_results r))),
      (''correlation_id'', PStr (ct_correlation_id r)), (''digest'', PStr (ct_digest r)),
      (''manifest_id'', ct_manifest_id r), (''metrics'', PDict (ct_metrics r)),
      (''outcome'', PStr (ct_outcome r)), (''plan_id'', PStr (ct_plan_id r)),
      (''planner_decision'', ct_planner_decision r), (''receipt_id'', PStr (ct_receipt_id r)),
      (''schema_version'', PInt (ct_schema_version r)),
      (''suppressed_output_summary'', PDict (ct_suppressed_output_summary r)),
      (''target_scope'', PStr (ct_target_scope r)), (''tier'', PStr (ct_tier r))]"

record execution_result =
  ex_ledger_event :: ledger_event
  ex_receipt :: control_receipt

definition execution_result_to_record :: "execution_result \<Rightarrow> pyval" where
  "execution_result_to_record e = PDict
     [(''ledger_event'', ledger_event_to_record (ex_ledger_event e)),
      (''receipt'', control_receipt_to_record (ex_receipt e))]"

section \<open>Artifacts and summaries\<close>

definition digest_text :: "string \<Rightarrow> string" where
  "digest_text s = sha256_prefixed (utf8 s)"

definition write_artifact :: "string \<Rightarrow> string \<Rightarrow> string \<Rightarrow> string \<Rightarrow> artifact_ref io" where
  "write_artifact root stream_name content reference_root =
     (let file = stream_name @ ''.log''; digest = sha256_prefixed content;
          identity = digest_text (path_name root @ '':'' @ stream_name @ '':'' @ digest)
      in io_bind (os_mkdir_parents root) (\<lambda>_.
         io_bind (os_write_bytes (root @ ''/'' @ file) content) (\<lambda>_.
         io_return \<lparr>ar_artifact_id = digest_id ''artifact:'' identity,
           ar_byte_count = int (length content), ar_digest = digest,
           ar_media_type = ''text/plain; charset=utf-8'',
           ar_path = reference_root @ ''/'' @ file, ar_purpose = ''validation-'' @ stream_name\<rparr>)))"

definition stream_summary :: "string \<Rightarrow> artifact_ref \<Rightarrow> pyval" where
  "stream_summary content a = PDict
     [(''artifact_id'', PStr (ar_artifact_id a)), (''byte_count'', PInt (int (length content))),
      (''digest'', PStr (ar_digest a)), (''line_count'', PInt (int (length (bytes_lines content)))),
      (''suppressed'', PBool True)]"

definition output_budget_decision :: "artifact_ref list \<Rightarrow> int option \<Rightarrow> bool \<Rightarrow> pydict" where
  "output_budget_decision artifacts budget fail_on_budget =
     (let observed = sum_list (map ar_byte_count artifacts);
          exceeded = (case budget of None \<Rightarrow> False | Some b \<Rightarrow> b < observed)
      in [(''action'', PStr (if exceeded \<and> fail_on_budget then ''fail'' else ''record_only'')),
          (''budget_bytes'', opt_int_val budget), (''exceeded'', PBool exceeded),
          (''observed_bytes'', PInt observed)])"

definition artifact_custody_summary :: "artifact_ref list \<Rightarrow> pydict" where
  "artifact_custody_summary artifacts =
     [(''artifact_digest_manifest'', PStr (digest_json (PDict
         [(''artifact_refs'', PList (map artifact_ref_to_record artifacts))]))),
      (''artifact_ids'', PList (map (\<lambda>a. PStr (ar_artifact_id a)) artifacts)),
      (''artifact_purposes'', sorted_strings (map ar_purpose artifacts)),
      (''raw_artifacts_embedded'', PBool False)]"

section \<open>Results that ran nothing\<close>

definition no_run_result :: "validation_check \<Rightarrow> string option \<Rightarrow> int option \<Rightarrow> string option \<Rightarrow> pydict \<Rightarrow>
    string option \<Rightarrow> string \<Rightarrow> check_result" where
  "no_run_result c digest duration error summary reused status =
     \<lparr>cr_artifact_refs = [], cr_check_id = vc_check_id c, cr_command_digest = digest,
      cr_duration_ms = duration, cr_error = error, cr_exit_code = None, cr_output_summary = summary,
      cr_required = vc_required c, cr_reused_receipt_id = reused, cr_status = status,
      cr_validator_id = vc_validator_id c\<rparr>"

definition blocked_check_result :: "validation_check \<Rightarrow> string option \<Rightarrow> int option \<Rightarrow> string \<Rightarrow> pydict \<Rightarrow> check_result" where
  "blocked_check_result c digest duration error summary =
     no_run_result c digest duration (Some error) summary None ''blocked''"

section \<open>Running a command\<close>

text \<open>How \<open>subprocess.run\<close> ends: a process that ended, a timeout, an \<open>OSError\<close> at launch,
  or another exception.\<close>

datatype run_outcome =
    Completed string string int
  | TimedOut string string
  | LaunchFailed string
  | RunRaises py_error

record launch =
  la_args :: "string list"
  la_cwd :: fpath
  la_env :: "(string \<times> string) list"
  la_timeout :: int
  la_attempt :: nat

record execution_world =
  ew_runner :: "launch \<Rightarrow> fs \<Rightarrow> fs \<times> run_outcome"
  ew_elapsed :: "validation_check \<Rightarrow> int"
  ew_environ :: "(string \<times> string) list"
  ew_python_bin :: string

record attempt_state =
  at_artifacts :: "artifact_ref list"
  at_summaries :: "pydict list"
  at_stdout :: string
  at_stderr :: string
  at_refs :: "(artifact_ref \<times> artifact_ref) option"
  at_exit_code :: "int option"
  at_error :: "string option"
  at_timed_out :: bool

definition no_attempt :: attempt_state where
  "no_attempt = \<lparr>at_artifacts = [], at_summaries = [], at_stdout = [], at_stderr = [], at_refs = None,
     at_exit_code = None, at_error = None, at_timed_out = False\<rparr>"

definition run_process :: "execution_world \<Rightarrow> launch \<Rightarrow> (string \<times> string \<times> int option \<times> string option \<times> bool) io" where
  "run_process w l fs = (case ew_runner w l fs of
     (fs', Completed out err code) \<Rightarrow> (fs', Inr (out, err, Some code, None, False))
   | (fs', TimedOut out err) \<Rightarrow> (fs', Inr (out, err, None,
       Some (''command timed out after '' @ int_to_str (la_timeout l) @ '' seconds''), True))
   | (fs', LaunchFailed msg) \<Rightarrow> (fs', Inr ([], [], None, Some msg, False))
   | (fs', RunRaises e) \<Rightarrow> (fs', Inl e))"

definition stream_name :: "nat \<Rightarrow> nat \<Rightarrow> string \<Rightarrow> string" where
  "stream_name max_attempts attempt stream =
     (if max_attempts > 1 then ''attempt-'' @ nat_to_str attempt @ ''-'' @ stream else stream)"

definition run_attempt :: "execution_world \<Rightarrow> launch \<Rightarrow> string \<Rightarrow> string \<Rightarrow> nat \<Rightarrow> attempt_state \<Rightarrow> attempt_state io" where
  "run_attempt w l check_dir reference_dir max_attempts st =
     io_bind (run_process w l) (\<lambda>(out, err, code, error, timed_out).
     io_bind (write_artifact check_dir (stream_name max_attempts (la_attempt l) ''stdout'') out reference_dir) (\<lambda>out_ref.
     io_bind (write_artifact check_dir (stream_name max_attempts (la_attempt l) ''stderr'') err reference_dir) (\<lambda>err_ref.
     let summary = [(''attempt'', PInt (int (la_attempt l))), (''exit_code'', opt_int_val code),
           (''stderr'', stream_summary err err_ref), (''stdout'', stream_summary out out_ref),
           (''timed_out'', PBool timed_out)];
         summary = (case error of None \<Rightarrow> summary
           | Some e \<Rightarrow> if e = [] then summary else summary @ [(''error'', PStr e)])
     in io_return \<lparr>at_artifacts = at_artifacts st @ [out_ref, err_ref],
          at_summaries = at_summaries st @ [summary], at_stdout = out, at_stderr = err,
          at_refs = Some (out_ref, err_ref), at_exit_code = code, at_error = error,
          at_timed_out = timed_out\<rparr>)))"

text \<open>\<open>for attempt in range(1, max_attempts + 1)\<close>, left by the break on success.\<close>

fun run_attempts :: "execution_world \<Rightarrow> (nat \<Rightarrow> launch) \<Rightarrow> string \<Rightarrow> string \<Rightarrow> nat \<Rightarrow> nat list \<Rightarrow>
    attempt_state \<Rightarrow> attempt_state io" where
  "run_attempts w l check_dir reference_dir max_attempts [] st = io_return st"
| "run_attempts w l check_dir reference_dir max_attempts (n # ns) st =
     io_bind (run_attempt w (l n) check_dir reference_dir max_attempts st) (\<lambda>st'.
       if at_exit_code st' = Some 0 \<and> at_error st' = None then io_return st'
       else run_attempts w l check_dir reference_dir max_attempts ns st')"

definition command_env :: "execution_world \<Rightarrow> pydict \<Rightarrow> (string \<times> string) list \<Rightarrow> (string \<times> string) list \<Rightarrow>
    (string \<times> string) list" where
  "command_env w pol supplied overrides =
     (let base = base_command_env (ew_environ w);
          base = (if py_get_or (PBool True) pol ''prefer_current_python'' \<noteq> PBool False
            then assoc_set ''PATH'' (python_first_path (ew_python_bin w) (map_of base ''PATH'')) base else base)
      in dict_merge (dict_merge base supplied) overrides)"

text \<open>The status and the error of a check whose command ran.\<close>

definition command_status :: "attempt_state \<Rightarrow> pydict \<Rightarrow> bool \<Rightarrow> string \<times> string option" where
  "command_status st budget fail_on_budget =
     (if py_get budget ''exceeded'' = PBool True \<and> fail_on_budget then
        (let budget_error = ''output budget exceeded: '' @ py_str (py_get budget ''observed_bytes'') @
               '' bytes over '' @ py_str (py_get budget ''budget_bytes'') @ '' byte budget''
         in (''failure'', Some (case at_error st of None \<Rightarrow> budget_error
               | Some e \<Rightarrow> if e = [] then budget_error else e @ ''; '' @ budget_error)))
      else (if at_exit_code st = Some 0 \<and> at_error st = None then ''success'' else ''failure'', at_error st))"

definition ran_result :: "execution_world \<Rightarrow> validation_check \<Rightarrow> string list \<Rightarrow> execution_limit_decision \<Rightarrow>
    attempt_state \<Rightarrow> check_result result" where
  "ran_result w c args limits st =
     (let pol = execution_policy c;
          fail_on_budget = py_truthy (py_get_or (PBool False) pol ''fail_on_output_budget_exceeded'');
          budget = output_budget_decision (at_artifacts st) (el_output_budget_bytes limits) fail_on_budget;
          (status, error) = command_status st budget fail_on_budget
      in case at_refs st of
          None \<Rightarrow> Inl (Unmodelled ''assertion'')
        | Some (out_ref, err_ref) \<Rightarrow> Inr
           \<lparr>cr_artifact_refs = at_artifacts st, cr_check_id = vc_check_id c,
            cr_command_digest = Some (digest_text (vc_command c)), cr_duration_ms = Some (ew_elapsed w c),
            cr_error = error, cr_exit_code = at_exit_code st,
            cr_output_summary =
              [(''attempt_count'', PInt (int (length (at_summaries st)))),
               (''attempts'', PList (map PDict (at_summaries st))), (''output_budget'', PDict budget),
               (''performance_budget'', execution_limit_to_record limits),
               (''retry_count'', PInt (el_retry_count limits)),
               (''safety'', PDict (safety_summary args pol)),
               (''stderr'', stream_summary (at_stderr st) err_ref),
               (''stdout'', stream_summary (at_stdout st) out_ref),
               (''timed_out'', PBool (at_timed_out st)),
               (''timeout_seconds'', PInt (el_timeout_seconds limits))],
            cr_required = vc_required c, cr_reused_receipt_id = None, cr_status = status,
            cr_validator_id = vc_validator_id c\<rparr>)"

text \<open>A command that passed the safety policy.\<close>

definition run_allowed_command :: "execution_world \<Rightarrow> validation_check \<Rightarrow> fpath \<Rightarrow> fpath \<Rightarrow>
    (string \<times> string) list \<Rightarrow> int \<Rightarrow> (string \<times> string) list \<Rightarrow> string list \<Rightarrow> fpath \<Rightarrow> check_result io" where
  "run_allowed_command w c artifact_root reference_root supplied timeout overrides args wd =
     (let pol = execution_policy c in
      io_bind (io_result (coerce_execution_limits pol timeout
        (py_str (py_or (py_get pol ''profile'') (PStr DEFAULT_EXECUTION_PROFILE))))) (\<lambda>limits.
      let env = command_env w pol supplied overrides;
          check_dir = fpath_str (artifact_root @ [safe_path_id (vc_check_id c)]);
          reference_dir = fpath_str (reference_root @ [safe_path_id (vc_check_id c)]);
          max_attempts = nat (el_retry_count limits + 1);
          launch_of = (\<lambda>n. \<lparr>la_args = args, la_cwd = wd, la_env = env,
            la_timeout = el_timeout_seconds limits, la_attempt = n\<rparr>)
      in io_bind (run_attempts w launch_of check_dir reference_dir max_attempts [1..<Suc max_attempts] no_attempt)
           (\<lambda>st. io_result (ran_result w c args limits st))))"

definition run_command_check :: "execution_world \<Rightarrow> validation_check \<Rightarrow> fpath \<Rightarrow> fpath \<Rightarrow> fpath \<Rightarrow>
    (string \<times> string) list \<Rightarrow> int \<Rightarrow> check_result io" where
  "run_command_check w c repo_root artifact_root reference_root supplied timeout fs =
     (let pol = execution_policy c; digest = Some (digest_text (vc_command c)) in
      case parse_command (vc_command c) of
        Inl (ValueError m) \<Rightarrow> (fs, Inr (blocked_check_result c digest (Some 0) m [(''suppressed'', PBool True)]))
      | Inl e \<Rightarrow> (fs, Inl e)
      | Inr (overrides, args) \<Rightarrow>
        (case working_directory fs repo_root pol of
           Inl (ValueError m) \<Rightarrow> (fs, Inr (blocked_check_result c digest (Some 0) m [(''suppressed'', PBool True)]))
         | Inl e \<Rightarrow> (fs, Inl e)
         | Inr wd \<Rightarrow>
           (case safety_block_reason fs args overrides pol repo_root supplied wd of
              Inl e \<Rightarrow> (fs, Inl e)
            | Inr (Some block) \<Rightarrow> (fs, Inr (blocked_check_result c digest (Some 0)
                (py_str (py_get block ''reason'')) [(''safety'', PDict block), (''suppressed'', PBool True)]))
            | Inr None \<Rightarrow>
                run_allowed_command w c artifact_root reference_root supplied timeout overrides args wd fs)))"

section \<open>Executing a plan\<close>

definition run_check :: "execution_world \<Rightarrow> fpath \<Rightarrow> fpath \<Rightarrow> fpath \<Rightarrow> (string \<times> string) list \<Rightarrow> int \<Rightarrow>
    validation_check \<Rightarrow> check_result io" where
  "run_check w repo_root artifact_root reference_root supplied timeout c =
     (if vc_execution_mode c = mode_value SKIP_FRESH_RECEIPT then
        io_return (no_run_result c None None None
          [(''reused_receipt_id'', opt_val (vc_receipt_id c)), (''suppressed'', PBool True)]
          (vc_receipt_id c) ''skipped_fresh_receipt'')
      else if vc_check_type c \<noteq> ''command'' then
        io_return (no_run_result c None None (Some (''unsupported check_type '' @ repr_str (vc_check_type c)))
          [(''suppressed'', PBool True)] None ''blocked'')
      else run_command_check w c repo_root artifact_root reference_root supplied timeout)"

fun run_checks :: "execution_world \<Rightarrow> fpath \<Rightarrow> fpath \<Rightarrow> fpath \<Rightarrow> (string \<times> string) list \<Rightarrow> int \<Rightarrow>
    validation_check list \<Rightarrow> check_result list io" where
  "run_checks w repo_root artifact_root reference_root supplied timeout [] = io_return []"
| "run_checks w repo_root artifact_root reference_root supplied timeout (c # cs) =
     io_bind (run_check w repo_root artifact_root reference_root supplied timeout c) (\<lambda>r.
     io_bind (run_checks w repo_root artifact_root reference_root supplied timeout cs) (\<lambda>rs.
       io_return (r # rs)))"

definition receipt_outcome :: "string \<Rightarrow> check_result list \<Rightarrow> string" where
  "receipt_outcome decided results =
     (if decided = ''blocked'' then ''blocked''
      else if decided \<noteq> ''planned'' then ''operator_review_required''
      else if results = [] then ''operator_review_required''
      else if list_ex (\<lambda>r. cr_status r = ''failure'' \<or> cr_status r = ''blocked'') (filter cr_required results)
        then ''failure''
      else if list_ex (\<lambda>r. cr_status r = ''blocked'') results then ''blocked''
      else ''success'')"

definition suppressed_streams :: "check_result list \<Rightarrow> string list" where
  "suppressed_streams results = sorted_set (map fst (filter
     (\<lambda>(k, v). case v of PDict s \<Rightarrow> py_get s ''suppressed'' = PBool True | _ \<Rightarrow> False)
     (concat (map cr_output_summary results))))"

definition build_validation_ledger_event :: "string \<Rightarrow> artifact_ref list \<Rightarrow> string \<Rightarrow> control_receipt \<Rightarrow>
    string \<Rightarrow> ledger_event" where
  "build_validation_ledger_event actor artifacts event_time receipt target =
     (let action = (if ct_outcome receipt \<in> {''success'', ''failure''}
            then ''validation.run.completed'' else ''validation.run.blocked'');
          receipt_ref = [(''digest'', PStr (ct_digest receipt)), (''outcome'', PStr (ct_outcome receipt)),
            (''receipt_id'', PStr (ct_receipt_id receipt))];
          digest = digest_json (PDict
            [(''action'', PStr action), (''actor'', PStr actor), (''event_time'', PStr event_time),
             (''outcome'', PStr (ct_outcome receipt)), (''receipt_refs'', PList [PDict receipt_ref]),
             (''target'', PStr target)])
      in \<lparr>le_action = action, le_actor = actor, le_artifact_refs = artifacts,
          le_event_id = digest_id ''ledger-event:'' digest, le_event_time = event_time,
          le_outcome = ct_outcome receipt, le_receipt_refs = [receipt_ref],
          le_schema_version = LEDGER_SCHEMA_VERSION, le_target = target\<rparr>)"

definition build_control_receipt :: "validation_plan \<Rightarrow> string \<Rightarrow> check_result list \<Rightarrow> control_receipt result" where
  "build_control_receipt plan captured_at results =
     (let artifacts = concat (map cr_artifact_refs results);
          outcome = receipt_outcome (pl_outcome (vp_decision plan)) results;
          decision = planner_decision_to_record (vp_decision plan);
          correlation = build_correlation_id ''validation''
            [(''captured_at'', PStr captured_at), (''manifest_id'', vp_manifest_id plan),
             (''outcome'', PStr outcome), (''plan_id'', PStr (vp_plan_id plan)),
             (''target_scope'', PStr (vt_scope (vp_target plan))), (''tier'', PStr (vp_tier plan))]
      in rbind (validation_execution_metrics
           (map (\<lambda>a. case artifact_ref_to_record a of PDict d \<Rightarrow> Obj d | v \<Rightarrow> Val v) artifacts)
           (map (\<lambda>r. Obj (check_result_to_record r)) results) outcome) (\<lambda>metrics.
         let summary =
           [(''artifact_count'', PInt (int (length artifacts))), (''correlation_id'', PStr correlation),
            (''custody'', PDict (artifact_custody_summary artifacts)),
            (''execution_suppressed'', PBool (pl_outcome (vp_decision plan) \<noteq> ''planned'')),
            (''metrics'', PDict metrics), (''planner_outcome'', PStr (pl_outcome (vp_decision plan))),
            (''performance_budget'', vp_performance_budget plan), (''raw_output_in_receipt'', PBool False),
            (''suppressed_streams'', PList (map PStr (suppressed_streams results)))];
           digest = digest_json (PDict
             [(''artifact_refs'', PList (map artifact_ref_to_record artifacts)),
              (''captured_at'', PStr captured_at),
              (''check_results'', PList (map (\<lambda>r. PDict (check_result_to_record r)) results)),
              (''correlation_id'', PStr correlation), (''manifest_id'', vp_manifest_id plan),
              (''metrics'', PDict metrics), (''outcome'', PStr outcome), (''plan_id'', PStr (vp_plan_id plan)),
              (''planner_decision'', decision), (''suppressed_output_summary'', PDict summary),
              (''target_scope'', PStr (vt_scope (vp_target plan))), (''tier'', PStr (vp_tier plan))])
         in Inr \<lparr>ct_artifact_refs = artifacts, ct_captured_at = captured_at, ct_check_results = results,
              ct_correlation_id = correlation, ct_digest = digest, ct_manifest_id = vp_manifest_id plan,
              ct_metrics = metrics, ct_outcome = outcome, ct_plan_id = vp_plan_id plan,
              ct_planner_decision = decision, ct_receipt_id = digest_id ''control-receipt:'' digest,
              ct_schema_version = RECEIPT_SCHEMA_VERSION, ct_suppressed_output_summary = summary,
              ct_target_scope = vt_scope (vp_target plan), ct_tier = vp_tier plan\<rparr>))"

text \<open>\<open>json.dumps(value, indent=2, sort_keys=True)\<close> at an indentation level.\<close>

definition json_break :: "nat \<Rightarrow> string" where
  "json_break level = CHR 0x0A # replicate (2 * level) (CHR '' '')"

fun json_pretty :: "nat \<Rightarrow> pyval \<Rightarrow> string"
  and json_pretty_list :: "nat \<Rightarrow> pyval list \<Rightarrow> string list"
  and json_pretty_items :: "nat \<Rightarrow> pydict \<Rightarrow> (string \<times> string) list" where
  "json_pretty lvl (PList xs) = (if xs = [] then ''[]''
     else ''['' @ json_break (Suc lvl) @ py_join ('','' @ json_break (Suc lvl)) (json_pretty_list (Suc lvl) xs) @
       json_break lvl @ '']'')"
| "json_pretty lvl (PDict kvs) = (if kvs = [] then ''{}''
     else ''{'' @ json_break (Suc lvl) @ py_join ('','' @ json_break (Suc lvl))
       (map (\<lambda>kt. json_str (fst kt) @ '': '' @ snd kt) (sort_key fst (json_pretty_items (Suc lvl) kvs))) @
       json_break lvl @ ''}'')"
| "json_pretty lvl v = json_compact v"
| "json_pretty_list lvl [] = []"
| "json_pretty_list lvl (x # xs) = json_pretty lvl x # json_pretty_list lvl xs"
| "json_pretty_items lvl [] = []"
| "json_pretty_items lvl ((k, v) # kvs) = (k, json_pretty lvl v) # json_pretty_items lvl kvs"

definition write_control_receipt :: "string \<Rightarrow> pyval \<Rightarrow> string io" where
  "write_control_receipt path receipt =
     io_bind (os_mkdir_parents (path_parent_str path)) (\<lambda>_.
     io_bind (os_write_bytes path (json_pretty 0 receipt @ [CHR 0x0A])) (\<lambda>_.
     io_return (path_str (posix_path_of path))))"

text \<open>\<open>now\<close> here is parsed without turning it into UTC.\<close>

definition execution_timestamp :: "pydt \<Rightarrow> now_arg \<Rightarrow> pydt result" where
  "execution_timestamp clock now = (case now of
     NowNone \<Rightarrow> Inr clock
   | NowDatetime d \<Rightarrow> Inr (assume_utc d)
   | NowText t \<Rightarrow>
      (let raw = py_strip t;
           raw = (if ends_with ''Z'' raw then take (length raw - 1) raw @ ''+00:00'' else raw)
       in case fromisoformat raw of None \<Rightarrow> Inl (ValueError ''Invalid isoformat string'')
          | Some d \<Rightarrow> Inr (assume_utc d)))"

definition execute_validation_plan :: "execution_world \<Rightarrow> pydt \<Rightarrow> validation_plan \<Rightarrow> string \<Rightarrow> string \<Rightarrow>
    string \<Rightarrow> string option \<Rightarrow> (string \<times> string) list \<Rightarrow> now_arg \<Rightarrow> int \<Rightarrow> execution_result io" where
  "execute_validation_plan w clock plan repo_root artifact_root actor reference_root supplied now timeout =
     io_bind (\<lambda>fs. (fs, path_resolve fs repo_root)) (\<lambda>root.
     io_bind (\<lambda>fs. (fs, if fs_is_dir fs root then Inr () else
       Inl (ValueError (''repo_root does not exist or is not a directory: '' @ fpath_str root)))) (\<lambda>_.
     io_bind (\<lambda>fs. (fs, path_resolve fs artifact_root)) (\<lambda>artifacts_root.
     io_bind (os_mkdir_parents (fpath_str artifacts_root)) (\<lambda>_.
     io_bind (\<lambda>fs. (fs, case reference_root of None \<Rightarrow> Inr artifacts_root
        | Some p \<Rightarrow> path_resolve fs p)) (\<lambda>refs_root.
     io_bind (io_result (execution_timestamp clock now)) (\<lambda>captured.
     io_bind (if pl_outcome (vp_decision plan) = ''planned''
        then run_checks w root artifacts_root refs_root supplied timeout (vp_checks plan)
        else io_return []) (\<lambda>results.
     io_bind (io_result (build_control_receipt plan (isoformat_z captured) results)) (\<lambda>receipt.
     io_return \<lparr>ex_ledger_event = build_validation_ledger_event actor (ct_artifact_refs receipt)
          (isoformat_z captured) receipt (vt_scope (vp_target plan)), ex_receipt = receipt\<rparr>))))))))"

end
