(* ===== verification/Execution_Guarantees.thy ===== *)
theory Execution_Guarantees
  imports Validation_Execution
begin

text \<open>
  What an execution guarantees: which processes are started (C30), what the receipt says of the
  checks (C31) and how often a command is tried (C32).
\<close>

section \<open>Which processes are started\<close>

text \<open>
  A launch the plan accounts for: one of the attempts of a planned command check that is not
  reused, with the arguments of its command line, in the working directory of its policy, under
  the policy's limits, and permitted by the policy in some state of the file system.
\<close>

definition plan_launch :: "validation_plan \<Rightarrow> fpath \<Rightarrow> (string \<times> string) list \<Rightarrow> int \<Rightarrow> launch \<Rightarrow> bool" where
  "plan_launch plan root supplied timeout l =
     (pl_outcome (vp_decision plan) = ''planned'' \<and>
      (\<exists>c \<in> set (vp_checks plan). \<exists>fs over limits.
         vc_execution_mode c \<noteq> mode_value SKIP_FRESH_RECEIPT \<and> vc_check_type c = ''command'' \<and>
         parse_command (vc_command c) = Inr (over, la_args l) \<and>
         working_directory fs root (execution_policy c) = Inr (la_cwd l) \<and>
         command_permitted fs (la_args l) (map fst supplied @ map fst over) (execution_policy c) root (la_cwd l) \<and>
         coerce_execution_limits (execution_policy c) timeout
           (py_str (py_or (py_get (execution_policy c) ''profile'') (PStr DEFAULT_EXECUTION_PROFILE))) = Inr limits \<and>
         la_timeout l = el_timeout_seconds limits \<and>
         1 \<le> la_attempt l \<and> int (la_attempt l) \<le> el_retry_count limits + 1))"

text \<open>Two worlds that differ only in what unaccounted processes do.\<close>

definition same_on :: "(launch \<Rightarrow> bool) \<Rightarrow> execution_world \<Rightarrow> execution_world \<Rightarrow> bool" where
  "same_on P w w' = (ew_elapsed w' = ew_elapsed w \<and> ew_environ w' = ew_environ w \<and>
     ew_python_bin w' = ew_python_bin w \<and> (\<forall>l fs. P l \<longrightarrow> ew_runner w' l fs = ew_runner w l fs))"

lemma same_on_mono: "same_on P w w' \<Longrightarrow> (\<And>l. Q l \<Longrightarrow> P l) \<Longrightarrow> same_on Q w w'"
  by (auto simp: same_on_def)

lemma io_bind_cong: "m = m' \<Longrightarrow> (\<And>x. f x = f' x) \<Longrightarrow> io_bind m f = io_bind m' f'"
  by (metis ext)

lemma io_bind_result [simp]:
  "io_bind (io_result (Inr x)) f = f x" "io_bind (io_result (Inl e)) f = io_result (Inl e)"
  by (simp_all add: io_bind_def io_result_def fun_eq_iff)

lemma io_bind_read:
  "io_bind (\<lambda>fs. (fs, g fs)) f fs = (case g fs of Inl e \<Rightarrow> (fs, Inl e) | Inr x \<Rightarrow> f x fs)"
  by (simp add: io_bind_def)

lemma run_attempts_same:
  assumes "same_on P w w'" and "\<And>n. n \<in> set ns \<Longrightarrow> P (launch_of n)"
  shows "run_attempts w' launch_of d r k ns st = run_attempts w launch_of d r k ns st"
  using assms(2)
proof (induction ns arbitrary: st)
  case (Cons n ns)
  have "run_process w' (launch_of n) = run_process w (launch_of n)"
    using assms(1) Cons.prems by (auto simp: run_process_def same_on_def)
  then have "run_attempt w' (launch_of n) d r k st = run_attempt w (launch_of n) d r k st"
    by (simp add: run_attempt_def)
  then show ?case using Cons by (auto intro!: io_bind_cong)
qed simp

lemma permitted_when_not_blocked:
  assumes "safety_block_reason fs args over pol root supplied wd = Inr None"
    and "list_all proper_component root" and "real_path fs wd"
  shows "command_permitted fs args (map fst supplied @ map fst over) pol root wd"
proof -
  have env: "(env_decision (dict_merge supplied over) pol = None) = list_all (env_permitted pol) (map fst supplied @ map fst over)"
    by (auto simp: env_decision_None dict_merge_keys list_all_iff)
  have root: "allowed_root_decision fs root wd pol = Inr None \<Longrightarrow> root_permitted fs root wd pol"
    using allowed_root_decision_spec(1) [OF assms(2,3)] by blast
  show ?thesis
    using assms(1) root env
    by (auto simp: safety_block_reason_def command_permitted_def Let_def py_truthy_default executable_allowed_def
        split: option.splits if_splits)
qed

lemma working_directory_real:
  "working_directory fs root pol = Inr wd \<Longrightarrow> list_all proper_component root \<Longrightarrow> real_path fs wd"
  by (auto simp: working_directory_def intro: resolve_from_real split: pyval.splits if_splits)

lemma run_allowed_command_same:
  assumes same: "same_on P w w'"
    and P: "\<And>limits l. coerce_execution_limits (execution_policy c) timeout
        (py_str (py_or (py_get (execution_policy c) ''profile'') (PStr DEFAULT_EXECUTION_PROFILE))) = Inr limits \<Longrightarrow>
      la_args l = args \<Longrightarrow> la_cwd l = wd \<Longrightarrow> la_timeout l = el_timeout_seconds limits \<Longrightarrow>
      1 \<le> la_attempt l \<Longrightarrow> int (la_attempt l) \<le> el_retry_count limits + 1 \<Longrightarrow> P l"
  shows "run_allowed_command w' c art ref supplied timeout over args wd =
    run_allowed_command w c art ref supplied timeout over args wd"
proof (cases "coerce_execution_limits (execution_policy c) timeout
    (py_str (py_or (py_get (execution_policy c) ''profile'') (PStr DEFAULT_EXECUTION_PROFILE)))")
  case (Inl e)
  then show ?thesis by (simp add: run_allowed_command_def Let_def)
next
  case (Inr limits)
  have eq: "ew_elapsed w' = ew_elapsed w" "ew_environ w' = ew_environ w" "ew_python_bin w' = ew_python_bin w"
    using same by (simp_all add: same_on_def)
  have env: "command_env w' pol sup ov = command_env w pol sup ov" for pol sup ov
    unfolding command_env_def eq ..
  have res: "ran_result w' c a lim = ran_result w c a lim" for a lim
    by (rule ext) (simp only: ran_result_def eq)
  let ?l = "\<lambda>e n. \<lparr>la_args = args, la_cwd = wd, la_env = e, la_timeout = el_timeout_seconds limits, la_attempt = n\<rparr>"
  have runs: "run_attempts w' (?l e) d r k [1..<Suc (nat (el_retry_count limits + 1))] st =
      run_attempts w (?l e) d r k [1..<Suc (nat (el_retry_count limits + 1))] st" for e d r k st
    by (rule run_attempts_same [OF same], rule P [OF Inr]) auto
  show ?thesis
    by (simp only: run_allowed_command_def Let_def Inr io_bind_result env res runs)
qed

lemma run_command_check_same:
  assumes same: "same_on P w w'" and root: "list_all proper_component root"
    and P: "\<And>l fs over limits. parse_command (vc_command c) = Inr (over, la_args l) \<Longrightarrow>
      working_directory fs root (execution_policy c) = Inr (la_cwd l) \<Longrightarrow>
      command_permitted fs (la_args l) (map fst supplied @ map fst over) (execution_policy c) root (la_cwd l) \<Longrightarrow>
      coerce_execution_limits (execution_policy c) timeout
        (py_str (py_or (py_get (execution_policy c) ''profile'') (PStr DEFAULT_EXECUTION_PROFILE))) = Inr limits \<Longrightarrow>
      la_timeout l = el_timeout_seconds limits \<Longrightarrow>
      1 \<le> la_attempt l \<Longrightarrow> int (la_attempt l) \<le> el_retry_count limits + 1 \<Longrightarrow> P l"
  shows "run_command_check w' c root art ref supplied timeout fs = run_command_check w c root art ref supplied timeout fs"
proof -
  have go: "run_allowed_command w' c art ref supplied timeout over args wd =
      run_allowed_command w c art ref supplied timeout over args wd"
    if "parse_command (vc_command c) = Inr (over, args)" "working_directory fs root (execution_policy c) = Inr wd"
      "safety_block_reason fs args over (execution_policy c) root supplied wd = Inr None" for over args wd
    by (rule run_allowed_command_same [OF same])
      (use that P permitted_when_not_blocked [OF that(3) root working_directory_real [OF that(2) root]] in blast)
  show ?thesis
    unfolding run_command_check_def Let_def
    by (auto simp: go split: sum.splits py_error.splits option.splits)
qed

lemma run_checks_same:
  assumes same: "same_on (plan_launch plan root supplied timeout) w w'" and root: "list_all proper_component root"
    and planned: "pl_outcome (vp_decision plan) = ''planned''" and sub: "set cs \<subseteq> set (vp_checks plan)"
  shows "run_checks w' root art ref supplied timeout cs = run_checks w root art ref supplied timeout cs"
  using sub
proof (induction cs)
  case (Cons c cs)
  have "run_check w' root art ref supplied timeout c = run_check w root art ref supplied timeout c"
  proof (cases "vc_execution_mode c \<noteq> mode_value SKIP_FRESH_RECEIPT \<and> vc_check_type c = ''command''")
    case True
    have "run_command_check w' c root art ref supplied timeout fs = run_command_check w c root art ref supplied timeout fs" for fs
      by (rule run_command_check_same [OF same root])
        (use True Cons.prems planned in \<open>auto simp: plan_launch_def\<close>)
    then show ?thesis using True by (simp add: run_check_def fun_eq_iff)
  qed (auto simp: run_check_def)
  then show ?case using Cons by (auto intro!: io_bind_cong)
qed simp

text \<open>
  C30. Executing a plan depends on nothing but what the permitted processes do: replace every
  process the plan does not account for (another command, a check that is skipped, a command the
  safety policy refuses, an attempt beyond the retries, another working directory or timeout) by
  anything whatever, and the execution ends in the same state with the same receipt and event.
\<close>

theorem only_permitted_commands_run:
  assumes "wf_fs fs"
    and "\<And>root. path_resolve fs repo_root = Inr root \<Longrightarrow> same_on (plan_launch plan root supplied timeout) w w'"
  shows "execute_validation_plan w' clock plan repo_root artifact_root actor reference_root supplied now timeout fs =
    execute_validation_plan w clock plan repo_root artifact_root actor reference_root supplied now timeout fs"
proof (cases "path_resolve fs repo_root")
  case (Inl e)
  then show ?thesis by (simp add: execute_validation_plan_def io_bind_read)
next
  case (Inr root)
  have "real_path fs root"
    by (rule resolve_from_real [OF Inr]) (use assms(1) in \<open>simp add: wf_fs_def\<close>)
  then have "pl_outcome (vp_decision plan) = ''planned'' \<Longrightarrow>
      run_checks w' root art ref supplied timeout (vp_checks plan) = run_checks w root art ref supplied timeout (vp_checks plan)" for art ref
    using run_checks_same [OF assms(2) [OF Inr]] by (simp add: real_path_def)
  then have checks: "(if pl_outcome (vp_decision plan) = ''planned''
        then run_checks w' root art ref supplied timeout (vp_checks plan) else io_return []) =
      (if pl_outcome (vp_decision plan) = ''planned''
        then run_checks w root art ref supplied timeout (vp_checks plan) else io_return [])" for art ref
    by simp
  show ?thesis
    unfolding execute_validation_plan_def io_bind_read Inr sum.case checks ..
qed

text \<open>A plan with one check to run and one reused, in a repository with two directories.\<close>

definition make_check :: validation_check where
  "make_check = \<lparr>vc_cache_decision = [], vc_check_id = ''check:1'', vc_check_type = ''command'',
     vc_command = ''make all'', vc_execution_mode = ''run'', vc_execution_policy = [(''retry_count'', PInt 1)],
     vc_owner_repo = ''r'', vc_receipt_digest = None, vc_receipt_id = None, vc_required = True,
     vc_reuse_reason = None, vc_scopes = [''repo:r''], vc_tier = ''scoped'', vc_validator_id = ''build'',
     vc_reason = ''''\<rparr>"

definition run_plan :: validation_plan where
  "run_plan = \<lparr>vp_check_statuses = [], vp_checks = [make_check,
       make_check\<lparr>vc_check_id := ''check:2'', vc_command := ''rm -rf /'', vc_execution_mode := ''skip_fresh_receipt'',
         vc_receipt_id := Some ''receipt:1'', vc_validator_id := ''lint''\<rparr>],
     vp_decision = \<lparr>pl_blocked_reasons = [], pl_outcome = ''planned'', pl_reasons = [],
       pl_requires_operator_review = False, pl_suppressed_validators = []\<rparr>,
     vp_manifest_id = PStr ''m'', vp_performance_budget = PDict [], vp_plan_id = ''plan:1'',
     vp_target = \<lparr>vt_scope = ''repo:r'', vt_target_type = ''repo'', vt_target_id = ''r''\<rparr>, vp_tier = ''scoped''\<rparr>"

definition quiet_world :: execution_world where
  "quiet_world = \<lparr>ew_runner = (\<lambda>l fs. (fs, Completed ''ok'' '''' 0)), ew_elapsed = (\<lambda>c. 7), ew_environ = [],
     ew_python_bin = ''/bin''\<rparr>"

definition make_only_world :: execution_world where
  "make_only_world = quiet_world\<lparr>ew_runner := (\<lambda>l fs.
     if la_args l = [''make'', ''all''] then (fs, Completed ''ok'' '''' 0)
     else (fs\<lparr>fs_nodes := []\<rparr>, RunRaises (Unmodelled ''never started'')))\<rparr>"

lemma parse_make: "parse_command (vc_command make_check) = Inr ([], [''make'', ''all''])"
  by code_simp

lemma only_permitted_commands_run_witness:
  "execute_validation_plan make_only_world epoch run_plan ''/repo'' ''/repo/out'' ''ci'' None [] NowNone 60 sample_tree =
   execute_validation_plan quiet_world epoch run_plan ''/repo'' ''/repo/out'' ''ci'' None [] NowNone 60 sample_tree"
proof -
  have "wf_fs sample_tree" by code_simp
  moreover have "same_on (plan_launch run_plan root [] 60) quiet_world make_only_world" for root
    using parse_make
    by (auto simp: same_on_def plan_launch_def make_only_world_def quiet_world_def run_plan_def)
  ultimately show ?thesis by (rule only_permitted_commands_run)
qed

section \<open>What the receipt says of the checks\<close>

text \<open>
  A result speaks for its check: it carries the check's names and its \<open>required\<close> flag; a reused
  check is reported with its receipt, any other one is a success only if its command ran to exit
  code 0 without an error, and a blocked one wrote nothing and says why.
\<close>

definition speaks_for :: "validation_check \<Rightarrow> check_result \<Rightarrow> bool" where
  "speaks_for c r =
     (cr_check_id r = vc_check_id c \<and> cr_validator_id r = vc_validator_id c \<and> cr_required r = vc_required c \<and>
      (if vc_execution_mode c = mode_value SKIP_FRESH_RECEIPT
       then cr_status r = ''skipped_fresh_receipt'' \<and> cr_reused_receipt_id r = vc_receipt_id c \<and>
         cr_artifact_refs r = [] \<and> cr_exit_code r = None
       else cr_reused_receipt_id r = None \<and>
         (cr_status r = ''success'' \<and> vc_check_type c = ''command'' \<and> cr_exit_code r = Some 0 \<and> cr_error r = None \<or>
          cr_status r = ''failure'' \<and> vc_check_type c = ''command'' \<and> (cr_exit_code r \<noteq> Some 0 \<or> cr_error r \<noteq> None) \<or>
          cr_status r = ''blocked'' \<and> cr_artifact_refs r = [] \<and> cr_exit_code r = None \<and> cr_error r \<noteq> None)))"

lemma io_bind_InrE:
  assumes "io_bind m f fs = (fs', Inr y)"
  obtains fs1 x where "m fs = (fs1, Inr x)" and "f x fs1 = (fs', Inr y)"
  using assms by (auto simp: io_bind_Inr)

lemma run_allowed_command_result:
  assumes "run_allowed_command w c art ref supplied timeout over args wd fs = (fs', Inr r)"
  obtains limits st where "coerce_execution_limits (execution_policy c) timeout
      (py_str (py_or (py_get (execution_policy c) ''profile'') (PStr DEFAULT_EXECUTION_PROFILE))) = Inr limits"
    and "ran_result w c args limits st = Inr r"
    and "run_attempts w (\<lambda>n. \<lparr>la_args = args, la_cwd = wd, la_env = command_env w (execution_policy c) supplied over,
        la_timeout = el_timeout_seconds limits, la_attempt = n\<rparr>)
      (fpath_str (art @ [safe_path_id (vc_check_id c)])) (fpath_str (ref @ [safe_path_id (vc_check_id c)]))
      (nat (el_retry_count limits + 1)) [1..<Suc (nat (el_retry_count limits + 1))] no_attempt fs = (fs', Inr st)"
  using assms unfolding run_allowed_command_def Let_def
  by (elim io_bind_InrE) (auto simp: io_result_def simp del: upt_Suc)

lemma command_status_cases:
  "command_status st b f = (s, e) \<Longrightarrow> s = ''success'' \<and> at_exit_code st = Some 0 \<and> e = None \<or>
     s = ''failure'' \<and> (at_exit_code st \<noteq> Some 0 \<or> e \<noteq> None)"
  by (auto simp: command_status_def Let_def split: if_splits)

lemma ran_result_fields:
  assumes "ran_result w c args limits st = Inr r"
  shows "cr_check_id r = vc_check_id c \<and> cr_validator_id r = vc_validator_id c \<and> cr_required r = vc_required c \<and>
    cr_reused_receipt_id r = None \<and> cr_exit_code r = at_exit_code st \<and> cr_artifact_refs r = at_artifacts st \<and>
    (cr_status r = ''success'' \<and> at_exit_code st = Some 0 \<and> cr_error r = None \<or>
     cr_status r = ''failure'' \<and> (at_exit_code st \<noteq> Some 0 \<or> cr_error r \<noteq> None)) \<and>
    py_get (cr_output_summary r) ''attempt_count'' = PInt (int (length (at_summaries st))) \<and>
    py_get (cr_output_summary r) ''attempts'' = PList (map PDict (at_summaries st))"
proof -
  let ?F = "py_truthy (py_get_or (PBool False) (execution_policy c) ''fail_on_output_budget_exceeded'')"
  let ?B = "output_budget_decision (at_artifacts st) (el_output_budget_bytes limits) ?F"
  obtain s e where cs: "command_status st ?B ?F = (s, e)" by (cases "command_status st ?B ?F")
  obtain out_ref err_ref where refs: "at_refs st = Some (out_ref, err_ref)"
    using assms cs by (auto simp: ran_result_def Let_def split: option.splits)
  note r = assms [unfolded ran_result_def Let_def cs prod.case refs option.case sum.inject, symmetric]
  show ?thesis using command_status_cases [OF cs] unfolding r by (simp add: py_get_or_def)
qed

lemma run_command_check_cases:
  assumes "run_command_check w c root art ref supplied timeout fs = (fs', Inr r)"
  obtains (blocked) d m s where "fs' = fs" and "r = blocked_check_result c d (Some 0) m s"
  | (ran) over args wd where "parse_command (vc_command c) = Inr (over, args)"
      and "working_directory fs root (execution_policy c) = Inr wd"
      and "safety_block_reason fs args over (execution_policy c) root supplied wd = Inr None"
      and "run_allowed_command w c art ref supplied timeout over args wd fs = (fs', Inr r)"
proof (cases "parse_command (vc_command c)")
  case (Inl e)
  with assms blocked show ?thesis by (cases e) (auto simp: run_command_check_def Let_def)
next
  case (Inr oa)
  obtain over args where p: "parse_command (vc_command c) = Inr (over, args)" using Inr by (cases oa) auto
  show ?thesis
  proof (cases "working_directory fs root (execution_policy c)")
    case (Inl e)
    with assms blocked p show ?thesis by (cases e) (auto simp: run_command_check_def Let_def)
  next
    case (Inr wd)
    with assms blocked ran [OF p Inr] p show ?thesis
      by (cases "safety_block_reason fs args over (execution_policy c) root supplied wd")
        (auto simp: run_command_check_def Let_def split: option.splits)
  qed
qed

lemma run_check_speaks:
  assumes "run_check w root art ref supplied timeout c fs = (fs', Inr r)"
  shows "speaks_for c r"
proof (cases "vc_execution_mode c \<noteq> mode_value SKIP_FRESH_RECEIPT \<and> vc_check_type c = ''command''")
  case True
  then have run: "run_command_check w c root art ref supplied timeout fs = (fs', Inr r)"
    using assms by (simp add: run_check_def)
  from run show ?thesis
  proof (cases rule: run_command_check_cases)
    case blocked
    then show ?thesis using True by (simp add: speaks_for_def blocked_check_result_def no_run_result_def)
  next
    case (ran over args wd)
    from ran(4) show ?thesis
    proof (rule run_allowed_command_result)
      fix limits st assume "ran_result w c args limits st = Inr r"
      from ran_result_fields [OF this] True show ?thesis unfolding speaks_for_def by auto
    qed
  qed
next
  case False
  then show ?thesis
    using assms by (auto simp: run_check_def speaks_for_def no_run_result_def split: if_splits)
qed

lemma run_checks_speak:
  "run_checks w root art ref supplied timeout cs fs = (fs', Inr rs) \<Longrightarrow> list_all2 speaks_for cs rs"
proof (induction cs arbitrary: fs rs)
  case (Cons c cs)
  from Cons.prems show ?case
    by (auto elim!: io_bind_InrE simp: io_return_def intro: run_check_speaks Cons.IH)
qed (simp add: io_return_def)

lemma execute_result:
  assumes "execute_validation_plan w clock plan repo_root artifact_root actor reference_root supplied now timeout fs = (fs', Inr e)"
  obtains root art ref captured results fs1 fs2 fs3
  where "path_resolve fs repo_root = Inr root" and "path_resolve fs artifact_root = Inr art"
    and "os_mkdir_parents (fpath_str art) fs = (fs1, Inr ())"
    and "pl_outcome (vp_decision plan) = ''planned'' \<Longrightarrow>
      run_checks w root art ref supplied timeout (vp_checks plan) fs1 = (fs2, Inr results)"
    and "pl_outcome (vp_decision plan) \<noteq> ''planned'' \<Longrightarrow> results = []"
    and "build_control_receipt plan (isoformat_z captured) results = Inr (ex_receipt e)"
    and "ex_ledger_event e = build_validation_ledger_event actor (ct_artifact_refs (ex_receipt e))
      (isoformat_z captured) (ex_receipt e) (vt_scope (vp_target plan))"
  using assms unfolding execute_validation_plan_def
  by (elim io_bind_InrE) (auto simp: io_return_def io_result_def split: if_splits)

lemma receipt_fields:
  assumes "build_control_receipt plan captured results = Inr r"
  shows "ct_check_results r = results \<and> ct_artifact_refs r = concat (map cr_artifact_refs results) \<and>
    ct_outcome r = receipt_outcome (pl_outcome (vp_decision plan)) results \<and>
    ct_plan_id r = vp_plan_id plan \<and> ct_target_scope r = vt_scope (vp_target plan) \<and> ct_tier r = vp_tier plan \<and>
    ct_captured_at r = captured"
  using assms by (auto simp: build_control_receipt_def Let_def)

lemma receipt_outcome_success:
  "(receipt_outcome decided rs = ''success'') =
     (decided = ''planned'' \<and> rs \<noteq> [] \<and> (\<forall>r \<in> set rs. cr_status r \<noteq> ''blocked'' \<and> (cr_required r \<longrightarrow> cr_status r \<noteq> ''failure'')))"
  by (auto simp: receipt_outcome_def list_ex_iff)

lemma ledger_event_fields:
  "le_outcome (build_validation_ledger_event actor arts t r target) = ct_outcome r \<and>
   le_target (build_validation_ledger_event actor arts t r target) = target \<and>
   le_receipt_refs (build_validation_ledger_event actor arts t r target) =
     [[(''digest'', PStr (ct_digest r)), (''outcome'', PStr (ct_outcome r)), (''receipt_id'', PStr (ct_receipt_id r))]]"
  by (simp add: build_validation_ledger_event_def Let_def)

text \<open>
  C31. A receipt accounts for its plan: its results speak for the planned checks one by one and in
  their order (for none if the planner did not plan), and it is a success exactly when something
  was planned, every required check succeeded or was reused from a receipt, and no check at all was
  blocked. The ledger event of the run carries that outcome and the digest of that receipt.
\<close>

theorem receipt_accounts_for_plan:
  assumes "execute_validation_plan w clock plan repo_root artifact_root actor reference_root supplied now timeout fs = (fs', Inr e)"
  shows "list_all2 speaks_for (if pl_outcome (vp_decision plan) = ''planned'' then vp_checks plan else [])
      (ct_check_results (ex_receipt e)) \<and>
    (ct_outcome (ex_receipt e) = ''success'') =
      (pl_outcome (vp_decision plan) = ''planned'' \<and> vp_checks plan \<noteq> [] \<and>
       (\<forall>r \<in> set (ct_check_results (ex_receipt e)). cr_status r \<noteq> ''blocked'' \<and>
         (cr_required r \<longrightarrow> cr_status r = ''success'' \<or> cr_status r = ''skipped_fresh_receipt''))) \<and>
    le_outcome (ex_ledger_event e) = ct_outcome (ex_receipt e) \<and>
    le_receipt_refs (ex_ledger_event e) = [[(''digest'', PStr (ct_digest (ex_receipt e))),
      (''outcome'', PStr (ct_outcome (ex_receipt e))), (''receipt_id'', PStr (ct_receipt_id (ex_receipt e)))]]"
proof (rule execute_result [OF assms])
  fix root art ref captured results fs1 fs2
  assume run: "pl_outcome (vp_decision plan) = ''planned'' \<Longrightarrow>
      run_checks w root art ref supplied timeout (vp_checks plan) fs1 = (fs2, Inr results)"
    and none: "pl_outcome (vp_decision plan) \<noteq> ''planned'' \<Longrightarrow> results = []"
    and receipt: "build_control_receipt plan (isoformat_z captured) results = Inr (ex_receipt e)"
    and event: "ex_ledger_event e = build_validation_ledger_event actor (ct_artifact_refs (ex_receipt e))
      (isoformat_z captured) (ex_receipt e) (vt_scope (vp_target plan))"
  note fields = receipt_fields [OF receipt]
  have speak: "list_all2 speaks_for (if pl_outcome (vp_decision plan) = ''planned'' then vp_checks plan else []) results"
    by (auto intro: run_checks_speak [OF run] simp: none)
  have statuses: "r \<in> set results \<Longrightarrow> cr_status r \<in> {''success'', ''failure'', ''blocked'', ''skipped_fresh_receipt''}" for r
    using speak by (auto simp: list_all2_conv_all_nth in_set_conv_nth speaks_for_def split: if_splits)
  have outcome: "(ct_outcome (ex_receipt e) = ''success'') =
      (pl_outcome (vp_decision plan) = ''planned'' \<and> vp_checks plan \<noteq> [] \<and>
       (\<forall>r \<in> set results. cr_status r \<noteq> ''blocked'' \<and>
         (cr_required r \<longrightarrow> cr_status r = ''success'' \<or> cr_status r = ''skipped_fresh_receipt'')))"
    using fields speak statuses receipt_outcome_success by (auto split: if_splits dest: list_all2_lengthD)
  from speak outcome fields event ledger_event_fields show ?thesis by simp
qed

section \<open>How often a command is tried\<close>

lemma run_attempt_Inr:
  assumes "run_attempt w l d r k st fs = (fs', Inr st')"
  shows "\<exists>s out_ref err_ref. at_summaries st' = at_summaries st @ [s] \<and> at_artifacts st' = at_artifacts st @ [out_ref, err_ref] \<and>
    at_refs st' = Some (out_ref, err_ref) \<and> (py_get s ''exit_code'' = PInt 0) = (at_exit_code st' = Some 0) \<and>
    (at_exit_code st' = Some 0 \<longrightarrow> at_error st' = None)"
proof -
  from assms obtain p fs1 out_ref fs2 err_ref fs3 where p: "run_process w l fs = (fs1, Inr p)"
    and rest: "(case p of (out, err, code, error, timed_out) \<Rightarrow>
        (let summary = [(''attempt'', PInt (int (la_attempt l))), (''exit_code'', opt_int_val code),
           (''stderr'', stream_summary err err_ref), (''stdout'', stream_summary out out_ref),
           (''timed_out'', PBool timed_out)];
         summary = (case error of None \<Rightarrow> summary
           | Some e \<Rightarrow> if e = [] then summary else summary @ [(''error'', PStr e)])
     in io_return \<lparr>at_artifacts = at_artifacts st @ [out_ref, err_ref],
          at_summaries = at_summaries st @ [summary], at_stdout = out, at_stderr = err,
          at_refs = Some (out_ref, err_ref), at_exit_code = code, at_error = error,
          at_timed_out = timed_out\<rparr>)) fs3 = (fs', Inr st')"
    unfolding run_attempt_def by (cases "snd (run_process w l fs)") (auto simp: io_bind_Inr split: prod.splits)
  obtain out err code error timed_out where q: "p = (out, err, code, error, timed_out)" by (cases p)
  have ok: "code = Some 0 \<longrightarrow> error = None"
    using p q by (auto simp: run_process_def split: prod.splits run_outcome.splits)
  have code: "(opt_int_val code = PInt 0) = (code = Some 0)" by (cases code) simp_all
  show ?thesis
    using rest ok code unfolding q Let_def by (auto simp: py_get_or_def split: option.splits)
qed

text \<open>The attempts so far: none but the last exited with 0.\<close>

definition tried :: "nat \<Rightarrow> attempt_state \<Rightarrow> bool" where
  "tried n st = (length (at_summaries st) = n \<and> length (at_artifacts st) = 2 * n \<and>
     (\<forall>s \<in> set (butlast (at_summaries st)). py_get s ''exit_code'' \<noteq> PInt 0) \<and>
     (n > 0 \<longrightarrow> (py_get (last (at_summaries st)) ''exit_code'' = PInt 0) = (at_exit_code st = Some 0)))"

lemma run_attempts_tried:
  assumes "run_attempts w f d r k ns st fs = (fs', Inr st')" and "tried n st" and "n = 0 \<or> at_exit_code st \<noteq> Some 0"
  shows "\<exists>j \<le> length ns. tried (n + j) st' \<and> (ns \<noteq> [] \<longrightarrow> 0 < j) \<and> (j < length ns \<longrightarrow> at_exit_code st' = Some 0)"
  using assms
proof (induction ns arbitrary: n st fs)
  case Nil
  then show ?case by auto
next
  case (Cons m ns)
  from Cons.prems(1) obtain fs1 st1 where step: "run_attempt w (f m) d r k st fs = (fs1, Inr st1)"
    and rest: "(if at_exit_code st1 = Some 0 \<and> at_error st1 = None then io_return st1 else run_attempts w f d r k ns st1) fs1 = (fs', Inr st')"
    by (auto simp: io_bind_Inr)
  note new = run_attempt_Inr [OF step]
  have last: "n > 0 \<Longrightarrow> \<forall>s \<in> set (at_summaries st). py_get s ''exit_code'' \<noteq> PInt 0"
    using Cons.prems(2,3) by (cases "at_summaries st" rule: rev_cases) (auto simp: tried_def)
  have t1: "tried (Suc n) st1"
    using new Cons.prems(2) last by (cases "n = 0") (auto simp: tried_def)
  show ?case
  proof (cases "at_exit_code st1 = Some 0")
    case True
    then have "st' = st1" using rest new by auto
    then show ?thesis using True t1 by (intro exI [of _ 1]) auto
  next
    case False
    then have "run_attempts w f d r k ns st1 fs1 = (fs', Inr st')" using rest by simp
    from Cons.IH [OF this t1] False obtain j where "j \<le> length ns" "tried (Suc n + j) st'" "j < length ns \<longrightarrow> at_exit_code st' = Some 0"
      by blast
    then show ?thesis by (intro exI [of _ "Suc j"]) auto
  qed
qed

text \<open>
  C32. A command is tried at least once and at most four times, whatever its policy asks for, and
  no more after an attempt that exits with 0: all attempts but the last have another exit code or
  none, and if the last one does too then every retry allowed by the limits was used. Each attempt
  leaves two output artifacts.
\<close>

theorem attempts_bounded:
  assumes "run_command_check w c root art ref supplied timeout fs = (fs', Inr r)"
    and "cr_status r \<noteq> ''blocked''" and "1 \<le> timeout"
  shows "\<exists>attempts limits.
    coerce_execution_limits (execution_policy c) timeout
      (py_str (py_or (py_get (execution_policy c) ''profile'') (PStr DEFAULT_EXECUTION_PROFILE))) = Inr limits \<and>
    py_get (cr_output_summary r) ''attempts'' = PList (map PDict attempts) \<and>
    py_get (cr_output_summary r) ''attempt_count'' = PInt (int (length attempts)) \<and>
    1 \<le> length attempts \<and> length attempts \<le> 4 \<and> length (cr_artifact_refs r) = 2 * length attempts \<and>
    (\<forall>s \<in> set (butlast attempts). py_get s ''exit_code'' \<noteq> PInt 0) \<and>
    (py_get (last attempts) ''exit_code'' \<noteq> PInt 0 \<longrightarrow> int (length attempts) = el_retry_count limits + 1)"
  using assms(1)
proof (cases rule: run_command_check_cases)
  case blocked
  then show ?thesis using assms(2) by (simp add: blocked_check_result_def no_run_result_def)
next
  case (ran over args wd)
  from ran(4) show ?thesis
  proof (rule run_allowed_command_result)
    fix limits st
    assume lim: "coerce_execution_limits (execution_policy c) timeout
        (py_str (py_or (py_get (execution_policy c) ''profile'') (PStr DEFAULT_EXECUTION_PROFILE))) = Inr limits"
      and r: "ran_result w c args limits st = Inr r"
      and run: "run_attempts w (\<lambda>n. \<lparr>la_args = args, la_cwd = wd, la_env = command_env w (execution_policy c) supplied over,
        la_timeout = el_timeout_seconds limits, la_attempt = n\<rparr>)
      (fpath_str (art @ [safe_path_id (vc_check_id c)])) (fpath_str (ref @ [safe_path_id (vc_check_id c)]))
      (nat (el_retry_count limits + 1)) [1..<Suc (nat (el_retry_count limits + 1))] no_attempt fs = (fs', Inr st)"
    have range: "0 \<le> el_retry_count limits" "el_retry_count limits \<le> 3"
      using execution_limits_range [OF lim assms(3)] by auto
    have t0: "tried 0 no_attempt" by (simp add: tried_def no_attempt_def)
    have "[1..<Suc (nat (el_retry_count limits + 1))] \<noteq> []" using range by simp
    with run_attempts_tried [OF run t0] obtain j where j: "j \<le> nat (el_retry_count limits + 1)" "tried j st" "0 < j"
      "j < nat (el_retry_count limits + 1) \<longrightarrow> at_exit_code st = Some 0"
      by (auto simp del: upt_Suc)
    show ?thesis
      using lim ran_result_fields [OF r] j range
      by (intro exI [of _ "at_summaries st"] exI [of _ limits]) (auto simp: tried_def)
  qed
qed

lemma artifact_bytes: "int_value (case artifact_ref_to_record a of PDict d \<Rightarrow> Obj d | v \<Rightarrow> Val v) ''byte_count'' = Inr (ar_byte_count a)"
  by (simp add: artifact_ref_to_record_def int_value_def attr_or_item_def py_get_or_def py_or_def int_or_none_def)

lemma receipt_total: "\<exists>r. build_control_receipt plan captured results = Inr r"
proof -
  have "\<exists>bs. rmapM (\<lambda>a. int_value a ''byte_count'') (map (\<lambda>a. case artifact_ref_to_record a of PDict d \<Rightarrow> Obj d | v \<Rightarrow> Val v) arts) = Inr bs" for arts
    by (rule rmapM_total) (auto simp: artifact_bytes)
  then show ?thesis by (auto simp: build_control_receipt_def validation_execution_metrics_def Let_def)
qed

end
