(* ===== verification/Execution_Files.thy ===== *)
theory Execution_Files
  imports Execution_Guarantees
begin

text \<open>
  The files an execution writes: the directory of a check is a single name below the artifact
  root, everything else is left to the processes (C33), and an execution whose processes end and
  leave the artifact root alone always returns a receipt (C34). A last section follows the
  receipts into later plans (C35).
\<close>

section \<open>Names\<close>

text \<open>A name \<open>pathlib\<close> and the system take as one component.\<close>

definition file_name :: "string \<Rightarrow> bool" where
  "file_name s = (proper_component s \<and> CHR 0x00 \<notin> set s)"

lemma path_id_char_ok: "path_id_char c \<Longrightarrow> c \<noteq> CHR ''/'' \<and> c \<noteq> CHR 0x00"
  by (auto simp: path_id_char_def name_start_def py_is_digit_def Let_def)

lemma collapse_runs_chars: "c \<in> set (collapse_runs b s) \<Longrightarrow> path_id_char c \<or> c = CHR ''_''"
  by (induction b s rule: collapse_runs.induct) (auto split: if_splits)

lemma set_strip_by: "set (strip_by P s) \<subseteq> set s"
  by (auto simp: strip_by_def dest!: set_dropWhileD)

lemma strip_by_hd: "strip_by P s \<noteq> [] \<Longrightarrow> \<not> P (hd (strip_by P s))"
  unfolding strip_by_def using hd_rev_dropWhile_rev [OF dropWhile_strip_head, of P s P] by blast

lemma safe_path_id_file_name: "file_name (safe_path_id v)"
proof -
  let ?s = "strip_by (\<lambda>c. c = CHR ''.'' \<or> c = CHR ''_'') (collapse_runs False v)"
  have chars: "CHR ''/'' \<notin> set ?s" "CHR 0x00 \<notin> set ?s"
    using set_strip_by collapse_runs_chars path_id_char_ok by fastforce+
  have "?s \<noteq> [] \<Longrightarrow> hd ?s \<noteq> CHR ''.''" using strip_by_hd by blast
  then show ?thesis
    using chars by (auto simp: safe_path_id_def Let_def file_name_def proper_component_def)
qed

definition log_file :: "nat \<Rightarrow> nat \<Rightarrow> string \<Rightarrow> string" where
  "log_file k n stream = stream_name k n stream @ ''.log''"

lemma log_file_name:
  assumes "stream = ''stdout'' \<or> stream = ''stderr''"
  shows "file_name (log_file k n stream)"
proof -
  have "CHR ''/'' \<notin> set (nat_to_str n)" "CHR 0x00 \<notin> set (nat_to_str n)"
    using nat_to_str_chars [of n] by auto
  then show ?thesis
    using assms by (auto simp: log_file_def stream_name_def file_name_def proper_component_def)
qed

lemma py_join_snoc: "xs \<noteq> [] \<Longrightarrow> py_join sep (xs @ [y]) = py_join sep xs @ sep @ y"
  by (induction sep xs rule: py_join.induct) auto

lemma fpath_str_snoc: "p \<noteq> [] \<Longrightarrow> fpath_str p @ CHR ''/'' # x = fpath_str (p @ [x])"
  by (simp add: fpath_str_def py_join_snoc)

section \<open>Where files are written\<close>

text \<open>
  \<open>artifact_area art fs\<close>: the artifact root is a directory free of links above and below it.
  Nothing an execution writes can then leave it.
\<close>

definition artifact_area :: "fpath \<Rightarrow> fs \<Rightarrow> bool" where
  "artifact_area art fs = (real_path fs art \<and> (\<forall>q t. node_at fs (art @ q) \<noteq> Some (LinkNode t)))"

lemma artifact_area_keeps: "artifact_area art fs \<Longrightarrow> fs_keeps A fs fs' \<Longrightarrow> artifact_area art fs'"
  unfolding artifact_area_def using fs_keeps_real_path by (metis fs_keeps_def)

lemma artifact_area_real:
  "artifact_area art fs \<Longrightarrow> list_all proper_component q \<Longrightarrow> real_path fs (art @ q)"
proof (induction q rule: rev_induct)
  case (snoc x q)
  have "real_path fs (art @ q)" using snoc by simp
  then show ?case
    using snoc.prems unfolding real_path_def append_assoc [symmetric] link_free_snoc
    by (auto simp: artifact_area_def proper_component_def split: option.splits fs_node.splits)
qed (simp add: artifact_area_def)

text \<open>Calls that stay in the area \<open>A\<close> as long as it is free of links.\<close>

definition stays :: "fpath \<Rightarrow> (fpath \<Rightarrow> bool) \<Rightarrow> 'a io \<Rightarrow> bool" where
  "stays art A m = (\<forall>fs. artifact_area art fs \<longrightarrow> fs_keeps A fs (fst (m fs)))"

lemma stays_bind:
  assumes "stays art A m" and "\<And>x. stays art A (f x)"
  shows "stays art A (io_bind m f)"
  unfolding stays_def
proof (intro allI impI)
  fix fs assume area: "artifact_area art fs"
  have m: "fs_keeps A fs (fst (m fs))" using assms(1) area by (simp add: stays_def)
  then have "fs_keeps A (fst (m fs)) (fst (f x (fst (m fs))))" for x
    using assms(2) artifact_area_keeps [OF area] by (simp add: stays_def)
  with m show "fs_keeps A fs (fst (io_bind m f fs))"
    by (auto simp: io_bind_def intro: fs_keeps_trans split: prod.splits sum.splits)
qed

lemma stays_return: "stays art A (io_return x)" "stays art A (io_result r)"
  by (simp_all add: stays_def io_return_def io_result_def)

definition near :: "fpath \<Rightarrow> fpath \<Rightarrow> bool" where
  "near art p = (prefix p art \<or> prefix art p)"

lemma near_prefix: "prefix p (art @ q) \<Longrightarrow> near art p"
  by (auto simp: near_def prefix_append)

lemma stays_mkdir:
  assumes "list_all proper_component q" and "\<And>p. near art p \<Longrightarrow> A p"
  shows "stays art A (os_mkdir_parents (fpath_str (art @ q)))"
  unfolding stays_def
proof (intro allI impI)
  fix fs assume "artifact_area art fs"
  from os_mkdir_parents_keeps [OF artifact_area_real [OF this assms(1)]]
  show "fs_keeps A fs (fst (os_mkdir_parents (fpath_str (art @ q)) fs))"
    by (rule fs_keeps_mono) (use assms(2) near_prefix in blast)
qed

lemma stays_write:
  assumes "list_all proper_component q" and "\<And>p. near art p \<Longrightarrow> A p"
  shows "stays art A (os_write_bytes (fpath_str (art @ q)) b)"
  unfolding stays_def os_write_bytes_def
proof (intro allI impI)
  fix fs assume "artifact_area art fs"
  from os_write_keeps [OF artifact_area_real [OF this assms(1)]]
  show "fs_keeps A fs (fst (os_write (\<lambda>old. b) (fpath_str (art @ q)) fs))"
    by (rule fs_keeps_mono) (use assms(2) near_def in auto)
qed

lemma stays_write_artifact:
  assumes "file_name x" and "stream = ''stdout'' \<or> stream = ''stderr''" and "\<And>p. near art p \<Longrightarrow> A p"
  shows "stays art A (write_artifact (fpath_str (art @ [x])) (stream_name k n stream) content ref)"
proof -
  have f: "fpath_str (art @ [x]) @ ''/'' @ stream_name k n stream @ ''.log'' = fpath_str (art @ [x, log_file k n stream])"
    using fpath_str_snoc [of "art @ [x]" "log_file k n stream"] by (simp add: log_file_def)
  have names: "list_all proper_component [x]" "list_all proper_component [x, log_file k n stream]"
    using assms(1) log_file_name [OF assms(2)] by (simp_all add: file_name_def)
  show ?thesis
    unfolding write_artifact_def Let_def f
    by (intro stays_bind stays_return stays_mkdir stays_write names assms(3))
qed

lemma stays_run_attempts:
  assumes "file_name x" and A: "\<And>p. near art p \<Longrightarrow> A p"
    and runner: "\<And>l fs. fs_keeps A fs (fst (ew_runner w l fs))"
  shows "stays art A (run_attempts w f (fpath_str (art @ [x])) r k ns st)"
proof (induction ns arbitrary: st)
  case (Cons n ns)
  have "fst (run_process w l fs) = fst (ew_runner w l fs)" for l fs
    by (auto simp: run_process_def split: prod.splits run_outcome.splits)
  then have proc: "stays art A (run_process w l)" for l by (simp add: stays_def runner)
  have "stays art A (run_attempt w (f n) (fpath_str (art @ [x])) r k st)"
    unfolding run_attempt_def Let_def split_beta
    by (intro stays_bind proc stays_return stays_write_artifact assms(1) A) simp_all
  then show ?case using Cons by (auto intro!: stays_bind simp: stays_return)
qed (simp add: stays_return)

lemma stays_run_check:
  assumes A: "\<And>p. near art p \<Longrightarrow> A p" and runner: "\<And>l fs. fs_keeps A fs (fst (ew_runner w l fs))"
  shows "stays art A (run_check w root art ref supplied timeout c)"
proof -
  have allowed: "stays art A (run_allowed_command w c art ref supplied timeout over args wd)" for over args wd
    unfolding run_allowed_command_def Let_def
    by (intro stays_bind stays_return stays_run_attempts safe_path_id_file_name A runner)
  have "stays art A (run_command_check w c root art ref supplied timeout)"
    unfolding stays_def run_command_check_def Let_def
    using allowed [unfolded stays_def] by (auto split: sum.splits py_error.splits option.splits)
  then show ?thesis by (auto simp: run_check_def stays_return)
qed

lemma stays_run_checks:
  assumes A: "\<And>p. near art p \<Longrightarrow> A p" and runner: "\<And>l fs. fs_keeps A fs (fst (ew_runner w l fs))"
  shows "stays art A (run_checks w root art ref supplied timeout cs)"
  by (induction cs) (auto intro!: stays_bind stays_return stays_run_check A runner)

text \<open>
  C33. Executing a plan writes only in its artifact root: whatever paths \<open>A\<close> the processes keep to,
  everything outside of \<open>A\<close>, of the artifact root and of the directories above it is after the
  execution what it was before, no directory is gone and no symbolic link appeared, whether the
  execution returns a receipt or fails. A check id with slashes or dots does not lead out of it.
\<close>

theorem artifacts_stay_in_root:
  assumes "path_resolve fs artifact_root = Inr art" and "artifact_area art fs"
    and runner: "\<And>l fs. fs_keeps (\<lambda>p. A p \<or> near art p) fs (fst (ew_runner w l fs))"
  shows "fs_keeps (\<lambda>p. A p \<or> near art p) fs
    (fst (execute_validation_plan w clock plan repo_root artifact_root actor reference_root supplied now timeout fs))"
proof -
  let ?A = "\<lambda>p. A p \<or> near art p"
  have read: "stays art ?A (\<lambda>fs. (fs, g fs))" for g :: "fs \<Rightarrow> 'b result" by (simp add: stays_def)
  have tail: "stays art ?A (io_bind (os_mkdir_parents (fpath_str art)) (\<lambda>_.
     io_bind (\<lambda>fs. (fs, case reference_root of None \<Rightarrow> Inr art | Some p \<Rightarrow> path_resolve fs p)) (\<lambda>refs_root.
     io_bind (io_result (execution_timestamp clock now)) (\<lambda>captured.
     io_bind (if pl_outcome (vp_decision plan) = ''planned''
        then run_checks w root art refs_root supplied timeout (vp_checks plan) else io_return []) (\<lambda>results.
     io_bind (io_result (build_control_receipt plan (isoformat_z captured) results)) (\<lambda>receipt.
     io_return \<lparr>ex_ledger_event = build_validation_ledger_event actor (ct_artifact_refs receipt)
          (isoformat_z captured) receipt (vt_scope (vp_target plan)), ex_receipt = receipt\<rparr>))))))" for root
    using stays_mkdir [of "[]" art ?A]
    by (intro stays_bind read) (auto intro!: stays_return stays_run_checks runner)
  show ?thesis
    unfolding execute_validation_plan_def io_bind_read assms(1)
    using tail [unfolded stays_def io_bind_read] assms(2) by (simp split: sum.split)
qed

lemma sample_area: "artifact_area [''repo'', ''out''] sample_tree"
proof -
  have "real_path sample_tree [''repo'', ''out'']" by code_simp
  then show ?thesis by (simp add: artifact_area_def node_at_def sample_tree_def)
qed

lemma artifacts_stay_in_root_witness:
  "fs_keeps (\<lambda>p. False \<or> near [''repo'', ''out''] p) sample_tree (fst (execute_validation_plan quiet_world epoch
     (run_plan\<lparr>vp_checks := [make_check\<lparr>vc_check_id := ''../../src''\<rparr>]\<rparr>) ''/repo'' ''/repo/out'' ''ci'' None [] NowNone 60 sample_tree)) \<and>
   \<not> near [''repo'', ''out''] [''repo'', ''src'']"
proof -
  have art: "path_resolve sample_tree ''/repo/out'' = Inr [''repo'', ''out'']" by code_simp
  have runner: "fs_keeps (\<lambda>p. False \<or> near [''repo'', ''out''] p) fs (fst (ew_runner quiet_world l fs))" for l fs
    by (simp add: quiet_world_def)
  from artifacts_stay_in_root [OF art sample_area, of "\<lambda>p. False", OF runner] show ?thesis
    by (simp add: near_def)
qed

section \<open>An execution returns\<close>

text \<open>
  \<open>writable art fs\<close>: the artifact root is there, free of links and not protected, and holds at
  most directories of checks with files in them. \<open>no_links\<close>: paths resolve.
\<close>

definition no_links :: "fs \<Rightarrow> bool" where
  "no_links fs = (\<forall>p t. node_at fs p \<noteq> Some (LinkNode t))"

definition writable :: "fpath \<Rightarrow> fs \<Rightarrow> bool" where
  "writable art fs = (wf_fs fs \<and> no_links fs \<and> real_path fs art \<and> node_at fs art = Some DirNode \<and>
     CHR 0x00 \<notin> set (fpath_str art) \<and> list_all (\<lambda>p. \<not> prefix art p) (fs_protected fs) \<and>
     (\<forall>x. node_at fs (art @ [x]) \<noteq> None \<longrightarrow> node_at fs (art @ [x]) = Some DirNode) \<and>
     (\<forall>x y. node_at fs (art @ [x, y]) \<noteq> Some DirNode))"

lemma writable_area: "writable art fs \<Longrightarrow> artifact_area art fs"
  by (simp add: writable_def artifact_area_def no_links_def)

lemma no_links_keeps: "no_links fs \<Longrightarrow> fs_keeps A fs fs' \<Longrightarrow> no_links fs'"
  unfolding no_links_def fs_keeps_def by blast

lemma resolve_no_links: "no_links fs \<Longrightarrow> \<exists>p. resolve_walk fs n acc rest = Inr p"
  by (induction fs n acc rest rule: resolve_walk.induct)
    (auto simp: no_links_def split: option.splits fs_node.splits)

lemma resolve_from_no_links: "no_links fs \<Longrightarrow> modelled_path s \<Longrightarrow> \<exists>p. resolve_from fs b s = Inr p"
  using resolve_no_links by (simp add: resolve_from_def Let_def)

lemma modelled_fpath_str:
  "list_all proper_component p \<Longrightarrow> CHR 0x00 \<notin> set (fpath_str p) \<Longrightarrow> modelled_path (fpath_str p)"
  by (simp add: modelled_path_def posix_path_of_fpath_str)

lemma set_fpath_str_snoc: "set (fpath_str (p @ [x])) \<subseteq> insert CHR ''/'' (set (fpath_str p) \<union> set x)"
  by (cases "p = []") (auto simp: fpath_str_def py_join_snoc)

lemma writable_target:
  assumes "writable art fs" and "list_all file_name q"
  shows "real_path fs (art @ q)" and "os_target fs (fpath_str (art @ q)) = Inr (art @ q)"
proof -
  have comps: "list_all proper_component q" using assms(2) by (auto simp: file_name_def list_all_iff)
  show real: "real_path fs (art @ q)" by (rule artifact_area_real [OF writable_area [OF assms(1)] comps])
  have "list_all file_name q \<Longrightarrow> CHR 0x00 \<notin> set (fpath_str (art @ q))"
  proof (induction q rule: rev_induct)
    case (snoc x q)
    then show ?case using set_fpath_str_snoc [of "art @ q" x] by (auto simp: file_name_def)
  qed (use assms(1) in \<open>simp add: writable_def\<close>)
  then show "os_target fs (fpath_str (art @ q)) = Inr (art @ q)"
    using assms(2) real modelled_fpath_str [of "art @ q"] os_target_real [OF real] by (simp add: real_path_def)
qed

lemma mkdir_walk_dirs:
  assumes "\<And>q. prefix q cs \<Longrightarrow> node_at fs (acc @ q) = Some DirNode"
  shows "mkdir_walk s acc (cs @ rest) fs = mkdir_walk s (acc @ cs) rest fs"
  using assms
proof (induction cs arbitrary: acc)
  case (Cons c cs)
  have "node_at fs (acc @ [c]) = Some DirNode" using Cons.prems [of "[c]"] by simp
  moreover have "node_at fs ((acc @ [c]) @ q) = Some DirNode" if "prefix q cs" for q
    using Cons.prems [of "c # q"] that by simp
  ultimately show ?case using Cons.IH [of "acc @ [c]"] by simp
qed simp

lemma writable_mkdir:
  assumes "writable art fs" and "file_name x"
  shows "\<exists>fs'. os_mkdir_parents (fpath_str (art @ [x])) fs = (fs', Inr ()) \<and> writable art fs' \<and>
    node_at fs' (art @ [x]) = Some DirNode"
proof -
  have names: "list_all file_name [x]" using assms(2) by simp
  note target = writable_target [OF assms(1) names]
  show ?thesis
  proof (cases "node_at fs (art @ [x]) = Some DirNode")
    case True
    then show ?thesis using target(2) assms(1) by (simp add: os_mkdir_parents_def)
  next
    case False
    then have none: "node_at fs (art @ [x]) = None" using assms(1) unfolding writable_def by blast
    have comps: "list_all proper_component (art @ [x])" using target(1) by (simp add: real_path_def)
    have dirs: "prefix q art \<Longrightarrow> node_at fs ([] @ q) = Some DirNode" for q
      using assms(1) wf_fs_dirs [of fs art DirNode q] by (cases "q = art") (auto simp: writable_def)
    have free: "art @ [x] \<notin> set (fs_protected fs)"
      using assms(1) by (auto simp: writable_def list_all_iff)
    let ?fs = "fs\<lparr>fs_nodes := assoc_set (art @ [x]) DirNode (fs_nodes fs)\<rparr>"
    have run: "os_mkdir_parents (fpath_str (art @ [x])) fs = (?fs, Inr ())"
      using mkdir_walk_dirs [of art fs "[]" "fpath_str (art @ [x])" "[x]", OF dirs] none free target(2)
      by (simp add: os_mkdir_parents_def posix_path_of_fpath_str [OF comps] path_is_absolute_def)
    have keeps: "fs_keeps (\<lambda>p. prefix p (art @ [x])) fs ?fs"
      using os_mkdir_parents_keeps [OF target(1)] run by simp
    have "writable art ?fs"
      using assms(1) fs_keeps_real_path [OF keeps] no_links_keeps [OF _ keeps] keeps none
      by (auto simp: writable_def node_at_set fs_keeps_def)
    then show ?thesis using run by (auto simp: node_at_set)
  qed
qed

lemma writable_write:
  assumes "writable art fs" and "file_name x" and "file_name y" and "node_at fs (art @ [x]) = Some DirNode"
  shows "\<exists>fs'. os_write_bytes (fpath_str (art @ [x, y])) b fs = (fs', Inr ()) \<and> writable art fs'"
proof -
  have names: "list_all file_name [x, y]" using assms(2,3) by simp
  note target = writable_target [OF assms(1) names]
  have free: "art @ [x, y] \<notin> set (fs_protected fs)" using assms(1) by (auto simp: writable_def list_all_iff)
  have notdir: "node_at fs (art @ [x, y]) \<noteq> Some DirNode" using assms(1) by (simp add: writable_def)
  have par: "butlast (art @ [x, y]) = art @ [x]" by (simp add: butlast_append)
  let ?fs = "fs\<lparr>fs_nodes := assoc_set (art @ [x, y]) (FileNode b (fs_clock fs)) (fs_nodes fs)\<rparr>"
  have run: "os_write_bytes (fpath_str (art @ [x, y])) b fs = (?fs, Inr ())"
    using target(2) free notdir par assms(4) by (simp add: os_write_bytes_def os_write_def Let_def)
  have keeps: "fs_keeps (\<lambda>p. p = art @ [x, y]) fs ?fs"
    using os_write_keeps [OF target(1)] run by (metis fst_conv os_write_bytes_def)
  have "writable art ?fs"
    using assms(1) fs_keeps_real_path [OF keeps] no_links_keeps [OF _ keeps] keeps
    by (auto simp: writable_def node_at_set fs_keeps_def)
  then show ?thesis using run by blast
qed

text \<open>Calls that return from a writable state, and leave it writable.\<close>

definition returns :: "fpath \<Rightarrow> 'a io \<Rightarrow> bool" where
  "returns art m = (\<forall>fs. writable art fs \<longrightarrow> (\<exists>fs' x. m fs = (fs', Inr x) \<and> writable art fs'))"

lemma returns_bind: "returns art m \<Longrightarrow> (\<And>x. returns art (f x)) \<Longrightarrow> returns art (io_bind m f)"
  unfolding returns_def io_bind_Inr by metis

lemma returns_return: "returns art (io_return x)" "\<exists>x. r = Inr x \<Longrightarrow> returns art (io_result r)"
  by (auto simp: returns_def io_return_def io_result_def)

lemma returns_write_artifact:
  assumes "file_name x" and "stream = ''stdout'' \<or> stream = ''stderr''"
  shows "returns art (write_artifact (fpath_str (art @ [x])) (stream_name k n stream) content ref)"
  unfolding returns_def
proof (intro allI impI)
  fix fs assume ready: "writable art fs"
  obtain fs1 where dir: "os_mkdir_parents (fpath_str (art @ [x])) fs = (fs1, Inr ())" "writable art fs1"
    "node_at fs1 (art @ [x]) = Some DirNode"
    using writable_mkdir [OF ready assms(1)] by blast
  obtain fs2 where file_: "os_write_bytes (fpath_str (art @ [x, log_file k n stream])) content fs1 = (fs2, Inr ())" "writable art fs2"
    using writable_write [OF dir(2) assms(1) log_file_name [OF assms(2)] dir(3)] by blast
  have f: "fpath_str (art @ [x]) @ ''/'' @ stream_name k n stream @ ''.log'' = fpath_str (art @ [x, log_file k n stream])"
    using fpath_str_snoc [of "art @ [x]" "log_file k n stream"] by (simp add: log_file_def)
  show "\<exists>fs' a. write_artifact (fpath_str (art @ [x])) (stream_name k n stream) content ref fs = (fs', Inr a) \<and> writable art fs'"
    unfolding write_artifact_def Let_def f using dir(1) file_ by (auto simp: io_bind_def io_return_def)
qed

text \<open>Processes that end, by exit code, timeout or failure to launch, and leave the artifact root writable.\<close>

definition ending_processes :: "fpath \<Rightarrow> execution_world \<Rightarrow> bool" where
  "ending_processes art w = (\<forall>l fs. writable art fs \<longrightarrow>
     writable art (fst (ew_runner w l fs)) \<and> (\<forall>e. snd (ew_runner w l fs) \<noteq> RunRaises e))"

lemma returns_run_attempts:
  assumes "file_name x" and "ending_processes art w"
  shows "returns art (run_attempts w f (fpath_str (art @ [x])) r k ns st)"
proof (induction ns arbitrary: st)
  case (Cons n ns)
  have proc: "returns art (run_process w l)" for l
    unfolding returns_def
  proof (intro allI impI)
    fix fs assume "writable art fs"
    then have w: "writable art (fst (ew_runner w l fs))" "\<forall>e. snd (ew_runner w l fs) \<noteq> RunRaises e"
      using assms(2) by (auto simp: ending_processes_def)
    obtain fs' oc where oc: "ew_runner w l fs = (fs', oc)" by (cases "ew_runner w l fs")
    then show "\<exists>fs' p. run_process w l fs = (fs', Inr p) \<and> writable art fs'"
      using w by (cases oc) (auto simp: run_process_def)
  qed
  have "returns art (run_attempt w (f n) (fpath_str (art @ [x])) r k st)"
    unfolding run_attempt_def Let_def split_beta
    by (intro returns_bind proc returns_return returns_write_artifact assms(1)) simp_all
  then show ?case using Cons by (auto intro!: returns_bind simp: returns_return)
qed (simp add: returns_return)

text \<open>Command lines fail with \<open>ValueError\<close>s only, which the code catches.\<close>

lemma shlex_scan_error: "shlex_scan s token quoted cs = Inl e \<Longrightarrow> \<exists>m. e = ValueError m"
  by (induction s token quoted cs rule: shlex_scan.induct) (auto simp: sh_emit_def rbind_eq_Inl split: if_splits)

lemma parse_command_error: "parse_command s = Inl e \<Longrightarrow> \<exists>m. e = ValueError m"
proof (cases "shlex_split s")
  case (Inr parts)
  then show "parse_command s = Inl e \<Longrightarrow> \<exists>m. e = ValueError m"
    by (cases "take_assignments [] parts") (auto simp: parse_command_def split: if_splits)
qed (auto simp: parse_command_def shlex_split_def dest: shlex_scan_error)

text \<open>A policy whose paths are modelled and whose numbers are finite.\<close>

definition readable_policy :: "pydict \<Rightarrow> int \<Rightarrow> bool" where
  "readable_policy pol timeout =
     ((case py_or (py_get pol ''working_directory'') (PStr ''.'') of PStr raw \<Rightarrow> modelled_path (py_strip raw) | _ \<Rightarrow> True) \<and>
      list_all modelled_path (string_set (py_get pol ''allowed_roots'')) \<and>
      \<not> isl (coerce_execution_limits pol timeout (py_str (py_or (py_get pol ''profile'') (PStr DEFAULT_EXECUTION_PROFILE)))))"

lemma working_directory_error:
  assumes "no_links fs" and "readable_policy pol timeout" and "working_directory fs root pol = Inl e"
  shows "\<exists>m. e = ValueError m"
proof -
  show ?thesis
  proof (cases "py_or (py_get pol ''working_directory'') (PStr ''.'')")
    case (PStr raw)
    then have "modelled_path (py_strip raw)" using assms(2) by (simp add: readable_policy_def)
    then obtain p where p: "resolve_from fs root (py_strip raw) = Inr p"
      using resolve_from_no_links [OF assms(1)] by blast
    obtain b where b: "fs_is_relative_to fs p root = Inr b"
      using resolve_no_links [OF assms(1)] by (metis fs_is_relative_to_def rbind_eq_Inr)
    show ?thesis using assms(3) by (auto simp: working_directory_def PStr p b split: if_splits)
  qed (use assms(3) in \<open>auto simp: working_directory_def\<close>)
qed

lemma safety_block_reason_returns:
  assumes "no_links fs" and "readable_policy pol timeout"
  shows "\<exists>b. safety_block_reason fs args over pol root supplied wd = Inr b"
proof -
  have "\<exists>b. fs_is_relative_to fs p q = Inr b" for p q
    using resolve_no_links [OF assms(1)] by (metis fs_is_relative_to_def rbind_eq_Inr)
  then have rel: "\<exists>bs. rmapM (fs_is_relative_to fs wd) qs = Inr bs" for qs by (rule rmapM_total)
  have "\<exists>qs. rmapM (resolve_policy_root fs root) (string_set (py_get pol ''allowed_roots'')) = Inr qs"
    by (rule rmapM_total) (use assms in \<open>auto simp: resolve_policy_root_def readable_policy_def list_all_iff
      intro: resolve_from_no_links\<close>)
  then obtain qs bs where "rmapM (resolve_policy_root fs root) (string_set (py_get pol ''allowed_roots'')) = Inr qs"
    and "rmapM (fs_is_relative_to fs wd) qs = Inr bs" using rel by blast
  then have "\<exists>d. allowed_root_decision fs root wd pol = Inr d"
    by (simp add: allowed_root_decision_def Let_def)
  then obtain d where "allowed_root_decision fs root wd pol = Inr d" ..
  then show ?thesis
    by (cases d; cases "env_decision (dict_merge supplied over) pol")
      (simp_all add: safety_block_reason_def Let_def blocked_by_def)
qed

lemma ran_result_returns: "at_refs st \<noteq> None \<Longrightarrow> \<exists>r. ran_result w c args limits st = Inr r"
  by (auto simp: ran_result_def Let_def split: prod.splits)

lemma tried_refs:
  assumes "run_attempts w f d r k ns st fs = (fs', Inr st')" and "ns \<noteq> [] \<or> at_refs st \<noteq> None"
  shows "at_refs st' \<noteq> None"
  using assms
proof (induction ns arbitrary: st fs)
  case (Cons n ns)
  then obtain fs1 st1 where step: "run_attempt w (f n) d r k st fs = (fs1, Inr st1)"
    and rest: "(if at_exit_code st1 = Some 0 \<and> at_error st1 = None then io_return st1 else run_attempts w f d r k ns st1) fs1 = (fs', Inr st')"
    by (auto simp: io_bind_Inr)
  have "at_refs st1 \<noteq> None" using run_attempt_Inr [OF step] by auto
  then show ?case using rest Cons.IH [of st1 fs1] by (auto split: if_splits)
qed auto

lemma returns_run_allowed_command:
  assumes "ending_processes art w" and "readable_policy (execution_policy c) timeout" and "1 \<le> timeout"
  shows "returns art (run_allowed_command w c art ref supplied timeout over args wd)"
proof -
  obtain limits where lim: "coerce_execution_limits (execution_policy c) timeout
      (py_str (py_or (py_get (execution_policy c) ''profile'') (PStr DEFAULT_EXECUTION_PROFILE))) = Inr limits"
    using assms(2) by (auto simp: readable_policy_def not_isl_Inr)
  have some: "[1..<Suc (nat (el_retry_count limits + 1))] \<noteq> []"
    using execution_limits_range [OF lim assms(3)] by (elim conjE) simp
  let ?run = "run_attempts w (\<lambda>n. \<lparr>la_args = args, la_cwd = wd, la_env = command_env w (execution_policy c) supplied over,
        la_timeout = el_timeout_seconds limits, la_attempt = n\<rparr>)
      (fpath_str (art @ [safe_path_id (vc_check_id c)])) (fpath_str (ref @ [safe_path_id (vc_check_id c)]))
      (nat (el_retry_count limits + 1)) [1..<Suc (nat (el_retry_count limits + 1))] no_attempt"
  have run: "returns art ?run" by (rule returns_run_attempts [OF safe_path_id_file_name assms(1)])
  show ?thesis
    unfolding returns_def
  proof (intro allI impI)
    fix fs assume "writable art fs"
    then obtain fs' st where st: "?run fs = (fs', Inr st)" "writable art fs'" using run unfolding returns_def by blast
    obtain r where "ran_result w c args limits st = Inr r"
      using ran_result_returns tried_refs [OF st(1)] some by blast
    then have "run_allowed_command w c art ref supplied timeout over args wd fs = (fs', Inr r)"
      using lim st(1) by (simp add: run_allowed_command_def Let_def io_bind_Inr del: upt_Suc)
    then show "\<exists>fs' r. run_allowed_command w c art ref supplied timeout over args wd fs = (fs', Inr r) \<and> writable art fs'"
      using st(2) by blast
  qed
qed

lemma returns_run_check:
  assumes "ending_processes art w" and "readable_policy (execution_policy c) timeout" and "1 \<le> timeout"
  shows "returns art (run_check w root art ref supplied timeout c)"
proof -
  have allowed: "\<exists>fs' r. run_allowed_command w c art ref supplied timeout over args wd fs = (fs', Inr r) \<and> writable art fs'"
    if "writable art fs" for over args wd fs
    using returns_run_allowed_command [OF assms] that by (simp add: returns_def)
  have "returns art (run_command_check w c root art ref supplied timeout)"
    unfolding returns_def
  proof (intro allI impI)
    fix fs assume ready: "writable art fs"
    then have nl: "no_links fs" by (simp add: writable_def)
    show "\<exists>fs' r. run_command_check w c root art ref supplied timeout fs = (fs', Inr r) \<and> writable art fs'"
    proof (cases "parse_command (vc_command c)")
      case (Inl e)
      then obtain m where "e = ValueError m" using parse_command_error by blast
      then show ?thesis using Inl ready by (simp add: run_command_check_def Let_def)
    next
      case (Inr p)
      obtain over args where p: "parse_command (vc_command c) = Inr (over, args)" using Inr by (cases p) simp
      show ?thesis
      proof (cases "working_directory fs root (execution_policy c)")
        case (Inl e)
        then obtain m where "e = ValueError m" using working_directory_error [OF nl assms(2)] by blast
        then show ?thesis using Inl p ready by (simp add: run_command_check_def Let_def)
      next
        case (Inr wd)
        obtain b where "safety_block_reason fs args over (execution_policy c) root supplied wd = Inr b"
          using safety_block_reason_returns [OF nl assms(2)] by blast
        then show ?thesis
          using Inr p ready allowed [OF ready] by (cases b) (simp_all add: run_command_check_def Let_def)
      qed
    qed
  qed
  then show ?thesis by (simp add: run_check_def returns_return)
qed

lemma returns_run_checks:
  assumes "ending_processes art w" and "\<And>c. c \<in> set cs \<Longrightarrow> readable_policy (execution_policy c) timeout" and "1 \<le> timeout"
  shows "returns art (run_checks w root art ref supplied timeout cs)"
  using assms(2)
  by (induction cs) (auto intro!: returns_bind returns_return returns_run_check assms(1,3))

lemma execution_ends:
  assumes "path_resolve fs repo_root = Inr root" and "fs_is_dir fs root"
    and "path_resolve fs artifact_root = Inr art" and "writable art fs" and "ending_processes art w"
    and "list_all (\<lambda>c. readable_policy (execution_policy c) timeout) (vp_checks plan)" and "1 \<le> timeout"
    and "\<not> isl (execution_timestamp clock now)"
  shows "\<exists>fs' e. execute_validation_plan w clock plan repo_root artifact_root actor None supplied now timeout fs =
    (fs', Inr e) \<and> writable art fs'"
proof -
  obtain captured where captured: "execution_timestamp clock now = Inr captured"
    using assms(8) by (auto simp: not_isl_Inr)
  have mkdir: "os_mkdir_parents (fpath_str art) fs = (fs, Inr ())"
    using writable_target(2) [OF assms(4), of "[]"] assms(4) by (simp add: os_mkdir_parents_def writable_def)
  let ?run = "if pl_outcome (vp_decision plan) = ''planned''
        then run_checks w root art art supplied timeout (vp_checks plan) else io_return []"
  have "returns art ?run"
    using returns_run_checks [OF assms(5) _ assms(7)] assms(6) by (auto simp: returns_return list_all_iff)
  then obtain fs' rs where run: "?run fs = (fs', Inr rs)" "writable art fs'" using assms(4) unfolding returns_def by blast
  obtain r where "build_control_receipt plan (isoformat_z captured) rs = Inr r" using receipt_total by blast
  then show ?thesis
    using run captured mkdir assms(1,2,3)
    by (simp add: execute_validation_plan_def io_bind_def io_result_def io_return_def cong: if_cong)
qed

text \<open>
  C34. An execution returns: if the repository and the artifact root are directories, the tree has
  no links and the artifact root can be written, the processes end and leave it so, and the plan's
  policies hold paths and numbers the code can read, then executing the plan ends with a receipt
  (whatever the commands do, fail or time out), and another execution can follow.
\<close>

theorem execution_returns:
  assumes "path_resolve fs repo_root = Inr root" and "fs_is_dir fs root"
    and "path_resolve fs artifact_root = Inr art" and "writable art fs" and "ending_processes art w"
    and "list_all (\<lambda>c. readable_policy (execution_policy c) timeout) (vp_checks plan)" and "1 \<le> timeout"
    and "\<not> isl (execution_timestamp clock now)"
  shows "\<exists>fs' e. execute_validation_plan w clock plan repo_root artifact_root actor None supplied now timeout fs =
    (fs', Inr e) \<and> writable art fs'"
  by (rule execution_ends [OF assms])

definition ready_tree :: fs where
  "ready_tree = sample_tree\<lparr>fs_nodes := fs_nodes sample_tree @ [([''repo'', ''out''], DirNode)]\<rparr>"

lemma sample_ready:
  "path_resolve ready_tree ''/repo'' = Inr [''repo'']" "fs_is_dir ready_tree [''repo'']"
  "path_resolve ready_tree ''/repo/out'' = Inr [''repo'', ''out'']" "writable [''repo'', ''out''] ready_tree"
  "ending_processes art quiet_world" "list_all (\<lambda>c. readable_policy (execution_policy c) 60) (vp_checks run_plan)"
  "\<not> isl (execution_timestamp epoch NowNone)"
proof -
  show "path_resolve ready_tree ''/repo'' = Inr [''repo'']" "fs_is_dir ready_tree [''repo'']"
    "path_resolve ready_tree ''/repo/out'' = Inr [''repo'', ''out'']"
    by code_simp+
  have "wf_fs ready_tree" "real_path ready_tree [''repo'', ''out'']" "CHR 0x00 \<notin> set (fpath_str [''repo'', ''out''])"
    by code_simp+
  then show "writable [''repo'', ''out''] ready_tree"
    by (simp add: writable_def no_links_def node_at_def ready_tree_def sample_tree_def)
  show "ending_processes art quiet_world" by (simp add: ending_processes_def quiet_world_def)
  have "\<not> isl (coerce_execution_limits (execution_policy make_check) 60
      (py_str (py_or (py_get (execution_policy make_check) ''profile'') (PStr DEFAULT_EXECUTION_PROFILE))))"
    by (simp add: budget_eval make_check_def execution_policy_def DEFAULT_EXECUTION_PROFILE_def)
  moreover have "modelled_path ''.''" by code_simp
  ultimately show "list_all (\<lambda>c. readable_policy (execution_policy c) 60) (vp_checks run_plan)"
    by (simp add: run_plan_def readable_policy_def execution_policy_def make_check_def py_get_or_def py_or_def string_set_def
        strip_by_def py_is_space_def)
  show "\<not> isl (execution_timestamp epoch NowNone)" by (simp add: execution_timestamp_def)
qed

lemma execution_returns_witness:
  "\<exists>fs' e. execute_validation_plan quiet_world epoch run_plan ''/repo'' ''/repo/out'' ''ci'' None [] NowNone 60 ready_tree =
    (fs', Inr e) \<and> writable [''repo'', ''out''] fs'"
  by (rule execution_returns [OF sample_ready(1-6) _ sample_ready(7)]) simp

lemma make_check_runs:
  "\<exists>fs' r. run_command_check quiet_world make_check [''repo''] [''repo'', ''out''] [''repo'', ''out''] [] 60 ready_tree = (fs', Inr r) \<and>
     cr_status r \<noteq> ''blocked''"
proof -
  have wd: "working_directory ready_tree [''repo''] (execution_policy make_check) = Inr [''repo'']" by code_simp
  have ok: "safety_block_reason ready_tree [''make'', ''all''] [] (execution_policy make_check) [''repo''] [] [''repo''] = Inr None"
    by code_simp
  have readable: "readable_policy (execution_policy make_check) 60"
    using sample_ready(6) by (simp add: run_plan_def)
  obtain fs' r where run: "run_allowed_command quiet_world make_check [''repo'', ''out''] [''repo'', ''out''] [] 60 []
      [''make'', ''all''] [''repo''] ready_tree = (fs', Inr r)"
    using returns_run_allowed_command [OF sample_ready(5) readable, of "[''repo'', ''out'']"] sample_ready(4)
    unfolding returns_def by fastforce
  have "cr_status r \<noteq> ''blocked''"
    using run
  proof (rule run_allowed_command_result)
    fix limits st assume "ran_result quiet_world make_check [''make'', ''all''] limits st = Inr r"
    from ran_result_fields [OF this] show ?thesis by auto
  qed
  with run show ?thesis by (simp add: run_command_check_def parse_make wd ok Let_def)
qed

lemma attempts_bounded_witness:
  "\<exists>fs' r attempts. run_command_check quiet_world make_check [''repo''] [''repo'', ''out''] [''repo'', ''out''] [] 60 ready_tree = (fs', Inr r) \<and>
     py_get (cr_output_summary r) ''attempts'' = PList (map PDict attempts) \<and> 1 \<le> length attempts \<and> length attempts \<le> 4"
proof -
  obtain fs' r where run: "run_command_check quiet_world make_check [''repo''] [''repo'', ''out''] [''repo'', ''out''] [] 60 ready_tree = (fs', Inr r)"
    "cr_status r \<noteq> ''blocked''" using make_check_runs by blast
  from attempts_bounded [OF this] run(1) show ?thesis by fastforce
qed

lemma receipt_accounts_for_plan_witness:
  "\<exists>fs' e. execute_validation_plan quiet_world epoch run_plan ''/repo'' ''/repo/out'' ''ci'' None [] NowNone 60 ready_tree =
     (fs', Inr e) \<and> list_all2 speaks_for (vp_checks run_plan) (ct_check_results (ex_receipt e)) \<and>
     le_outcome (ex_ledger_event e) = ct_outcome (ex_receipt e)"
proof -
  obtain fs' e where run: "execute_validation_plan quiet_world epoch run_plan ''/repo'' ''/repo/out'' ''ci'' None [] NowNone 60 ready_tree =
     (fs', Inr e)"
    using execution_ends [OF sample_ready(1-6) _ sample_ready(7)] by fastforce
  have "pl_outcome (vp_decision run_plan) = ''planned''" by (simp add: run_plan_def)
  with receipt_accounts_for_plan [OF run] run show ?thesis by simp
qed

section \<open>Receipts and later plans\<close>

text \<open>
  C35. A control receipt as \<open>write_control_receipt\<close> writes it is never reused by the planner: it
  holds its checks' validators and statuses one level below where the planner looks for them, so
  a plan built from such receipts runs every one of its checks again, however fresh the receipts.
\<close>

theorem control_receipts_not_reused:
  assumes "build_validation_plan (PDict m) scope tier receipts waivers clock now = Inr p"
    and "\<forall>r \<in> set receipts. \<exists>receipt :: control_receipt. control_receipt_to_record receipt = PDict r"
  shows "\<forall>c \<in> set (vp_checks p). vc_execution_mode c \<noteq> ''skip_fresh_receipt''"
proof (intro ballI notI)
  fix c assume c: "c \<in> set (vp_checks p)" "vc_execution_mode c = ''skip_fresh_receipt''"
  from skipped_check_receipt [OF assms(1) c] obtain rt t v r where r: "r \<in> set receipts"
    "reusable_receipt (vc_validator_id c) (vp_target p) rt v t m r" by blast
  then obtain receipt :: control_receipt where "control_receipt_to_record receipt = PDict r" using assms(2) by blast
  then have "py_get r ''status'' = PNone" by (auto simp: control_receipt_to_record_def py_get_or_def)
  moreover have "py_lower (text_of PNone) \<notin> set SUCCESSFUL_RECEIPT_STATUSES" by code_simp
  ultimately show False using r(2) by (simp add: reusable_receipt_def)
qed

definition release_receipt :: control_receipt where
  "release_receipt = \<lparr>ct_artifact_refs = [], ct_captured_at = ''2030-01-01T00:00:00Z'', ct_check_results =
     [\<lparr>cr_artifact_refs = [], cr_check_id = ''check:1'', cr_command_digest = None, cr_duration_ms = Some 7, cr_error = None,
       cr_exit_code = Some 0, cr_output_summary = [], cr_required = True, cr_reused_receipt_id = None,
       cr_status = ''success'', cr_validator_id = ''v''\<rparr>],
     ct_correlation_id = '''', ct_digest = ''sha256:0'', ct_manifest_id = PStr ''m'', ct_metrics = [], ct_outcome = ''success'',
     ct_plan_id = ''plan:1'', ct_planner_decision = PDict [], ct_receipt_id = ''control-receipt:0'', ct_schema_version = 1,
     ct_suppressed_output_summary = [], ct_target_scope = ''workspace'', ct_tier = ''release''\<rparr>"

lemma control_receipts_not_reused_witness:
  "\<exists>r p c. control_receipt_to_record release_receipt = PDict r \<and>
     build_validation_plan (PDict planning_manifest) ''workspace'' ''release'' [r] [] epoch NowNone = Inr p \<and>
     vp_checks p = [c] \<and> vc_execution_mode c \<noteq> ''skip_fresh_receipt''"
proof -
  obtain r where r: "control_receipt_to_record release_receipt = PDict r"
    by (simp add: control_receipt_to_record_def)
  have "map_sum id (\<lambda>_. ()) (receipt_reuse_decision planning_validator workspace_target RELEASE
      [case control_receipt_to_record release_receipt of PDict r \<Rightarrow> r | _ \<Rightarrow> []] epoch planning_manifest) = Inr ()"
    by code_simp
  then obtain d where "receipt_reuse_decision planning_validator workspace_target RELEASE [r] epoch planning_manifest = Inr d"
    by (auto simp: map_sum_Inr r)
  from planning_plan_of [OF this] obtain p c where p: "build_validation_plan (PDict planning_manifest) ''workspace'' ''release'' [r] [] epoch NowNone = Inr p"
    "vp_checks p = [c]" by blast
  have "\<forall>r' \<in> set [r]. \<exists>receipt :: control_receipt. control_receipt_to_record receipt = PDict r'"
    using r by auto
  from control_receipts_not_reused [OF p(1) this] p r show ?thesis by fastforce
qed

end
