(* ===== verification/Spec2Isabelle.thy ===== *)
theory Spec2Isabelle
  imports Closure_Decisions Agent_Decisions Agent_Bundle Manifest_Files Policy_Admission Validation_Planning
    Retention_Selection Lifecycle_Audit Execution_Files
begin

text \<open>
  The core of the Workspace Governance Control Fabric, the Python package
  \<open>packages/control_fabric_core/src/control_fabric_core\<close>: it ingests a governance manifest,
  builds a graph from it, plans the validators a change needs, decides admissions, runs the planned
  commands under a safety policy, and keeps the receipts, the output artifacts and an append-only
  ledger. The paths below are relative to that directory.

  \<^bold>\<open>How the parts interact.\<close> A manifest (\<open>manifests.py\<close>) is validated and turned into a graph
  (\<open>graph_ingestion.py\<close>), which queries slice (\<open>graph_queries.py\<close>). The planner
  (\<open>validation_planning.py\<close>) selects validators of the manifest for a target and a tier, and reuses
  earlier receipts. The executor (\<open>validation_execution.py\<close>) runs the selected commands within the
  limits of \<open>performance_budgets.py\<close>, writes their output below an artifact root and summarises the
  run (\<open>observability.py\<close>) in a control receipt and a ledger event. Admission
  (\<open>policy_admission.py\<close>) decides on a subject from authority refs, receipts and waivers, with a
  ledger event too, and so does the agent action policy (\<open>agent_action_policy.py\<close>) on the request of an
  agent, against a pinned contract bundle and the current bindings. The closure policy of prototypes
  (\<open>prototype_closure_policy.py\<close>) decides on evidence its resolver (\<open>prototype_closure_evidence.py\<close>) asked
  the owners for. Retention (\<open>lifecycle.py\<close>) deletes expired artifacts and receipts and compacts
  the ledger. Payloads are bound by digests of canonical JSON (\<open>canonical_json.py\<close>).

  \<^bold>\<open>Python in HOL.\<close> \<open>Py_Prelude\<close> has the values of decoded JSON (\<open>pyval\<close>, a dict being an
  association list in insertion order), exceptions as values (\<open>py_error + 'a\<close>, with \<open>rbind\<close>,
  \<open>rmapM\<close>, \<open>rfold\<close>), and the string operations the code uses.
  Strings are lists of characters below 256; ints are unbounded and floats are exact binary
  fractions, infinities or not a number. \<open>Py_Datetime\<close> has \<open>datetime.fromisoformat\<close> and aware
  datetimes, \<open>Py_Json\<close> \<open>json.dumps\<close>, \<open>Sha256\<close> the hash on \<open>32 word\<close>, \<open>Py_Paths\<close> pure POSIX
  paths, and \<open>Py_Files\<close> a file system with directories, files and symbolic links together with the
  calls of \<open>pathlib\<close> as state transformers (\<open>'a io\<close>), which keep the effects of the calls before
  an exception. An early return or a raise of the source is a branch of its definition. A record of
  the source is a record here, with a prefix on its fields, and \<open>to_record\<close> a function
  \<open><record>_to_record\<close>; every other operation keeps its name without the leading underscore.

  \<^bold>\<open>Parameters.\<close> The clock and the local time zone are arguments (\<open>clock\<close>, \<open>now_arg\<close>). The schema
  validators (\<open>jsonschema\<close>) and the YAML parser are third-party functions, arguments of \<open>bundle_load\<close> and
  part of an \<open>agent_bundle\<close>; the readers of closure evidence are other services, arguments of
  \<open>owner_backed_resolve\<close>. The theorems hold whatever these return or raise. What a
  started process does is the field \<open>ew_runner\<close> of an \<open>execution_world\<close>: for each launch the state
  it leaves and how \<open>subprocess.run\<close> ends; the theorems quantify over it.

  \<^bold>\<open>The components.\<close>
  \<^item> \<open>Canonical_Json\<close>, \<open>Strict_Json\<close>, \<open>Json_Roundtrip\<close>, \<open>Json_Files\<close> (\<open>canonical_json.py\<close>):
    \<open>canonical_json_bytes\<close> and the digests, and decoding with the hooks of a call of \<open>json.loads\<close>. C1--C5:
    the domain of serialisation, injectivity up to item order, independence of item order, the round
    trip of bytes and values, and the type of what \<open>strict_json_loads\<close> accepts. The locales \<open>json_decoder\<close>
    and \<open>dict_decoder\<close> are the contract of the hooks; each set of hooks in the code interprets them.
  \<^item> \<open>Workspace_Digest\<close> (\<open>workspace_intake_contracts.py\<close>): the digest of the workspace artifacts and its
    parser, C6: the same digest as the canonical one wherever both are defined.
  \<^item> \<open>Performance_Budgets\<close> (\<open>performance_budgets.py\<close>): budgets, limits, pagination. C7, C8; the
    locale \<open>pager\<close> proves that following \<open>next_offset\<close> visits everything, once for every paging
    function with two laws, and is interpreted on \<open>paginate_items\<close>. Further lemmas: a profile only
    tightens, and what \<open>within_budget\<close> means.
  \<^item> \<open>Manifests\<close> (\<open>manifests.py\<close>): the validator, C9: equivalent to a declarative predicate.
  \<^item> \<open>Graph_Ingestion\<close>, \<open>Graph_Queries\<close>, \<open>Manifest_Files\<close>: C10--C13: when the graph is built, referential
    integrity of its edges, the slice a query returns, and that a query of a manifest file composes
    reading, decoding and querying. The locale \<open>keyed_store\<close> is the contract of the node and edge
    dicts, interpreted on both. \<open>Manifest_Files\<close> also holds the published JSON schema.
  \<^item> \<open>Policy_Admission\<close> with \<open>Record_Helpers\<close> (whose locale \<open>worst_verdict\<close> is about deciding by the
    worst of several severities) and \<open>Ledger_Records\<close>: C14--C16: the decision is the declarative one,
    \<open>allow\<close> is sound, and what a waiver can change; a decision is always reached.
  \<^item> \<open>Plan_Targets\<close>, \<open>Plan_Receipts\<close>, \<open>Validation_Planning\<close> (\<open>validation_planning.py\<close>):
    C17--C22: targets and command templates; the planning loop refines independent verdicts, accounts
    for each validator and reuses receipts soundly; when a plan is blocked.
  \<^item> \<open>Lifecycle_Plans\<close>, \<open>Lifecycle_Apply\<close>, \<open>Retention_Selection\<close>, \<open>Lifecycle_Audit\<close>
    (\<open>lifecycle.py\<close>): C23--C28: retention stays in the repository, its report is true, it selects
    the expired and the excess files; compaction loses nothing, and along any sequence of the
    inductive relation \<open>audit_step\<close> the ledger's history only grows.
  \<^item> \<open>Observability\<close> (\<open>observability.py\<close>): the metrics, with lemmas on what the counts mean.
  \<^item> \<open>Execution_Safety\<close>, \<open>Validation_Execution\<close>, \<open>Execution_Guarantees\<close>, \<open>Execution_Files\<close>
    (\<open>validation_execution.py\<close>): C29--C35: the safety decision is the policy, only permitted processes
    matter, the receipt accounts for the plan, attempts are bounded, files stay below the artifact
    root, an execution returns, and what a later plan makes of the receipt.
  \<^item> \<open>Agent_Actions\<close>, \<open>Agent_Decisions\<close>, \<open>Agent_Bundle\<close> (\<open>agent_action_policy.py\<close>): C36--C39: an action is
    allowed exactly when all it binds is current, a consumed key is denied, a decision carries its own
    digest, and a loaded bundle is the pinned one. The locale \<open>code_check\<close> is the contract of a check
    that only adds codes, interpreted on each check.
  \<^item> \<open>Prototype_Closure\<close>, \<open>Closure_Decisions\<close> (\<open>prototype_closure_policy.py\<close>,
    \<open>prototype_closure_evidence.py\<close>): C40: a closure is ready only on accepted proofs of the responsible
    owners about exactly the committed source.

  \<^bold>\<open>Bounds.\<close> Every function is total. Loops are structural recursions; \<open>resolve_walk\<close> expands at
  most \<open>max_links\<close> = 40 symbolic links, the limit of the operating system, and fails beyond it as the
  system call does. Modification times are in units of \<open>2 ^ -30\<close> seconds, which holds those of
  the file system from 1970 on exactly. The JSON scanner (\<open>json_value\<close>) has fuel for its nested calls, two
  units for each character of the text, and never runs out (\<open>strict_json_type\<close>). No other fuel is used, and \<open>execution_returns\<close> states
  when a run ends with a result.

  \<^bold>\<open>Not modelled.\<close> Text beyond Latin-1; the value of a float in decoded JSON; the recursion limit of
  the interpreter; templates with conversions or nested fields; paths with a double slash root, a NUL character or a parent
  component in a call (\<open>Unmodelled\<close> results, which no theorem counts as success); permissions other
  than protected paths; concurrent changes between two calls of one operation other than those of the
  started processes. The readiness services around the policies, the artifact registry, controlled proof and the instance
  records are database transactions around JSON-schema validation by third-party packages; the
  applications, scripts and migrations are glue; source snapshots run \<open>git\<close>.
\<close>

end
